(* ===== verification/Prelude.thy ===== *)
theory Prelude
  imports
    "HOL-Library.Finite_Map"
    "HOL-Library.Multiset"
    "HOL-Library.List_Lexorder"
    "HOL-Library.Char_ord"
    "HOL-Library.Word"
begin

text \<open>
  What every component of the development shares.

  \<^item> Go values. A byte is a HOL \<open>char\<close>, so a Go \<open>string\<close> and a Go
    \<open>[]byte\<close> are the same type here and the conversions between them are
    identities. The order on strings is the bytewise lexicographic one, which is the
    order of Go's \<open>sort.Strings\<close>. \<open>int64\<close> and \<open>uint64\<close> are both
    \<open>64 word\<close>: a conversion between them keeps the bits, and a comparison reads
    them with \<open>sint\<close> or \<open>uint\<close>.
  \<^item> Results. A function that can fail after changing the state returns the state and
    a sum, \<open>Inl\<close> for the error; \<open>andThen\<close> is the early return.
  \<^item> Go maps. A \<open>map[string]T\<close> is a finite map; reading an absent key of a
    \<open>map[string]bool\<close> gives false (\<open>flag\<close>) and of a map of slices the empty
    slice (\<open>bucket\<close>).
  \<^item> Schedules. The order in which Go visits a map, runs goroutines or delivers on a
    channel is not determined. \<open>pick ns xs\<close> is \<open>xs\<close> in the order chosen by
    the numbers \<open>ns\<close>: every \<open>ns\<close> gives a permutation and every permutation
    is given by some \<open>ns\<close> (\<open>mset_pick\<close>, \<open>pick_complete\<close>), so a statement
    for all \<open>ns\<close> is a statement for all orders.
  \<^item> The locale \<open>keyed_fold\<close>: a loop whose steps for different keys commute gives
    the same state in every order.
\<close>

named_theorems go_simps \<open>evaluation of the shared Go operations\<close>

type_synonym bytes = string
type_synonym int64 = "64 word"
type_synonym uint64 = "64 word"
type_synonym int32 = "32 word"
type_synonym uint32 = "32 word"
type_synonym 'v gomap = "(string, 'v) fmap"

section \<open>Results with state\<close>

fun andThen :: "'s \<times> ('e + 'a) \<Rightarrow> ('s \<Rightarrow> 'a \<Rightarrow> 's \<times> ('e + 'b)) \<Rightarrow> 's \<times> ('e + 'b)" where
  "andThen (s, Inl e) k = (s, Inl e)"
| "andThen (s, Inr a) k = k s a"

lemma andThen_Inr_iff:
  "andThen r k = (s', Inr b) \<longleftrightarrow> (\<exists>s a. r = (s, Inr a) \<and> k s a = (s', Inr b))"
  by (cases r; cases "snd r") auto

lemma andThen_Inl_iff:
  "andThen r k = (s', Inl e) \<longleftrightarrow>
     r = (s', Inl e) \<or> (\<exists>s a. r = (s, Inr a) \<and> k s a = (s', Inl e))"
  by (cases r; cases "snd r") auto

lemma fst_andThen_cases:
  "P (fst r) \<Longrightarrow> (\<And>s a. r = (s, Inr a) \<Longrightarrow> P (fst (k s a))) \<Longrightarrow> P (fst (andThen r k))"
  by (cases r; cases "snd r") auto

section \<open>Finite maps as Go maps\<close>

definition flag :: "bool gomap \<Rightarrow> string \<Rightarrow> bool" where
  "flag m k = (case fmlookup m k of Some b \<Rightarrow> b | None \<Rightarrow> False)"

definition bucket :: "'a list gomap \<Rightarrow> string \<Rightarrow> 'a list" where
  "bucket m k = (case fmlookup m k of Some xs \<Rightarrow> xs | None \<Rightarrow> [])"

definition push :: "string \<Rightarrow> 'a \<Rightarrow> 'a list gomap \<Rightarrow> 'a list gomap" where
  "push k x m = fmupd k (bucket m k @ [x]) m"

lemma flag_empty [simp, go_simps]: "flag fmempty k = False"
  by (simp add: flag_def)

lemma flag_upd [simp, go_simps]: "flag (fmupd k b m) k' = (if k' = k then b else flag m k')"
  by (simp add: flag_def)

lemma flag_in_dom: "flag m k \<Longrightarrow> k |\<in>| fmdom m"
  by (auto simp: flag_def fmlookup_dom_iff split: option.splits)

lemma bucket_empty [simp, go_simps]: "bucket fmempty k = []"
  by (simp add: bucket_def)

lemma bucket_push [simp, go_simps]:
  "bucket (push k x m) k' = (if k' = k then bucket m k @ [x] else bucket m k')"
  by (simp add: bucket_def push_def)

lemma fmdom_push [simp]: "fmdom (push k x m) = finsert k (fmdom m)"
  by (simp add: push_def)

definition keys :: "'v gomap \<Rightarrow> string list" where
  "keys m = sorted_list_of_fset (fmdom m)"

lemma set_keys [simp]: "set (keys m) = fset (fmdom m)"
  by (simp add: keys_def)

lemma distinct_keys [simp]: "distinct (keys m)"
  by (simp add: keys_def sorted_list_of_fset.rep_eq)

lemma sorted_keys [simp]: "sorted (keys m)"
  by (simp add: keys_def sorted_list_of_fset.rep_eq)

lemma keys_empty [simp, go_simps]: "keys fmempty = []"
  by (simp add: keys_def sorted_list_of_fset.rep_eq)

lemma keys_upd [simp, go_simps]:
  "keys (fmupd k v m) = (if k |\<in>| fmdom m then keys m else insort k (keys m))"
  by (auto simp: keys_def sorted_list_of_fset.rep_eq insert_absorb
      simp flip: sorted_list_of_set.sorted_key_list_of_set_insert_remove)

lemma fmupd_commute: "k \<noteq> k' \<Longrightarrow> fmupd k v (fmupd k' v' m) = fmupd k' v' (fmupd k v m)"
  by (rule fmap_ext) auto

section \<open>Schedules\<close>

fun pick :: "nat list \<Rightarrow> 'a list \<Rightarrow> 'a list" where
  "pick ns [] = []"
| "pick [] xs = xs"
| "pick (n # ns) xs =
     (let i = n mod length xs in xs ! i # pick ns (take i xs @ drop (Suc i) xs))"

lemma mset_pick [simp]: "mset (pick ns xs) = mset xs"
proof (induction ns xs rule: pick.induct)
  case (3 n ns v va)
  define i where "i = n mod length (v # va)"
  have i: "i < length (v # va)"
    by (simp add: i_def)
  have "mset (pick (n # ns) (v # va)) =
      add_mset ((v # va) ! i) (mset (take i (v # va) @ drop (Suc i) (v # va)))"
    using 3 by (simp add: i_def Let_def)
  also have "\<dots> = mset (take i (v # va) @ (v # va) ! i # drop (Suc i) (v # va))"
    by simp
  also have "\<dots> = mset (v # va)"
    by (rule arg_cong [where f = mset], rule id_take_nth_drop [OF i, symmetric])
  finally show ?case .
qed simp_all

lemma set_pick [simp]: "set (pick ns xs) = set xs"
  by (rule mset_eq_setD) simp

lemma length_pick [simp]: "length (pick ns xs) = length xs"
  by (rule mset_eq_length) simp

lemma distinct_pick [simp]: "distinct (pick ns xs) = distinct xs"
  by (rule mset_eq_imp_distinct_iff) simp

lemma distinct_map_pick [simp]: "distinct (map f (pick ns xs)) = distinct (map f xs)"
  by (rule mset_eq_imp_distinct_iff) simp

lemma pick_complete: "mset ys = mset xs \<Longrightarrow> \<exists>ns. pick ns xs = ys"
proof (induction ys arbitrary: xs)
  case Nil
  then show ?case by simp
next
  case (Cons y ys)
  then have "y \<in> set xs"
    by (metis list.set_intros(1) set_mset_mset)
  then obtain i where i: "i < length xs" "xs ! i = y"
    by (auto simp: in_set_conv_nth)
  have "mset xs = mset (take i xs @ xs ! i # drop (Suc i) xs)"
    using id_take_nth_drop [OF i(1)] by simp
  then have "mset xs = add_mset y (mset (take i xs @ drop (Suc i) xs))"
    using i(2) by simp
  with Cons.prems have "mset ys = mset (take i xs @ drop (Suc i) xs)"
    by simp
  then obtain ns where "pick ns (take i xs @ drop (Suc i) xs) = ys"
    using Cons.IH by blast
  with i have "pick (i # ns) xs = y # ys"
    by (cases xs) (auto simp: Let_def)
  then show ?case by blast
qed

section \<open>Loops that do not depend on the order\<close>

locale keyed_fold =
  fixes key :: "'x \<Rightarrow> 'k" and step :: "'x \<Rightarrow> 's \<Rightarrow> 's"
  assumes commute: "key x \<noteq> key y \<Longrightarrow> step x (step y s) = step y (step x s)"
begin

lemma fold_order:
  assumes "distinct (map key xs)" and "mset xs = mset ys"
  shows "fold step xs s = fold step ys s"
proof -
  have "fold step xs = fold step ys"
  proof (rule fold_multiset_equiv)
    fix x y
    assume "x \<in> set xs" and "y \<in> set xs"
    then have "x = y \<or> key x \<noteq> key y"
      using assms(1) by (auto simp: distinct_map inj_on_def)
    then show "step x \<circ> step y = step y \<circ> step x"
      by (auto simp: fun_eq_iff commute)
  qed (use assms(2) in simp)
  then show ?thesis by simp
qed

lemma fold_pick: "distinct (map key xs) \<Longrightarrow> fold step (pick ns xs) s = fold step xs s"
  by (rule fold_order [symmetric]) simp_all

end

end
