(* ===== verification/Sdk.thy ===== *)
theory Sdk
  imports Prelude
begin

text \<open>
  What the provider module takes from the Cosmos SDK, none of which is in the repository:
  \<open>math.Int\<close>, \<open>sdk.Coin\<close> and the derivation of module addresses. The library is a
  record of functions \<open>sdk_lib\<close>, an argument of every definition that uses it. The
  values it works on are data: an \<open>Int\<close> is nil or the integer it denotes, a coin is a
  denomination and an amount.

  The locale \<open>sdk_laws\<close> states the documented behaviour the module relies on (exact
  arithmetic within 256 bits, truncating division, coins compared and added per
  denomination). \<open>ref_sdk\<close> is an executable library that satisfies it: it
  shows that the laws can hold and is the library the witnesses run on.

  The errors of the module (types/errors.go) are here too because every operation
  returns them.
\<close>

section \<open>Errors\<close>

datatype fmt_arg = ArgS string | ArgD int

text \<open>The sentinels of types/errors.go, \<open>collections.ErrNotFound\<close>, an error of code outside
  the repository, and errors made by \<open>Errorf\<close> or by wrapping another one. \<open>GrpcStatus\<close>
  is an error of the gRPC status package with its code, \<open>GrpcStatusOf\<close> one whose message is the
  text of another error. \<open>errors_Is\<close> is the standard library's \<open>errors.Is\<close>: an error made
  with \<open>%w\<close> unwraps to its cause.\<close>

datatype grpc_code = InvalidArgument | NotFoundCode | Internal

datatype go_error =
    ErrInvalidSigner
  | ErrConsumerAlreadyExists
  | ErrConsumerNotFound
  | ErrInvalidChainID
  | ErrInvalidBlockHeight
  | ErrInvalidConsumerStatus
  | ErrConsumerNotActive
  | ErrConsumerAlreadySunset
  | CollectionsNotFound
  | External string
  | Errorf string "fmt_arg list"
  | Wrap go_error string "fmt_arg list"
  | GrpcStatus grpc_code string "fmt_arg list"
  | GrpcStatusOf grpc_code go_error

fun errors_Is :: "go_error \<Rightarrow> go_error \<Rightarrow> bool" where
  "errors_Is (Wrap e msg args) target \<longleftrightarrow> Wrap e msg args = target \<or> errors_Is e target"
| "errors_Is e target \<longleftrightarrow> e = target"

datatype fault = Fail go_error | Panic string

section \<open>Integers and coins\<close>

datatype math_int = NilInt | MkInt int

record Coin =
  Denom :: string
  Amount :: math_int

record sdk_lib =
  NewInt :: "int64 \<Rightarrow> math_int"
  ZeroInt :: math_int
  Int_Add :: "math_int \<Rightarrow> math_int \<Rightarrow> fault + math_int"
  Int_Mul :: "math_int \<Rightarrow> math_int \<Rightarrow> fault + math_int"
  Int_Quo :: "math_int \<Rightarrow> math_int \<Rightarrow> fault + math_int"
  Int_IsZero :: "math_int \<Rightarrow> fault + bool"
  NewCoin :: "string \<Rightarrow> math_int \<Rightarrow> fault + Coin"
  NewCoins :: "Coin list \<Rightarrow> fault + Coin list"
  Coin_Add :: "Coin \<Rightarrow> Coin \<Rightarrow> fault + Coin"
  Coin_IsLT :: "Coin \<Rightarrow> Coin \<Rightarrow> fault + bool"
  Coin_IsZero :: "Coin \<Rightarrow> fault + bool"
  Coin_IsNil :: "Coin \<Rightarrow> bool"
  Coin_IsNegative :: "Coin \<Rightarrow> fault + bool"
  NewModuleAddress :: "string \<Rightarrow> bytes"
  DefaultPowerReduction :: math_int

abbreviation coin :: "string \<Rightarrow> int \<Rightarrow> Coin" where
  "coin d a \<equiv> \<lparr>Denom = d, Amount = MkInt a\<rparr>"

locale sdk_laws =
  fixes L :: sdk_lib and valid_denom :: "string \<Rightarrow> bool"
  assumes NewInt: "NewInt L n = MkInt (sint n)"
    and ZeroInt: "ZeroInt L = MkInt 0"
    and Int_Add: "\<bar>a + b\<bar> < 2 ^ 256 \<Longrightarrow> Int_Add L (MkInt a) (MkInt b) = Inr (MkInt (a + b))"
    and Int_Mul: "\<bar>a * b\<bar> < 2 ^ 256 \<Longrightarrow> Int_Mul L (MkInt a) (MkInt b) = Inr (MkInt (a * b))"
    and Int_Quo: "0 \<le> a \<Longrightarrow> 0 < b \<Longrightarrow> Int_Quo L (MkInt a) (MkInt b) = Inr (MkInt (a div b))"
    and Int_IsZero: "Int_IsZero L (MkInt a) = Inr (a = 0)"
    and NewCoin: "valid_denom d \<Longrightarrow> 0 \<le> a \<Longrightarrow> NewCoin L d (MkInt a) = Inr (coin d a)"
    and NewCoins: "valid_denom d \<Longrightarrow> 0 < a \<Longrightarrow> NewCoins L [coin d a] = Inr [coin d a]"
    and Coin_Add: "\<bar>a + b\<bar> < 2 ^ 256 \<Longrightarrow> Coin_Add L (coin d a) (coin d b) = Inr (coin d (a + b))"
    and Coin_IsLT: "Coin_IsLT L (coin d a) (coin d b) = Inr (a < b)"
    and Coin_IsZero: "Coin_IsZero L (coin d a) = Inr (a = 0)"
    and Coin_IsNil: "Coin_IsNil L c \<longleftrightarrow> Amount c = NilInt"
    and Coin_IsNegative: "Coin_IsNegative L (coin d a) = Inr (a < 0)"
begin

lemmas sdk_simps = NewInt ZeroInt Int_IsZero Coin_IsLT Coin_IsZero Coin_IsNil Coin_IsNegative

end

section \<open>A library that satisfies the laws\<close>

definition in_range :: "int \<Rightarrow> fault + math_int" where
  "in_range a = (if \<bar>a\<bar> < 2 ^ 256 then Inr (MkInt a) else Inl (Panic ''Int overflow''))"

fun ref_op :: "(int \<Rightarrow> int \<Rightarrow> fault + math_int) \<Rightarrow> math_int \<Rightarrow> math_int \<Rightarrow> fault + math_int" where
  "ref_op f (MkInt a) (MkInt b) = f a b"
| "ref_op f _ _ = Inl (Panic ''nil Int'')"

fun ref_test :: "(int \<Rightarrow> bool) \<Rightarrow> math_int \<Rightarrow> fault + bool" where
  "ref_test p (MkInt a) = Inr (p a)"
| "ref_test p NilInt = Inl (Panic ''nil Int'')"

definition ref_quo :: "int \<Rightarrow> int \<Rightarrow> fault + math_int" where
  "ref_quo a b =
     (if b = 0 then Inl (Panic ''division by zero'')
      else Inr (MkInt (sgn a * sgn b * (\<bar>a\<bar> div \<bar>b\<bar>))))"

definition ref_NewCoin :: "string \<Rightarrow> math_int \<Rightarrow> fault + Coin" where
  "ref_NewCoin d a =
     (case a of
        NilInt \<Rightarrow> Inl (Panic ''amount is nil'')
      | MkInt n \<Rightarrow> if d = '''' \<or> n < 0 then Inl (Panic ''invalid coin'') else Inr (coin d n))"

definition ref_NewCoins :: "Coin list \<Rightarrow> fault + Coin list" where
  "ref_NewCoins cs =
     (let kept = filter (\<lambda>c. Amount c \<noteq> MkInt 0) (sort_key Denom cs)
      in if distinct (map Denom kept) then Inr kept else Inl (Panic ''duplicate denom''))"

definition ref_denoms :: "(math_int \<Rightarrow> math_int \<Rightarrow> fault + 'a) \<Rightarrow> Coin \<Rightarrow> Coin \<Rightarrow> fault + 'a" where
  "ref_denoms f c d =
     (if Denom c = Denom d then f (Amount c) (Amount d)
      else Inl (Panic ''invalid coin denominations''))"

fun ref_lt :: "math_int \<Rightarrow> math_int \<Rightarrow> fault + bool" where
  "ref_lt (MkInt a) (MkInt b) = Inr (a < b)"
| "ref_lt _ _ = Inl (Panic ''nil Int'')"

definition ref_sdk :: sdk_lib where
  "ref_sdk =
     \<lparr>NewInt = (\<lambda>n. MkInt (sint n)),
      ZeroInt = MkInt 0,
      Int_Add = ref_op (\<lambda>a b. in_range (a + b)),
      Int_Mul = ref_op (\<lambda>a b. in_range (a * b)),
      Int_Quo = ref_op ref_quo,
      Int_IsZero = ref_test (\<lambda>a. a = 0),
      NewCoin = ref_NewCoin,
      NewCoins = ref_NewCoins,
      Coin_Add = (\<lambda>c d. case ref_denoms (ref_op (\<lambda>a b. in_range (a + b))) c d of
                     Inl e \<Rightarrow> Inl e | Inr s \<Rightarrow> Inr \<lparr>Denom = Denom c, Amount = s\<rparr>),
      Coin_IsLT = ref_denoms ref_lt,
      Coin_IsZero = (\<lambda>c. ref_test (\<lambda>a. a = 0) (Amount c)),
      Coin_IsNil = (\<lambda>c. Amount c = NilInt),
      Coin_IsNegative = (\<lambda>c. ref_test (\<lambda>a. a < 0) (Amount c)),
      NewModuleAddress = (\<lambda>name. ''addr:'' @ name),
      DefaultPowerReduction = MkInt 1000000\<rparr>"

interpretation ref: sdk_laws ref_sdk "\<lambda>d. d \<noteq> ''''"
  by unfold_locales
    (auto simp: ref_sdk_def in_range_def ref_quo_def ref_NewCoin_def ref_NewCoins_def
      ref_denoms_def sgn_if)

end
