(* ===== verification/ProviderTypes.thy ===== *)
theory ProviderTypes
  imports Sdk
begin

text \<open>
  modules/provider/types: the data of the provider module (consumer chains, parameters,
  genesis state) and its stateless checks. A status is an \<open>int32\<close>, as in the
  generated code: a stored value can be a number without a name. The main results say
  which genesis states \<open>Validate\<close> accepts and what the status predicates split.
\<close>

section \<open>Constants (keys.go)\<close>

definition ModuleName :: string where
  "ModuleName = ''provider''"

definition StoreKey :: string where
  "StoreKey = ModuleName"

definition GovModuleName :: string where
  "GovModuleName = ''gov''"

definition ConsumerModuleAccountPrefix :: string where
  "ConsumerModuleAccountPrefix = ''consumer_''"

definition GetConsumerModuleAccountName :: "string \<Rightarrow> string" where
  "GetConsumerModuleAccountName chainID = ConsumerModuleAccountPrefix @ chainID"

section \<open>Consumer chains (provider.pb.go, provider.go)\<close>

type_synonym ConsumerStatus = int32

definition CONSUMER_STATUS_UNSPECIFIED :: ConsumerStatus where
  "CONSUMER_STATUS_UNSPECIFIED = 0"

definition CONSUMER_STATUS_PENDING :: ConsumerStatus where
  "CONSUMER_STATUS_PENDING = 1"

definition CONSUMER_STATUS_ACTIVE :: ConsumerStatus where
  "CONSUMER_STATUS_ACTIVE = 2"

definition CONSUMER_STATUS_SUNSET :: ConsumerStatus where
  "CONSUMER_STATUS_SUNSET = 3"

definition CONSUMER_STATUS_REMOVED :: ConsumerStatus where
  "CONSUMER_STATUS_REMOVED = 4"

definition CONSUMER_STATUS_OVERDUE :: ConsumerStatus where
  "CONSUMER_STATUS_OVERDUE = 5"

lemmas status_defs =
  CONSUMER_STATUS_UNSPECIFIED_def CONSUMER_STATUS_PENDING_def CONSUMER_STATUS_ACTIVE_def
  CONSUMER_STATUS_SUNSET_def CONSUMER_STATUS_REMOVED_def CONSUMER_STATUS_OVERDUE_def

record ConsumerChain =
  ChainId :: string
  Name :: string
  Version :: string
  Status :: ConsumerStatus
  AddedAt :: int64
  SunsetAt :: int64
  ModuleAccountAddress :: string

definition NewConsumerChain ::
    "string \<Rightarrow> string \<Rightarrow> string \<Rightarrow> ConsumerStatus \<Rightarrow> int64 \<Rightarrow> int64 \<Rightarrow> string \<Rightarrow> ConsumerChain" where
  "NewConsumerChain chainID name version status addedAt sunsetAt moduleAccountAddress =
     \<lparr>ChainId = chainID, Name = name, Version = version, Status = status,
      AddedAt = addedAt, SunsetAt = sunsetAt, ModuleAccountAddress = moduleAccountAddress\<rparr>"

definition ConsumerChain_Validate :: "ConsumerChain \<Rightarrow> go_error + unit" where
  "ConsumerChain_Validate c =
     (if ChainId c = '''' then Inl ErrInvalidChainID
      else if sint (AddedAt c) < 0
      then Inl (Errorf ''added_at cannot be negative: %d'' [ArgD (sint (AddedAt c))])
      else if sint (SunsetAt c) < 0
      then Inl (Errorf ''sunset_at cannot be negative: %d'' [ArgD (sint (SunsetAt c))])
      else if Status c = CONSUMER_STATUS_UNSPECIFIED then Inl ErrInvalidConsumerStatus
      else if ModuleAccountAddress c = ''''
      then Inl (Errorf ''module account address cannot be empty'' [])
      else Inr ())"

definition IsActive :: "ConsumerChain \<Rightarrow> bool" where
  "IsActive c \<longleftrightarrow> Status c = CONSUMER_STATUS_ACTIVE"

definition IsPending :: "ConsumerChain \<Rightarrow> bool" where
  "IsPending c \<longleftrightarrow> Status c = CONSUMER_STATUS_PENDING"

definition IsSunset :: "ConsumerChain \<Rightarrow> bool" where
  "IsSunset c \<longleftrightarrow> Status c = CONSUMER_STATUS_SUNSET"

definition IsRemoved :: "ConsumerChain \<Rightarrow> bool" where
  "IsRemoved c \<longleftrightarrow> Status c = CONSUMER_STATUS_REMOVED"

definition IsOverdue :: "ConsumerChain \<Rightarrow> bool" where
  "IsOverdue c \<longleftrightarrow> Status c = CONSUMER_STATUS_OVERDUE"

definition CanUpgrade :: "ConsumerChain \<Rightarrow> bool" where
  "CanUpgrade c \<longleftrightarrow> IsActive c \<or> IsPending c \<or> IsOverdue c"

definition CanSunset :: "ConsumerChain \<Rightarrow> bool" where
  "CanSunset c \<longleftrightarrow> \<not> IsSunset c \<and> \<not> IsRemoved c"

lemmas status_pred_defs =
  IsActive_def IsPending_def IsSunset_def IsRemoved_def IsOverdue_def CanUpgrade_def CanSunset_def

section \<open>Parameters (params.go)\<close>

record Params =
  FeesPerBlock :: Coin
  DowntimeSlashingWindow :: int64

definition NewParams :: "Coin \<Rightarrow> int64 \<Rightarrow> Params" where
  "NewParams feesPerBlock downtimeSlashingWindow =
     \<lparr>FeesPerBlock = feesPerBlock, DowntimeSlashingWindow = downtimeSlashingWindow\<rparr>"

definition DefaultParams :: "sdk_lib \<Rightarrow> fault + Params" where
  "DefaultParams L =
     (case NewCoin L ''photon'' (NewInt L 1000) of
        Inl e \<Rightarrow> Inl e
      | Inr fee \<Rightarrow> Inr (NewParams fee 10000))"

definition Params_Validate :: "sdk_lib \<Rightarrow> Params \<Rightarrow> fault + unit" where
  "Params_Validate L p =
     (if Coin_IsNil L (FeesPerBlock p)
      then Inl (Fail (Errorf ''fees per block cannot be nil'' []))
      else case Coin_IsNegative L (FeesPerBlock p) of
          Inl e \<Rightarrow> Inl e
        | Inr negative \<Rightarrow>
            if negative then Inl (Fail (Errorf ''fees per block cannot be negative: %s'' []))
            else if sint (DowntimeSlashingWindow p) < 0
            then Inl (Fail (Errorf ''downtime slashing window cannot be negative: %d''
                   [ArgD (sint (DowntimeSlashingWindow p))]))
            else Inr ())"

section \<open>Genesis state (genesis.pb.go, genesis.go)\<close>

record GenesisState =
  GS_Params :: Params
  GS_ConsumerChains :: "ConsumerChain list"

definition DefaultGenesis :: "sdk_lib \<Rightarrow> fault + GenesisState" where
  "DefaultGenesis L =
     (case DefaultParams L of
        Inl e \<Rightarrow> Inl e
      | Inr p \<Rightarrow> Inr \<lparr>GS_Params = p, GS_ConsumerChains = []\<rparr>)"

text \<open>The loop over the chains; \<open>chainIDs\<close> is the map of the ids seen so far.\<close>

fun validate_chains :: "bool gomap \<Rightarrow> ConsumerChain list \<Rightarrow> go_error + unit" where
  "validate_chains chainIDs [] = Inr ()"
| "validate_chains chainIDs (consumer # rest) =
     (if flag chainIDs (ChainId consumer) then Inl ErrConsumerAlreadyExists
      else
        let chainIDs = fmupd (ChainId consumer) True chainIDs
        in if ChainId consumer = '''' then Inl ErrInvalidChainID
           else if sint (AddedAt consumer) < 0 then Inl ErrInvalidBlockHeight
           else if sint (SunsetAt consumer) < 0 then Inl ErrInvalidBlockHeight
           else validate_chains chainIDs rest)"

definition GenesisState_Validate :: "sdk_lib \<Rightarrow> GenesisState \<Rightarrow> fault + unit" where
  "GenesisState_Validate L gs =
     (case Params_Validate L (GS_Params gs) of
        Inl e \<Rightarrow> Inl e
      | Inr _ \<Rightarrow>
          (case validate_chains fmempty (GS_ConsumerChains gs) of
             Inl e \<Rightarrow> Inl (Fail e)
           | Inr _ \<Rightarrow> Inr ()))"

section \<open>Lemmas\<close>

lemma GetConsumerModuleAccountName_inj:
  "GetConsumerModuleAccountName a = GetConsumerModuleAccountName b \<longleftrightarrow> a = b"
  by (simp add: GetConsumerModuleAccountName_def)

lemma CanUpgrade_CanSunset: "CanUpgrade c \<Longrightarrow> CanSunset c"
  by (auto simp: status_pred_defs status_defs)

definition genesis_chain_ok :: "ConsumerChain \<Rightarrow> bool" where
  "genesis_chain_ok c \<longleftrightarrow>
     ChainId c \<noteq> '''' \<and> 0 \<le> sint (AddedAt c) \<and> 0 \<le> sint (SunsetAt c)"

lemma validate_chains_Inr_iff:
  "validate_chains seen cs = Inr () \<longleftrightarrow>
     list_all genesis_chain_ok cs \<and> distinct (map ChainId cs) \<and>
     list_all (\<lambda>c. \<not> flag seen (ChainId c)) cs"
proof (induction cs arbitrary: seen)
  case (Cons c cs)
  have "list_all (\<lambda>d. \<not> flag (fmupd (ChainId c) True seen) (ChainId d)) cs \<longleftrightarrow>
      ChainId c \<notin> ChainId ` set cs \<and> list_all (\<lambda>d. \<not> flag seen (ChainId d)) cs"
    by (auto simp: list_all_iff) (metis imageI)
  then show ?case
    using Cons.IH [of "fmupd (ChainId c) True seen"]
    by (auto simp: genesis_chain_ok_def Let_def not_less)
qed simp

lemma GenesisState_Validate_Inr_iff:
  "GenesisState_Validate L gs = Inr () \<longleftrightarrow>
     Params_Validate L (GS_Params gs) = Inr () \<and>
     list_all genesis_chain_ok (GS_ConsumerChains gs) \<and>
     distinct (map ChainId (GS_ConsumerChains gs))"
  using validate_chains_Inr_iff [of fmempty "GS_ConsumerChains gs"]
  by (auto simp: GenesisState_Validate_def list_all_iff split: sum.splits)

context sdk_laws
begin

lemma Params_Validate_iff:
  "Params_Validate L p = Inr () \<longleftrightarrow>
     (\<exists>a. Amount (FeesPerBlock p) = MkInt a \<and> 0 \<le> a) \<and> 0 \<le> sint (DowntimeSlashingWindow p)"
proof (cases "Amount (FeesPerBlock p)")
  case NilInt
  then show ?thesis by (simp add: Params_Validate_def Coin_IsNil)
next
  case (MkInt a)
  then have "FeesPerBlock p = coin (Denom (FeesPerBlock p)) a"
    by simp
  then have "Coin_IsNegative L (FeesPerBlock p) = Inr (a < 0)"
    using Coin_IsNegative by metis
  with MkInt show ?thesis by (auto simp: Params_Validate_def Coin_IsNil)
qed

lemma DefaultParams_ok:
  assumes "valid_denom ''photon''"
  shows "DefaultParams L = Inr \<lparr>FeesPerBlock = coin ''photon'' 1000, DowntimeSlashingWindow = 10000\<rparr>"
  using NewCoin [OF assms, of 1000] by (simp add: DefaultParams_def NewParams_def NewInt)

lemma DefaultGenesis_valid:
  assumes "valid_denom ''photon''"
  shows "\<exists>gs. DefaultGenesis L = Inr gs \<and> GenesisState_Validate L gs = Inr ()"
  by (simp add: DefaultGenesis_def DefaultParams_ok [OF assms] GenesisState_Validate_Inr_iff
      Params_Validate_iff)

end

section \<open>Properties\<close>

text \<open>GenesisState.Validate accepts a genesis state exactly when its parameters are valid, no
  two chains have the same chain id, and every chain has a nonempty chain id and
  non-negative heights.\<close>

theorem GenesisState_Validate_iff:
  "GenesisState_Validate L gs = Inr () \<longleftrightarrow>
     Params_Validate L (GS_Params gs) = Inr () \<and>
     list_all genesis_chain_ok (GS_ConsumerChains gs) \<and>
     distinct (map ChainId (GS_ConsumerChains gs))"
  by (rule GenesisState_Validate_Inr_iff)

end
