(* ===== verification/Keeper.thy ===== *)
theory Keeper
  imports ProviderTypes
begin

text \<open>
  modules/provider/keeper/keeper.go: the keeper of the provider module, the collection of
  the fee of every block from the consumer chains and its distribution to the validators.

  The interfaces of types/expected_keepers.go and the SDK's collections and address codec
  are records of functions, the fields of the record \<open>Keeper\<close> as they are fields of
  the Go struct. The context holds the module's own store (type \<open>'s\<close>, only the
  collections read or write it) and the stores of all other modules (type \<open>'x\<close>).
  An operation that fails leaves the writes it made, as in Go: whether they are discarded
  is decided by the caller.
\<close>

section \<open>Context and interfaces\<close>

record Event =
  EventType :: string
  Attributes :: "(string \<times> fmt_arg) list"

record ('s, 'x) Context =
  kvStore :: 's
  others :: 'x
  BlockHeight :: int64
  Events :: "Event list"

record AddressCodec =
  StringToBytes :: "string \<Rightarrow> go_error + bytes"
  BytesToString :: "bytes \<Rightarrow> go_error + string"

text \<open>The methods of the interfaces that the module calls. \<open>NewAccountWithAddress\<close> draws
  an account number, so it returns the state too.\<close>

record ('x, 'acc) AuthKeeper =
  GetAccount :: "'x \<Rightarrow> bytes \<Rightarrow> 'acc option"
  NewAccountWithAddress :: "'x \<Rightarrow> bytes \<Rightarrow> 'x \<times> 'acc"
  SetAccount :: "'x \<Rightarrow> 'acc \<Rightarrow> 'x"

record 'x BankKeeper =
  GetBalance :: "'x \<Rightarrow> bytes \<Rightarrow> string \<Rightarrow> Coin"
  SendCoinsFromModuleToModule ::
    "'x \<Rightarrow> string \<Rightarrow> string \<Rightarrow> Coin list \<Rightarrow> 'x \<times> (fault + unit)"
  SendCoinsFromModuleToAccount ::
    "'x \<Rightarrow> string \<Rightarrow> bytes \<Rightarrow> Coin list \<Rightarrow> 'x \<times> (fault + unit)"

record Validator =
  GetOperator :: string
  GetConsensusPower :: "math_int \<Rightarrow> int64"

record 'x StakingKeeper =
  GetBondedValidatorsByPower :: "'x \<Rightarrow> go_error + Validator list"

text \<open>The \<open>Params\<close> item and the \<open>ConsumerChains\<close> map. \<open>Chains_Iterate\<close> is
  the sequence of entries an iterator over the whole map yields; an entry can fail to
  decode.\<close>

record 's Collections =
  Params_Get :: "'s \<Rightarrow> go_error + Params"
  Params_Set :: "'s \<Rightarrow> Params \<Rightarrow> 's \<times> (go_error + unit)"
  Chains_Has :: "'s \<Rightarrow> string \<Rightarrow> go_error + bool"
  Chains_Get :: "'s \<Rightarrow> string \<Rightarrow> go_error + ConsumerChain"
  Chains_Set :: "'s \<Rightarrow> string \<Rightarrow> ConsumerChain \<Rightarrow> 's \<times> (go_error + unit)"
  Chains_Iterate :: "'s \<Rightarrow> go_error + (go_error + string \<times> ConsumerChain) list"

record ('s, 'x, 'acc) Keeper =
  addressCodec :: AddressCodec
  authority :: bytes
  authKeeper :: "('x, 'acc) AuthKeeper"
  bankKeeper :: "'x BankKeeper"
  stakingKeeper :: "'x StakingKeeper"
  collections :: "'s Collections"

text \<open>\<open>sb_Build\<close> is what the schema builder returns for the two collections.\<close>

definition NewKeeper ::
    "(go_error + 's Collections) \<Rightarrow> AddressCodec \<Rightarrow> bytes \<Rightarrow> ('x, 'acc) AuthKeeper \<Rightarrow>
     'x BankKeeper \<Rightarrow> 'x StakingKeeper \<Rightarrow> fault + ('s, 'x, 'acc) Keeper" where
  "NewKeeper sb_Build codec auth ak bk sk =
     (case BytesToString codec auth of
        Inl e \<Rightarrow> Inl (Panic ''invalid authority address'')
      | Inr _ \<Rightarrow>
          (case sb_Build of
             Inl e \<Rightarrow> Inl (Panic ''schema'')
           | Inr coll \<Rightarrow> Inr \<lparr>addressCodec = codec, authority = auth, authKeeper = ak,
               bankKeeper = bk, stakingKeeper = sk, collections = coll\<rparr>))"

definition GetAuthority :: "('s, 'x, 'acc) Keeper \<Rightarrow> bytes" where
  "GetAuthority k = authority k"

section \<open>Iteration\<close>

text \<open>\<open>Map.Walk\<close> calls the function on every entry in turn until it fails or asks to
  stop. The state \<open>'c\<close> is everything the callback writes: the variables it
  captures and the context.\<close>

fun Walk :: "(go_error + 'k \<times> 'v) list \<Rightarrow> ('c \<Rightarrow> 'k \<Rightarrow> 'v \<Rightarrow> 'c \<times> (fault + bool)) \<Rightarrow> 'c \<Rightarrow>
    'c \<times> (fault + unit)" where
  "Walk [] cb c = (c, Inr ())"
| "Walk (Inl e # es) cb c = (c, Inl (Fail e))"
| "Walk (Inr (k, v) # es) cb c =
     (case cb c k v of
        (c', Inl e) \<Rightarrow> (c', Inl e)
      | (c', Inr stop) \<Rightarrow> if stop then (c', Inr ()) else Walk es cb c')"

definition Chains_Walk :: "'s Collections \<Rightarrow> 's \<Rightarrow>
    ('c \<Rightarrow> string \<Rightarrow> ConsumerChain \<Rightarrow> 'c \<times> (fault + bool)) \<Rightarrow> 'c \<Rightarrow> 'c \<times> (fault + unit)" where
  "Chains_Walk coll s cb c =
     (case Chains_Iterate coll s of
        Inl e \<Rightarrow> (c, Inl (Fail e))
      | Inr es \<Rightarrow> Walk es cb c)"

definition IterateConsumerChains :: "('s, 'x, 'acc) Keeper \<Rightarrow> 's \<Rightarrow>
    ('c \<Rightarrow> ConsumerChain \<Rightarrow> 'c \<times> (fault + bool)) \<Rightarrow> 'c \<Rightarrow> 'c \<times> (fault + unit)" where
  "IterateConsumerChains k s cb c = Chains_Walk (collections k) s (\<lambda>c key value. cb c value) c"

text \<open>Go returns the chains gathered so far together with the error.\<close>

definition GetAllConsumerChains ::
    "('s, 'x, 'acc) Keeper \<Rightarrow> ('s, 'x) Context \<Rightarrow> ConsumerChain list \<times> (fault + unit)" where
  "GetAllConsumerChains k ctx =
     IterateConsumerChains k (kvStore ctx)
       (\<lambda>consumers consumer. (consumers @ [consumer], Inr False)) []"

section \<open>Module accounts\<close>

definition CreateConsumerAccount ::
    "sdk_lib \<Rightarrow> ('s, 'x, 'acc) Keeper \<Rightarrow> ('s, 'x) Context \<Rightarrow> string \<Rightarrow>
     ('s, 'x) Context \<times> (go_error + string)" where
  "CreateConsumerAccount L k ctx chainID =
     (let accountName = GetConsumerModuleAccountName chainID;
          addr = NewModuleAddress L accountName;
          ctx = (case GetAccount (authKeeper k) (others ctx) addr of
                   None \<Rightarrow>
                     (case NewAccountWithAddress (authKeeper k) (others ctx) addr of
                        (x, acc) \<Rightarrow> ctx\<lparr>others := SetAccount (authKeeper k) x acc\<rparr>)
                 | Some acc \<Rightarrow> ctx)
      in case BytesToString (addressCodec k) addr of
           Inl e \<Rightarrow> (ctx, Inl e)
         | Inr addrStr \<Rightarrow> (ctx, Inr addrStr))"

section \<open>Collecting the fee of a block\<close>

fun wrap_fault :: "string \<Rightarrow> fmt_arg list \<Rightarrow> fault \<Rightarrow> fault" where
  "wrap_fault msg args (Fail e) = Fail (Wrap e msg args)"
| "wrap_fault msg args (Panic m) = Panic m"

definition set_chain ::
    "('s, 'x, 'acc) Keeper \<Rightarrow> ('s, 'x) Context \<Rightarrow> ConsumerChain \<Rightarrow>
     ('s, 'x) Context \<times> (go_error + unit)" where
  "set_chain k ctx consumer =
     (case Chains_Set (collections k) (kvStore ctx) (ChainId consumer) consumer of
        (s, r) \<Rightarrow> (ctx\<lparr>kvStore := s\<rparr>, r))"

text \<open>The callback: its state is the captured total and the context.\<close>

definition collect_fee ::
    "sdk_lib \<Rightarrow> ('s, 'x, 'acc) Keeper \<Rightarrow> Coin \<Rightarrow> Coin \<times> ('s, 'x) Context \<Rightarrow> ConsumerChain \<Rightarrow>
     (Coin \<times> ('s, 'x) Context) \<times> (fault + bool)" where
  "collect_fee L k feesPerBlock st consumer =
     (case st of (fees, ctx) \<Rightarrow>
        if \<not> IsActive consumer \<and> \<not> IsOverdue consumer then ((fees, ctx), Inr False)
        else
          let finish = (\<lambda>fees ctx consumer.
                case set_chain k ctx consumer of
                  (ctx, Inl e) \<Rightarrow> ((fees, ctx), Inl (Fail e))
                | (ctx, Inr _) \<Rightarrow> ((fees, ctx), Inr False))
          in case StringToBytes (addressCodec k) (ModuleAccountAddress consumer) of
               Inl e \<Rightarrow> ((fees, ctx), Inl (Fail (Wrap e
                   ''failed to parse module account address (%s) for chain %s: %w''
                   [ArgS (ModuleAccountAddress consumer), ArgS (ChainId consumer)])))
             | Inr consumerAddr \<Rightarrow>
                 let balance = GetBalance (bankKeeper k) (others ctx) consumerAddr (Denom feesPerBlock)
                 in case Coin_IsLT L balance feesPerBlock of
                      Inl e \<Rightarrow> ((fees, ctx), Inl e)
                    | Inr True \<Rightarrow>
                        finish fees ctx (consumer\<lparr>Status := CONSUMER_STATUS_OVERDUE\<rparr>)
                    | Inr False \<Rightarrow>
                        (case NewCoins L [feesPerBlock] of
                           Inl e \<Rightarrow> ((fees, ctx), Inl e)
                         | Inr feeCoins \<Rightarrow>
                             (case SendCoinsFromModuleToModule (bankKeeper k) (others ctx)
                                     (GetConsumerModuleAccountName (ChainId consumer))
                                     ''fee_collector'' feeCoins of
                                (x, Inl e) \<Rightarrow> ((fees, ctx\<lparr>others := x\<rparr>), Inl (wrap_fault
                                    ''failed to collect fees from chain %s: %w''
                                    [ArgS (ChainId consumer)] e))
                              | (x, Inr _) \<Rightarrow>
                                  (case Coin_Add L fees feesPerBlock of
                                     Inl e \<Rightarrow> ((fees, ctx\<lparr>others := x\<rparr>), Inl e)
                                   | Inr fees \<Rightarrow>
                                       finish fees (ctx\<lparr>others := x\<rparr>)
                                         (consumer\<lparr>Status := CONSUMER_STATUS_ACTIVE\<rparr>)))))"

text \<open>The callers drop the total when the error is not nil, so it is only part of the
  successful result here.\<close>

definition CollectFeesFromConsumers ::
    "sdk_lib \<Rightarrow> ('s, 'x, 'acc) Keeper \<Rightarrow> ('s, 'x) Context \<Rightarrow> Coin \<Rightarrow>
     ('s, 'x) Context \<times> (fault + Coin)" where
  "CollectFeesFromConsumers L k ctx feesPerBlock =
     (case NewCoin L (Denom feesPerBlock) (ZeroInt L) of
        Inl e \<Rightarrow> (ctx, Inl e)
      | Inr totalFeesCollected \<Rightarrow>
          (case IterateConsumerChains k (kvStore ctx) (collect_fee L k feesPerBlock)
                  (totalFeesCollected, ctx) of
             ((fees, ctx), Inl e) \<Rightarrow> (ctx, Inl e)
           | ((fees, ctx), Inr _) \<Rightarrow> (ctx, Inr fees)))"

section \<open>Distributing fees to the validators\<close>

definition val_power :: "sdk_lib \<Rightarrow> Validator \<Rightarrow> math_int" where
  "val_power L val = NewInt L (GetConsensusPower val (DefaultPowerReduction L))"

fun total_power :: "sdk_lib \<Rightarrow> math_int \<Rightarrow> Validator list \<Rightarrow> fault + math_int" where
  "total_power L totalPower [] = Inr totalPower"
| "total_power L totalPower (val # vals) =
     (case Int_Add L totalPower (val_power L val) of
        Inl e \<Rightarrow> Inl e
      | Inr totalPower \<Rightarrow> total_power L totalPower vals)"

text \<open>One turn of the distribution loop.\<close>

definition send_share ::
    "sdk_lib \<Rightarrow> ('s, 'x, 'acc) Keeper \<Rightarrow> Coin \<Rightarrow> math_int \<Rightarrow> ('s, 'x) Context \<Rightarrow> Validator \<Rightarrow>
     ('s, 'x) Context \<times> (fault + unit)" where
  "send_share L k totalFees totalPower ctx val =
     (case StringToBytes (addressCodec k) (GetOperator val) of
        Inl e \<Rightarrow> (ctx, Inl (Fail (Wrap e ''failed to parse validator address: %w'' [])))
      | Inr valAddr \<Rightarrow>
          (case Int_Mul L (Amount totalFees) (val_power L val) of
             Inl e \<Rightarrow> (ctx, Inl e)
           | Inr product \<Rightarrow>
               (case Int_Quo L product totalPower of
                  Inl e \<Rightarrow> (ctx, Inl e)
                | Inr valShare \<Rightarrow>
                    (case Int_IsZero L valShare of
                       Inl e \<Rightarrow> (ctx, Inl e)
                     | Inr True \<Rightarrow> (ctx, Inr ())
                     | Inr False \<Rightarrow>
                         (case NewCoin L (Denom totalFees) valShare of
                            Inl e \<Rightarrow> (ctx, Inl e)
                          | Inr c \<Rightarrow>
                              (case NewCoins L [c] of
                                 Inl e \<Rightarrow> (ctx, Inl e)
                               | Inr coins \<Rightarrow>
                                   (case SendCoinsFromModuleToAccount (bankKeeper k) (others ctx)
                                           ''fee_collector'' valAddr coins of
                                      (x, Inl e) \<Rightarrow> (ctx\<lparr>others := x\<rparr>, Inl (wrap_fault
                                          ''failed to send fees to validator %s: %w''
                                          [ArgS (GetOperator val)] e))
                                    | (x, Inr _) \<Rightarrow> (ctx\<lparr>others := x\<rparr>, Inr ()))))))))"

fun send_shares ::
    "sdk_lib \<Rightarrow> ('s, 'x, 'acc) Keeper \<Rightarrow> Coin \<Rightarrow> math_int \<Rightarrow> ('s, 'x) Context \<Rightarrow> Validator list \<Rightarrow>
     ('s, 'x) Context \<times> (fault + unit)" where
  "send_shares L k totalFees totalPower ctx [] = (ctx, Inr ())"
| "send_shares L k totalFees totalPower ctx (val # vals) =
     andThen (send_share L k totalFees totalPower ctx val)
       (\<lambda>ctx _. send_shares L k totalFees totalPower ctx vals)"

definition DistributeFeesToValidators ::
    "sdk_lib \<Rightarrow> ('s, 'x, 'acc) Keeper \<Rightarrow> ('s, 'x) Context \<Rightarrow> Coin \<Rightarrow>
     ('s, 'x) Context \<times> (fault + unit)" where
  "DistributeFeesToValidators L k ctx totalFees =
     (case GetBondedValidatorsByPower (stakingKeeper k) (others ctx) of
        Inl e \<Rightarrow> (ctx, Inl (Fail (Wrap e ''failed to get bonded validators: %w'' [])))
      | Inr validators \<Rightarrow>
          if validators = [] then (ctx, Inr ())
          else
            (case total_power L (ZeroInt L) validators of
               Inl e \<Rightarrow> (ctx, Inl e)
             | Inr totalPower \<Rightarrow>
                 (case Int_IsZero L totalPower of
                    Inl e \<Rightarrow> (ctx, Inl e)
                  | Inr True \<Rightarrow> (ctx, Inl (Fail (Errorf ''total voting power is zero'' [])))
                  | Inr False \<Rightarrow> send_shares L k totalFees totalPower ctx validators)))"

end
