(* ===== verification/ProviderEnv.thy ===== *)
theory ProviderEnv
  imports Keeper
begin

text \<open>
  The contracts of what the keeper calls, as locales, and an executable world that
  satisfies them.

  \<^item> \<open>collections_laws\<close>: the store behaves as one value of parameters and one map
    from chain ids to chains, iterated in the order of the keys without repetition.
  \<^item> \<open>codec_laws\<close>: parsing an address string gives back the address it was made from.
  \<^item> \<open>bank_laws\<close>: balances are non-negative; a transfer of a single coin between
    registered module accounts, or to an account that is not blocked, succeeds when the
    balance covers it and moves exactly the amount; a transfer from a module without
    account panics.
  \<^item> \<open>auth_laws\<close>: a new account can be found afterwards and moves no coins.
  \<^item> \<open>provider_env\<close> is all of them for one keeper.

  These are the documented behaviours of the SDK's collections, address codec and bank
  keeper. \<open>ref_keeper\<close> is the keeper over the executable world; \<open>env_ref\<close> shows
  that it satisfies the contracts for every choice of registered and blocked accounts.
\<close>

section \<open>Contracts\<close>

locale collections_laws =
  fixes C :: "'s Collections"
    and entries :: "'s \<Rightarrow> (string \<times> ConsumerChain) list"
    and params :: "'s \<Rightarrow> Params option"
  assumes Params_Get:
      "Params_Get C s = (case params s of None \<Rightarrow> Inl CollectionsNotFound | Some p \<Rightarrow> Inr p)"
    and Params_Set: "snd (Params_Set C s p) = Inr ()"
      "params (fst (Params_Set C s p)) = Some p"
      "entries (fst (Params_Set C s p)) = entries s"
    and Chains_Has: "Chains_Has C s k = Inr (map_of (entries s) k \<noteq> None)"
    and Chains_Get: "Chains_Get C s k =
      (case map_of (entries s) k of None \<Rightarrow> Inl CollectionsNotFound | Some c \<Rightarrow> Inr c)"
    and Chains_Set: "snd (Chains_Set C s k c) = Inr ()"
      "map_of (entries (fst (Chains_Set C s k c))) = (map_of (entries s))(k \<mapsto> c)"
      "params (fst (Chains_Set C s k c)) = params s"
    and Chains_Iterate: "Chains_Iterate C s = Inr (map Inr (entries s))"
    and entries_sorted: "sorted (map fst (entries s))"
    and entries_distinct: "distinct (map fst (entries s))"

locale codec_laws =
  fixes codec :: AddressCodec
  assumes parse_format: "BytesToString codec a = Inr str \<Longrightarrow> StringToBytes codec str = Inr a"

definition transfer ::
    "(bytes \<Rightarrow> string \<Rightarrow> int) \<Rightarrow> bytes \<Rightarrow> bytes \<Rightarrow> string \<Rightarrow> int \<Rightarrow> (bytes \<Rightarrow> string \<Rightarrow> int)" where
  "transfer b from to d n =
     (let b1 = b(from := (b from)(d := b from d - n)) in b1(to := (b1 to)(d := b1 to d + n)))"

locale bank_laws =
  fixes B :: "'x BankKeeper"
    and module_addr :: "string \<Rightarrow> bytes"
    and bal :: "'x \<Rightarrow> bytes \<Rightarrow> string \<Rightarrow> int"
    and registered :: "string \<Rightarrow> bool"
    and blocked :: "bytes \<Rightarrow> bool"
  assumes GetBalance: "GetBalance B x a d = coin d (bal x a d)"
    and bal_nonneg: "0 \<le> bal x a d"
    and ModuleToModule:
      "registered m \<Longrightarrow> registered m' \<Longrightarrow> 0 < n \<Longrightarrow> n \<le> bal x (module_addr m) d \<Longrightarrow>
         snd (SendCoinsFromModuleToModule B x m m' [coin d n]) = Inr () \<and>
         bal (fst (SendCoinsFromModuleToModule B x m m' [coin d n])) =
           transfer (bal x) (module_addr m) (module_addr m') d n"
    and ModuleToModule_unregistered:
      "\<not> registered m \<Longrightarrow>
         \<exists>msg. SendCoinsFromModuleToModule B x m m' cs = (x, Inl (Panic msg))"
    and ModuleToAccount:
      "registered m \<Longrightarrow> \<not> blocked a \<Longrightarrow> 0 < n \<Longrightarrow> n \<le> bal x (module_addr m) d \<Longrightarrow>
         snd (SendCoinsFromModuleToAccount B x m a [coin d n]) = Inr () \<and>
         bal (fst (SendCoinsFromModuleToAccount B x m a [coin d n])) =
           transfer (bal x) (module_addr m) a d n"

locale auth_laws =
  fixes A :: "('x, 'acc) AuthKeeper" and bal :: "'x \<Rightarrow> bytes \<Rightarrow> string \<Rightarrow> int"
  assumes NewAccount:
    "GetAccount A (SetAccount A (fst (NewAccountWithAddress A x a)) (snd (NewAccountWithAddress A x a))) a
       \<noteq> None"
    "bal (SetAccount A (fst (NewAccountWithAddress A x a)) (snd (NewAccountWithAddress A x a))) = bal x"

locale provider_env =
  sdk_laws L valid_denom +
  collections_laws "collections K" entries params +
  codec_laws "addressCodec K" +
  bank_laws "bankKeeper K" "NewModuleAddress L" bal registered blocked +
  auth_laws "authKeeper K" bal
  for L :: sdk_lib and valid_denom :: "string \<Rightarrow> bool"
    and K :: "('s, 'x, 'acc) Keeper"
    and entries :: "'s \<Rightarrow> (string \<times> ConsumerChain) list"
    and params :: "'s \<Rightarrow> Params option"
    and bal :: "'x \<Rightarrow> bytes \<Rightarrow> string \<Rightarrow> int"
    and registered :: "string \<Rightarrow> bool"
    and blocked :: "bytes \<Rightarrow> bool"

section \<open>An executable world\<close>

record ref_store =
  rs_params :: "Params option"
  rs_chains :: "ConsumerChain gomap"

definition ref_entries :: "ref_store \<Rightarrow> (string \<times> ConsumerChain) list" where
  "ref_entries s = map (\<lambda>k. (k, the (fmlookup (rs_chains s) k))) (keys (rs_chains s))"

definition ref_collections :: "ref_store Collections" where
  "ref_collections =
     \<lparr>Params_Get = (\<lambda>s. case rs_params s of None \<Rightarrow> Inl CollectionsNotFound | Some p \<Rightarrow> Inr p),
      Params_Set = (\<lambda>s p. (s\<lparr>rs_params := Some p\<rparr>, Inr ())),
      Chains_Has = (\<lambda>s k. Inr (fmlookup (rs_chains s) k \<noteq> None)),
      Chains_Get = (\<lambda>s k. case fmlookup (rs_chains s) k of
                       None \<Rightarrow> Inl CollectionsNotFound | Some c \<Rightarrow> Inr c),
      Chains_Set = (\<lambda>s k c. (s\<lparr>rs_chains := fmupd k c (rs_chains s)\<rparr>, Inr ())),
      Chains_Iterate = (\<lambda>s. Inr (map Inr (ref_entries s)))\<rparr>"

lemma fst_ref_entries: "map fst (ref_entries s) = keys (rs_chains s)"
  by (simp add: ref_entries_def comp_def)

lemma map_of_ref_entries: "map_of (ref_entries s) k = fmlookup (rs_chains s) k"
proof (cases "fmlookup (rs_chains s) k")
  case None
  then have "k \<notin> set (map fst (ref_entries s))"
    unfolding fst_ref_entries by (simp add: fmdom_notI)
  with None show ?thesis
    by (simp add: map_of_eq_None_iff)
next
  case (Some c)
  then have "(k, c) \<in> set (ref_entries s)"
    by (force simp: ref_entries_def fmdomI)
  then show ?thesis
    using Some by (simp add: fst_ref_entries map_of_is_SomeI)
qed

lemma ref_entries_params [simp]: "ref_entries (s\<lparr>rs_params := p\<rparr>) = ref_entries s"
  by (simp add: ref_entries_def)

interpretation ref_coll: collections_laws ref_collections ref_entries rs_params
  by unfold_locales
    (simp_all add: ref_collections_def map_of_ref_entries fst_ref_entries fun_eq_iff)

text \<open>Addresses are written with a prefix, so that a string without it does not parse.\<close>

definition ref_codec :: AddressCodec where
  "ref_codec =
     \<lparr>StringToBytes = (\<lambda>s. if take 5 s = ''atone'' then Inr (drop 5 s)
                          else Inl (External ''decoding bech32 failed'')),
      BytesToString = (\<lambda>a. if a = '''' then Inl (External ''empty address'')
                          else Inr (''atone'' @ a))\<rparr>"

interpretation ref_cod: codec_laws ref_codec
  by unfold_locales (auto simp: ref_codec_def split: if_splits)

record ref_world =
  rw_bal :: "bytes \<Rightarrow> string \<Rightarrow> nat"
  rw_accounts :: "bytes list"
  rw_validators :: "Validator list"

definition ref_bal :: "ref_world \<Rightarrow> bytes \<Rightarrow> string \<Rightarrow> int" where
  "ref_bal x a d = int (rw_bal x a d)"

definition ref_move ::
    "ref_world \<Rightarrow> bytes \<Rightarrow> bytes \<Rightarrow> Coin list \<Rightarrow> ref_world \<times> (fault + unit)" where
  "ref_move x from to cs =
     (case cs of
        [c] \<Rightarrow>
          (case Amount c of
             MkInt n \<Rightarrow>
               (if 0 < n \<and> n \<le> ref_bal x from (Denom c)
                then (x\<lparr>rw_bal := (\<lambda>a e. nat (transfer (ref_bal x) from to (Denom c) n a e))\<rparr>,
                      Inr ())
                else (x, Inl (Fail (External ''insufficient funds''))))
           | NilInt \<Rightarrow> (x, Inl (Fail (External ''invalid coins''))))
      | _ \<Rightarrow> (x, Inl (Fail (External ''invalid coins''))))"

definition ref_bank :: "(string \<Rightarrow> bool) \<Rightarrow> (bytes \<Rightarrow> bool) \<Rightarrow> ref_world BankKeeper" where
  "ref_bank registered blocked =
     \<lparr>GetBalance = (\<lambda>x a d. coin d (ref_bal x a d)),
      SendCoinsFromModuleToModule = (\<lambda>x m m' cs.
        if registered m \<and> registered m'
        then ref_move x (NewModuleAddress ref_sdk m) (NewModuleAddress ref_sdk m') cs
        else (x, Inl (Panic ''module account does not exist''))),
      SendCoinsFromModuleToAccount = (\<lambda>x m a cs.
        if \<not> registered m then (x, Inl (Panic ''module account does not exist''))
        else if blocked a then (x, Inl (Fail (External ''unauthorized'')))
        else ref_move x (NewModuleAddress ref_sdk m) a cs)\<rparr>"

lemma ref_move_ok:
  assumes "0 < n" and "n \<le> ref_bal x from d"
  shows "snd (ref_move x from to [coin d n]) = Inr ()"
    and "ref_bal (fst (ref_move x from to [coin d n])) = transfer (ref_bal x) from to d n"
proof -
  have "0 \<le> transfer (ref_bal x) from to d n a e" for a e
    using assms by (auto simp: transfer_def ref_bal_def Let_def)
  then show "ref_bal (fst (ref_move x from to [coin d n])) = transfer (ref_bal x) from to d n"
    using assms by (simp add: ref_move_def fun_eq_iff) (simp add: ref_bal_def)
qed (use assms in \<open>simp add: ref_move_def\<close>)

interpretation ref_bk: bank_laws "ref_bank registered blocked" "NewModuleAddress ref_sdk"
    ref_bal registered blocked
  for registered :: "string \<Rightarrow> bool" and blocked :: "bytes \<Rightarrow> bool"
  by unfold_locales (auto simp: ref_bank_def ref_move_ok, simp_all add: ref_bal_def)

definition ref_auth :: "(ref_world, bytes) AuthKeeper" where
  "ref_auth =
     \<lparr>GetAccount = (\<lambda>x a. if a \<in> set (rw_accounts x) then Some a else None),
      NewAccountWithAddress = (\<lambda>x a. (x, a)),
      SetAccount = (\<lambda>x a. x\<lparr>rw_accounts := a # rw_accounts x\<rparr>)\<rparr>"

interpretation ref_au: auth_laws ref_auth ref_bal
  by unfold_locales (simp_all add: ref_auth_def ref_bal_def fun_eq_iff)

definition ref_staking :: "ref_world StakingKeeper" where
  "ref_staking = \<lparr>GetBondedValidatorsByPower = (\<lambda>x. Inr (rw_validators x))\<rparr>"

definition ref_keeper ::
    "(string \<Rightarrow> bool) \<Rightarrow> (bytes \<Rightarrow> bool) \<Rightarrow> (ref_store, ref_world, bytes) Keeper" where
  "ref_keeper registered blocked =
     \<lparr>addressCodec = ref_codec, authority = NewModuleAddress ref_sdk GovModuleName,
      authKeeper = ref_auth, bankKeeper = ref_bank registered blocked,
      stakingKeeper = ref_staking, collections = ref_collections\<rparr>"

interpretation env_ref: provider_env ref_sdk "\<lambda>d. d \<noteq> ''''" "ref_keeper registered blocked"
    ref_entries rs_params ref_bal registered blocked
  for registered :: "string \<Rightarrow> bool" and blocked :: "bytes \<Rightarrow> bool"
  by (simp add: provider_env_def ref_keeper_def ref.sdk_laws_axioms ref_coll.collections_laws_axioms
      ref_cod.codec_laws_axioms ref_bk.bank_laws_axioms ref_au.auth_laws_axioms)

lemmas ref_defs =
  ref_sdk_def ref_collections_def ref_codec_def ref_bank_def ref_auth_def ref_staking_def
  ref_keeper_def

end
