(* ===== verification/Fees.thy ===== *)
theory Fees
  imports ProviderEnv
begin

text \<open>
  Correctness of the fee of a block under the contracts of \<open>ProviderEnv\<close>.

  The abstract specification of the collection is \<open>bill\<close>: an active or overdue chain
  whose account holds the fee pays and is active, one that does not is overdue, every
  other chain is left alone. The lemma \<open>collect_loop\<close> shows that the loop of the code
  implements it, charges each payer exactly once and credits the fee collector with the
  total; \<open>CollectFees_loop\<close> is the whole operation. \<open>shares\<close> is the distribution
  as arithmetic; \<open>shares_account\<close> bounds what it pays out. \<open>distribution\<close> says who is paid
  and how the distribution ends: the code parses the operator string of a validator as an account
  address, and stops at the first one that does not parse. The codec is an argument, nothing is assumed of what
  it parses; that of the SDK refuses the operator string of every validator, which has the prefix
  \<open>valoper\<close>. \<open>DistributeFees_run\<close> shows that the code pays exactly the shares of these
  validators. \<open>collect_stuck\<close> is the other side: a
  chain that can pay but whose module account the bank does not know stops the block.
\<close>

section \<open>The abstract bill\<close>

definition billable :: "ConsumerChain \<Rightarrow> bool" where
  "billable c \<longleftrightarrow> IsActive c \<or> IsOverdue c"

definition bill :: "int \<Rightarrow> int \<Rightarrow> ConsumerChain \<Rightarrow> ConsumerChain" where
  "bill fee balance c =
     (if billable c
      then c\<lparr>Status := if fee \<le> balance then CONSUMER_STATUS_ACTIVE else CONSUMER_STATUS_OVERDUE\<rparr>
      else c)"

definition payers :: "int \<Rightarrow> (ConsumerChain \<Rightarrow> int) \<Rightarrow> ConsumerChain list \<Rightarrow> ConsumerChain list" where
  "payers fee balance cs = filter (\<lambda>c. billable c \<and> fee \<le> balance c) cs"

definition chain_addr :: "sdk_lib \<Rightarrow> ConsumerChain \<Rightarrow> bytes" where
  "chain_addr L c = NewModuleAddress L (GetConsumerModuleAccountName (ChainId c))"

abbreviation collector_addr :: "sdk_lib \<Rightarrow> bytes" where
  "collector_addr L \<equiv> NewModuleAddress L ''fee_collector''"

text \<open>What the module keeps true of every entry it stores: it is filed under its chain id
  and its address string is the one of its own module account.\<close>

definition entry_ok :: "sdk_lib \<Rightarrow> ('s, 'x, 'acc) Keeper \<Rightarrow> string \<times> ConsumerChain \<Rightarrow> bool" where
  "entry_ok L K e \<longleftrightarrow>
     fst e = ChainId (snd e) \<and>
     StringToBytes (addressCodec K) (ModuleAccountAddress (snd e)) = Inr (chain_addr L (snd e))"

lemma bill_simps [simp]:
  "ChainId (bill f b c) = ChainId c" "ModuleAccountAddress (bill f b c) = ModuleAccountAddress c"
  "Name (bill f b c) = Name c" "Version (bill f b c) = Version c"
  "AddedAt (bill f b c) = AddedAt c" "SunsetAt (bill f b c) = SunsetAt c"
  by (simp_all add: bill_def)

lemma chain_addr_bill [simp]: "chain_addr L (bill f b c) = chain_addr L c"
  by (simp add: chain_addr_def)

lemma entry_ok_bill [simp]: "entry_ok L K (k, bill f b c) = entry_ok L K (k, c)"
  by (simp add: entry_ok_def)

lemma payers_Cons: "payers f b (c # cs) = (if billable c \<and> f \<le> b c then [c] else []) @ payers f b cs"
  by (simp add: payers_def)

lemma payers_Nil [simp]: "payers f b [] = []"
  by (simp add: payers_def)

lemma payers_cong: "(\<And>c. c \<in> set cs \<Longrightarrow> b c = b' c) \<Longrightarrow> payers f b cs = payers f b' cs"
  by (auto simp: payers_def intro: filter_cong)

lemma length_payers: "length (payers f b cs) \<le> length cs"
  by (simp add: payers_def)

lemma transfer_other:
  "a \<noteq> from \<Longrightarrow> a \<noteq> to \<Longrightarrow> transfer b from to d n a = b a"
  by (simp add: transfer_def Let_def)

lemma transfer_apply:
  "from \<noteq> to \<Longrightarrow> transfer b from to d n a e =
     (if e = d then b a d - (if a = from then n else 0) + (if a = to then n else 0) else b a e)"
  by (auto simp: transfer_def Let_def)

text \<open>The balances after a list of chains has paid.\<close>

definition charged ::
    "sdk_lib \<Rightarrow> string \<Rightarrow> int \<Rightarrow> ConsumerChain list \<Rightarrow> (bytes \<Rightarrow> string \<Rightarrow> int) \<Rightarrow>
     (bytes \<Rightarrow> string \<Rightarrow> int)" where
  "charged L d f ps b = (\<lambda>a e.
     if e = d
     then b a d - (if a \<in> chain_addr L ` set ps then f else 0)
          + (if a = collector_addr L then f * int (length ps) else 0)
     else b a e)"

lemma charged_Nil [simp]: "charged L d f [] b = b"
  by (simp add: charged_def fun_eq_iff)

lemma charged_Cons:
  assumes "chain_addr L c \<noteq> collector_addr L" and "chain_addr L c \<notin> chain_addr L ` set ps"
  shows "charged L d f ps (transfer b (chain_addr L c) (collector_addr L) d f) = charged L d f (c # ps) b"
  using assms by (auto simp: charged_def transfer_apply fun_eq_iff algebra_simps)

text \<open>The conditions on the stored chains under which the fee can be collected: the invariant
  of the entries, module accounts the bank knows for the chains that owe a fee, no two
  chains with the same address, and a total within 256 bits.\<close>

definition collectable ::
    "sdk_lib \<Rightarrow> ('s, 'x, 'acc) Keeper \<Rightarrow> (string \<Rightarrow> bool) \<Rightarrow> int \<Rightarrow> (string \<times> ConsumerChain) list \<Rightarrow> bool"
  where
  "collectable L K registered f es \<longleftrightarrow>
     list_all (entry_ok L K) es \<and>
     list_all (\<lambda>(k, c). billable c \<longrightarrow> registered (GetConsumerModuleAccountName (ChainId c))) es \<and>
     registered ''fee_collector'' \<and>
     distinct (collector_addr L # map (chain_addr L) (map snd es)) \<and>
     f * int (length es) < 2 ^ 256"

section \<open>The collection loop\<close>

context provider_env
begin

abbreviation stored :: "('s, 'x) Context \<Rightarrow> string \<rightharpoonup> ConsumerChain" where
  "stored ctx \<equiv> map_of (entries (kvStore ctx))"

abbreviation balance_of :: "string \<Rightarrow> ('s, 'x) Context \<Rightarrow> ConsumerChain \<Rightarrow> int" where
  "balance_of d ctx c \<equiv> bal (others ctx) (chain_addr L c) d"

lemma set_chain_ok:
  obtains ctx' where "set_chain K ctx c = (ctx', Inr ())"
    and "stored ctx' = (stored ctx)(ChainId c \<mapsto> c)"
    and "params (kvStore ctx') = params (kvStore ctx)"
    and "others ctx' = others ctx" and "BlockHeight ctx' = BlockHeight ctx"
    and "Events ctx' = Events ctx"
proof -
  obtain s' r where s': "Chains_Set (collections K) (kvStore ctx) (ChainId c) c = (s', r)"
    by fastforce
  then have "r = Inr ()" "map_of (entries s') = (stored ctx)(ChainId c \<mapsto> c)"
      "params s' = params (kvStore ctx)"
    using Chains_Set [of "kvStore ctx" "ChainId c" c] by simp_all
  with s' that [of "ctx\<lparr>kvStore := s'\<rparr>"] show thesis
    by (simp add: set_chain_def)
qed

lemma collect_fee_step:
  assumes d: "valid_denom d" and f: "0 < f"
    and ok: "entry_ok L K (ChainId c, c)"
    and reg: "billable c \<Longrightarrow> registered (GetConsumerModuleAccountName (ChainId c))"
      "registered ''fee_collector''"
    and own: "stored ctx (ChainId c) = Some c"
    and t: "0 \<le> t" "t + f < 2 ^ 256"
  defines "pays \<equiv> billable c \<and> f \<le> balance_of d ctx c"
  obtains ctx' where
    "collect_fee L K (coin d f) (coin d t, ctx) c =
       ((coin d (t + (if pays then f else 0)), ctx'), Inr False)"
    and "stored ctx' = (stored ctx)(ChainId c \<mapsto> bill f (balance_of d ctx c) c)"
    and "bal (others ctx') =
       (if pays then transfer (bal (others ctx)) (chain_addr L c) (collector_addr L) d f
        else bal (others ctx))"
    and "params (kvStore ctx') = params (kvStore ctx)"
    and "BlockHeight ctx' = BlockHeight ctx" and "Events ctx' = Events ctx"
proof (cases "billable c")
  case False
  then have "collect_fee L K (coin d f) (coin d t, ctx) c = ((coin d t, ctx), Inr False)"
    by (simp add: collect_fee_def billable_def)
  with False own show thesis
    by (intro that [of ctx]) (simp_all add: bill_def pays_def fun_upd_idem)
next
  case True
  have addr: "StringToBytes (addressCodec K) (ModuleAccountAddress c) = Inr (chain_addr L c)"
    using ok by (simp add: entry_ok_def)
  have lt: "Coin_IsLT L (GetBalance (bankKeeper K) (others ctx) (chain_addr L c) d) (coin d f) =
      Inr (balance_of d ctx c < f)"
    by (simp add: GetBalance Coin_IsLT)
  show thesis
  proof (cases "f \<le> balance_of d ctx c")
    case poor: False
    obtain ctx' where "set_chain K ctx (c\<lparr>Status := CONSUMER_STATUS_OVERDUE\<rparr>) = (ctx', Inr ())"
        "stored ctx' = (stored ctx)(ChainId c \<mapsto> c\<lparr>Status := CONSUMER_STATUS_OVERDUE\<rparr>)"
        "params (kvStore ctx') = params (kvStore ctx)" "others ctx' = others ctx"
        "BlockHeight ctx' = BlockHeight ctx" "Events ctx' = Events ctx"
      by (rule set_chain_ok [of ctx "c\<lparr>Status := CONSUMER_STATUS_OVERDUE\<rparr>"]) simp
    with True poor addr lt show thesis
      by (intro that [of ctx']) (auto simp: collect_fee_def billable_def pays_def bill_def)
  next
    case rich: True
    let ?m = "GetConsumerModuleAccountName (ChainId c)"
    obtain x r where x:
        "SendCoinsFromModuleToModule (bankKeeper K) (others ctx) ?m ''fee_collector'' [coin d f] = (x, r)"
      by fastforce
    have "r = Inr ()" "bal x = transfer (bal (others ctx)) (chain_addr L c) (collector_addr L) d f"
      using ModuleToModule [OF reg(1) reg(2) f, of "others ctx" d] True rich x
      by (simp_all add: chain_addr_def)
    moreover obtain ctx' where
        "set_chain K (ctx\<lparr>others := x\<rparr>) (c\<lparr>Status := CONSUMER_STATUS_ACTIVE\<rparr>) = (ctx', Inr ())"
        "stored ctx' = (stored ctx)(ChainId c \<mapsto> c\<lparr>Status := CONSUMER_STATUS_ACTIVE\<rparr>)"
        "params (kvStore ctx') = params (kvStore ctx)" "others ctx' = x"
        "BlockHeight ctx' = BlockHeight ctx" "Events ctx' = Events ctx"
      by (rule set_chain_ok [of "ctx\<lparr>others := x\<rparr>" "c\<lparr>Status := CONSUMER_STATUS_ACTIVE\<rparr>"]) simp
    moreover have "Coin_Add L (coin d t) (coin d f) = Inr (coin d (t + f))"
      using t f by (intro Coin_Add) simp
    ultimately show thesis
      using True rich addr lt x NewCoins [OF d f]
      by (intro that [of ctx']) (auto simp: collect_fee_def billable_def pays_def bill_def)
  qed
qed

lemma collect_loop:
  assumes d: "valid_denom d" and f: "0 < f"
    and "list_all (entry_ok L K) es"
    and "list_all (\<lambda>(k, c). billable c \<longrightarrow> registered (GetConsumerModuleAccountName (ChainId c))) es"
    and col: "registered ''fee_collector''"
    and "distinct (map fst es)"
    and "distinct (collector_addr L # map (chain_addr L) (map snd es))"
    and "map_of es \<subseteq>\<^sub>m stored ctx"
    and "0 \<le> t" and "t + f * int (length es) < 2 ^ 256"
  shows "\<exists>ctx'. Walk (map Inr es) (\<lambda>c key v. collect_fee L K (coin d f) c v) (coin d t, ctx) =
       ((coin d (t + f * int (length (payers f (balance_of d ctx) (map snd es)))), ctx'), Inr ()) \<and>
     stored ctx' = (\<lambda>k. if k \<in> fst ` set es
       then map_option (\<lambda>c. bill f (balance_of d ctx c) c) (stored ctx k) else stored ctx k) \<and>
     bal (others ctx') = charged L d f (payers f (balance_of d ctx) (map snd es)) (bal (others ctx)) \<and>
     params (kvStore ctx') = params (kvStore ctx) \<and> BlockHeight ctx' = BlockHeight ctx \<and>
     Events ctx' = Events ctx"
  using assms(3-4,6-10)
proof (induction es arbitrary: ctx t)
  case Nil
  then show ?case by (simp add: fun_eq_iff)
next
  case (Cons e es)
  obtain k c where e: "e = (k, c)" and k: "k = ChainId c"
    using Cons.prems(1) by (cases e) (simp add: entry_ok_def)
  define pays where "pays \<longleftrightarrow> billable c \<and> f \<le> balance_of d ctx c"
  have own: "stored ctx (ChainId c) = Some c"
    using Cons.prems(5) [unfolded map_le_def, rule_format, of "ChainId c"] by (simp add: e k)
  have "0 \<le> f * int (length es)" and "t + f + f * int (length es) < 2 ^ 256"
    using Cons.prems(7) f by (simp_all add: algebra_simps)
  then have room: "t + f < 2 ^ 256" "t + f + f * int (length es) < 2 ^ 256"
      "0 \<le> f * int (length es)"
    by linarith+
  obtain ctx1 where step: "collect_fee L K (coin d f) (coin d t, ctx) c =
       ((coin d (t + (if pays then f else 0)), ctx1), Inr False)"
    and st1: "stored ctx1 = (stored ctx)(ChainId c \<mapsto> bill f (balance_of d ctx c) c)"
    and bal1: "bal (others ctx1) =
       (if pays then transfer (bal (others ctx)) (chain_addr L c) (collector_addr L) d f
        else bal (others ctx))"
    and fr1: "params (kvStore ctx1) = params (kvStore ctx)"
      "BlockHeight ctx1 = BlockHeight ctx" "Events ctx1 = Events ctx"
    using Cons.prems(1,2)
    by (rule_tac collect_fee_step [OF d f, of c ctx t])
      (use col own Cons.prems(6) room(1) in \<open>auto simp: e k pays_def\<close>)
  have fresh: "chain_addr L c \<noteq> collector_addr L" "chain_addr L c \<notin> chain_addr L ` set (map snd es)"
    using Cons.prems(4) by (auto simp: e)
  have same: "balance_of d ctx1 c' = balance_of d ctx c'" if "c' \<in> set (map snd es)" for c'
  proof -
    have "chain_addr L c' \<noteq> chain_addr L c" "chain_addr L c' \<noteq> collector_addr L"
      using Cons.prems(4) that by (auto simp: e image_iff)
    then show ?thesis
      by (simp add: bal1 transfer_other)
  qed
  then have pay: "payers f (balance_of d ctx1) (map snd es) = payers f (balance_of d ctx) (map snd es)"
    by (rule payers_cong)
  let ?ps = "payers f (balance_of d ctx) (map snd es)"
  have sub: "map_of es \<subseteq>\<^sub>m stored ctx1"
    unfolding map_le_def
  proof
    fix k'
    assume k': "k' \<in> dom (map_of es)"
    then have "k' \<in> fst ` set es"
      by (simp add: dom_map_of_conv_image_fst)
    then have "k' \<noteq> ChainId c"
      using Cons.prems(3) by (simp add: e k) metis
    then show "map_of es k' = stored ctx1 k'"
      using Cons.prems(5) [unfolded map_le_def, rule_format, of k'] k' by (simp add: e k st1 dom_def)
  qed
  obtain ctx' where IH:
    "Walk (map Inr es) (\<lambda>c key v. collect_fee L K (coin d f) c v)
        (coin d (t + (if pays then f else 0)), ctx1) =
       ((coin d (t + (if pays then f else 0) + f * int (length ?ps)), ctx'), Inr ())"
    "stored ctx' = (\<lambda>k. if k \<in> fst ` set es
       then map_option (\<lambda>c. bill f (balance_of d ctx1 c) c) (stored ctx1 k) else stored ctx1 k)"
    "bal (others ctx') = charged L d f ?ps (bal (others ctx1))"
    "params (kvStore ctx') = params (kvStore ctx1)" "BlockHeight ctx' = BlockHeight ctx1"
    "Events ctx' = Events ctx1"
  proof -
    have prems: "list_all (entry_ok L K) es"
        "list_all (\<lambda>(k, c). billable c \<longrightarrow> registered (GetConsumerModuleAccountName (ChainId c))) es"
        "distinct (map fst es)" "distinct (collector_addr L # map (chain_addr L) (map snd es))"
        "0 \<le> t + (if pays then f else 0)"
        "t + (if pays then f else 0) + f * int (length es) < 2 ^ 256"
      using Cons.prems(1-4,6) room f by (simp_all add: e)
    from Cons.IH [OF prems(1-4) sub prems(5,6)] show thesis
      unfolding pay using that by blast
  qed
  have "stored ctx' k' = (if k' \<in> fst ` set (e # es)
       then map_option (\<lambda>c. bill f (balance_of d ctx c) c) (stored ctx k') else stored ctx k')" for k'
  proof (cases "k' \<in> fst ` set es")
    case True
    then obtain c' where c': "map_of es k' = Some c'"
      by (metis map_of_eq_None_iff not_Some_eq)
    then have "c' \<in> set (map snd es)" and "stored ctx1 k' = Some c'"
      using sub by (force dest: map_of_SomeD, force simp: map_le_def)
    moreover have "k' \<noteq> ChainId c"
      using True Cons.prems(3) by (simp add: e k) metis
    ultimately show ?thesis
      using True same by (simp add: IH(2) st1)
  next
    case False
    then show ?thesis
      by (simp add: IH(2) st1 e k own)
  qed
  moreover have "bal (others ctx') =
      charged L d f (payers f (balance_of d ctx) (map snd (e # es))) (bal (others ctx))"
  proof -
    have "chain_addr L c \<notin> chain_addr L ` set ?ps"
      using fresh(2) by (auto simp: payers_def)
    then show ?thesis
      using charged_Cons [OF fresh(1)] by (simp add: IH(3) bal1 e payers_Cons pays_def)
  qed
  ultimately show ?case
    using step IH(1,4-6) fr1
    by (intro exI [of _ ctx'])
      (auto simp: e payers_Cons pays_def fun_eq_iff algebra_simps)
qed

lemma CollectFees_loop:
  assumes d: "valid_denom d" and f: "0 < f"
    and ok: "collectable L K registered f (entries (kvStore ctx))"
  defines "ps \<equiv> payers f (balance_of d ctx) (map snd (entries (kvStore ctx)))"
  obtains ctx' where
    "CollectFeesFromConsumers L K ctx (coin d f) = (ctx', Inr (coin d (f * int (length ps))))"
    and "stored ctx' = (\<lambda>k. map_option (\<lambda>c. bill f (balance_of d ctx c) c) (stored ctx k))"
    and "bal (others ctx') = charged L d f ps (bal (others ctx))"
    and "params (kvStore ctx') = params (kvStore ctx)"
    and "BlockHeight ctx' = BlockHeight ctx" and "Events ctx' = Events ctx"
proof -
  let ?es = "entries (kvStore ctx)"
  have "NewCoin L d (ZeroInt L) = Inr (coin d 0)"
    using NewCoin [OF d, of 0] by (simp add: ZeroInt)
  moreover obtain ctx' where
    "Walk (map Inr ?es) (\<lambda>c key v. collect_fee L K (coin d f) c v) (coin d 0, ctx) =
       ((coin d (f * int (length ps)), ctx'), Inr ())"
    and st: "stored ctx' = (\<lambda>k. if k \<in> fst ` set ?es
       then map_option (\<lambda>c. bill f (balance_of d ctx c) c) (stored ctx k) else stored ctx k)"
    and "bal (others ctx') = charged L d f ps (bal (others ctx))"
      "params (kvStore ctx') = params (kvStore ctx)" "BlockHeight ctx' = BlockHeight ctx"
      "Events ctx' = Events ctx"
    using collect_loop [OF d f, of ?es ctx 0] ok entries_distinct
    by (auto simp: ps_def collectable_def)
  moreover have "stored ctx' = (\<lambda>k. map_option (\<lambda>c. bill f (balance_of d ctx c) c) (stored ctx k))"
    using st by (auto simp: fun_eq_iff map_of_eq_None_iff [THEN iffD2])
  ultimately show thesis
    by (intro that [of ctx'])
      (simp_all add: CollectFeesFromConsumers_def IterateConsumerChains_def Chains_Walk_def
        Chains_Iterate)
qed

end

section \<open>The shares of the validators\<close>

definition shares :: "int \<Rightarrow> int list \<Rightarrow> int list" where
  "shares T ps = map (\<lambda>p. T * p div sum_list ps) ps"

lemma sum_list_div:
  fixes P :: int
  shows "P * (\<Sum>p\<leftarrow>ps. f p div P) + (\<Sum>p\<leftarrow>ps. f p mod P) = (\<Sum>p\<leftarrow>ps. f p)"
  by (induction ps) (simp_all add: algebra_simps)

lemma sum_list_mod_bounds:
  fixes P :: int
  assumes "0 < P"
  shows "0 \<le> (\<Sum>p\<leftarrow>ps. f p mod P)" and "(\<Sum>p\<leftarrow>ps. f p mod P) \<le> int (length ps) * (P - 1)"
proof (induction ps)
  case (Cons a ps)
  have "f a mod P \<le> P - 1" "0 \<le> f a mod P"
    using assms by (simp_all add: pos_mod_bound)
  with Cons show "0 \<le> (\<Sum>p\<leftarrow>a # ps. f p mod P)"
    and "(\<Sum>p\<leftarrow>a # ps. f p mod P) \<le> int (length (a # ps)) * (P - 1)"
    by (simp_all add: algebra_simps)
qed simp_all

lemma shares_account:
  assumes "0 < sum_list ps"
  shows "sum_list (shares T ps) \<le> T"
    and "T - sum_list (shares T ps) < int (length ps)"
proof -
  let ?P = "sum_list ps" and ?S = "sum_list (shares T ps)"
  define R where "R = (\<Sum>p\<leftarrow>ps. T * p mod ?P)"
  have "?P * ?S + R = T * ?P"
    using sum_list_div [of ?P "\<lambda>p. T * p" ps] by (simp add: shares_def R_def sum_list_const_mult)
  then have eq: "?P * (T - ?S) = R"
    by (simp add: algebra_simps)
  have R: "0 \<le> R" "R \<le> int (length ps) * (?P - 1)"
    using sum_list_mod_bounds [OF assms, of "\<lambda>p. T * p" ps] by (simp_all add: R_def)
  from eq R(1) assms have "0 \<le> T - ?S"
    by (metis linorder_not_le mult_pos_neg not_less_iff_gr_or_eq order_less_imp_le)
  then show "?S \<le> T"
    by simp
  have "ps \<noteq> []"
    using assms by auto
  then have "int (length ps) * (?P - 1) < ?P * int (length ps)"
    by (simp add: algebra_simps)
  with eq R(2) have "?P * (T - ?S) < ?P * int (length ps)"
    by linarith
  with assms show "T - ?S < int (length ps)"
    by simp
qed

lemma shares_nonneg:
  assumes "0 \<le> T" and "list_all (\<lambda>p. 0 \<le> p) ps" and "0 < sum_list ps"
  shows "list_all (\<lambda>s. 0 \<le> s) (shares T ps)"
  using assms by (auto simp: shares_def list_all_iff intro!: pos_imp_zdiv_nonneg_iff [THEN iffD2])

section \<open>The distribution loop\<close>

definition cons_power :: "sdk_lib \<Rightarrow> Validator \<Rightarrow> int" where
  "cons_power L v = sint (GetConsensusPower v (DefaultPowerReduction L))"

text \<open>The balances after the validators \<open>vs\<close> with addresses \<open>addr\<close> have been paid
  \<open>share\<close> each out of the fee collector's account.\<close>

definition paid_out ::
    "sdk_lib \<Rightarrow> string \<Rightarrow> ('v \<Rightarrow> bytes) \<Rightarrow> ('v \<Rightarrow> int) \<Rightarrow> 'v list \<Rightarrow> (bytes \<Rightarrow> string \<Rightarrow> int) \<Rightarrow>
     (bytes \<Rightarrow> string \<Rightarrow> int)" where
  "paid_out L d addr share vs b = (\<lambda>a e.
     if e = d
     then b a d + (\<Sum>v\<leftarrow>vs. if addr v = a then share v else 0)
          - (if a = collector_addr L then \<Sum>v\<leftarrow>vs. share v else 0)
     else b a e)"

text \<open>The account of a validator is its operator string, read by the account codec. \<open>payees\<close> are the
  validators before the first one whose operator string does not parse, with the result of the
  loop.\<close>

definition operator_account :: "('s, 'x, 'acc) Keeper \<Rightarrow> Validator \<Rightarrow> go_error + bytes" where
  "operator_account K v = StringToBytes (addressCodec K) (GetOperator v)"

definition operator_addr :: "('s, 'x, 'acc) Keeper \<Rightarrow> Validator \<Rightarrow> bytes" where
  "operator_addr K v = (case operator_account K v of Inl _ \<Rightarrow> '''' | Inr a \<Rightarrow> a)"

fun payees :: "('s, 'x, 'acc) Keeper \<Rightarrow> Validator list \<Rightarrow> Validator list \<times> (fault + unit)" where
  "payees K [] = ([], Inr ())"
| "payees K (v # vs) =
     (case operator_account K v of
        Inl e \<Rightarrow> ([], Inl (Fail (Wrap e ''failed to parse validator address: %w'' [])))
      | Inr _ \<Rightarrow> apfst ((#) v) (payees K vs))"

definition distribution ::
    "sdk_lib \<Rightarrow> ('s, 'x, 'acc) Keeper \<Rightarrow> Validator list \<Rightarrow> Validator list \<times> (fault + unit)" where
  "distribution L K vs =
     (if vs \<noteq> [] \<and> sum_list (map (cons_power L) vs) = 0
      then ([], Inl (Fail (Errorf ''total voting power is zero'' []))) else payees K vs)"

text \<open>The conditions on the bonded validators: an operator string that parses is no blocked account and not
  the collector's own; powers are non-negative, and the products stay within 256 bits.\<close>

definition distributable ::
    "sdk_lib \<Rightarrow> ('s, 'x, 'acc) Keeper \<Rightarrow> (bytes \<Rightarrow> bool) \<Rightarrow> int \<Rightarrow> Validator list \<Rightarrow> bool" where
  "distributable L K blocked T vs \<longleftrightarrow>
     list_all (\<lambda>v. 0 \<le> cons_power L v \<and> T * cons_power L v < 2 ^ 256 \<and>
       (case operator_account K v of Inl _ \<Rightarrow> True | Inr a \<Rightarrow> \<not> blocked a \<and> a \<noteq> collector_addr L)) vs \<and>
     sum_list (map (cons_power L) vs) < 2 ^ 256"

lemma payees_subset: "set (fst (payees K vs)) \<subseteq> set vs"
  by (induction vs) (auto split: sum.split)

lemma payees_parse: "v \<in> set (fst (payees K vs)) \<Longrightarrow> operator_account K v = Inr (operator_addr K v)"
  by (induction vs) (auto simp: operator_addr_def split: sum.splits)

lemma payees_all: "snd (payees K vs) = Inr u \<Longrightarrow> fst (payees K vs) = vs"
  by (induction vs) (auto split: sum.splits)

text \<open>With the codec of the SDK no operator string parses: nobody is paid, and every distribution to some
  validator fails.\<close>

lemma payees_refused:
  "list_all (\<lambda>v. isl (operator_account K v)) vs \<Longrightarrow> fst (payees K vs) = [] \<and> (isl (snd (payees K vs)) \<longleftrightarrow> vs \<noteq> [])"
  by (cases vs) (auto simp: isl_def)

lemma payees_sum:
  assumes "\<And>v. v \<in> set vs \<Longrightarrow> 0 \<le> g v"
  shows "(\<Sum>v\<leftarrow>fst (payees K vs). g v) \<le> (\<Sum>v\<leftarrow>vs. g v :: int)"
  using assms
proof (induction vs)
  case (Cons v vs)
  moreover from Cons.prems have "\<forall>x \<in> set (map g vs). 0 \<le> x" "0 \<le> g v"
    by simp_all
  moreover from this(1) have "0 \<le> (\<Sum>v\<leftarrow>vs. g v)"
    by (intro sum_list_nonneg) blast
  ultimately show ?case
    by (cases "operator_account K v") simp_all
qed simp

lemma paid_out_Nil [simp]: "paid_out L d addr share [] b = b"
  by (simp add: paid_out_def fun_eq_iff)

lemma paid_out_Cons:
  assumes "addr v \<noteq> collector_addr L"
  shows "paid_out L d addr share vs (transfer b (collector_addr L) (addr v) d (share v)) =
     paid_out L d addr share (v # vs) b"
  using assms by (auto simp: paid_out_def transfer_apply fun_eq_iff)

lemma paid_out_Cons_zero:
  "share v = 0 \<Longrightarrow> paid_out L d addr share (v # vs) b = paid_out L d addr share vs b"
  by (auto simp: paid_out_def fun_eq_iff)

lemma payees_ok_iff: "\<not> isl (snd (payees K vs)) \<longleftrightarrow> list_all (\<lambda>v. \<not> isl (operator_account K v)) vs"
  by (induction vs) (auto split: sum.split)

lemma distribution_sums:
  assumes "0 \<le> T" and "distributable L K blocked T vs"
  defines "share \<equiv> \<lambda>v. T * cons_power L v div sum_list (map (cons_power L) vs)"
    and "paid \<equiv> fst (distribution L K vs)"
  shows "(\<not> isl (snd (distribution L K vs)) \<longleftrightarrow>
        vs = [] \<or> sum_list (map (cons_power L) vs) \<noteq> 0 \<and> list_all (\<lambda>v. \<not> isl (operator_account K v)) vs) \<and>
     (\<Sum>v\<leftarrow>paid. share v) \<le> T \<and>
     (\<not> isl (snd (distribution L K vs)) \<and> vs \<noteq> [] \<longrightarrow> paid = vs \<and> T - (\<Sum>v\<leftarrow>paid. share v) < int (length vs))"
proof -
  let ?P = "sum_list (map (cons_power L) vs)"
  have power: "\<And>v. v \<in> set vs \<Longrightarrow> 0 \<le> cons_power L v"
    using assms(2) by (simp add: distributable_def list_all_iff)
  then have "0 \<le> ?P"
    by (intro sum_list_nonneg) auto
  then consider "vs = []" | "vs \<noteq> []" "?P = 0" | "vs \<noteq> []" "0 < ?P"
    by fastforce
  then show ?thesis
  proof cases
    case 3
    have pos: "\<And>v. v \<in> set vs \<Longrightarrow> 0 \<le> share v"
      using assms(1) power 3(2) by (simp add: share_def pos_imp_zdiv_nonneg_iff)
    have all: "(\<Sum>v\<leftarrow>vs. share v) = sum_list (shares T (map (cons_power L) vs))"
      by (simp add: shares_def share_def comp_def)
    have paid: "paid = fst (payees K vs)" "snd (distribution L K vs) = snd (payees K vs)"
      using 3 by (simp_all add: paid_def distribution_def)
    have "paid = vs" if "\<not> isl (snd (payees K vs))"
      using that payees_all [of K vs "()"] by (cases "snd (payees K vs)") (simp_all add: paid)
    then show ?thesis
      using payees_sum [of vs share K, OF pos] shares_account [OF 3(2), of T] all payees_ok_iff [of K vs] 3
      by (auto simp: paid)
  qed (use assms(1) in \<open>simp_all add: distribution_def paid_def share_def\<close>)
qed

context provider_env
begin

lemma val_power_eq: "val_power L v = MkInt (cons_power L v)"
  by (simp add: val_power_def cons_power_def NewInt)

lemma total_power_ok:
  assumes "list_all (\<lambda>v. 0 \<le> cons_power L v) vs" and "0 \<le> t"
    and "t + sum_list (map (cons_power L) vs) < 2 ^ 256"
  shows "total_power L (MkInt t) vs = Inr (MkInt (t + sum_list (map (cons_power L) vs)))"
  using assms
proof (induction vs arbitrary: t)
  case (Cons v vs)
  have "0 \<le> sum_list (map (cons_power L) vs)"
    using Cons.prems(1) by (intro sum_list_nonneg) (auto simp: list_all_iff)
  then have "Int_Add L (MkInt t) (MkInt (cons_power L v)) = Inr (MkInt (t + cons_power L v))"
    using Cons.prems by (intro Int_Add) simp
  with Cons show ?case
    by (simp add: val_power_eq)
qed simp

lemma send_share_ok:
  assumes d: "valid_denom d" and T: "0 \<le> T"
    and v: "StringToBytes (addressCodec K) (GetOperator v) = Inr (addr v)" "\<not> blocked (addr v)"
      "0 \<le> cons_power L v" "T * cons_power L v < 2 ^ 256"
    and P: "0 < P" and col: "registered ''fee_collector''"
    and funds: "T * cons_power L v div P \<le> bal (others ctx) (collector_addr L) d"
  defines "share \<equiv> T * cons_power L v div P"
  obtains x where "send_share L K (coin d T) (MkInt P) ctx v = (ctx\<lparr>others := x\<rparr>, Inr ())"
    and "bal x = (if share = 0 then bal (others ctx)
                  else transfer (bal (others ctx)) (collector_addr L) (addr v) d share)"
proof -
  have "0 \<le> T * cons_power L v"
    using T v(3) by simp
  then have mul: "Int_Mul L (MkInt T) (MkInt (cons_power L v)) = Inr (MkInt (T * cons_power L v))"
    and quo: "Int_Quo L (MkInt (T * cons_power L v)) (MkInt P) = Inr (MkInt share)"
    and "0 \<le> share"
    using v(4) P by (simp_all add: Int_Mul Int_Quo share_def pos_imp_zdiv_nonneg_iff)
  show thesis
  proof (cases "share = 0")
    case True
    then show ?thesis
      using v(1) mul quo
      by (intro that [of "others ctx"]) (simp_all add: send_share_def val_power_eq Int_IsZero)
  next
    case False
    with \<open>0 \<le> share\<close> have pos: "0 < share"
      by simp
    have "share \<le> bal (others ctx) (collector_addr L) d"
      using funds by (simp add: share_def)
    note sent = ModuleToAccount [OF col v(2) pos this]
    obtain x r where x: "SendCoinsFromModuleToAccount (bankKeeper K) (others ctx) ''fee_collector''
        (addr v) [coin d share] = (x, r)"
      by fastforce
    with sent have "r = Inr ()" "bal x = transfer (bal (others ctx)) (collector_addr L) (addr v) d share"
      by simp_all
    with False x v(1) mul quo NewCoin [OF d \<open>0 \<le> share\<close>] NewCoins [OF d pos] show ?thesis
      by (intro that [of x]) (simp_all add: send_share_def val_power_eq Int_IsZero)
  qed
qed

lemma send_shares_run:
  assumes d: "valid_denom d" and T: "0 \<le> T" and P: "0 < P" and col: "registered ''fee_collector''"
    and "distributable L K blocked T vs"
    and "(\<Sum>v\<leftarrow>vs. T * cons_power L v div P) \<le> bal (others ctx) (collector_addr L) d"
  shows "\<exists>x. send_shares L K (coin d T) (MkInt P) ctx vs = (ctx\<lparr>others := x\<rparr>, snd (payees K vs)) \<and>
     bal x = paid_out L d (operator_addr K) (\<lambda>v. T * cons_power L v div P) (fst (payees K vs)) (bal (others ctx))"
  using assms(5,6)
proof (induction vs arbitrary: ctx)
  case Nil
  show ?case by (intro exI [of _ "others ctx"]) simp
next
  case (Cons v vs)
  let ?share = "\<lambda>v. T * cons_power L v div P" and ?addr = "operator_addr K"
  show ?case
  proof (cases "operator_account K v")
    case (Inl e)
    then show ?thesis
      by (intro exI [of _ "others ctx"]) (simp add: send_share_def operator_account_def)
  next
    case (Inr a)
    then have v: "StringToBytes (addressCodec K) (GetOperator v) = Inr (?addr v)" "\<not> blocked (?addr v)"
        "0 \<le> cons_power L v" "T * cons_power L v < 2 ^ 256" "?addr v \<noteq> collector_addr L"
      using Cons.prems(1) by (simp_all add: distributable_def operator_addr_def operator_account_def)
    have power: "0 \<le> sum_list (map (cons_power L) vs)"
      using Cons.prems(1) by (intro sum_list_nonneg) (auto simp: distributable_def list_all_iff)
    then have rest: "distributable L K blocked T vs"
      using Cons.prems(1) v(3) by (simp add: distributable_def)
    have "0 \<le> (\<Sum>v\<leftarrow>vs. ?share v)"
      using rest T P
      by (intro sum_list_nonneg) (auto simp: distributable_def list_all_iff pos_imp_zdiv_nonneg_iff)
    with Cons.prems(2) have funds: "?share v \<le> bal (others ctx) (collector_addr L) d"
      by simp
    obtain x where x: "send_share L K (coin d T) (MkInt P) ctx v = (ctx\<lparr>others := x\<rparr>, Inr ())"
      and bx: "bal x = (if ?share v = 0 then bal (others ctx)
         else transfer (bal (others ctx)) (collector_addr L) (?addr v) d (?share v))"
      by (rule send_share_ok [where addr = ?addr, OF d T v(1-4) P col funds]) blast
    have "bal x (collector_addr L) d = bal (others ctx) (collector_addr L) d - ?share v"
      using v(5) by (auto simp: bx transfer_apply)
    with rest Cons.prems(2) obtain y where
        "send_shares L K (coin d T) (MkInt P) (ctx\<lparr>others := x\<rparr>) vs = (ctx\<lparr>others := y\<rparr>, snd (payees K vs))"
        "bal y = paid_out L d ?addr ?share (fst (payees K vs)) (bal x)"
      using Cons.IH [of "ctx\<lparr>others := x\<rparr>"] by auto
    moreover have "paid_out L d ?addr ?share us (bal x) = paid_out L d ?addr ?share (v # us) (bal (others ctx))" for us
      using v(5) paid_out_Cons [where share = ?share] by (simp add: bx paid_out_Cons_zero)
    ultimately show ?thesis
      using x Inr by (intro exI [of _ y]) simp
  qed
qed

lemma distributable_power:
  "distributable L K blocked T vs \<Longrightarrow> 0 \<le> sum_list (map (cons_power L) vs)"
  by (intro sum_list_nonneg) (auto simp: distributable_def list_all_iff)

lemma DistributeFees_run:
  assumes d: "valid_denom d" and T: "0 \<le> T" and col: "registered ''fee_collector''"
    and vs: "GetBondedValidatorsByPower (stakingKeeper K) (others ctx) = Inr vs"
    and ok: "distributable L K blocked T vs"
    and funds: "T \<le> bal (others ctx) (collector_addr L) d"
  obtains x where "DistributeFeesToValidators L K ctx (coin d T) = (ctx\<lparr>others := x\<rparr>, snd (distribution L K vs))"
    and "bal x = paid_out L d (operator_addr K)
       (\<lambda>v. T * cons_power L v div sum_list (map (cons_power L) vs)) (fst (distribution L K vs)) (bal (others ctx))"
proof -
  let ?P = "sum_list (map (cons_power L) vs)"
  have total: "total_power L (ZeroInt L) vs = Inr (MkInt ?P)"
    using total_power_ok [of vs 0] ok by (simp add: ZeroInt distributable_def list_all_iff)
  consider "vs = []" | "vs \<noteq> []" "?P = 0" | "vs \<noteq> []" "0 < ?P"
    using distributable_power [OF ok] by fastforce
  then show thesis
  proof cases
    case 3
    have "(\<Sum>v\<leftarrow>vs. T * cons_power L v div ?P) = sum_list (shares T (map (cons_power L) vs))"
      by (simp add: shares_def comp_def)
    then have "(\<Sum>v\<leftarrow>vs. T * cons_power L v div ?P) \<le> bal (others ctx) (collector_addr L) d"
      using shares_account(1) [OF 3(2), of T] funds by simp
    note send_shares_run [OF d T 3(2) col ok this]
    then show thesis
      using that vs total 3 by (auto simp: DistributeFeesToValidators_def Int_IsZero distribution_def)
  qed (use that [of "others ctx"] vs total in
      \<open>simp_all add: DistributeFeesToValidators_def distribution_def Int_IsZero\<close>)
qed

text \<open>The loop over a list whose front succeeds continues with the rest.\<close>

lemma Walk_append:
  "Walk (map Inr pre) cb c = (c', Inr ()) \<Longrightarrow> (\<And>c k v. snd (cb c k v) \<noteq> Inr True) \<Longrightarrow>
     Walk (map Inr pre @ rest) cb c = Walk rest cb c'"
proof (induction pre arbitrary: c)
  case (Cons e pre)
  obtain k v where e: "e = (k, v)"
    by fastforce
  obtain c1 r where r: "cb c k v = (c1, r)"
    by fastforce
  with Cons.prems(2) [of c k v] Cons.prems(1) have "r = Inr False"
    by (cases r) (auto simp: e)
  with Cons.prems Cons.IH [of c1] show ?case
    by (simp add: e r)
qed simp

lemma collect_fee_never_stops: "snd (collect_fee L' K' fee st c) \<noteq> Inr True"
  by (auto simp: collect_fee_def Let_def split: prod.splits sum.splits bool.splits)

lemma collect_stuck:
  assumes d: "valid_denom d" and f: "0 < f"
    and es: "entries (kvStore ctx) = pre @ (k, c) # post"
    and pre: "collectable L K registered f pre"
    and c: "entry_ok L K (k, c)" "billable c" "f \<le> balance_of d ctx c"
    and fresh: "chain_addr L c \<notin> set (collector_addr L # map (chain_addr L) (map snd pre))"
    and unknown: "\<not> registered (GetConsumerModuleAccountName (ChainId c))"
  shows "\<exists>ctx' msg. CollectFeesFromConsumers L K ctx (coin d f) = (ctx', Inl (Panic msg))"
proof -
  let ?cb = "\<lambda>c key v. collect_fee L K (coin d f) c v"
  have dis: "distinct (map fst pre)" "k \<notin> fst ` set pre"
    using entries_distinct [of "kvStore ctx"] by (simp_all add: es)
  have "map_of pre \<subseteq>\<^sub>m stored ctx"
    by (auto simp: map_le_def es map_add_def dest: map_of_SomeD split: option.splits)
  with dis pre obtain ctx1 t where w:
      "Walk (map Inr pre) ?cb (coin d 0, ctx) = ((coin d t, ctx1), Inr ())"
    and b: "bal (others ctx1) = charged L d f (payers f (balance_of d ctx) (map snd pre)) (bal (others ctx))"
    using collect_loop [OF d f, of pre ctx 0] by (auto simp: collectable_def)
  have "chain_addr L c \<notin> chain_addr L ` set (payers f (balance_of d ctx) (map snd pre))"
    using fresh by (auto simp: payers_def)
  with fresh b have own: "balance_of d ctx1 c = balance_of d ctx c"
    by (simp add: charged_def)
  have addr: "StringToBytes (addressCodec K) (ModuleAccountAddress c) = Inr (chain_addr L c)"
    using c(1) by (simp add: entry_ok_def)
  obtain msg where panic: "SendCoinsFromModuleToModule (bankKeeper K) (others ctx1)
      (GetConsumerModuleAccountName (ChainId c)) ''fee_collector'' [coin d f] = (others ctx1, Inl (Panic msg))"
    using ModuleToModule_unregistered [OF unknown] by blast
  have step: "collect_fee L K (coin d f) (coin d t, ctx1) c = ((coin d t, ctx1), Inl (Panic msg))"
    using c(2,3) own addr panic NewCoins [OF d f]
    by (auto simp: collect_fee_def billable_def GetBalance Coin_IsLT)
  have "Walk (map Inr (entries (kvStore ctx))) ?cb (coin d 0, ctx) = ((coin d t, ctx1), Inl (Panic msg))"
    using Walk_append [OF w collect_fee_never_stops, of "map Inr ((k, c) # post)"] step by (simp add: es)
  moreover have "NewCoin L d (ZeroInt L) = Inr (coin d 0)"
    using NewCoin [OF d, of 0] by (simp add: ZeroInt)
  ultimately show ?thesis
    by (simp add: CollectFeesFromConsumers_def IterateConsumerChains_def Chains_Walk_def Chains_Iterate)
qed

end

section \<open>Properties\<close>

text \<open>C12: Under the contracts of the SDK's keepers, CollectFeesFromConsumers charges every active
  or overdue chain whose module account holds the fee exactly once and makes it active,
  makes every active or overdue chain that does not hold it overdue, leaves every other chain
  alone, credits the fee collector with the total and returns that total.\<close>

theorem CollectFees_correct:
  assumes "provider_env L valid_denom K entries params bal registered blocked"
    and "valid_denom d" and "0 < f"
    and "collectable L K registered f (entries (kvStore ctx))"
  defines "balance \<equiv> \<lambda>c. bal (others ctx) (chain_addr L c) d"
  defines "paying \<equiv> payers f balance (map snd (entries (kvStore ctx)))"
  shows "\<exists>ctx'. CollectFeesFromConsumers L K ctx (coin d f) =
       (ctx', Inr (coin d (f * int (length paying)))) \<and>
     map_of (entries (kvStore ctx')) =
       (\<lambda>k. map_option (\<lambda>c. bill f (balance c) c) (map_of (entries (kvStore ctx)) k)) \<and>
     bal (others ctx') = charged L d f paying (bal (others ctx)) \<and>
     params (kvStore ctx') = params (kvStore ctx)"
  unfolding balance_def paying_def
  by (rule provider_env.CollectFees_loop [OF assms(1-4)]) blast

text \<open>C13: DistributeFeesToValidators pays the bonded validators, in their order and up to the first one whose
  operator string the account codec does not parse, floor(total * power / total power) each out of the
  fee collector; nothing else changes. It returns no error exactly when there is no validator, or the
  total power is not zero and every operator string parses; otherwise it returns the error of the total power, or that of the first string that
  does not parse. What is paid is at most the total, and when everybody is paid what stays with the
  collector is less than one unit per validator. When no operator string parses, which is what the account codec of
  the SDK does with the prefix of validator operators, nobody is ever paid.\<close>

theorem DistributeFees_correct:
  assumes "provider_env L valid_denom K entries params bal registered blocked"
    and "valid_denom d" and "0 \<le> T" and "registered ''fee_collector''"
    and "GetBondedValidatorsByPower (stakingKeeper K) (others ctx) = Inr vs"
    and "distributable L K blocked T vs"
    and "T \<le> bal (others ctx) (collector_addr L) d"
  defines "share \<equiv> \<lambda>v. T * cons_power L v div sum_list (map (cons_power L) vs)"
    and "paid \<equiv> fst (distribution L K vs)"
  shows "\<exists>x. DistributeFeesToValidators L K ctx (coin d T) = (ctx\<lparr>others := x\<rparr>, snd (distribution L K vs)) \<and>
     bal x = paid_out L d (operator_addr K) share paid (bal (others ctx)) \<and>
     (\<not> isl (snd (distribution L K vs)) \<longleftrightarrow>
        vs = [] \<or> sum_list (map (cons_power L) vs) \<noteq> 0 \<and> list_all (\<lambda>v. \<not> isl (operator_account K v)) vs) \<and>
     (\<Sum>v\<leftarrow>paid. share v) \<le> T \<and>
     (\<not> isl (snd (distribution L K vs)) \<and> vs \<noteq> [] \<longrightarrow> paid = vs \<and> T - (\<Sum>v\<leftarrow>paid. share v) < int (length vs)) \<and>
     (list_all (\<lambda>v. isl (operator_account K v)) vs \<longrightarrow> bal x = bal (others ctx))"
proof -
  obtain x where x: "DistributeFeesToValidators L K ctx (coin d T) = (ctx\<lparr>others := x\<rparr>, snd (distribution L K vs))"
    "bal x = paid_out L d (operator_addr K) share paid (bal (others ctx))"
    unfolding share_def paid_def by (rule provider_env.DistributeFees_run [OF assms(1-7)]) blast
  have "list_all (\<lambda>v. isl (operator_account K v)) vs \<Longrightarrow> paid = []"
    using payees_refused [of K vs] by (simp add: paid_def distribution_def)
  then have none: "list_all (\<lambda>v. isl (operator_account K v)) vs \<Longrightarrow> bal x = bal (others ctx)"
    by (simp add: x(2))
  show ?thesis
    using x none distribution_sums [OF assms(3,6)] unfolding share_def paid_def by blast
qed

text \<open>If every entry before some chain can be collected, that chain owes a fee and holds it,
  and the bank knows no module account of its name, then CollectFeesFromConsumers panics.\<close>

theorem CollectFees_unregistered_panics:
  assumes "provider_env L valid_denom K entries params bal registered blocked"
    and "valid_denom d" and "0 < f"
    and "entries (kvStore ctx) = pre @ (k, c) # post"
    and "collectable L K registered f pre"
    and "entry_ok L K (k, c)" and "billable c" and "f \<le> bal (others ctx) (chain_addr L c) d"
    and "chain_addr L c \<notin> set (collector_addr L # map (chain_addr L) (map snd pre))"
    and "\<not> registered (GetConsumerModuleAccountName (ChainId c))"
  shows "\<exists>ctx' msg. CollectFeesFromConsumers L K ctx (coin d f) = (ctx', Inl (Panic msg))"
  by (rule provider_env.collect_stuck [OF assms])

section \<open>A concrete block\<close>

text \<open>Three chains: one that can pay, one that cannot, one that is not active yet; two
  validators with 1 and 2 of 3 units of power.\<close>

definition demo_chain :: "string \<Rightarrow> ConsumerStatus \<Rightarrow> ConsumerChain" where
  "demo_chain n st = \<lparr>ChainId = n, Name = n, Version = ''v1'', Status = st, AddedAt = 5,
     SunsetAt = 0, ModuleAccountAddress = ''atoneaddr:consumer_'' @ n\<rparr>"

definition demo_validator :: "string \<Rightarrow> int64 \<Rightarrow> Validator" where
  "demo_validator n w = \<lparr>GetOperator = ''atone'' @ n, GetConsensusPower = (\<lambda>_. w)\<rparr>"

definition demo_ctx :: "(ref_store, ref_world) Context" where
  "demo_ctx =
     \<lparr>kvStore = \<lparr>rs_params = Some \<lparr>FeesPerBlock = coin ''photon'' 10, DowntimeSlashingWindow = 10\<rparr>,
        rs_chains = fmupd ''c'' (demo_chain ''c'' CONSUMER_STATUS_PENDING)
          (fmupd ''b'' (demo_chain ''b'' CONSUMER_STATUS_ACTIVE)
            (fmupd ''a'' (demo_chain ''a'' CONSUMER_STATUS_OVERDUE) fmempty))\<rparr>,
      others = \<lparr>rw_bal = (\<lambda>a d. if a = ''addr:consumer_a'' then 25
                     else if a = ''addr:fee_collector'' then 10 else 3),
        rw_accounts = [],
        rw_validators = [demo_validator ''v'' 1, demo_validator ''w'' 2]\<rparr>,
      BlockHeight = 7, Events = []\<rparr>"

lemma demo_entries: "ref_entries (kvStore demo_ctx) =
    [(''a'', demo_chain ''a'' CONSUMER_STATUS_OVERDUE), (''b'', demo_chain ''b'' CONSUMER_STATUS_ACTIVE),
     (''c'', demo_chain ''c'' CONSUMER_STATUS_PENDING)]"
  by (simp add: ref_entries_def demo_ctx_def go_simps)

lemmas demo_defs = demo_chain_def entry_ok_def chain_addr_def GetConsumerModuleAccountName_def
  ConsumerModuleAccountPrefix_def billable_def status_pred_defs status_defs ref_defs

lemma demo_collectable:
  "collectable ref_sdk (ref_keeper (\<lambda>m. m \<noteq> ''consumer_c'') (\<lambda>_. False)) (\<lambda>m. m \<noteq> ''consumer_c'') 10
     (ref_entries (kvStore demo_ctx))"
  by (simp add: demo_entries collectable_def demo_defs)

abbreviation demo_keeper :: "(ref_store, ref_world, bytes) Keeper" where
  "demo_keeper \<equiv> ref_keeper (\<lambda>m. m \<noteq> ''consumer_c'') (\<lambda>_. False)"

theorem CollectFees_correct_witness:
  "\<exists>ctx'. CollectFeesFromConsumers ref_sdk demo_keeper demo_ctx (coin ''photon'' 10) =
       (ctx', Inr (coin ''photon'' 10)) \<and>
     map_option Status (map_of (ref_entries (kvStore ctx')) ''b'') = Some CONSUMER_STATUS_OVERDUE \<and>
     ref_bal (others ctx') ''addr:fee_collector'' ''photon'' = 20 \<and>
     ref_bal (others ctx') ''addr:consumer_a'' ''photon'' = 15"
proof -
  have ok: "''photon'' \<noteq> ([] :: string)" "0 < (10 :: int)"
    by simp_all
  let ?b = "\<lambda>c. ref_bal (others demo_ctx) (chain_addr ref_sdk c) ''photon''"
  have ps: "payers 10 ?b (map snd (ref_entries (kvStore demo_ctx))) = [demo_chain ''a'' CONSUMER_STATUS_OVERDUE]"
    unfolding demo_entries by (simp add: payers_def demo_defs demo_ctx_def ref_bal_def)
  obtain ctx' where ctx':
    "CollectFeesFromConsumers ref_sdk demo_keeper demo_ctx (coin ''photon'' 10) =
       (ctx', Inr (coin ''photon'' 10))"
    "map_of (ref_entries (kvStore ctx')) =
       (\<lambda>k. map_option (\<lambda>c. bill 10 (?b c) c) (map_of (ref_entries (kvStore demo_ctx)) k))"
    "ref_bal (others ctx') = charged ref_sdk ''photon'' 10
       [demo_chain ''a'' CONSUMER_STATUS_OVERDUE] (ref_bal (others demo_ctx))"
    using CollectFees_correct [OF env_ref.provider_env_axioms ok demo_collectable] unfolding ps by auto
  have "map_option Status (map_of (ref_entries (kvStore ctx')) ''b'') = Some CONSUMER_STATUS_OVERDUE"
    unfolding ctx'(2) demo_entries
    by (simp add: bill_def demo_defs demo_ctx_def ref_bal_def)
  moreover have "ref_bal (others ctx') ''addr:fee_collector'' ''photon'' = 20"
      "ref_bal (others ctx') ''addr:consumer_a'' ''photon'' = 15"
    unfolding ctx'(3) by (simp_all add: charged_def demo_defs demo_ctx_def ref_bal_def)
  ultimately show ?thesis
    using ctx'(1) by blast
qed

text \<open>The same block with the validators \<open>vs\<close>. The operator strings of \<open>demo_validator\<close> parse; that of
  \<open>valoper_validator\<close> has another prefix and does not.\<close>

definition demo_ctx_with :: "Validator list \<Rightarrow> (ref_store, ref_world) Context" where
  "demo_ctx_with vs = demo_ctx\<lparr>others := (others demo_ctx)\<lparr>rw_validators := vs\<rparr>\<rparr>"

definition valoper_validator :: Validator where
  "valoper_validator = \<lparr>GetOperator = ''valoperv'', GetConsensusPower = (\<lambda>_. 1)\<rparr>"

lemma demo_ctx_with_simps [simp]:
  "kvStore (demo_ctx_with vs) = kvStore demo_ctx" "ref_bal (others (demo_ctx_with vs)) = ref_bal (others demo_ctx)"
  "rw_validators (others (demo_ctx_with vs)) = vs"
  by (simp_all add: demo_ctx_with_def ref_bal_def fun_eq_iff)

lemmas payees_defs = distribution_def distributable_def operator_account_def operator_addr_def
  valoper_validator_def demo_validator_def cons_power_def

theorem DistributeFees_correct_witness:
  "(\<exists>x. DistributeFeesToValidators ref_sdk demo_keeper (demo_ctx_with [demo_validator ''v'' 1, demo_validator ''w'' 2])
        (coin ''photon'' 10) = ((demo_ctx_with [demo_validator ''v'' 1, demo_validator ''w'' 2])\<lparr>others := x\<rparr>, Inr ()) \<and>
     ref_bal x ''v'' ''photon'' = 6 \<and> ref_bal x ''w'' ''photon'' = 9 \<and>
     ref_bal x ''addr:fee_collector'' ''photon'' = 1) \<and>
   (\<exists>x. DistributeFeesToValidators ref_sdk demo_keeper (demo_ctx_with [valoper_validator]) (coin ''photon'' 10) =
       ((demo_ctx_with [valoper_validator])\<lparr>others := x\<rparr>,
        Inl (Fail (Wrap (External ''decoding bech32 failed'') ''failed to parse validator address: %w'' []))) \<and>
     ref_bal x = ref_bal (others demo_ctx))"
proof -
  have vs: "GetBondedValidatorsByPower (stakingKeeper demo_keeper) (others (demo_ctx_with vs)) = Inr vs" for vs
    by (simp add: ref_defs)
  have funds: "10 \<le> ref_bal (others (demo_ctx_with vs)) (collector_addr ref_sdk) ''photon''" for vs
    by (simp add: ref_bal_def demo_ctx_def ref_defs)
  let ?vs = "[demo_validator ''v'' 1, demo_validator ''w'' 2]"
  have dist: "distributable ref_sdk demo_keeper (\<lambda>_. False) 10 ?vs"
    "distributable ref_sdk demo_keeper (\<lambda>_. False) 10 [valoper_validator]"
    by (simp_all add: payees_defs ref_defs)
  have ends: "distribution ref_sdk demo_keeper ?vs = (?vs, Inr ())"
    "distribution ref_sdk demo_keeper [valoper_validator] = ([],
       Inl (Fail (Wrap (External ''decoding bech32 failed'') ''failed to parse validator address: %w'' [])))"
    by (simp_all add: payees_defs ref_defs)
  note run = DistributeFees_correct [OF env_ref.provider_env_axioms _ _ _ vs _ funds]
  obtain x where
    "DistributeFeesToValidators ref_sdk demo_keeper (demo_ctx_with ?vs) (coin ''photon'' 10) =
       ((demo_ctx_with ?vs)\<lparr>others := x\<rparr>, Inr ())"
    "ref_bal x = paid_out ref_sdk ''photon'' (operator_addr demo_keeper)
       (\<lambda>v. 10 * cons_power ref_sdk v div sum_list (map (cons_power ref_sdk) ?vs)) ?vs
       (ref_bal (others demo_ctx))"
    using run [OF _ _ _ dist(1)] unfolding ends by auto
  then have "\<exists>x. DistributeFeesToValidators ref_sdk demo_keeper (demo_ctx_with ?vs) (coin ''photon'' 10) =
       ((demo_ctx_with ?vs)\<lparr>others := x\<rparr>, Inr ()) \<and>
     ref_bal x ''v'' ''photon'' = 6 \<and> ref_bal x ''w'' ''photon'' = 9 \<and> ref_bal x ''addr:fee_collector'' ''photon'' = 1"
    by (intro exI [of _ x]) (simp add: paid_out_def payees_defs ref_defs ref_bal_def demo_ctx_def)
  moreover have "\<exists>x. DistributeFeesToValidators ref_sdk demo_keeper (demo_ctx_with [valoper_validator]) (coin ''photon'' 10) =
       ((demo_ctx_with [valoper_validator])\<lparr>others := x\<rparr>,
        Inl (Fail (Wrap (External ''decoding bech32 failed'') ''failed to parse validator address: %w'' []))) \<and>
     ref_bal x = ref_bal (others demo_ctx)"
    using run [OF _ _ _ dist(2)] unfolding ends by auto
  ultimately show ?thesis ..
qed

theorem CollectFees_unregistered_panics_witness:
  "\<exists>ctx' msg. CollectFeesFromConsumers ref_sdk (ref_keeper (\<lambda>m. m = ''fee_collector'') (\<lambda>_. False))
     demo_ctx (coin ''photon'' 10) = (ctx', Inl (Panic msg))"
proof (rule CollectFees_unregistered_panics [OF env_ref.provider_env_axioms, where pre = "[]"])
  show "ref_entries (kvStore demo_ctx) = [] @ (''a'', demo_chain ''a'' CONSUMER_STATUS_OVERDUE) #
      [(''b'', demo_chain ''b'' CONSUMER_STATUS_ACTIVE), (''c'', demo_chain ''c'' CONSUMER_STATUS_PENDING)]"
    by (simp add: demo_entries)
qed (simp_all add: collectable_def demo_defs demo_ctx_def ref_bal_def)

end
