(* ===== verification/MsgServer.thy ===== *)
theory MsgServer
  imports Fees
begin

text \<open>
  modules/provider/keeper/msg_server.go: the four messages of the provider module, each with
  its authority check, its guards in the order of the code, its write and its event.

  The lemmas give each handler's success condition and effect exactly, from which
  \<open>ProviderMachine\<close> takes its invariants. A handler that fails has written nothing, except
  \<open>AddConsumer\<close>, which can create the module account before it fails.
\<close>

section \<open>Messages\<close>

record MsgUpdateParams =
  UP_Authority :: string
  UP_Params :: Params

record MsgAddConsumer =
  AC_Authority :: string
  AC_ChainId :: string
  AC_Name :: string
  AC_Version :: string
  AC_BlockHeight :: int64

record MsgAddConsumerResponse =
  AR_ModuleAccountAddress :: string

record MsgSunsetConsumer =
  SC_Authority :: string
  SC_ChainId :: string
  SC_BlockHeight :: int64

record MsgUpgradeConsumer =
  UC_Authority :: string
  UC_ChainId :: string
  UC_Version :: string
  UC_BlockHeight :: int64

section \<open>Handlers\<close>

text \<open>The check every handler starts with.\<close>

definition check_authority :: "('s, 'x, 'acc) Keeper \<Rightarrow> string \<Rightarrow> go_error + unit" where
  "check_authority k req_Authority =
     (case StringToBytes (addressCodec k) req_Authority of
        Inl e \<Rightarrow> Inl (Wrap e ''invalid authority address'' [])
      | Inr auth \<Rightarrow>
          if GetAuthority k \<noteq> auth
          then let expectedAuthorityStr = (case BytesToString (addressCodec k) (GetAuthority k) of
                     Inl _ \<Rightarrow> '''' | Inr s \<Rightarrow> s)
               in Inl (Wrap ErrInvalidSigner ''invalid authority; expected %s, got %s''
                    [ArgS expectedAuthorityStr, ArgS req_Authority])
          else Inr ())"

definition EmitEvent :: "('s, 'x) Context \<Rightarrow> Event \<Rightarrow> ('s, 'x) Context" where
  "EmitEvent ctx ev = ctx\<lparr>Events := Events ctx @ [ev]\<rparr>"

definition UpdateParams ::
    "sdk_lib \<Rightarrow> ('s, 'x, 'acc) Keeper \<Rightarrow> ('s, 'x) Context \<Rightarrow> MsgUpdateParams \<Rightarrow>
     ('s, 'x) Context \<times> (fault + unit)" where
  "UpdateParams L k ctx req =
     (case check_authority k (UP_Authority req) of
        Inl e \<Rightarrow> (ctx, Inl (Fail e))
      | Inr _ \<Rightarrow>
          (case Params_Validate L (UP_Params req) of
             Inl e \<Rightarrow> (ctx, Inl e)
           | Inr _ \<Rightarrow>
               (case Params_Set (collections k) (kvStore ctx) (UP_Params req) of
                  (s, Inl e) \<Rightarrow> (ctx\<lparr>kvStore := s\<rparr>, Inl (Fail e))
                | (s, Inr _) \<Rightarrow> (ctx\<lparr>kvStore := s\<rparr>, Inr ()))))"

definition AddConsumer ::
    "sdk_lib \<Rightarrow> ('s, 'x, 'acc) Keeper \<Rightarrow> ('s, 'x) Context \<Rightarrow> MsgAddConsumer \<Rightarrow>
     ('s, 'x) Context \<times> (go_error + MsgAddConsumerResponse)" where
  "AddConsumer L k ctx req =
     (case check_authority k (AC_Authority req) of
        Inl e \<Rightarrow> (ctx, Inl e)
      | Inr _ \<Rightarrow>
          if AC_ChainId req = '''' then (ctx, Inl ErrInvalidChainID)
          else if sint (AC_BlockHeight req) < 0 then (ctx, Inl ErrInvalidBlockHeight)
          else
            (case Chains_Has (collections k) (kvStore ctx) (AC_ChainId req) of
               Inl e \<Rightarrow> (ctx, Inl (Wrap e ''failed to check consumer existence'' []))
             | Inr exists \<Rightarrow>
                 if exists then (ctx, Inl ErrConsumerAlreadyExists)
                 else
                   let currentHeight = BlockHeight ctx
                   in if sint (AC_BlockHeight req) \<le> sint currentHeight
                      then (ctx, Inl (Wrap ErrInvalidBlockHeight
                             ''block height must be greater than current height %d''
                             [ArgD (sint currentHeight)]))
                      else
                        (case CreateConsumerAccount L k ctx (AC_ChainId req) of
                           (ctx, Inl e) \<Rightarrow>
                             (ctx, Inl (Wrap e ''failed to create module account'' []))
                         | (ctx, Inr moduleAccountAddr) \<Rightarrow>
                             let consumer = \<lparr>ChainId = AC_ChainId req, Name = AC_Name req,
                                   Version = AC_Version req, Status = CONSUMER_STATUS_PENDING,
                                   AddedAt = AC_BlockHeight req, SunsetAt = 0,
                                   ModuleAccountAddress = moduleAccountAddr\<rparr>
                             in (case set_chain k ctx consumer of
                                   (ctx, Inl e) \<Rightarrow>
                                     (ctx, Inl (Wrap e ''failed to store consumer chain'' []))
                                 | (ctx, Inr _) \<Rightarrow>
                                     (EmitEvent ctx \<lparr>EventType = ''consumer_added'', Attributes =
                                        [(''chain_id'', ArgS (AC_ChainId req)),
                                         (''block_height'', ArgD (sint (AC_BlockHeight req)))]\<rparr>,
                                      Inr \<lparr>AR_ModuleAccountAddress = moduleAccountAddr\<rparr>)))))"

definition SunsetConsumer ::
    "('s, 'x, 'acc) Keeper \<Rightarrow> ('s, 'x) Context \<Rightarrow> MsgSunsetConsumer \<Rightarrow>
     ('s, 'x) Context \<times> (go_error + unit)" where
  "SunsetConsumer k ctx req =
     (case check_authority k (SC_Authority req) of
        Inl e \<Rightarrow> (ctx, Inl e)
      | Inr _ \<Rightarrow>
          if SC_ChainId req = '''' then (ctx, Inl ErrInvalidChainID)
          else if sint (SC_BlockHeight req) < 0 then (ctx, Inl ErrInvalidBlockHeight)
          else
            (case Chains_Get (collections k) (kvStore ctx) (SC_ChainId req) of
               Inl e \<Rightarrow> (ctx, Inl (Wrap ErrConsumerNotFound ''consumer %s not found''
                         [ArgS (SC_ChainId req)]))
             | Inr consumer \<Rightarrow>
                 if Status consumer = CONSUMER_STATUS_SUNSET \<or>
                    Status consumer = CONSUMER_STATUS_REMOVED
                 then (ctx, Inl ErrConsumerAlreadySunset)
                 else
                   let currentHeight = BlockHeight ctx;
                       consumer = consumer\<lparr>Status :=
                         if sint (SC_BlockHeight req) \<le> sint currentHeight
                         then CONSUMER_STATUS_REMOVED else CONSUMER_STATUS_SUNSET\<rparr>;
                       consumer = consumer\<lparr>SunsetAt := SC_BlockHeight req\<rparr>
                   in (case set_chain k ctx consumer of
                         (ctx, Inl e) \<Rightarrow> (ctx, Inl (Wrap e ''failed to update consumer chain'' []))
                       | (ctx, Inr _) \<Rightarrow>
                           (EmitEvent ctx \<lparr>EventType = ''consumer_sunset'', Attributes =
                              [(''chain_id'', ArgS (SC_ChainId req)),
                               (''block_height'', ArgD (sint (SC_BlockHeight req)))]\<rparr>,
                            Inr ()))))"

definition UpgradeConsumer ::
    "('s, 'x, 'acc) Keeper \<Rightarrow> ('s, 'x) Context \<Rightarrow> MsgUpgradeConsumer \<Rightarrow>
     ('s, 'x) Context \<times> (go_error + unit)" where
  "UpgradeConsumer k ctx req =
     (case check_authority k (UC_Authority req) of
        Inl e \<Rightarrow> (ctx, Inl e)
      | Inr _ \<Rightarrow>
          if UC_ChainId req = '''' then (ctx, Inl ErrInvalidChainID)
          else if UC_Version req = ''''
          then (ctx, Inl (Wrap ErrInvalidConsumerStatus ''version cannot be empty'' []))
          else if sint (UC_BlockHeight req) < 0 then (ctx, Inl ErrInvalidBlockHeight)
          else
            (case Chains_Get (collections k) (kvStore ctx) (UC_ChainId req) of
               Inl e \<Rightarrow> (ctx, Inl (Wrap ErrConsumerNotFound ''consumer %s not found''
                         [ArgS (UC_ChainId req)]))
             | Inr consumer \<Rightarrow>
                 if \<not> CanUpgrade consumer then (ctx, Inl ErrConsumerNotActive)
                 else
                   let currentHeight = BlockHeight ctx
                   in if sint (UC_BlockHeight req) \<le> sint currentHeight
                      then (ctx, Inl (Wrap ErrInvalidBlockHeight
                             ''block height must be greater than current height %d''
                             [ArgD (sint currentHeight)]))
                      else
                        (case set_chain k ctx consumer of
                           (ctx, Inl e) \<Rightarrow>
                             (ctx, Inl (Wrap e ''failed to update consumer chain'' []))
                         | (ctx, Inr _) \<Rightarrow>
                             (EmitEvent ctx \<lparr>EventType = ''consumer_upgraded'', Attributes =
                                [(''chain_id'', ArgS (UC_ChainId req)),
                                 (''version'', ArgS (UC_Version req)),
                                 (''block_height'', ArgD (sint (UC_BlockHeight req)))]\<rparr>,
                              Inr ()))))"

section \<open>What the handlers do\<close>

definition signer_ok :: "('s, 'x, 'acc) Keeper \<Rightarrow> string \<Rightarrow> bool" where
  "signer_ok k a \<longleftrightarrow> StringToBytes (addressCodec k) a = Inr (authority k)"

lemma check_authority_cases:
  obtains "signer_ok k a" and "check_authority k a = Inr ()"
  | e where "\<not> signer_ok k a" and "check_authority k a = Inl e"
  by (cases "StringToBytes (addressCodec k) a")
    (auto simp: check_authority_def signer_ok_def GetAuthority_def Let_def split: if_splits)

lemma EmitEvent_simps [simp]:
  "kvStore (EmitEvent ctx ev) = kvStore ctx" "others (EmitEvent ctx ev) = others ctx"
  "BlockHeight (EmitEvent ctx ev) = BlockHeight ctx" "Events (EmitEvent ctx ev) = Events ctx @ [ev]"
  by (simp_all add: EmitEvent_def)

text \<open>When a chain can be added to the chains \<open>st\<close> at height \<open>now\<close>, and when one can be
  sunset or upgraded.\<close>

definition can_add :: "('s, 'x, 'acc) Keeper \<Rightarrow> (string \<rightharpoonup> ConsumerChain) \<Rightarrow> int64 \<Rightarrow> MsgAddConsumer \<Rightarrow> bool"
  where
  "can_add K st now req \<longleftrightarrow>
     signer_ok K (AC_Authority req) \<and> AC_ChainId req \<noteq> '''' \<and> st (AC_ChainId req) = None \<and>
     0 \<le> sint (AC_BlockHeight req) \<and> sint now < sint (AC_BlockHeight req)"

definition can_sunset ::
    "('s, 'x, 'acc) Keeper \<Rightarrow> (string \<rightharpoonup> ConsumerChain) \<Rightarrow> MsgSunsetConsumer \<Rightarrow> bool" where
  "can_sunset K st req \<longleftrightarrow>
     signer_ok K (SC_Authority req) \<and> SC_ChainId req \<noteq> '''' \<and> 0 \<le> sint (SC_BlockHeight req) \<and>
     (case st (SC_ChainId req) of None \<Rightarrow> False | Some c \<Rightarrow> CanSunset c)"

definition can_upgrade ::
    "('s, 'x, 'acc) Keeper \<Rightarrow> (string \<rightharpoonup> ConsumerChain) \<Rightarrow> int64 \<Rightarrow> MsgUpgradeConsumer \<Rightarrow> bool" where
  "can_upgrade K st now req \<longleftrightarrow>
     signer_ok K (UC_Authority req) \<and> UC_ChainId req \<noteq> '''' \<and> UC_Version req \<noteq> '''' \<and>
     0 \<le> sint (UC_BlockHeight req) \<and> sint now < sint (UC_BlockHeight req) \<and>
     (case st (UC_ChainId req) of None \<Rightarrow> False | Some c \<Rightarrow> CanUpgrade c)"

text \<open>The chain \<open>AddConsumer\<close> stores and the one \<open>SunsetConsumer\<close> leaves.\<close>

definition added_chain :: "MsgAddConsumer \<Rightarrow> string \<Rightarrow> ConsumerChain" where
  "added_chain req addr = NewConsumerChain (AC_ChainId req) (AC_Name req) (AC_Version req)
     CONSUMER_STATUS_PENDING (AC_BlockHeight req) 0 addr"

definition sunset_chain :: "int64 \<Rightarrow> int64 \<Rightarrow> ConsumerChain \<Rightarrow> ConsumerChain" where
  "sunset_chain now at c = c\<lparr>Status := if sint at \<le> sint now then CONSUMER_STATUS_REMOVED
     else CONSUMER_STATUS_SUNSET, SunsetAt := at\<rparr>"

lemma added_chain_simps [simp]:
  "ChainId (added_chain req a) = AC_ChainId req" "Status (added_chain req a) = CONSUMER_STATUS_PENDING"
  "ModuleAccountAddress (added_chain req a) = a"
  by (simp_all add: added_chain_def NewConsumerChain_def)

lemma sunset_chain_simps [simp]:
  "ChainId (sunset_chain n t c) = ChainId c"
  "ModuleAccountAddress (sunset_chain n t c) = ModuleAccountAddress c"
  by (simp_all add: sunset_chain_def)

context provider_env
begin

lemma UpdateParams_spec:
  obtains ctx' where "signer_ok K (UP_Authority req)" and "Params_Validate L (UP_Params req) = Inr ()"
    and "UpdateParams L K ctx req = (ctx', Inr ())"
    and "params (kvStore ctx') = Some (UP_Params req)"
    and "entries (kvStore ctx') = entries (kvStore ctx)" and "others ctx' = others ctx"
    and "BlockHeight ctx' = BlockHeight ctx" and "Events ctx' = Events ctx"
  | e where "\<not> (signer_ok K (UP_Authority req) \<and> Params_Validate L (UP_Params req) = Inr ())"
    and "UpdateParams L K ctx req = (ctx, Inl e)"
proof (cases rule: check_authority_cases [of K "UP_Authority req"])
  case 1
  show thesis
  proof (cases "Params_Validate L (UP_Params req)")
    case (Inr u)
    obtain s where "Params_Set (collections K) (kvStore ctx) (UP_Params req) = (s, Inr ())"
        "params s = Some (UP_Params req)" "entries s = entries (kvStore ctx)"
      using Params_Set [of "kvStore ctx" "UP_Params req"] by (metis prod.collapse)
    with 1 Inr show thesis
      by (intro that(1) [of "ctx\<lparr>kvStore := s\<rparr>"]) (simp_all add: UpdateParams_def)
  qed (use 1 in \<open>auto intro!: that(2) simp: UpdateParams_def\<close>)
qed (auto intro!: that(2) simp: UpdateParams_def)

lemma CreateConsumerAccount_ok:
  obtains ctx' where
    "CreateConsumerAccount L K ctx chainID =
       (ctx', BytesToString (addressCodec K) (NewModuleAddress L (GetConsumerModuleAccountName chainID)))"
    and "kvStore ctx' = kvStore ctx" and "bal (others ctx') = bal (others ctx)"
    and "BlockHeight ctx' = BlockHeight ctx" and "Events ctx' = Events ctx"
    and "GetAccount (authKeeper K) (others ctx') (NewModuleAddress L (GetConsumerModuleAccountName chainID)) \<noteq> None"
proof -
  let ?a = "NewModuleAddress L (GetConsumerModuleAccountName chainID)"
  let ?ctx = "case GetAccount (authKeeper K) (others ctx) ?a of
      None \<Rightarrow> (case NewAccountWithAddress (authKeeper K) (others ctx) ?a of
                (x, acc) \<Rightarrow> ctx\<lparr>others := SetAccount (authKeeper K) x acc\<rparr>)
    | Some acc \<Rightarrow> ctx"
  have "CreateConsumerAccount L K ctx chainID = (?ctx, BytesToString (addressCodec K) ?a)"
    by (simp add: CreateConsumerAccount_def Let_def split: sum.split option.split prod.split)
  then show thesis
    using NewAccount [of "others ctx" ?a]
    by (intro that [of ?ctx]) (auto split: option.splits prod.splits)
qed

lemma AddConsumer_spec:
  obtains ctx' addr where "can_add K (stored ctx) (BlockHeight ctx) req"
    and "BytesToString (addressCodec K)
       (NewModuleAddress L (GetConsumerModuleAccountName (AC_ChainId req))) = Inr addr"
    and "AddConsumer L K ctx req = (ctx', Inr \<lparr>AR_ModuleAccountAddress = addr\<rparr>)"
    and "stored ctx' = (stored ctx)(AC_ChainId req \<mapsto> added_chain req addr)"
    and "params (kvStore ctx') = params (kvStore ctx)" and "bal (others ctx') = bal (others ctx)"
    and "BlockHeight ctx' = BlockHeight ctx"
    and "GetAccount (authKeeper K) (others ctx')
       (NewModuleAddress L (GetConsumerModuleAccountName (AC_ChainId req))) \<noteq> None"
    and "Events ctx' = Events ctx @ [\<lparr>EventType = ''consumer_added'', Attributes =
        [(''chain_id'', ArgS (AC_ChainId req)), (''block_height'', ArgD (sint (AC_BlockHeight req)))]\<rparr>]"
  | ctx' e where "\<not> (can_add K (stored ctx) (BlockHeight ctx) req \<and> (\<exists>addr. BytesToString (addressCodec K)
       (NewModuleAddress L (GetConsumerModuleAccountName (AC_ChainId req))) = Inr addr))"
    and "AddConsumer L K ctx req = (ctx', Inl e)"
    and "kvStore ctx' = kvStore ctx" and "bal (others ctx') = bal (others ctx)"
    and "BlockHeight ctx' = BlockHeight ctx" and "Events ctx' = Events ctx"
proof (cases "can_add K (stored ctx) (BlockHeight ctx) req")
  case False
  then have "\<exists>e. AddConsumer L K ctx req = (ctx, Inl e)"
    by (cases rule: check_authority_cases [of K "AC_Authority req"])
      (auto simp: AddConsumer_def can_add_def Chains_Has Let_def not_less)
  with False that(2) show thesis by blast
next
  case True
  then have auth: "check_authority K (AC_Authority req) = Inr ()"
    by (cases rule: check_authority_cases [of K "AC_Authority req"]) (auto simp: can_add_def)
  note go = True [unfolded can_add_def] auth
  let ?a = "NewModuleAddress L (GetConsumerModuleAccountName (AC_ChainId req))"
  obtain ctx1 where c1: "CreateConsumerAccount L K ctx (AC_ChainId req) =
       (ctx1, BytesToString (addressCodec K) ?a)"
    "kvStore ctx1 = kvStore ctx" "bal (others ctx1) = bal (others ctx)"
    "BlockHeight ctx1 = BlockHeight ctx" "Events ctx1 = Events ctx"
    "GetAccount (authKeeper K) (others ctx1) ?a \<noteq> None"
    by (rule CreateConsumerAccount_ok)
  show thesis
  proof (cases "BytesToString (addressCodec K) ?a")
    case (Inl e)
    with c1 go show thesis
      by (intro that(2) [of ctx1]) (simp_all add: AddConsumer_def Chains_Has)
  next
    case (Inr addr)
    obtain ctx2 where "set_chain K ctx1 (added_chain req addr) = (ctx2, Inr ())"
      "stored ctx2 = (stored ctx1)(ChainId (added_chain req addr) \<mapsto> added_chain req addr)"
      "params (kvStore ctx2) = params (kvStore ctx1)" "others ctx2 = others ctx1"
      "BlockHeight ctx2 = BlockHeight ctx1" "Events ctx2 = Events ctx1"
      by (rule set_chain_ok)
    with True Inr c1 go show thesis
      by (intro that(1) [of addr "EmitEvent ctx2 \<lparr>EventType = ''consumer_added'', Attributes =
          [(''chain_id'', ArgS (AC_ChainId req)), (''block_height'', ArgD (sint (AC_BlockHeight req)))]\<rparr>"])
        (simp_all add: AddConsumer_def Chains_Has Let_def added_chain_def NewConsumerChain_def)
  qed
qed

lemma SunsetConsumer_spec:
  assumes filed: "\<And>k c. stored ctx k = Some c \<Longrightarrow> k = ChainId c"
  obtains ctx' c where "can_sunset K (stored ctx) req" and "stored ctx (SC_ChainId req) = Some c"
    and "SunsetConsumer K ctx req = (ctx', Inr ())"
    and "stored ctx' = (stored ctx)
      (SC_ChainId req \<mapsto> sunset_chain (BlockHeight ctx) (SC_BlockHeight req) c)"
    and "params (kvStore ctx') = params (kvStore ctx)" and "others ctx' = others ctx"
    and "BlockHeight ctx' = BlockHeight ctx"
    and "Events ctx' = Events ctx @ [\<lparr>EventType = ''consumer_sunset'', Attributes =
        [(''chain_id'', ArgS (SC_ChainId req)), (''block_height'', ArgD (sint (SC_BlockHeight req)))]\<rparr>]"
  | e where "\<not> can_sunset K (stored ctx) req" and "SunsetConsumer K ctx req = (ctx, Inl e)"
proof (cases "can_sunset K (stored ctx) req")
  case False
  then have "\<exists>e. SunsetConsumer K ctx req = (ctx, Inl e)"
    by (cases rule: check_authority_cases [of K "SC_Authority req"])
      (auto simp: SunsetConsumer_def can_sunset_def Chains_Get CanSunset_def IsSunset_def
        IsRemoved_def not_less split: option.splits)
  with False that(2) show thesis by blast
next
  case True
  then obtain c where go: "check_authority K (SC_Authority req) = Inr ()"
      "stored ctx (SC_ChainId req) = Some c" "CanSunset c" "SC_ChainId req \<noteq> ''''"
      "\<not> sint (SC_BlockHeight req) < 0"
    by (cases rule: check_authority_cases [of K "SC_Authority req"])
      (auto simp: can_sunset_def split: option.splits)
  let ?c = "sunset_chain (BlockHeight ctx) (SC_BlockHeight req) c"
  have k: "ChainId c = SC_ChainId req"
    using filed [OF go(2)] by simp
  obtain ctx2 where "set_chain K ctx ?c = (ctx2, Inr ())"
    "stored ctx2 = (stored ctx)(ChainId ?c \<mapsto> ?c)" "params (kvStore ctx2) = params (kvStore ctx)"
    "others ctx2 = others ctx" "BlockHeight ctx2 = BlockHeight ctx" "Events ctx2 = Events ctx"
    by (rule set_chain_ok)
  with True go k show thesis
    by (intro that(1) [of c "EmitEvent ctx2 \<lparr>EventType = ''consumer_sunset'', Attributes =
        [(''chain_id'', ArgS (SC_ChainId req)), (''block_height'', ArgD (sint (SC_BlockHeight req)))]\<rparr>"])
      (simp_all add: SunsetConsumer_def Chains_Get Let_def sunset_chain_def CanSunset_def
        IsSunset_def IsRemoved_def)
qed

lemma UpgradeConsumer_spec:
  assumes filed: "\<And>k c. stored ctx k = Some c \<Longrightarrow> k = ChainId c"
  obtains ctx' where "can_upgrade K (stored ctx) (BlockHeight ctx) req"
    and "UpgradeConsumer K ctx req = (ctx', Inr ())"
    and "stored ctx' = stored ctx"
    and "params (kvStore ctx') = params (kvStore ctx)" and "others ctx' = others ctx"
    and "BlockHeight ctx' = BlockHeight ctx"
    and "Events ctx' = Events ctx @ [\<lparr>EventType = ''consumer_upgraded'', Attributes =
        [(''chain_id'', ArgS (UC_ChainId req)), (''version'', ArgS (UC_Version req)),
         (''block_height'', ArgD (sint (UC_BlockHeight req)))]\<rparr>]"
  | e where "\<not> can_upgrade K (stored ctx) (BlockHeight ctx) req"
    and "UpgradeConsumer K ctx req = (ctx, Inl e)"
proof (cases "can_upgrade K (stored ctx) (BlockHeight ctx) req")
  case False
  then have "\<exists>e. UpgradeConsumer K ctx req = (ctx, Inl e)"
    by (cases rule: check_authority_cases [of K "UC_Authority req"])
      (auto simp: UpgradeConsumer_def can_upgrade_def Chains_Get Let_def not_less split: option.splits)
  with False that(2) show thesis by blast
next
  case True
  then obtain c where go: "check_authority K (UC_Authority req) = Inr ()"
      "stored ctx (UC_ChainId req) = Some c" "CanUpgrade c" "UC_ChainId req \<noteq> ''''"
      "UC_Version req \<noteq> ''''" "\<not> sint (UC_BlockHeight req) < 0"
      "\<not> sint (UC_BlockHeight req) \<le> sint (BlockHeight ctx)"
    by (cases rule: check_authority_cases [of K "UC_Authority req"])
      (auto simp: can_upgrade_def split: option.splits)
  have k: "ChainId c = UC_ChainId req"
    using filed [OF go(2)] by simp
  obtain ctx2 where "set_chain K ctx c = (ctx2, Inr ())"
    "stored ctx2 = (stored ctx)(ChainId c \<mapsto> c)" "params (kvStore ctx2) = params (kvStore ctx)"
    "others ctx2 = others ctx" "BlockHeight ctx2 = BlockHeight ctx" "Events ctx2 = Events ctx"
    by (rule set_chain_ok)
  with True go k show thesis
    by (intro that(1) [of "EmitEvent ctx2 \<lparr>EventType = ''consumer_upgraded'', Attributes =
        [(''chain_id'', ArgS (UC_ChainId req)), (''version'', ArgS (UC_Version req)),
         (''block_height'', ArgD (sint (UC_BlockHeight req)))]\<rparr>"])
      (simp_all add: UpgradeConsumer_def Chains_Get Let_def fun_upd_idem)
qed

end

section \<open>Properties\<close>

text \<open>C23: AddConsumer succeeds exactly when the signer is the authority, the chain id is not
  empty and not taken, the height is in the future and the address of the chain's module
  account can be written; then the chain is stored as pending under its id with that
  address (so the invariant of the entries holds for it), the account exists, one
  consumer_added event is emitted and nothing else changes. Otherwise it fails and no
  chain, balance or event changes.\<close>

theorem AddConsumer_correct:
  assumes "provider_env L valid_denom K entries params bal registered blocked"
  shows "case AddConsumer L K ctx req of
      (ctx', Inr r) \<Rightarrow>
        can_add K (map_of (entries (kvStore ctx))) (BlockHeight ctx) req \<and>
        BytesToString (addressCodec K)
          (NewModuleAddress L (GetConsumerModuleAccountName (AC_ChainId req))) =
          Inr (AR_ModuleAccountAddress r) \<and>
        map_of (entries (kvStore ctx')) = (map_of (entries (kvStore ctx)))
          (AC_ChainId req \<mapsto> added_chain req (AR_ModuleAccountAddress r)) \<and>
        entry_ok L K (AC_ChainId req, added_chain req (AR_ModuleAccountAddress r)) \<and>
        GetAccount (authKeeper K) (others ctx')
          (NewModuleAddress L (GetConsumerModuleAccountName (AC_ChainId req))) \<noteq> None \<and>
        params (kvStore ctx') = params (kvStore ctx) \<and> bal (others ctx') = bal (others ctx) \<and>
        Events ctx' = Events ctx @ [\<lparr>EventType = ''consumer_added'', Attributes =
          [(''chain_id'', ArgS (AC_ChainId req)), (''block_height'', ArgD (sint (AC_BlockHeight req)))]\<rparr>]
    | (ctx', Inl e) \<Rightarrow>
        \<not> (can_add K (map_of (entries (kvStore ctx))) (BlockHeight ctx) req \<and>
           (\<exists>addr. BytesToString (addressCodec K)
             (NewModuleAddress L (GetConsumerModuleAccountName (AC_ChainId req))) = Inr addr)) \<and>
        kvStore ctx' = kvStore ctx \<and> bal (others ctx') = bal (others ctx) \<and>
        Events ctx' = Events ctx"
proof (cases rule: provider_env.AddConsumer_spec [OF assms, of ctx req])
  case (1 ctx' addr)
  then have "StringToBytes (addressCodec K) addr =
      Inr (NewModuleAddress L (GetConsumerModuleAccountName (AC_ChainId req)))"
    using assms by (simp add: provider_env_def codec_laws.parse_format)
  with 1 show ?thesis
    by (simp add: entry_ok_def chain_addr_def)
qed auto

text \<open>C24: On a store that files every chain under its id, SunsetConsumer succeeds exactly when
  the signer is the authority, the height is not negative and the chain is stored and
  neither sunset nor removed; the chain then is removed when the height has been reached
  and sunset otherwise, with that height recorded. Otherwise it fails and changes nothing.\<close>

theorem SunsetConsumer_correct:
  assumes "provider_env L valid_denom K entries params bal registered blocked"
    and "list_all (\<lambda>(k, c). k = ChainId c) (entries (kvStore ctx))"
  shows "case SunsetConsumer K ctx req of
      (ctx', Inr _) \<Rightarrow>
        can_sunset K (map_of (entries (kvStore ctx))) req \<and>
        map_of (entries (kvStore ctx')) = (\<lambda>k.
          if k = SC_ChainId req
          then map_option (sunset_chain (BlockHeight ctx) (SC_BlockHeight req))
                 (map_of (entries (kvStore ctx)) k)
          else map_of (entries (kvStore ctx)) k) \<and>
        others ctx' = others ctx \<and> params (kvStore ctx') = params (kvStore ctx) \<and>
        Events ctx' = Events ctx @ [\<lparr>EventType = ''consumer_sunset'', Attributes =
          [(''chain_id'', ArgS (SC_ChainId req)), (''block_height'', ArgD (sint (SC_BlockHeight req)))]\<rparr>]
    | (ctx', Inl e) \<Rightarrow>
        \<not> can_sunset K (map_of (entries (kvStore ctx))) req \<and> ctx' = ctx"
proof -
  have "k = ChainId c" if "map_of (entries (kvStore ctx)) k = Some c" for k c
    using assms(2) map_of_SomeD [OF that] by (auto simp: list_all_iff)
  then show ?thesis
    by (cases rule: provider_env.SunsetConsumer_spec [OF assms(1), of ctx req]) (auto simp: fun_eq_iff)
qed

text \<open>On a store that files every chain under its id, a successful UpgradeConsumer changes no
  chain, in particular not the version the message names: its only effect is the event.
  It succeeds exactly when the signer is the authority, the height is in the future and
  the chain can be upgraded.\<close>

theorem UpgradeConsumer_only_event:
  assumes "provider_env L valid_denom K entries params bal registered blocked"
    and "list_all (\<lambda>(k, c). k = ChainId c) (entries (kvStore ctx))"
  shows "case UpgradeConsumer K ctx req of
      (ctx', Inr _) \<Rightarrow>
        can_upgrade K (map_of (entries (kvStore ctx))) (BlockHeight ctx) req \<and>
        map_of (entries (kvStore ctx')) = map_of (entries (kvStore ctx)) \<and>
        others ctx' = others ctx \<and> params (kvStore ctx') = params (kvStore ctx) \<and>
        Events ctx' = Events ctx @ [\<lparr>EventType = ''consumer_upgraded'', Attributes =
          [(''chain_id'', ArgS (UC_ChainId req)), (''version'', ArgS (UC_Version req)),
           (''block_height'', ArgD (sint (UC_BlockHeight req)))]\<rparr>]
    | (ctx', Inl e) \<Rightarrow>
        \<not> can_upgrade K (map_of (entries (kvStore ctx))) (BlockHeight ctx) req \<and> ctx' = ctx"
proof -
  have "k = ChainId c" if "map_of (entries (kvStore ctx)) k = Some c" for k c
    using assms(2) map_of_SomeD [OF that] by (auto simp: list_all_iff)
  then show ?thesis
    by (cases rule: provider_env.UpgradeConsumer_spec [OF assms(1), of ctx req]) auto
qed

text \<open>UpdateParams sets the parameters exactly when the signer is the authority and the new
  parameters are valid, and changes nothing else; otherwise it fails and changes nothing.\<close>

theorem UpdateParams_correct:
  assumes "provider_env L valid_denom K entries params bal registered blocked"
  shows "case UpdateParams L K ctx req of
      (ctx', Inr _) \<Rightarrow>
        signer_ok K (UP_Authority req) \<and> Params_Validate L (UP_Params req) = Inr () \<and>
        params (kvStore ctx') = Some (UP_Params req) \<and>
        entries (kvStore ctx') = entries (kvStore ctx) \<and> others ctx' = others ctx \<and>
        Events ctx' = Events ctx
    | (ctx', Inl e) \<Rightarrow>
        \<not> (signer_ok K (UP_Authority req) \<and> Params_Validate L (UP_Params req) = Inr ()) \<and> ctx' = ctx"
  by (cases rule: provider_env.UpdateParams_spec [OF assms, of req ctx]) auto

section \<open>Messages on the concrete store\<close>

abbreviation demo_gov :: string where
  "demo_gov \<equiv> ''atoneaddr:gov''"

lemma demo_signer: "signer_ok demo_keeper demo_gov"
  by (simp add: signer_ok_def ref_defs GovModuleName_def)

theorem AddConsumer_correct_witness:
  "\<exists>ctx'. AddConsumer ref_sdk demo_keeper demo_ctx
       \<lparr>AC_Authority = demo_gov, AC_ChainId = ''d'', AC_Name = ''D'', AC_Version = ''v1'',
        AC_BlockHeight = 8\<rparr> =
       (ctx', Inr \<lparr>AR_ModuleAccountAddress = ''atoneaddr:consumer_d''\<rparr>) \<and>
     map_option Status (map_of (ref_entries (kvStore ctx')) ''d'') = Some CONSUMER_STATUS_PENDING"
proof -
  let ?req = "\<lparr>AC_Authority = demo_gov, AC_ChainId = ''d'', AC_Name = ''D'', AC_Version = ''v1'',
        AC_BlockHeight = 8\<rparr>"
  have can: "can_add demo_keeper (map_of (ref_entries (kvStore demo_ctx))) (BlockHeight demo_ctx) ?req"
    using demo_signer unfolding can_add_def demo_entries by (simp add: demo_ctx_def)
  have addr: "BytesToString (addressCodec demo_keeper)
      (NewModuleAddress ref_sdk (GetConsumerModuleAccountName ''d'')) = Inr ''atoneaddr:consumer_d''"
    by (simp add: demo_defs)
  obtain ctx' r where r: "AddConsumer ref_sdk demo_keeper demo_ctx ?req = (ctx', r)"
    by fastforce
  note spec = AddConsumer_correct [OF env_ref.provider_env_axioms [of "\<lambda>m. m \<noteq> ''consumer_c''" "\<lambda>_. False"],
      of demo_ctx ?req, unfolded r]
  obtain resp where "r = Inr resp"
    using spec can addr by (cases r) auto
  with spec addr r show ?thesis
    by (cases resp) simp
qed

theorem SunsetConsumer_correct_witness:
  "\<exists>ctx'. SunsetConsumer demo_keeper demo_ctx
       \<lparr>SC_Authority = demo_gov, SC_ChainId = ''b'', SC_BlockHeight = 7\<rparr> = (ctx', Inr ()) \<and>
     map_option Status (map_of (ref_entries (kvStore ctx')) ''b'') = Some CONSUMER_STATUS_REMOVED"
proof -
  let ?req = "\<lparr>SC_Authority = demo_gov, SC_ChainId = ''b'', SC_BlockHeight = 7\<rparr>"
  have can: "can_sunset demo_keeper (map_of (ref_entries (kvStore demo_ctx))) ?req"
    using demo_signer unfolding can_sunset_def demo_entries by (simp add: demo_defs)
  have filed: "list_all (\<lambda>(k, c). k = ChainId c) (ref_entries (kvStore demo_ctx))"
    by (simp add: demo_entries demo_chain_def)
  show ?thesis
    using SunsetConsumer_correct [OF env_ref.provider_env_axioms filed, of "\<lambda>m. m \<noteq> ''consumer_c''" "\<lambda>_. False" ?req] can
    by (auto simp: demo_entries sunset_chain_def split: prod.splits sum.splits) (simp add: demo_ctx_def)
qed

theorem UpgradeConsumer_only_event_witness:
  "\<exists>ctx'. UpgradeConsumer demo_keeper demo_ctx
       \<lparr>UC_Authority = demo_gov, UC_ChainId = ''b'', UC_Version = ''v2'', UC_BlockHeight = 9\<rparr> =
       (ctx', Inr ()) \<and>
     map_option Version (map_of (ref_entries (kvStore ctx')) ''b'') = Some ''v1''"
proof -
  let ?req = "\<lparr>UC_Authority = demo_gov, UC_ChainId = ''b'', UC_Version = ''v2'', UC_BlockHeight = 9\<rparr>"
  have can: "can_upgrade demo_keeper (map_of (ref_entries (kvStore demo_ctx))) (BlockHeight demo_ctx) ?req"
    using demo_signer unfolding can_upgrade_def demo_entries by (simp add: demo_defs demo_ctx_def)
  have filed: "list_all (\<lambda>(k, c). k = ChainId c) (ref_entries (kvStore demo_ctx))"
    by (simp add: demo_entries demo_chain_def)
  show ?thesis
    using UpgradeConsumer_only_event [OF env_ref.provider_env_axioms filed, of "\<lambda>m. m \<noteq> ''consumer_c''" "\<lambda>_. False" ?req] can
    by (auto simp: demo_entries demo_chain_def split: prod.splits sum.splits)
qed

theorem UpdateParams_correct_witness:
  "\<exists>ctx'. UpdateParams ref_sdk demo_keeper demo_ctx
       \<lparr>UP_Authority = demo_gov,
        UP_Params = \<lparr>FeesPerBlock = coin ''photon'' 0, DowntimeSlashingWindow = 3\<rparr>\<rparr> = (ctx', Inr ()) \<and>
     rs_params (kvStore ctx') = Some \<lparr>FeesPerBlock = coin ''photon'' 0, DowntimeSlashingWindow = 3\<rparr>"
proof -
  let ?req = "\<lparr>UP_Authority = demo_gov,
        UP_Params = \<lparr>FeesPerBlock = coin ''photon'' 0, DowntimeSlashingWindow = 3\<rparr>\<rparr>"
  have "Params_Validate ref_sdk (UP_Params ?req) = Inr ()"
    by (simp add: ref.Params_Validate_iff)
  with demo_signer show ?thesis
    using UpdateParams_correct [OF env_ref.provider_env_axioms [of "\<lambda>m. m \<noteq> ''consumer_c''" "\<lambda>_. False"],
        of ?req demo_ctx]
    by (auto split: prod.splits sum.splits)
qed

end
