(* ===== verification/QueryServer.thy ===== *)
theory QueryServer
  imports MsgServer
begin

text \<open>
  modules/provider/keeper/query.go: the four queries. A nil request is \<open>None\<close>. The types
  of query.pb.go are records; a page request or response, which the SDK defines and the
  handlers do not read, is its encoding. The properties say what each query
  answers on a store that behaves as \<open>collections_laws\<close> says.
\<close>

section \<open>Requests and responses (query.pb.go)\<close>

type_synonym page = bytes

datatype QueryParamsRequest = QueryParamsRequest

record QueryParamsResponse =
  QPR_Params :: Params

record QueryConsumerChainRequest =
  QCR_ChainId :: string

record QueryConsumerChainResponse =
  QCR_ConsumerChain :: ConsumerChain

record QueryConsumerChainsRequest =
  QCS_Pagination :: "page option"

record QueryConsumerChainsResponse =
  QCS_ConsumerChains :: "ConsumerChain list"
  QCS_PageResponse :: "page option"

record QueryActiveConsumerChainsRequest =
  QAC_Pagination :: "page option"

record QueryActiveConsumerChainsResponse =
  QAC_ConsumerChains :: "ConsumerChain list"
  QAC_PageResponse :: "page option"

section \<open>Handlers\<close>

definition invalid_request :: fault where
  "invalid_request = Fail (GrpcStatus InvalidArgument ''invalid request'' [])"

definition Query_Params ::
    "sdk_lib \<Rightarrow> ('s, 'x, 'acc) Keeper \<Rightarrow> ('s, 'x) Context \<Rightarrow> QueryParamsRequest option \<Rightarrow>
     fault + QueryParamsResponse" where
  "Query_Params L k ctx req =
     (case req of
        None \<Rightarrow> Inl invalid_request
      | Some _ \<Rightarrow>
          (case Params_Get (collections k) (kvStore ctx) of
             Inr p \<Rightarrow> Inr \<lparr>QPR_Params = p\<rparr>
           | Inl err \<Rightarrow>
               if errors_Is err CollectionsNotFound
               then (case DefaultParams L of Inl e \<Rightarrow> Inl e | Inr p \<Rightarrow> Inr \<lparr>QPR_Params = p\<rparr>)
               else Inl (Fail (GrpcStatus Internal ''internal error'' []))))"

definition Query_ConsumerChain ::
    "('s, 'x, 'acc) Keeper \<Rightarrow> ('s, 'x) Context \<Rightarrow> QueryConsumerChainRequest option \<Rightarrow>
     fault + QueryConsumerChainResponse" where
  "Query_ConsumerChain k ctx req =
     (case req of
        None \<Rightarrow> Inl invalid_request
      | Some req \<Rightarrow>
          if QCR_ChainId req = ''''
          then Inl (Fail (GrpcStatus InvalidArgument ''chain ID cannot be empty'' []))
          else
            (case Chains_Get (collections k) (kvStore ctx) (QCR_ChainId req) of
               Inr consumer \<Rightarrow> Inr \<lparr>QCR_ConsumerChain = consumer\<rparr>
             | Inl err \<Rightarrow>
                 if errors_Is err CollectionsNotFound
                 then Inl (Fail (GrpcStatus NotFoundCode ''consumer chain %s not found''
                        [ArgS (QCR_ChainId req)]))
                 else Inl (Fail (GrpcStatus Internal ''internal error'' []))))"

fun internal_error :: "fault \<Rightarrow> fault" where
  "internal_error (Fail e) = Fail (GrpcStatusOf Internal e)"
| "internal_error (Panic m) = Panic m"

definition Query_ConsumerChains ::
    "('s, 'x, 'acc) Keeper \<Rightarrow> ('s, 'x) Context \<Rightarrow> QueryConsumerChainsRequest option \<Rightarrow>
     fault + QueryConsumerChainsResponse" where
  "Query_ConsumerChains k ctx req =
     (case req of
        None \<Rightarrow> Inl invalid_request
      | Some _ \<Rightarrow>
          (case Chains_Walk (collections k) (kvStore ctx)
                  (\<lambda>consumers key value. (consumers @ [value], Inr False)) [] of
             (consumers, Inl e) \<Rightarrow> Inl (internal_error e)
           | (consumers, Inr _) \<Rightarrow>
               Inr \<lparr>QCS_ConsumerChains = consumers, QCS_PageResponse = None\<rparr>))"

definition Query_ActiveConsumerChains ::
    "('s, 'x, 'acc) Keeper \<Rightarrow> ('s, 'x) Context \<Rightarrow> QueryActiveConsumerChainsRequest option \<Rightarrow>
     fault + QueryActiveConsumerChainsResponse" where
  "Query_ActiveConsumerChains k ctx req =
     (case req of
        None \<Rightarrow> Inl invalid_request
      | Some _ \<Rightarrow>
          (case Chains_Walk (collections k) (kvStore ctx)
                  (\<lambda>activeConsumers key value.
                     (if IsActive value then activeConsumers @ [value] else activeConsumers,
                      Inr False)) [] of
             (activeConsumers, Inl e) \<Rightarrow> Inl (internal_error e)
           | (activeConsumers, Inr _) \<Rightarrow>
               Inr \<lparr>QAC_ConsumerChains = activeConsumers, QAC_PageResponse = None\<rparr>))"

section \<open>What the queries answer\<close>

lemma Walk_gather:
  "Walk (map Inr es) (\<lambda>acc k v. (if p v then acc @ [v] else acc, Inr False)) acc =
     (acc @ filter p (map snd es), Inr ())"
  by (induction es arbitrary: acc) auto

lemmas Walk_gather_all = Walk_gather [where p = "\<lambda>_. True", simplified]

lemma gather_fail:
  "Walk (map Inr es @ Inl e # rest) (\<lambda>acc k v. (if p v then acc @ [v] else acc, Inr False)) acc =
     (acc @ filter p (map snd es), Inl (Fail e))"
  by (induction es arbitrary: acc) auto

context collections_laws
begin

lemma Chains_Walk_entries: "Chains_Walk C s cb c = Walk (map Inr (entries s)) cb c"
  by (simp add: Chains_Walk_def Chains_Iterate)

lemma Query_ActiveConsumerChains_ok:
  "collections k = C \<Longrightarrow> Query_ActiveConsumerChains k ctx (Some req) =
     Inr \<lparr>QAC_ConsumerChains = filter IsActive (map snd (entries (kvStore ctx))), QAC_PageResponse = None\<rparr>"
  by (simp add: Query_ActiveConsumerChains_def Chains_Walk_entries Walk_gather)

lemma Query_ConsumerChains_ok:
  "collections k = C \<Longrightarrow> Query_ConsumerChains k ctx (Some req) =
     Inr \<lparr>QCS_ConsumerChains = map snd (entries (kvStore ctx)), QCS_PageResponse = None\<rparr>"
  by (simp add: Query_ConsumerChains_def Chains_Walk_entries Walk_gather_all)

lemma GetAllConsumerChains_ok:
  "collections k = C \<Longrightarrow> GetAllConsumerChains k ctx = (map snd (entries (kvStore ctx)), Inr ())"
  by (simp add: GetAllConsumerChains_def IterateConsumerChains_def Chains_Walk_entries Walk_gather_all)

lemma entry_of_chain:
  assumes "list_all (\<lambda>(k, c). k = ChainId c) (entries s)"
  shows "c \<in> snd ` set (entries s) \<longleftrightarrow> map_of (entries s) (ChainId c) = Some c"
proof
  assume "c \<in> snd ` set (entries s)"
  then have "(ChainId c, c) \<in> set (entries s)"
    using assms by (auto simp: list_all_iff)
  then show "map_of (entries s) (ChainId c) = Some c"
    using entries_distinct by (simp add: map_of_is_SomeI)
qed (force dest: map_of_SomeD)

lemma ids_of_entries:
  "list_all (\<lambda>(k, c). k = ChainId c) (entries s) \<Longrightarrow> map (ChainId \<circ> snd) (entries s) = map fst (entries s)"
  by (auto simp: list_all_iff)

end

section \<open>Properties\<close>

text \<open>On a store that files every chain under its id, ActiveConsumerChains answers exactly
  the stored chains whose status is active, each once, sorted by chain id.\<close>

theorem ActiveConsumerChains_exact:
  assumes "collections_laws (collections k) entries params"
    and "list_all (\<lambda>(i, c). i = ChainId c) (entries (kvStore ctx))"
  shows "\<exists>cs. Query_ActiveConsumerChains k ctx (Some req) =
       Inr \<lparr>QAC_ConsumerChains = cs, QAC_PageResponse = None\<rparr> \<and>
     set cs = {c. map_of (entries (kvStore ctx)) (ChainId c) = Some c \<and> IsActive c} \<and>
     sorted (map ChainId cs) \<and> distinct (map ChainId cs)"
proof -
  let ?es = "entries (kvStore ctx)" and ?cs = "filter IsActive (map snd (entries (kvStore ctx)))"
  have ids: "map ChainId (map snd ?es) = map fst ?es"
    using collections_laws.ids_of_entries [OF assms] by simp
  have "sorted (map ChainId (map snd ?es))" "distinct (map ChainId (map snd ?es))"
    unfolding ids using collections_laws.entries_sorted [OF assms(1)]
      collections_laws.entries_distinct [OF assms(1)] by blast+
  then have "sorted (map ChainId ?cs)" "distinct (map ChainId ?cs)"
    using sorted_filter distinct_map_filter by blast+
  moreover have "set ?cs = {c. map_of ?es (ChainId c) = Some c \<and> IsActive c}"
    using collections_laws.entry_of_chain [OF assms] by auto
  ultimately show ?thesis
    using collections_laws.Query_ActiveConsumerChains_ok [OF assms(1) refl] by blast
qed

text \<open>ConsumerChain answers the chain stored under the requested id, NotFound when there is
  none, and InvalidArgument for a nil request or an empty id.\<close>

theorem Query_ConsumerChain_exact:
  assumes "collections_laws (collections k) entries params"
  shows "Query_ConsumerChain k ctx req =
     (case req of
        None \<Rightarrow> Inl (Fail (GrpcStatus InvalidArgument ''invalid request'' []))
      | Some r \<Rightarrow>
          if QCR_ChainId r = ''''
          then Inl (Fail (GrpcStatus InvalidArgument ''chain ID cannot be empty'' []))
          else (case map_of (entries (kvStore ctx)) (QCR_ChainId r) of
              None \<Rightarrow> Inl (Fail (GrpcStatus NotFoundCode ''consumer chain %s not found''
                        [ArgS (QCR_ChainId r)]))
            | Some c \<Rightarrow> Inr \<lparr>QCR_ConsumerChain = c\<rparr>))"
  by (simp add: Query_ConsumerChain_def invalid_request_def collections_laws.Chains_Get [OF assms]
      split: option.split)

section \<open>Queries on the concrete store\<close>

theorem ActiveConsumerChains_exact_witness:
  "\<exists>cs. Query_ActiveConsumerChains demo_keeper demo_ctx (Some \<lparr>QAC_Pagination = None\<rparr>) =
       Inr \<lparr>QAC_ConsumerChains = cs, QAC_PageResponse = None\<rparr> \<and>
     set cs = {demo_chain ''b'' CONSUMER_STATUS_ACTIVE}"
proof -
  have coll: "collections_laws (collections demo_keeper) ref_entries rs_params"
    by (simp add: ref_keeper_def ref_coll.collections_laws_axioms)
  have filed: "list_all (\<lambda>(k, c). k = ChainId c) (ref_entries (kvStore demo_ctx))"
    by (simp add: demo_entries demo_chain_def)
  have "{c. map_of (ref_entries (kvStore demo_ctx)) (ChainId c) = Some c \<and> IsActive c} =
      {demo_chain ''b'' CONSUMER_STATUS_ACTIVE}"
    by (auto simp: demo_entries demo_chain_def status_pred_defs status_defs split: if_splits)
  then show ?thesis
    using ActiveConsumerChains_exact [OF coll filed, of "\<lparr>QAC_Pagination = None\<rparr>"] by auto
qed

theorem Query_ConsumerChain_exact_witness:
  "Query_ConsumerChain demo_keeper demo_ctx (Some \<lparr>QCR_ChainId = ''b''\<rparr>) =
     Inr \<lparr>QCR_ConsumerChain = demo_chain ''b'' CONSUMER_STATUS_ACTIVE\<rparr>"
proof -
  have coll: "collections_laws (collections demo_keeper) ref_entries rs_params"
    by (simp add: ref_keeper_def ref_coll.collections_laws_axioms)
  show ?thesis
    unfolding Query_ConsumerChain_exact [OF coll] by (simp add: demo_entries)
qed

end
