(* ===== verification/Genesis.thy ===== *)
theory Genesis
  imports QueryServer
begin

text \<open>
  modules/provider/keeper/genesis.go: genesis import and export of the keeper. The properties
  are the round trip of a genesis state whose account addresses are empty, as the import
  demands, up to these addresses and the order of the chains, and its limit: what the
  export writes can not be imported when there is a chain.
\<close>

section \<open>InitGenesis and ExportGenesis\<close>

text \<open>The loop over the consumer chains.\<close>

fun init_chains ::
    "sdk_lib \<Rightarrow> ('s, 'x, 'acc) Keeper \<Rightarrow> ('s, 'x) Context \<Rightarrow> ConsumerChain list \<Rightarrow>
     ('s, 'x) Context \<times> (go_error + unit)" where
  "init_chains L k ctx [] = (ctx, Inr ())"
| "init_chains L k ctx (consumer # rest) =
     (if ModuleAccountAddress consumer \<noteq> ''''
      then (ctx, Inl (Errorf ''module account address for %s must be left empty at init genesis''
             [ArgS (ChainId consumer)]))
      else
        (case CreateConsumerAccount L k ctx (ChainId consumer) of
           (ctx, Inl e) \<Rightarrow> (ctx, Inl (Wrap e ''failed to create module account for %s: %w''
                            [ArgS (ChainId consumer)]))
         | (ctx, Inr moduleAccount) \<Rightarrow>
             andThen (set_chain k ctx (consumer\<lparr>ModuleAccountAddress := moduleAccount\<rparr>))
               (\<lambda>ctx _. init_chains L k ctx rest)))"

definition Keeper_InitGenesis ::
    "sdk_lib \<Rightarrow> ('s, 'x, 'acc) Keeper \<Rightarrow> ('s, 'x) Context \<Rightarrow> GenesisState \<Rightarrow>
     ('s, 'x) Context \<times> (go_error + unit)" where
  "Keeper_InitGenesis L k ctx genState =
     (case Params_Set (collections k) (kvStore ctx) (GS_Params genState) of
        (s, Inl e) \<Rightarrow> (ctx\<lparr>kvStore := s\<rparr>, Inl e)
      | (s, Inr _) \<Rightarrow> init_chains L k (ctx\<lparr>kvStore := s\<rparr>) (GS_ConsumerChains genState))"

definition Keeper_ExportGenesis ::
    "sdk_lib \<Rightarrow> ('s, 'x, 'acc) Keeper \<Rightarrow> ('s, 'x) Context \<Rightarrow> fault + GenesisState" where
  "Keeper_ExportGenesis L k ctx =
     (case DefaultGenesis L of
        Inl e \<Rightarrow> Inl e
      | Inr genesis \<Rightarrow>
          (case Params_Get (collections k) (kvStore ctx) of
             Inl e \<Rightarrow> Inl (Fail e)
           | Inr p \<Rightarrow>
               let genesis = genesis\<lparr>GS_Params := p, GS_ConsumerChains := []\<rparr>
               in (case Chains_Walk (collections k) (kvStore ctx)
                          (\<lambda>genesis key value.
                             (genesis\<lparr>GS_ConsumerChains := GS_ConsumerChains genesis @ [value]\<rparr>,
                              Inr False)) genesis of
                     (genesis, Inl e) \<Rightarrow> Inl e
                   | (genesis, Inr _) \<Rightarrow> Inr genesis)))"

section \<open>Import\<close>

definition with_address :: "string \<Rightarrow> ConsumerChain \<Rightarrow> ConsumerChain" where
  "with_address a c = c\<lparr>ModuleAccountAddress := a\<rparr>"

lemma with_address_simps [simp]:
  "ChainId (with_address a c) = ChainId c" "ModuleAccountAddress (with_address a c) = a"
  "Status (with_address a c) = Status c"
  by (simp_all add: with_address_def)

text \<open>The map after the chains \<open>g c\<close> have been stored in turn.\<close>

fun store_all ::
    "(ConsumerChain \<Rightarrow> ConsumerChain) \<Rightarrow> ConsumerChain list \<Rightarrow> (string \<rightharpoonup> ConsumerChain) \<Rightarrow>
     (string \<rightharpoonup> ConsumerChain)" where
  "store_all g [] m = m"
| "store_all g (c # cs) m = store_all g cs (m(ChainId c \<mapsto> g c))"

lemma store_all_apply:
  "distinct (map ChainId cs) \<Longrightarrow>
     store_all g cs m k =
       (case map_of (map (\<lambda>c. (ChainId c, g c)) cs) k of None \<Rightarrow> m k | Some c \<Rightarrow> Some c)"
proof (induction cs arbitrary: m)
  case (Cons c cs)
  then have "map_of (map (\<lambda>c. (ChainId c, g c)) cs) (ChainId c) = None"
    by (auto simp: map_of_eq_None_iff)
  with Cons show ?case
    by (auto split: option.split)
qed simp

lemma Walk_export:
  "Walk (map Inr es)
     (\<lambda>g k v. (g\<lparr>GS_ConsumerChains := GS_ConsumerChains g @ [v]\<rparr>, Inr False)) g =
     (g\<lparr>GS_ConsumerChains := GS_ConsumerChains g @ map snd es\<rparr>, Inr ())"
  by (induction es arbitrary: g) auto

context provider_env
begin

text \<open>\<open>addr\<close> is the account address each chain is given.\<close>

lemma init_chains_ok:
  assumes "list_all (\<lambda>c. ModuleAccountAddress c = '''') cs"
    and "list_all (\<lambda>c. BytesToString (addressCodec K) (chain_addr L c) = Inr (addr c)) cs"
  obtains ctx' where "init_chains L K ctx cs = (ctx', Inr ())"
    and "stored ctx' = store_all (\<lambda>c. with_address (addr c) c) cs (stored ctx)"
    and "params (kvStore ctx') = params (kvStore ctx)" and "bal (others ctx') = bal (others ctx)"
    and "BlockHeight ctx' = BlockHeight ctx" and "Events ctx' = Events ctx"
  using assms
proof (induction cs arbitrary: ctx thesis)
  case (Cons c cs)
  have c: "ModuleAccountAddress c = ''''"
      "BytesToString (addressCodec K) (NewModuleAddress L (GetConsumerModuleAccountName (ChainId c))) =
       Inr (addr c)"
    using Cons.prems(2,3) by (simp_all add: chain_addr_def)
  obtain ctx1 where c1: "CreateConsumerAccount L K ctx (ChainId c) = (ctx1, Inr (addr c))"
    "kvStore ctx1 = kvStore ctx" "bal (others ctx1) = bal (others ctx)"
    "BlockHeight ctx1 = BlockHeight ctx" "Events ctx1 = Events ctx"
    using CreateConsumerAccount_ok [of ctx "ChainId c"] c(2) by metis
  obtain ctx2 where c2: "set_chain K ctx1 (with_address (addr c) c) = (ctx2, Inr ())"
    "stored ctx2 = (stored ctx1)(ChainId (with_address (addr c) c) \<mapsto> with_address (addr c) c)"
    "params (kvStore ctx2) = params (kvStore ctx1)" "others ctx2 = others ctx1"
    "BlockHeight ctx2 = BlockHeight ctx1" "Events ctx2 = Events ctx1"
    by (rule set_chain_ok)
  obtain ctx' where "init_chains L K ctx2 cs = (ctx', Inr ())"
    "stored ctx' = store_all (\<lambda>c. with_address (addr c) c) cs (stored ctx2)"
    "params (kvStore ctx') = params (kvStore ctx2)" "bal (others ctx') = bal (others ctx2)"
    "BlockHeight ctx' = BlockHeight ctx2" "Events ctx' = Events ctx2"
    using Cons.prems(2,3) by (rule_tac Cons.IH [of ctx2]) simp_all
  with c c1 c2 show thesis
    by (intro Cons.prems(1) [of ctx']) (simp_all add: with_address_def)
qed (simp add: that)

lemma ExportGenesis_ok:
  assumes "valid_denom ''photon''" and "params (kvStore ctx) = Some p"
  shows "Keeper_ExportGenesis L K ctx =
     Inr \<lparr>GS_Params = p, GS_ConsumerChains = map snd (entries (kvStore ctx))\<rparr>"
  using DefaultGenesis_valid [OF assms(1)] assms(2)
  by (auto simp: Keeper_ExportGenesis_def Params_Get Chains_Walk_entries Walk_export)

lemma InitGenesis_stores:
  assumes "entries (kvStore ctx) = []"
    and "list_all (\<lambda>c. ModuleAccountAddress c = '''') (GS_ConsumerChains gs)"
    and "list_all (\<lambda>c. BytesToString (addressCodec K) (chain_addr L c) = Inr (addr c)) (GS_ConsumerChains gs)"
    and "distinct (map ChainId (GS_ConsumerChains gs))"
  obtains ctx' where "Keeper_InitGenesis L K ctx gs = (ctx', Inr ())"
    and "params (kvStore ctx') = Some (GS_Params gs)"
    and "stored ctx' = map_of (map (\<lambda>c. (ChainId c, with_address (addr c) c)) (GS_ConsumerChains gs))"
    and "bal (others ctx') = bal (others ctx)"
proof -
  obtain s where s: "Params_Set (collections K) (kvStore ctx) (GS_Params gs) = (s, Inr ())"
      "params s = Some (GS_Params gs)" "entries s = []"
    using Params_Set [of "kvStore ctx" "GS_Params gs"] assms(1) by (metis prod.collapse)
  obtain ctx' where "init_chains L K (ctx\<lparr>kvStore := s\<rparr>) (GS_ConsumerChains gs) = (ctx', Inr ())"
    "stored ctx' = store_all (\<lambda>c. with_address (addr c) c) (GS_ConsumerChains gs)
       (stored (ctx\<lparr>kvStore := s\<rparr>))"
    "params (kvStore ctx') = params (kvStore (ctx\<lparr>kvStore := s\<rparr>))"
    "bal (others ctx') = bal (others (ctx\<lparr>kvStore := s\<rparr>))"
    by (rule init_chains_ok [OF assms(2,3)])
  with s show thesis
    by (intro that [of ctx'])
      (auto simp: Keeper_InitGenesis_def fun_eq_iff store_all_apply [OF assms(4)] split: option.split)
qed

text \<open>A map that holds a list of chains under their ids is stored as that list, sorted.\<close>

lemma entries_of_map:
  assumes "distinct (map ChainId cs)" and "stored ctx = map_of (map (\<lambda>c. (ChainId c, g c)) cs)"
    and "\<And>c. ChainId (g c) = ChainId c"
  shows "map snd (entries (kvStore ctx)) = sort_key ChainId (map g cs)"
proof -
  let ?es = "entries (kvStore ctx)" and ?l = "map (\<lambda>c. (ChainId c, g c)) cs"
  have dl: "distinct (map fst ?l)"
    using assms(1) by (simp add: comp_def)
  have "set ?es = set ?l"
    using assms(2) entries_distinct [of "kvStore ctx"] dl map_of_inject_set by blast
  have "map fst ?es = map (ChainId \<circ> snd) ?es"
    using \<open>set ?es = set ?l\<close> assms(3) by (auto simp del: map_map) 
  then have ids: "map ChainId (map snd ?es) = map fst ?es"
    by simp
  have "distinct ?es" "distinct ?l"
    using entries_distinct [of "kvStore ctx"] assms(1) by (auto simp: distinct_map inj_on_def)
  with \<open>set ?es = set ?l\<close> have "mset ?es = mset ?l"
    using set_eq_iff_mset_eq_distinct by blast
  then have "mset (map snd ?es) = mset (map g cs)"
    by (metis (mono_tags, lifting) comp_def map_eq_conv map_map mset_map snd_conv)
  moreover have "sorted (map ChainId (map snd ?es))" "inj_on ChainId (set (map snd ?es))"
    using entries_sorted [of "kvStore ctx"] entries_distinct [of "kvStore ctx"]
    unfolding ids [symmetric] distinct_map by blast+
  ultimately show ?thesis
    using sort_key_inj_key_eq [of "map g cs" "map snd ?es" ChainId] by (metis set_mset_mset)
qed

lemma import_export:
  assumes "valid_denom ''photon''" and "entries (kvStore ctx) = []"
    and "list_all (\<lambda>c. ModuleAccountAddress c = '''') (GS_ConsumerChains gs)"
    and "list_all (\<lambda>c. BytesToString (addressCodec K) (chain_addr L c) = Inr (addr c)) (GS_ConsumerChains gs)"
    and "distinct (map ChainId (GS_ConsumerChains gs))"
  obtains ctx' where "Keeper_InitGenesis L K ctx gs = (ctx', Inr ())"
    and "Keeper_ExportGenesis L K ctx' = Inr \<lparr>GS_Params = GS_Params gs, GS_ConsumerChains =
       sort_key ChainId (map (\<lambda>c. with_address (addr c) c) (GS_ConsumerChains gs))\<rparr>"
proof -
  obtain ctx' where i: "Keeper_InitGenesis L K ctx gs = (ctx', Inr ())"
    "params (kvStore ctx') = Some (GS_Params gs)"
    "stored ctx' = map_of (map (\<lambda>c. (ChainId c, with_address (addr c) c)) (GS_ConsumerChains gs))"
    by (rule InitGenesis_stores [OF assms(2-5)])
  have "map snd (entries (kvStore ctx')) =
      sort_key ChainId (map (\<lambda>c. with_address (addr c) c) (GS_ConsumerChains gs))"
    by (rule entries_of_map [OF assms(5) i(3)]) simp
  with that i ExportGenesis_ok [OF assms(1) i(2)] show thesis by simp
qed

lemma InitGenesis_rejects:
  assumes "GS_ConsumerChains gs \<noteq> []" and "list_all (\<lambda>c. ModuleAccountAddress c \<noteq> '''') (GS_ConsumerChains gs)"
  shows "\<exists>ctx' e. Keeper_InitGenesis L K ctx gs = (ctx', Inl e)"
proof -
  obtain c cs where "GS_ConsumerChains gs = c # cs"
    using assms(1) by (cases "GS_ConsumerChains gs") auto
  then have "\<exists>e. init_chains L K ctx' (GS_ConsumerChains gs) = (ctx', Inl e)" for ctx'
    using assms(2) by simp
  then show ?thesis
    by (fastforce simp: Keeper_InitGenesis_def split: prod.split sum.split)
qed

end

section \<open>Properties\<close>

text \<open>C29: On an empty store, a genesis state whose chains have distinct ids and empty account
  addresses is imported, and exporting gives it back with its parameters, its chains in
  the order of their ids and each chain's account address filled in.\<close>

theorem Genesis_roundtrip:
  assumes "provider_env L valid_denom K entries params bal registered blocked"
    and "valid_denom ''photon''" and "entries (kvStore ctx) = []"
    and "list_all (\<lambda>c. ModuleAccountAddress c = '''') (GS_ConsumerChains gs)"
    and "list_all (\<lambda>c. BytesToString (addressCodec K) (chain_addr L c) = Inr (addr c)) (GS_ConsumerChains gs)"
    and "distinct (map ChainId (GS_ConsumerChains gs))"
  shows "\<exists>ctx'. Keeper_InitGenesis L K ctx gs = (ctx', Inr ()) \<and>
     Keeper_ExportGenesis L K ctx' = Inr \<lparr>GS_Params = GS_Params gs, GS_ConsumerChains =
       sort_key ChainId (map (\<lambda>c. with_address (addr c) c) (GS_ConsumerChains gs))\<rparr>"
  by (rule provider_env.import_export [OF assms]) blast

text \<open>C35: What ExportGenesis writes after importing a genesis state with at least one chain is
  rejected by InitGenesis on every store: with a chain, an export can not be imported.\<close>

theorem ExportGenesis_not_importable:
  assumes "provider_env L valid_denom K entries params bal registered blocked"
    and "valid_denom ''photon''" and "entries (kvStore ctx) = []"
    and "list_all (\<lambda>c. ModuleAccountAddress c = '''') (GS_ConsumerChains gs)"
    and "list_all (\<lambda>c. BytesToString (addressCodec K) (chain_addr L c) = Inr (addr c)) (GS_ConsumerChains gs)"
    and "distinct (map ChainId (GS_ConsumerChains gs))"
    and "list_all (\<lambda>c. addr c \<noteq> '''') (GS_ConsumerChains gs)" and "GS_ConsumerChains gs \<noteq> []"
  shows "\<exists>ctx' gs'. Keeper_InitGenesis L K ctx gs = (ctx', Inr ()) \<and>
     Keeper_ExportGenesis L K ctx' = Inr gs' \<and>
     (\<forall>ctx2. \<exists>ctx3 e. Keeper_InitGenesis L K ctx2 gs' = (ctx3, Inl e))"
proof -
  let ?cs = "sort_key ChainId (map (\<lambda>c. with_address (addr c) c) (GS_ConsumerChains gs))"
  obtain ctx' where "Keeper_InitGenesis L K ctx gs = (ctx', Inr ())"
    "Keeper_ExportGenesis L K ctx' = Inr \<lparr>GS_Params = GS_Params gs, GS_ConsumerChains = ?cs\<rparr>"
    by (rule provider_env.import_export [OF assms(1-6)])
  moreover have "list_all (\<lambda>c. ModuleAccountAddress c \<noteq> '''') ?cs" "?cs \<noteq> []"
    using assms(7,8) by (auto simp: list_all_iff simp flip: set_empty)
  ultimately show ?thesis
    using provider_env.InitGenesis_rejects [OF assms(1)] by force
qed

section \<open>A concrete genesis\<close>

definition empty_ctx :: "(ref_store, ref_world) Context" where
  "empty_ctx = \<lparr>kvStore = \<lparr>rs_params = None, rs_chains = fmempty\<rparr>,
     others = \<lparr>rw_bal = (\<lambda>_ _. 0), rw_accounts = [], rw_validators = []\<rparr>, BlockHeight = 0, Events = []\<rparr>"

definition demo_genesis :: GenesisState where
  "demo_genesis = \<lparr>GS_Params = \<lparr>FeesPerBlock = coin ''photon'' 10, DowntimeSlashingWindow = 10\<rparr>,
     GS_ConsumerChains = [with_address '''' (demo_chain ''b'' CONSUMER_STATUS_ACTIVE),
       with_address '''' (demo_chain ''a'' CONSUMER_STATUS_PENDING)]\<rparr>"

abbreviation demo_addr :: "ConsumerChain \<Rightarrow> string" where
  "demo_addr c \<equiv> ''atoneaddr:consumer_'' @ ChainId c"

lemma demo_genesis_ok:
  "ref_entries (kvStore empty_ctx) = []"
  "list_all (\<lambda>c. ModuleAccountAddress c = '''') (GS_ConsumerChains demo_genesis)"
  "list_all (\<lambda>c. BytesToString (addressCodec demo_keeper) (chain_addr ref_sdk c) = Inr (demo_addr c))
     (GS_ConsumerChains demo_genesis)"
  "distinct (map ChainId (GS_ConsumerChains demo_genesis))"
  "list_all (\<lambda>c. demo_addr c \<noteq> '''') (GS_ConsumerChains demo_genesis)"
  "GS_ConsumerChains demo_genesis \<noteq> []"
  by (simp_all add: empty_ctx_def ref_entries_def demo_genesis_def demo_defs)

theorem Genesis_roundtrip_witness:
  "\<exists>ctx'. Keeper_InitGenesis ref_sdk demo_keeper empty_ctx demo_genesis = (ctx', Inr ()) \<and>
     Keeper_ExportGenesis ref_sdk demo_keeper ctx' = Inr \<lparr>GS_Params = GS_Params demo_genesis,
       GS_ConsumerChains = [demo_chain ''a'' CONSUMER_STATUS_PENDING,
         demo_chain ''b'' CONSUMER_STATUS_ACTIVE]\<rparr>"
proof -
  have sorted: "sort_key ChainId (map (\<lambda>c. with_address (demo_addr c) c) (GS_ConsumerChains demo_genesis)) =
      [demo_chain ''a'' CONSUMER_STATUS_PENDING, demo_chain ''b'' CONSUMER_STATUS_ACTIVE]"
    by (simp add: demo_genesis_def demo_chain_def with_address_def)
  show ?thesis
    using Genesis_roundtrip [OF env_ref.provider_env_axioms [of "\<lambda>m. m \<noteq> ''consumer_c''" "\<lambda>_. False"] _
        demo_genesis_ok(1-4)] unfolding sorted by simp
qed

theorem ExportGenesis_not_importable_witness:
  "\<exists>ctx' gs'. Keeper_InitGenesis ref_sdk demo_keeper empty_ctx demo_genesis = (ctx', Inr ()) \<and>
     Keeper_ExportGenesis ref_sdk demo_keeper ctx' = Inr gs' \<and>
     (\<forall>ctx2. \<exists>ctx3 e. Keeper_InitGenesis ref_sdk demo_keeper ctx2 gs' = (ctx3, Inl e))"
  by (rule ExportGenesis_not_importable [OF env_ref.provider_env_axioms _ demo_genesis_ok]) simp

end
