(* ===== verification/ProviderModule.thy ===== *)
theory ProviderModule
  imports Genesis
begin

text \<open>
  modules/provider/module (abci.go, module.go, depinject.go): the block hooks, the module's
  methods around the keeper and its construction. The main result composes the
  collection and the distribution of \<open>Fees\<close>: what \<open>BeginBlocker\<close> does to the chains
  and to every balance in one block, and exactly when it fails and with it the block.
\<close>

section \<open>Block hooks (abci.go)\<close>

definition BeginBlocker ::
    "sdk_lib \<Rightarrow> ('s, 'x, 'acc) Keeper \<Rightarrow> ('s, 'x) Context \<Rightarrow> ('s, 'x) Context \<times> (fault + unit)" where
  "BeginBlocker L k ctx =
     (case Params_Get (collections k) (kvStore ctx) of
        Inl err \<Rightarrow> (ctx, Inl (Fail (Wrap err ''failed to get params: %w'' [])))
      | Inr p \<Rightarrow>
          (case Coin_IsZero L (FeesPerBlock p) of
             Inl e \<Rightarrow> (ctx, Inl e)
           | Inr True \<Rightarrow> (ctx, Inr ())
           | Inr False \<Rightarrow>
               (case CollectFeesFromConsumers L k ctx (FeesPerBlock p) of
                  (ctx, Inl e) \<Rightarrow> (ctx, Inl e)
                | (ctx, Inr totalFeesCollected) \<Rightarrow>
                    (case Coin_IsZero L totalFeesCollected of
                       Inl e \<Rightarrow> (ctx, Inl e)
                     | Inr True \<Rightarrow> (ctx, Inr ())
                     | Inr False \<Rightarrow>
                         (case DistributeFeesToValidators L k ctx totalFeesCollected of
                            (ctx, Inl e) \<Rightarrow> (ctx, Inl (wrap_fault
                              ''failed to distribute fees to validators: %w'' [] e))
                          | (ctx, Inr _) \<Rightarrow> (ctx, Inr ()))))))"

definition EndBlocker ::
    "('s, 'x, 'acc) Keeper \<Rightarrow> ('s, 'x) Context \<Rightarrow> ('s, 'x) Context \<times> (fault + unit)" where
  "EndBlocker k ctx = (ctx, Inr ())"

section \<open>The module (module.go, depinject.go)\<close>

record JSONCodec =
  MarshalJSON :: "GenesisState \<Rightarrow> go_error + bytes"
  UnmarshalJSON :: "bytes \<Rightarrow> go_error + GenesisState"

record ('s, 'x, 'acc) AppModule =
  am_cdc :: JSONCodec
  am_keeper :: "('s, 'x, 'acc) Keeper"

definition NewAppModule :: "JSONCodec \<Rightarrow> ('s, 'x, 'acc) Keeper \<Rightarrow> ('s, 'x, 'acc) AppModule" where
  "NewAppModule cdc k = \<lparr>am_cdc = cdc, am_keeper = k\<rparr>"

definition AppModule_Name :: "('s, 'x, 'acc) AppModule \<Rightarrow> string" where
  "AppModule_Name am = ModuleName"

definition ConsensusVersion :: "('s, 'x, 'acc) AppModule \<Rightarrow> uint64" where
  "ConsensusVersion am = 1"

definition AppModule_DefaultGenesis :: "sdk_lib \<Rightarrow> ('s, 'x, 'acc) AppModule \<Rightarrow> fault + bytes" where
  "AppModule_DefaultGenesis L am =
     (case DefaultGenesis L of
        Inl e \<Rightarrow> Inl e
      | Inr gs \<Rightarrow>
          (case MarshalJSON (am_cdc am) gs of
             Inl e \<Rightarrow> Inl (Panic ''MustMarshalJSON'')
           | Inr bz \<Rightarrow> Inr bz))"

definition ValidateGenesis :: "sdk_lib \<Rightarrow> ('s, 'x, 'acc) AppModule \<Rightarrow> bytes \<Rightarrow> fault + unit" where
  "ValidateGenesis L am bz =
     (case UnmarshalJSON (am_cdc am) bz of
        Inl e \<Rightarrow> Inl (Fail (Wrap e ''failed to unmarshal %s genesis state: %w'' [ArgS ModuleName]))
      | Inr genState \<Rightarrow> GenesisState_Validate L genState)"

definition AppModule_InitGenesis ::
    "sdk_lib \<Rightarrow> ('s, 'x, 'acc) AppModule \<Rightarrow> ('s, 'x) Context \<Rightarrow> bytes \<Rightarrow>
     ('s, 'x) Context \<times> (fault + unit)" where
  "AppModule_InitGenesis L am ctx gs =
     (case UnmarshalJSON (am_cdc am) gs of
        Inl e \<Rightarrow> (ctx, Inl (Panic ''failed to unmarshal provider genesis state''))
      | Inr genState \<Rightarrow>
          (case Keeper_InitGenesis L (am_keeper am) ctx genState of
             (ctx, Inl e) \<Rightarrow> (ctx, Inl (Panic ''failed to initialize provider genesis state''))
           | (ctx, Inr _) \<Rightarrow> (ctx, Inr ())))"

definition AppModule_ExportGenesis ::
    "sdk_lib \<Rightarrow> ('s, 'x, 'acc) AppModule \<Rightarrow> ('s, 'x) Context \<Rightarrow> fault + bytes" where
  "AppModule_ExportGenesis L am ctx =
     (case Keeper_ExportGenesis L (am_keeper am) ctx of
        Inl e \<Rightarrow> Inl (Panic ''failed to export provider genesis state'')
      | Inr genState \<Rightarrow>
          (case MarshalJSON (am_cdc am) genState of
             Inl e \<Rightarrow> Inl (Panic ''failed to marshal provider genesis state'')
           | Inr bz \<Rightarrow> Inr bz))"

definition BeginBlock ::
    "sdk_lib \<Rightarrow> ('s, 'x, 'acc) AppModule \<Rightarrow> ('s, 'x) Context \<Rightarrow> ('s, 'x) Context \<times> (fault + unit)" where
  "BeginBlock L am ctx = BeginBlocker L (am_keeper am) ctx"

definition EndBlock ::
    "('s, 'x, 'acc) AppModule \<Rightarrow> ('s, 'x) Context \<Rightarrow> ('s, 'x) Context \<times> (fault + unit)" where
  "EndBlock am ctx = EndBlocker (am_keeper am) ctx"

text \<open>\<open>or_bech32\<close> is the SDK's \<open>NewModuleAddressOrBech32Address\<close>.\<close>

definition ProvideModule ::
    "sdk_lib \<Rightarrow> (string \<Rightarrow> bytes) \<Rightarrow> string \<Rightarrow> (go_error + 's Collections) \<Rightarrow> JSONCodec \<Rightarrow>
     AddressCodec \<Rightarrow> ('x, 'acc) AuthKeeper \<Rightarrow> 'x BankKeeper \<Rightarrow> 'x StakingKeeper \<Rightarrow>
     fault + ('s, 'x, 'acc) Keeper \<times> ('s, 'x, 'acc) AppModule" where
  "ProvideModule L or_bech32 config_Authority sb_Build cdc codec ak bk sk =
     (let auth = NewModuleAddress L GovModuleName;
          auth = (if config_Authority \<noteq> '''' then or_bech32 config_Authority else auth)
      in case NewKeeper sb_Build codec auth ak bk sk of
           Inl e \<Rightarrow> Inl e
         | Inr k \<Rightarrow> Inr (k, NewAppModule cdc k))"

section \<open>One block\<close>

text \<open>The bonded validators are the staking module's, and a transfer of coins does not
  change them.\<close>

locale staking_laws =
  fixes B :: "'x BankKeeper" and S :: "'x StakingKeeper" and validators :: "'x \<Rightarrow> Validator list"
  assumes GetBonded: "GetBondedValidatorsByPower S x = Inr (validators x)"
    and validators_send: "validators (fst (SendCoinsFromModuleToModule B x m m' cs)) = validators x"

interpretation ref_st: staking_laws "ref_bank registered blocked" ref_staking rw_validators
  for registered :: "string \<Rightarrow> bool" and blocked :: "bytes \<Rightarrow> bool"
  by unfold_locales
    (auto simp: ref_staking_def ref_bank_def ref_move_def split: list.split math_int.split)

text \<open>A property of the state that every call of the callback keeps is kept by the loop.\<close>

lemma Walk_invariant:
  "P c \<Longrightarrow> (\<And>c k v. P c \<Longrightarrow> P (fst (cb c k v))) \<Longrightarrow> P (fst (Walk es cb c))"
proof (induction es cb c rule: Walk.induct)
  case (3 k v es cb c)
  then show ?case
    by (cases "cb c k v"; cases "snd (cb c k v)") (use 3(3)[of c k v] 3(2) in auto)
qed auto

lemma collect_fee_others:
  assumes send: "\<And>x m m' cs. f (fst (SendCoinsFromModuleToModule (bankKeeper k) x m m' cs)) = f x"
  shows "f (others (snd (fst (collect_fee L k fee st c)))) = f (others (snd st))"
proof -
  obtain fees ctx where st: "st = (fees, ctx)"
    by fastforce
  have store: "f (others (snd (fst (case set_chain k ctx d of
        (ctx, Inl e) \<Rightarrow> ((fees, ctx), Inl (Fail e)) | (ctx, Inr _) \<Rightarrow> ((fees, ctx), Inr False))))) =
      f (others ctx)" for fees :: Coin and ctx d
    by (simp add: set_chain_def split: prod.split sum.split)
  let ?send = "SendCoinsFromModuleToModule (bankKeeper k) (others ctx)
      (GetConsumerModuleAccountName (ChainId c)) ''fee_collector''"
  define x r where "x = (\<lambda>coins. fst (?send coins))" and "r = (\<lambda>coins. snd (?send coins))"
  then have x: "?send coins = (x coins, r coins)" for coins
    by simp
  have fx: "f (x coins) = f (others ctx)" for coins
    using send [of "others ctx" "GetConsumerModuleAccountName (ChainId c)" "''fee_collector''" coins]
    by (simp add: x)
  note [simp] = collect_fee_def st Let_def x store fx
  show ?thesis
  proof (cases "\<not> IsActive c \<and> \<not> IsOverdue c")
    case False
    let ?lt = "\<lambda>a. Coin_IsLT L (GetBalance (bankKeeper k) (others ctx) a (Denom fee)) fee"
    show ?thesis
    proof (cases "StringToBytes (addressCodec k) (ModuleAccountAddress c)")
      case (Inr a)
      note 1 = False Inr
      show ?thesis
      proof (cases "?lt a")
        case (Inr poor)
        with 1 show ?thesis
          by (cases poor; cases "NewCoins L [fee]"; cases "r (projr (NewCoins L [fee]))";
              cases "Coin_Add L fees fee") simp_all
      qed (use 1 in simp)
    qed (use False in simp)
  qed simp
qed

lemma CollectFees_others:
  assumes "\<And>x m m' cs. f (fst (SendCoinsFromModuleToModule (bankKeeper k) x m m' cs)) = f x"
  shows "f (others (fst (CollectFeesFromConsumers L k ctx fee))) = f (others ctx)"
proof -
  have "f (others (snd (fst (IterateConsumerChains k s (collect_fee L k fee) st)))) = f (others (snd st))"
    for s st
    unfolding IterateConsumerChains_def Chains_Walk_def
    by (simp split: sum.split)
      (intro allI impI Walk_invariant [where P = "\<lambda>st'. f (others (snd st')) = f (others (snd st))"],
        simp_all add: collect_fee_others [of f k L fee, OF assms])
  then show ?thesis
    by (auto simp: CollectFeesFromConsumers_def split: sum.split prod.split)
      (metis fst_conv snd_conv)+
qed

text \<open>With no payer there is nothing to share: both operations are the identity on balances.\<close>

lemma paid_out_zero: "paid_out L d addr (\<lambda>v. 0 * g v div P) vs b = b"
  by (simp add: paid_out_def fun_eq_iff)

text \<open>Who is paid in a block in which the chains \<open>paying\<close> pay, and how the block ends.\<close>

definition block_distribution ::
    "sdk_lib \<Rightarrow> ('s, 'x, 'acc) Keeper \<Rightarrow> ConsumerChain list \<Rightarrow> Validator list \<Rightarrow> Validator list \<times> (fault + unit)" where
  "block_distribution L K paying vs =
     (if paying = [] then ([], Inr ())
      else apsnd (map_sum (wrap_fault ''failed to distribute fees to validators: %w'' []) id) (distribution L K vs))"

lemma block_distribution_ok:
  "\<not> isl (snd (block_distribution L K paying vs)) \<longleftrightarrow> paying = [] \<or> \<not> isl (snd (distribution L K vs))"
  by (auto simp: block_distribution_def isl_map_sum)

lemma payee_account:
  assumes "distributable L K blocked T vs" and "v \<in> set (fst (payees K vs))"
  shows "operator_addr K v \<noteq> collector_addr L"
proof -
  have "v \<in> set vs"
    using assms(2) payees_subset [of K vs] by blast
  then show ?thesis
    using assms(1) payees_parse [OF assms(2)] by (auto simp: distributable_def list_all_iff)
qed

lemma BeginBlocker_run:
  assumes env: "provider_env L valid_denom K entries params bal registered blocked"
    and stk: "staking_laws (bankKeeper K) (stakingKeeper K) validators"
    and p: "params (kvStore ctx) = Some p" "FeesPerBlock p = coin d f"
    and d: "valid_denom d" and f: "0 < f"
    and ok: "collectable L K registered f (entries (kvStore ctx))"
  defines "balance \<equiv> \<lambda>c. bal (others ctx) (chain_addr L c) d"
  defines "paying \<equiv> payers f balance (map snd (entries (kvStore ctx)))"
  defines "vs \<equiv> validators (others ctx)"
  defines "share \<equiv> \<lambda>v. f * int (length paying) * cons_power L v div sum_list (map (cons_power L) vs)"
  assumes dist: "distributable L K blocked (f * int (length paying)) vs"
  obtains ctx' where "BeginBlocker L K ctx = (ctx', snd (block_distribution L K paying vs))"
    and "map_of (entries (kvStore ctx')) =
       (\<lambda>k. map_option (\<lambda>c. bill f (balance c) c) (map_of (entries (kvStore ctx)) k))"
    and "bal (others ctx') = paid_out L d (operator_addr K) share (fst (block_distribution L K paying vs))
       (charged L d f paying (bal (others ctx)))"
    and "params (kvStore ctx') = params (kvStore ctx)"
    and "BlockHeight ctx' = BlockHeight ctx" and "Events ctx' = Events ctx"
proof -
  let ?T = "f * int (length paying)"
  have coll: "collections_laws (collections K) entries params" and sdk: "sdk_laws L valid_denom"
      and bank: "bank_laws (bankKeeper K) (NewModuleAddress L) bal registered blocked"
    using env by (simp_all add: provider_env_def)
  obtain ctx1 where c1: "CollectFeesFromConsumers L K ctx (coin d f) = (ctx1, Inr (coin d ?T))"
    "map_of (entries (kvStore ctx1)) =
       (\<lambda>k. map_option (\<lambda>c. bill f (balance c) c) (map_of (entries (kvStore ctx)) k))"
    "bal (others ctx1) = charged L d f paying (bal (others ctx))"
    "params (kvStore ctx1) = params (kvStore ctx)"
    "BlockHeight ctx1 = BlockHeight ctx" "Events ctx1 = Events ctx"
    unfolding balance_def paying_def
    by (rule provider_env.CollectFees_loop [OF env d f ok]) blast
  have "validators (others (fst (CollectFeesFromConsumers L K ctx (coin d f)))) = vs"
    unfolding vs_def by (rule CollectFees_others) (rule staking_laws.validators_send [OF stk])
  then have bonded: "GetBondedValidatorsByPower (stakingKeeper K) (others ctx1) = Inr vs"
    by (simp add: c1(1) staking_laws.GetBonded [OF stk])
  have zero: "Coin_IsZero L (coin d n) = Inr (n = 0)" for n
    by (rule sdk_laws.Coin_IsZero [OF sdk])
  have get: "Params_Get (collections K) (kvStore ctx) = Inr p"
    by (simp add: collections_laws.Params_Get [OF coll] p(1))
  show thesis
  proof (cases "paying = []")
    case True
    with c1 zero [of 0] zero [of f] get p(2) f show thesis
      by (intro that [of ctx1]) (simp_all add: BeginBlocker_def block_distribution_def)
  next
    case False
    then have T: "0 < ?T"
      using f by simp
    have "collector_addr L \<notin> chain_addr L ` set paying"
      using ok by (auto simp: paying_def payers_def collectable_def)
    then have "?T \<le> bal (others ctx1) (collector_addr L) d"
      using bank_laws.bal_nonneg [OF bank, of "others ctx" "collector_addr L" d]
      by (simp add: c1(3) charged_def)
    then obtain x where x:
      "DistributeFeesToValidators L K ctx1 (coin d ?T) = (ctx1\<lparr>others := x\<rparr>, snd (distribution L K vs))"
      "bal x = paid_out L d (operator_addr K) share (fst (distribution L K vs)) (bal (others ctx1))"
      using provider_env.DistributeFees_run [OF env d _ _ bonded dist] T ok
      unfolding share_def collectable_def by force
    with False T c1 zero [of ?T] zero [of f] get p(2) f show thesis
      by (intro that [of "ctx1\<lparr>others := x\<rparr>"])
        (auto simp: BeginBlocker_def block_distribution_def split: sum.split)
  qed
qed

section \<open>Properties\<close>

text \<open>C3: Under the contracts of the SDK's keepers and with a positive fee, BeginBlocker bills every active or
  overdue chain (it pays and is active, or is overdue) and the payers lose the fee; then the validators get
  floor(total * power / total power) each, in their order, up to the first one whose operator
  string the account codec does not parse. The block fails exactly when some chain pays, there is a bonded
  validator, and the total power is zero or some operator string does not parse; so with the
  codec of the SDK, which refuses every validator operator, each block in which a chain pays fails. The fee
  collector never loses, and keeps less than one unit per validator when the block succeeds with
  a bonded validator.\<close>

theorem BeginBlocker_correct:
  assumes "provider_env L valid_denom K entries params bal registered blocked"
    and "staking_laws (bankKeeper K) (stakingKeeper K) validators"
    and "params (kvStore ctx) = Some p" and "FeesPerBlock p = coin d f"
    and "valid_denom d" and "0 < f"
    and "collectable L K registered f (entries (kvStore ctx))"
  defines "balance \<equiv> \<lambda>c. bal (others ctx) (chain_addr L c) d"
  defines "paying \<equiv> payers f balance (map snd (entries (kvStore ctx)))"
  defines "vs \<equiv> validators (others ctx)"
  defines "share \<equiv> \<lambda>v. f * int (length paying) * cons_power L v div sum_list (map (cons_power L) vs)"
  assumes "distributable L K blocked (f * int (length paying)) vs"
  shows "\<exists>ctx' result. BeginBlocker L K ctx = (ctx', result) \<and>
     result = snd (block_distribution L K paying vs) \<and>
     (isl result \<longleftrightarrow> paying \<noteq> [] \<and> vs \<noteq> [] \<and>
       (sum_list (map (cons_power L) vs) = 0 \<or> (\<exists>v \<in> set vs. isl (operator_account K v)))) \<and>
     map_of (entries (kvStore ctx')) =
       (\<lambda>k. map_option (\<lambda>c. bill f (balance c) c) (map_of (entries (kvStore ctx)) k)) \<and>
     bal (others ctx') = paid_out L d (operator_addr K) share (fst (block_distribution L K paying vs))
       (charged L d f paying (bal (others ctx))) \<and>
     bal (others ctx) (collector_addr L) d \<le> bal (others ctx') (collector_addr L) d \<and>
     (\<not> isl result \<and> vs \<noteq> [] \<longrightarrow>
       bal (others ctx') (collector_addr L) d < bal (others ctx) (collector_addr L) d + int (length vs))"
proof -
  let ?T = "f * int (length paying)" and ?paid = "fst (block_distribution L K paying vs)"
  obtain ctx' where c': "BeginBlocker L K ctx = (ctx', snd (block_distribution L K paying vs))"
    "map_of (entries (kvStore ctx')) =
       (\<lambda>k. map_option (\<lambda>c. bill f (balance c) c) (map_of (entries (kvStore ctx)) k))"
    "bal (others ctx') = paid_out L d (operator_addr K) share ?paid (charged L d f paying (bal (others ctx)))"
    using assms(12) unfolding balance_def paying_def vs_def share_def
    by (rule BeginBlocker_run [OF assms(1-7)]) blast
  have T: "0 \<le> ?T"
    using assms(6) by simp
  note sums = distribution_sums [OF T assms(12), folded share_def]
  have "operator_addr K v \<noteq> collector_addr L" if "v \<in> set ?paid" for v
    using that payee_account [OF assms(12)]
    by (auto simp: block_distribution_def distribution_def split: if_splits)
  then have "(\<Sum>v\<leftarrow>?paid. if operator_addr K v = collector_addr L then share v else 0) = 0"
    by (simp cong: map_cong)
  moreover have "collector_addr L \<notin> chain_addr L ` set paying"
    using assms(7) by (auto simp: paying_def payers_def collectable_def)
  ultimately have collector: "bal (others ctx') (collector_addr L) d =
      bal (others ctx) (collector_addr L) d + ?T - (\<Sum>v\<leftarrow>?paid. share v)"
    by (simp add: c'(3) paid_out_def charged_def)
  have "(\<Sum>v\<leftarrow>?paid. share v) \<le> ?T \<and>
      (\<not> isl (snd (block_distribution L K paying vs)) \<and> vs \<noteq> [] \<longrightarrow> ?T - (\<Sum>v\<leftarrow>?paid. share v) < int (length vs))"
    using sums by (cases "paying = []") (auto simp: block_distribution_def isl_map_sum)
  with collector have "bal (others ctx) (collector_addr L) d \<le> bal (others ctx') (collector_addr L) d"
    "\<not> isl (snd (block_distribution L K paying vs)) \<and> vs \<noteq> [] \<longrightarrow>
       bal (others ctx') (collector_addr L) d < bal (others ctx) (collector_addr L) d + int (length vs)"
    by auto
  moreover have "isl (snd (block_distribution L K paying vs)) \<longleftrightarrow> paying \<noteq> [] \<and> vs \<noteq> [] \<and>
       (sum_list (map (cons_power L) vs) = 0 \<or> (\<exists>v \<in> set vs. isl (operator_account K v)))"
    using block_distribution_ok [of L K paying vs] sums [THEN conjunct1] by (auto simp: list_all_iff)
  ultimately show ?thesis
    using c' by blast
qed

section \<open>The concrete block\<close>

lemma demo_payers:
  "payers 10 (\<lambda>c. ref_bal (others demo_ctx) (chain_addr ref_sdk c) ''photon'')
     (map snd (ref_entries (kvStore demo_ctx))) = [demo_chain ''a'' CONSUMER_STATUS_OVERDUE]"
  unfolding demo_entries by (simp add: payers_def demo_defs demo_ctx_def ref_bal_def)

lemma demo_staking: "staking_laws (bankKeeper demo_keeper) (stakingKeeper demo_keeper) rw_validators"
  using ref_st.staking_laws_axioms by (simp add: ref_keeper_def)

lemma demo_params:
  "rs_params (kvStore demo_ctx) = Some \<lparr>FeesPerBlock = coin ''photon'' 10, DowntimeSlashingWindow = 10\<rparr>"
  by (simp add: demo_ctx_def)

theorem BeginBlocker_correct_witness:
  "(\<exists>ctx'. BeginBlocker ref_sdk demo_keeper (demo_ctx_with [demo_validator ''v'' 1, demo_validator ''w'' 2]) = (ctx', Inr ()) \<and>
     ref_bal (others ctx') ''v'' ''photon'' = 6 \<and> ref_bal (others ctx') ''w'' ''photon'' = 9 \<and>
     ref_bal (others ctx') ''addr:fee_collector'' ''photon'' = 11) \<and>
   (\<exists>ctx'. BeginBlocker ref_sdk demo_keeper (demo_ctx_with [valoper_validator]) = (ctx', Inl (Fail (Wrap
     (Wrap (External ''decoding bech32 failed'') ''failed to parse validator address: %w'' [])
     ''failed to distribute fees to validators: %w'' []))))"
proof -
  let ?vs = "[demo_validator ''v'' 1, demo_validator ''w'' 2]" and ?a = "demo_chain ''a'' CONSUMER_STATUS_OVERDUE"
  have fee: "FeesPerBlock \<lparr>FeesPerBlock = coin ''photon'' 10, DowntimeSlashingWindow = 10\<rparr> =
      coin ''photon'' 10"
    by simp
  have dist: "distributable ref_sdk demo_keeper (\<lambda>_. False) (10 * int (length [?a])) ?vs"
    "distributable ref_sdk demo_keeper (\<lambda>_. False) (10 * int (length [?a])) [valoper_validator]"
    by (simp_all add: payees_defs ref_defs)
  have ends: "block_distribution ref_sdk demo_keeper [?a] ?vs = (?vs, Inr ())"
    "snd (block_distribution ref_sdk demo_keeper [?a] [valoper_validator]) = Inl (Fail (Wrap
       (Wrap (External ''decoding bech32 failed'') ''failed to parse validator address: %w'' [])
       ''failed to distribute fees to validators: %w'' []))"
    by (simp_all add: block_distribution_def payees_defs ref_defs)
  note run = BeginBlocker_correct [OF env_ref.provider_env_axioms demo_staking, where d = "''photon''" and f = 10,
      OF _ fee, where ctx = "demo_ctx_with vs" for vs, simplified demo_ctx_with_simps demo_payers, OF demo_params]
  obtain ctx' where c: "BeginBlocker ref_sdk demo_keeper (demo_ctx_with ?vs) = (ctx', Inr ())"
    "ref_bal (others ctx') = paid_out ref_sdk ''photon'' (operator_addr demo_keeper)
       (\<lambda>v. 10 * int (length [?a]) * cons_power ref_sdk v div sum_list (map (cons_power ref_sdk) ?vs)) ?vs
       (charged ref_sdk ''photon'' 10 [?a] (ref_bal (others demo_ctx)))"
    using run [OF _ _ demo_collectable dist(1)] unfolding ends by auto
  have "ref_bal (others ctx') ''v'' ''photon'' = 6" "ref_bal (others ctx') ''w'' ''photon'' = 9"
      "ref_bal (others ctx') ''addr:fee_collector'' ''photon'' = 11"
    unfolding c(2) by (simp_all add: paid_out_def charged_def payees_defs demo_defs ref_bal_def demo_ctx_def)
  moreover have "\<exists>ctx'. BeginBlocker ref_sdk demo_keeper (demo_ctx_with [valoper_validator]) = (ctx', Inl (Fail (Wrap
     (Wrap (External ''decoding bech32 failed'') ''failed to parse validator address: %w'' [])
     ''failed to distribute fees to validators: %w'' [])))"
    using run [OF _ _ demo_collectable dist(2)] unfolding ends by auto
  ultimately show ?thesis
    using c(1) by blast
qed

end
