(* ===== verification/ProviderMachine.thy ===== *)
theory ProviderMachine
  imports ProviderModule
begin

text \<open>
  The provider module as a state machine: messages, the block hooks, the height and the
  other modules of the application. A message that fails leaves no trace, because the
  application discards its writes; a block whose \<open>BeginBlocker\<close> fails is never
  executed.

  \<open>chain_history\<close> is the contract of such a machine: an invariant, what one step can do to
  a stored chain (\<open>evolves\<close>) and how a new one enters. What holds of whole runs is proved
  once inside it: identities never change, a sunset or removed chain is frozen, and a chain
  that is added or pending is never active or overdue. \<open>provider_env\<close> gives the contract
  for the module's steps.
\<close>

section \<open>Steps\<close>

datatype provider_msg =
    Update MsgUpdateParams
  | Add MsgAddConsumer
  | Sunset MsgSunsetConsumer
  | Upgrade MsgUpgradeConsumer

definition deliver ::
    "sdk_lib \<Rightarrow> ('s, 'x, 'acc) Keeper \<Rightarrow> ('s, 'x) Context \<Rightarrow> provider_msg \<Rightarrow> ('s, 'x) Context" where
  "deliver L k ctx m =
     (case m of
        Update req \<Rightarrow> (case UpdateParams L k ctx req of (c, Inl _) \<Rightarrow> ctx | (c, Inr _) \<Rightarrow> c)
      | Add req \<Rightarrow> (case AddConsumer L k ctx req of (c, Inl _) \<Rightarrow> ctx | (c, Inr _) \<Rightarrow> c)
      | Sunset req \<Rightarrow> (case SunsetConsumer k ctx req of (c, Inl _) \<Rightarrow> ctx | (c, Inr _) \<Rightarrow> c)
      | Upgrade req \<Rightarrow> (case UpgradeConsumer k ctx req of (c, Inl _) \<Rightarrow> ctx | (c, Inr _) \<Rightarrow> c))"

inductive provider_step ::
    "sdk_lib \<Rightarrow> ('s, 'x, 'acc) Keeper \<Rightarrow> ('s, 'x) Context \<Rightarrow> ('s, 'x) Context \<Rightarrow> bool"
  for L K where
  step_begin: "BeginBlocker L K ctx = (ctx', Inr ()) \<Longrightarrow> provider_step L K ctx ctx'"
| step_msg: "provider_step L K ctx (deliver L K ctx m)"
| step_end: "EndBlocker K ctx = (ctx', Inr ()) \<Longrightarrow> provider_step L K ctx ctx'"
| step_height: "sint (BlockHeight ctx) < sint h \<Longrightarrow> provider_step L K ctx (ctx\<lparr>BlockHeight := h, Events := []\<rparr>)"
| step_others: "provider_step L K ctx (ctx\<lparr>others := x\<rparr>)"

section \<open>What a step can do to a chain\<close>

definition owing :: "ConsumerStatus \<Rightarrow> bool" where
  "owing s \<longleftrightarrow> s = CONSUMER_STATUS_ACTIVE \<or> s = CONSUMER_STATUS_OVERDUE"

definition closed :: "ConsumerStatus \<Rightarrow> bool" where
  "closed s \<longleftrightarrow> s = CONSUMER_STATUS_SUNSET \<or> s = CONSUMER_STATUS_REMOVED"

definition status_next :: "ConsumerStatus \<Rightarrow> ConsumerStatus \<Rightarrow> bool" where
  "status_next a b \<longleftrightarrow> a = b \<or> owing a \<and> owing b \<or> \<not> closed a \<and> closed b"

definition evolves :: "ConsumerChain \<Rightarrow> ConsumerChain \<Rightarrow> bool" where
  "evolves c c' \<longleftrightarrow>
     ChainId c' = ChainId c \<and> Name c' = Name c \<and> Version c' = Version c \<and> AddedAt c' = AddedAt c \<and>
     ModuleAccountAddress c' = ModuleAccountAddress c \<and> status_next (Status c) (Status c') \<and>
     (closed (Status c) \<longrightarrow> c' = c)"

lemma owing_not_closed: "owing s \<Longrightarrow> \<not> closed s"
  by (auto simp: owing_def closed_def status_defs)

lemma status_next_refl [simp]: "status_next s s"
  by (simp add: status_next_def)

lemma status_next_trans: "status_next a b \<Longrightarrow> status_next b c \<Longrightarrow> status_next a c"
  using owing_not_closed by (auto simp: status_next_def)

lemma evolves_refl [simp]: "evolves c c"
  by (simp add: evolves_def)

lemma evolves_trans: "evolves a b \<Longrightarrow> evolves b c \<Longrightarrow> evolves a c"
  by (auto simp: evolves_def elim: status_next_trans)

lemma evolves_status:
  "owing (Status c) \<Longrightarrow> owing s \<Longrightarrow> evolves c (c\<lparr>Status := s\<rparr>)"
  using owing_not_closed by (auto simp: evolves_def status_next_def)

lemma evolves_sunset: "CanSunset c \<Longrightarrow> evolves c (sunset_chain now at c)"
  by (auto simp: evolves_def status_next_def closed_def sunset_chain_def CanSunset_def IsSunset_def
      IsRemoved_def)

lemma pending_not_owing:
  "evolves c c' \<Longrightarrow> Status c = CONSUMER_STATUS_PENDING \<Longrightarrow> \<not> owing (Status c')"
  using owing_not_closed by (auto simp: evolves_def status_next_def owing_def status_defs)

lemma billable_owing: "billable c \<longleftrightarrow> owing (Status c)"
  by (simp add: billable_def owing_def IsActive_def IsOverdue_def)

section \<open>Runs\<close>

locale chain_history =
  fixes stepr :: "'m \<Rightarrow> 'm \<Rightarrow> bool" and inv :: "'m \<Rightarrow> bool"
    and look :: "'m \<Rightarrow> string \<rightharpoonup> ConsumerChain"
  assumes step_inv: "inv s \<Longrightarrow> stepr s t \<Longrightarrow> inv t"
    and step_evolves:
      "inv s \<Longrightarrow> stepr s t \<Longrightarrow> look s k = Some c \<Longrightarrow> \<exists>c'. look t k = Some c' \<and> evolves c c'"
    and step_fresh:
      "inv s \<Longrightarrow> stepr s t \<Longrightarrow> look s k = None \<Longrightarrow> look t k = Some c \<Longrightarrow>
         Status c = CONSUMER_STATUS_PENDING"
begin

lemma run_inv: "stepr\<^sup>*\<^sup>* s t \<Longrightarrow> inv s \<Longrightarrow> inv t"
  by (induction rule: rtranclp_induct) (auto intro: step_inv)

lemma run_evolves:
  "stepr\<^sup>*\<^sup>* s t \<Longrightarrow> inv s \<Longrightarrow> look s k = Some c \<Longrightarrow> \<exists>c'. look t k = Some c' \<and> evolves c c'"
proof (induction rule: rtranclp_induct)
  case (step t u)
  then obtain c' where "look t k = Some c'" "evolves c c'"
    by blast
  moreover have "inv t"
    using step.hyps(1) step.prems(1) by (rule run_inv)
  ultimately show ?case
    using step_evolves [OF _ step.hyps(2)] evolves_trans by blast
qed simp

lemma run_frozen:
  "stepr\<^sup>*\<^sup>* s t \<Longrightarrow> inv s \<Longrightarrow> look s k = Some c \<Longrightarrow> closed (Status c) \<Longrightarrow> look t k = Some c"
  using run_evolves by (fastforce simp: evolves_def)

lemma run_fresh:
  "stepr\<^sup>*\<^sup>* s t \<Longrightarrow> inv s \<Longrightarrow> look s k = None \<Longrightarrow> look t k = Some c \<Longrightarrow> \<not> owing (Status c)"
proof (induction arbitrary: c rule: rtranclp_induct)
  case (step t u)
  have t: "inv t"
    using step.hyps(1) step.prems(1) by (rule run_inv)
  show ?case
  proof (cases "look t k")
    case None
    then have "Status c = CONSUMER_STATUS_PENDING"
      using step_fresh [OF t step.hyps(2)] step.prems by blast
    then show ?thesis
      by (simp add: owing_def status_defs)
  next
    case (Some c0)
    with step.IH step.prems have "\<not> owing (Status c0)"
      by blast
    moreover obtain c' where "look u k = Some c'" "evolves c0 c'"
      using step_evolves [OF t step.hyps(2) Some] by blast
    ultimately show ?thesis
      using step.prems(3) owing_not_closed by (auto simp: evolves_def status_next_def)
  qed
qed simp

end

section \<open>The steps of the module\<close>

text \<open>A chain of the store is filed under its id and carries the address of its own module
  account; its heights are not negative.\<close>

definition chain_inv :: "sdk_lib \<Rightarrow> ('s, 'x, 'acc) Keeper \<Rightarrow> (string \<rightharpoonup> ConsumerChain) \<Rightarrow> bool" where
  "chain_inv L K st \<longleftrightarrow>
     (\<forall>k c. st k = Some c \<longrightarrow>
        entry_ok L K (k, c) \<and> k \<noteq> '''' \<and> 0 \<le> sint (AddedAt c) \<and> 0 \<le> sint (SunsetAt c))"

text \<open>The effect of a block on the store: some billable chains get another status.\<close>

definition rebilled :: "(string \<rightharpoonup> ConsumerChain) \<Rightarrow> (string \<rightharpoonup> ConsumerChain) \<Rightarrow> bool" where
  "rebilled m m' \<longleftrightarrow>
     (\<forall>k. m' k = m k \<or>
        (\<exists>c s. m k = Some c \<and> owing (Status c) \<and> owing s \<and> m' k = Some (c\<lparr>Status := s\<rparr>)))"

lemma rebilled_refl [simp]: "rebilled m m"
  by (simp add: rebilled_def)

lemma rebilled_upd:
  "rebilled m m' \<Longrightarrow> m k = Some c \<Longrightarrow> owing (Status c) \<Longrightarrow> owing s \<Longrightarrow>
     rebilled m (m'(k \<mapsto> c\<lparr>Status := s\<rparr>))"
  by (auto simp: rebilled_def)

lemma Walk_invariant_set:
  "P c \<Longrightarrow> (\<And>c k v. P c \<Longrightarrow> Inr (k, v) \<in> set es \<Longrightarrow> P (fst (cb c k v))) \<Longrightarrow> P (fst (Walk es cb c))"
proof (induction es cb c rule: Walk.induct)
  case (3 k v es cb c)
  have "P (fst (cb c k v))"
    using 3(2,3) by simp
  with 3(1,3) show ?case
    by (auto split: prod.split sum.split)
qed auto

lemma kvStore_send_share: "kvStore (fst (send_share L k f p ctx v)) = kvStore ctx"
  by (simp add: send_share_def split: sum.split bool.split prod.split)

lemma kvStore_send_shares: "kvStore (fst (send_shares L k f p ctx vs)) = kvStore ctx"
proof (induction vs arbitrary: ctx)
  case (Cons v vs)
  have "kvStore (fst (andThen (send_share L k f p ctx v) (\<lambda>ctx _. send_shares L k f p ctx vs))) = kvStore ctx"
  proof (rule fst_andThen_cases [where P = "\<lambda>c. kvStore c = kvStore ctx"])
    fix c u
    assume "send_share L k f p ctx v = (c, Inr u)"
    then have "kvStore c = kvStore ctx"
      using kvStore_send_share [of L k f p ctx v] by simp
    then show "kvStore (fst (send_shares L k f p c vs)) = kvStore ctx"
      by (simp add: Cons)
  qed (simp add: kvStore_send_share)
  then show ?case by simp
qed simp

lemma kvStore_Distribute: "kvStore (fst (DistributeFeesToValidators L k ctx f)) = kvStore ctx"
  by (auto simp: DistributeFeesToValidators_def kvStore_send_shares split: sum.split bool.split)

context provider_env
begin

lemma set_chain_stored: "stored (fst (set_chain K ctx c)) = (stored ctx)(ChainId c \<mapsto> c)"
  by (rule set_chain_ok [of ctx c]) simp

lemma finish_stored:
  "stored (snd (fst (case set_chain K ctx c of
      (ctx, Inl e) \<Rightarrow> ((fees, ctx), Inl (Fail e)) | (ctx, Inr _) \<Rightarrow> ((fees, ctx), Inr False)))) =
     (stored ctx)(ChainId c \<mapsto> c)"
  using set_chain_stored [of ctx c] by (auto split: prod.splits sum.splits)

text \<open>Whatever the keepers answer, one call of the callback changes at most the status of
  its chain, and only of a chain that owes a fee.\<close>

lemma collect_fee_rebilled:
  assumes m: "rebilled m (stored (snd st))" "m (ChainId c) = Some c"
  shows "rebilled m (stored (snd (fst (collect_fee L K fee st c))))"
proof (cases "\<not> IsActive c \<and> \<not> IsOverdue c")
  case False
  then have owes: "owing (Status c)"
    by (auto simp: owing_def IsActive_def IsOverdue_def)
  obtain fees ctx where st: "st = (fees, ctx)"
    by fastforce
  have fin: "rebilled m (stored (snd (fst (case set_chain K ctx' (c\<lparr>Status := s\<rparr>) of
      (ctx, Inl e) \<Rightarrow> ((fees, ctx), Inl (Fail e)) | (ctx, Inr _) \<Rightarrow> ((fees, ctx), Inr False)))))"
    if "kvStore ctx' = kvStore ctx" "owing s" for ctx' s and fees :: Coin
    using rebilled_upd [OF m(1) _ owes that(2), of "ChainId c"] m(2) that(1)
    by (simp add: finish_stored st)
  have pay: "owing CONSUMER_STATUS_ACTIVE" "owing CONSUMER_STATUS_OVERDUE"
    by (simp_all add: owing_def)
  have same: "rebilled m (stored ctx)"
    using m(1) by (simp add: st)
  let ?send = "SendCoinsFromModuleToModule (bankKeeper K) (others ctx)
      (GetConsumerModuleAccountName (ChainId c)) ''fee_collector''"
  define x r where "x = (\<lambda>coins. fst (?send coins))" and "r = (\<lambda>coins. snd (?send coins))"
  then have x: "?send coins = (x coins, r coins)" for coins
    by simp
  note [simp] = collect_fee_def st Let_def x pay fin same
  let ?lt = "\<lambda>a. Coin_IsLT L (GetBalance (bankKeeper K) (others ctx) a (Denom fee)) fee"
  show ?thesis
  proof (cases "StringToBytes (addressCodec K) (ModuleAccountAddress c)")
    case (Inr a)
    note 1 = False Inr
    show ?thesis
    proof (cases "?lt a")
      case (Inr poor)
      with 1 show ?thesis
        by (cases poor; cases "NewCoins L [fee]"; cases "r (projr (NewCoins L [fee]))";
            cases "Coin_Add L fees fee") simp_all
    qed (use 1 in simp)
  qed (use False in simp)
qed (use m in \<open>simp add: collect_fee_def split: prod.split\<close>)

lemma CollectFees_rebilled:
  assumes filed: "\<And>k c. stored ctx k = Some c \<Longrightarrow> k = ChainId c"
  shows "rebilled (stored ctx) (stored (fst (CollectFeesFromConsumers L K ctx fee)))"
proof -
  let ?m = "stored ctx" and ?cb = "\<lambda>st k c. collect_fee L K fee st c"
  have "rebilled ?m (stored (snd (fst (Walk (map Inr (entries (kvStore ctx))) ?cb (t, ctx)))))" for t
  proof (rule Walk_invariant_set [where P = "\<lambda>st. rebilled ?m (stored (snd st))"])
    fix st :: "Coin \<times> ('s, 'x) Context" and k v
    assume "rebilled ?m (stored (snd st))" and "Inr (k, v) \<in> set (map Inr (entries (kvStore ctx)) :: (go_error + _) list)"
    moreover from this(2) have "?m k = Some v"
      using entries_distinct by (auto intro: map_of_is_SomeI)
    ultimately show "rebilled ?m (stored (snd (fst (collect_fee L K fee st v))))"
      using filed by (metis collect_fee_rebilled)
  qed simp
  then show ?thesis
    by (simp add: CollectFeesFromConsumers_def IterateConsumerChains_def Chains_Walk_def Chains_Iterate
        split: sum.split prod.split) (metis fst_conv snd_conv)
qed

lemma BeginBlocker_rebilled:
  assumes filed: "\<And>k c. stored ctx k = Some c \<Longrightarrow> k = ChainId c"
  shows "rebilled (stored ctx) (stored (fst (BeginBlocker L K ctx)))"
proof -
  have "rebilled (stored ctx) (stored c)" if "CollectFeesFromConsumers L K ctx f = (c, r)" for f c r
    using CollectFees_rebilled [where ctx = ctx and fee = f, OF filed] that by simp
  moreover have "kvStore c' = kvStore c" if "DistributeFeesToValidators L K c f = (c', r)" for c c' f r
    using kvStore_Distribute [of L K c f] that by simp
  ultimately show ?thesis
    by (simp add: BeginBlocker_def split: sum.split bool.split prod.split)
qed

lemma rebilled_evolves:
  "rebilled m m' \<Longrightarrow> m k = Some c \<Longrightarrow> \<exists>c'. m' k = Some c' \<and> evolves c c'"
  unfolding rebilled_def using evolves_status [of c] by (metis evolves_refl option.inject)

lemma rebilled_fresh: "rebilled m m' \<Longrightarrow> m k = None \<Longrightarrow> m' k = None"
  unfolding rebilled_def by (metis option.distinct(1))

lemma rebilled_inv:
  assumes "rebilled m m'" and "chain_inv L K m"
  shows "chain_inv L K m'"
  unfolding chain_inv_def
proof (intro allI impI)
  fix k c
  assume "m' k = Some c"
  with assms(1) consider "m k = Some c" | d s where "m k = Some d" "c = d\<lparr>Status := s\<rparr>"
    unfolding rebilled_def by (metis option.inject)
  then show "entry_ok L K (k, c) \<and> k \<noteq> '''' \<and> 0 \<le> sint (AddedAt c) \<and> 0 \<le> sint (SunsetAt c)"
    using assms(2) by cases (auto simp: chain_inv_def entry_ok_def chain_addr_def)
qed

lemma chain_inv_filed: "chain_inv L K m \<Longrightarrow> m k = Some c \<Longrightarrow> k = ChainId c"
  by (auto simp: chain_inv_def entry_ok_def)

text \<open>The effect of a delivered message on the store.\<close>

lemma deliver_stored:
  assumes "chain_inv L K (stored ctx)"
  obtains "stored (deliver L K ctx m) = stored ctx"
  | req addr where "stored (deliver L K ctx m) = (stored ctx)(AC_ChainId req \<mapsto> added_chain req addr)"
      and "can_add K (stored ctx) (BlockHeight ctx) req"
      and "StringToBytes (addressCodec K) addr =
        Inr (NewModuleAddress L (GetConsumerModuleAccountName (AC_ChainId req)))"
  | req c where "stored (deliver L K ctx m) = (stored ctx)
        (SC_ChainId req \<mapsto> sunset_chain (BlockHeight ctx) (SC_BlockHeight req) c)"
      and "can_sunset K (stored ctx) req" and "stored ctx (SC_ChainId req) = Some c"
proof -
  have filed: "k = ChainId c" if "stored ctx k = Some c" for k c
    using chain_inv_filed [OF assms that] .
  show thesis
  proof (cases m)
    case (Update req)
    then show thesis
      using that(1) by (cases rule: UpdateParams_spec [of req ctx]) (auto simp: deliver_def)
  next
    case (Add req)
    then show thesis
      using that(1,2) parse_format
      by (cases rule: AddConsumer_spec [of ctx req]) (auto simp: deliver_def)
  next
    case (Sunset req)
    then show thesis
      using that(1,3) by (cases rule: SunsetConsumer_spec [OF filed, where req = req]) (auto simp: deliver_def)
  next
    case (Upgrade req)
    then show thesis
      using that(1) by (cases rule: UpgradeConsumer_spec [OF filed, where req = req]) (auto simp: deliver_def)
  qed
qed

lemma deliver_inv:
  assumes "chain_inv L K (stored ctx)"
  shows "chain_inv L K (stored (deliver L K ctx m))"
proof (cases rule: deliver_stored [OF assms, of m])
  case (2 req addr)
  then show ?thesis
    using assms
    by (auto simp: chain_inv_def can_add_def entry_ok_def chain_addr_def added_chain_def NewConsumerChain_def)
next
  case (3 req c)
  then have "chain_addr L (sunset_chain n t c) = chain_addr L c" for n t
    by (simp add: chain_addr_def)
  with 3 assms show ?thesis
    by (auto simp: chain_inv_def can_sunset_def entry_ok_def) (auto simp: sunset_chain_def)
qed (use assms in simp)

lemma deliver_evolves:
  assumes "chain_inv L K (stored ctx)" and "stored ctx k = Some c"
  shows "\<exists>c'. stored (deliver L K ctx m) k = Some c' \<and> evolves c c'"
proof (cases rule: deliver_stored [OF assms(1), of m])
  case (3 req d)
  then have "evolves d (sunset_chain (BlockHeight ctx) (SC_BlockHeight req) d)"
    by (intro evolves_sunset) (auto simp: can_sunset_def)
  with 3 assms(2) show ?thesis by auto
qed (use assms(2) in \<open>auto simp: can_add_def\<close>)

lemma deliver_fresh:
  assumes "chain_inv L K (stored ctx)" and "stored ctx k = None" and "stored (deliver L K ctx m) k = Some c"
  shows "Status c = CONSUMER_STATUS_PENDING"
  by (cases rule: deliver_stored [OF assms(1), of m]) (use assms(2,3) in \<open>auto split: if_splits\<close>)

lemma step_cases:
  assumes "provider_step L K s t" and "chain_inv L K (stored s)"
  obtains "rebilled (stored s) (stored t)" | m where "t = deliver L K s m"
  using assms(1)
proof (cases rule: provider_step.cases)
  case step_begin
  have "rebilled (stored s) (stored (fst (BeginBlocker L K s)))"
    by (rule BeginBlocker_rebilled) (rule chain_inv_filed [OF assms(2)])
  with step_begin that(1) show thesis by simp
qed (use that in \<open>auto simp: EndBlocker_def\<close>)

end

sublocale provider_env \<subseteq> hist: chain_history "provider_step L K" "\<lambda>s. chain_inv L K (stored s)" stored
proof unfold_locales
  fix s t
  assume s: "chain_inv L K (stored s)" and st: "provider_step L K s t"
  show "chain_inv L K (stored t)"
    by (rule step_cases [OF st s]) (use s rebilled_inv deliver_inv in auto)
  show "\<exists>c'. stored t k = Some c' \<and> evolves c c'" if "stored s k = Some c" for k c
    by (rule step_cases [OF st s]) (use s that rebilled_evolves deliver_evolves in auto)
  show "Status c = CONSUMER_STATUS_PENDING" if "stored s k = None" "stored t k = Some c" for k c
    by (rule step_cases [OF st s]) (use s that rebilled_fresh deliver_fresh in \<open>force+\<close>)
qed

context provider_env
begin

lemmas history_inv = hist.run_inv
lemmas history_evolves = hist.run_evolves
lemmas history_frozen = hist.run_frozen
lemmas history_fresh = hist.run_fresh

end

section \<open>Properties\<close>

text \<open>C4: Along every run of the module (messages, blocks, heights, other modules), from a store
  where every chain is filed under its id with the address of its own module account, the
  store stays so, no stored chain disappears, its id, name, version, start height and
  address never change, and its status only moves between active and overdue or from an
  open status to sunset or removed.\<close>

theorem provider_run_invariant:
  assumes "provider_env L valid_denom K entries params bal registered blocked"
    and "chain_inv L K (map_of (entries (kvStore s)))"
    and "(provider_step L K)\<^sup>*\<^sup>* s t"
  shows "chain_inv L K (map_of (entries (kvStore t))) \<and>
     (\<forall>k. rel_option evolves (map_of (entries (kvStore s)) k) (map_of (entries (kvStore t)) k) \<or>
          map_of (entries (kvStore s)) k = None)"
  using provider_env.history_inv [OF assms(1,3,2)] provider_env.history_evolves [OF assms(1,3,2)]
  by (metis not_None_eq option.rel_inject(2))

text \<open>C25: A chain that was not stored at the start of a run, so one that AddConsumer added during
  it, is neither active nor overdue at its end, nor is one that was pending at the start: no
  run ever activates a chain, so it is never billed and ActiveConsumerChains never lists it.\<close>

theorem added_chain_never_active:
  assumes "provider_env L valid_denom K entries params bal registered blocked"
    and "chain_inv L K (map_of (entries (kvStore s)))"
    and "(provider_step L K)\<^sup>*\<^sup>* s t"
    and "map_option IsPending (map_of (entries (kvStore s)) k) \<noteq> Some False"
    and "map_of (entries (kvStore t)) k = Some c"
  shows "\<not> billable c \<and> \<not> IsActive c"
proof -
  have "\<not> owing (Status c)"
  proof (cases "map_of (entries (kvStore s)) k")
    case None
    then show ?thesis
      using provider_env.history_fresh [OF assms(1,3,2)] assms(5) by blast
  next
    case (Some c0)
    then obtain c' where "map_of (entries (kvStore t)) k = Some c'" "evolves c0 c'"
      using provider_env.history_evolves [OF assms(1,3,2)] by blast
    with Some assms(4,5) show ?thesis
      using pending_not_owing [of c0 c] by (simp add: IsPending_def)
  qed
  then show ?thesis
    by (simp add: billable_owing) (simp add: owing_def IsActive_def)
qed

text \<open>C26: A chain that is sunset or removed never changes again: in particular a sunset chain is
  never removed when its sunset height is reached, and a removed chain never returns.\<close>

theorem closed_chain_frozen:
  assumes "provider_env L valid_denom K entries params bal registered blocked"
    and "chain_inv L K (map_of (entries (kvStore s)))"
    and "(provider_step L K)\<^sup>*\<^sup>* s t"
    and "map_of (entries (kvStore s)) k = Some c" and "\<not> CanSunset c"
  shows "map_of (entries (kvStore t)) k = Some c"
  using provider_env.history_frozen [OF assms(1,3,2,4)] assms(5)
  by (simp add: closed_def CanSunset_def IsSunset_def IsRemoved_def)

text \<open>A genesis state that Validate accepts and whose account addresses are empty leaves, once
  imported into an empty store, a store in which every chain is filed under its id with the
  address of its own module account, so every run from it keeps this.\<close>

theorem genesis_establishes_invariant:
  assumes "provider_env L valid_denom K entries params bal registered blocked"
    and "entries (kvStore ctx) = []"
    and "GenesisState_Validate L gs = Inr ()"
    and "list_all (\<lambda>c. ModuleAccountAddress c = '''') (GS_ConsumerChains gs)"
    and "list_all (\<lambda>c. BytesToString (addressCodec K) (chain_addr L c) = Inr (addr c)) (GS_ConsumerChains gs)"
  shows "\<exists>ctx'. Keeper_InitGenesis L K ctx gs = (ctx', Inr ()) \<and>
     chain_inv L K (map_of (entries (kvStore ctx')))"
proof -
  have valid: "list_all genesis_chain_ok (GS_ConsumerChains gs)" "distinct (map ChainId (GS_ConsumerChains gs))"
    using assms(3) by (simp_all add: GenesisState_Validate_Inr_iff)
  obtain ctx' where c': "Keeper_InitGenesis L K ctx gs = (ctx', Inr ())"
    "map_of (entries (kvStore ctx')) =
       map_of (map (\<lambda>c. (ChainId c, with_address (addr c) c)) (GS_ConsumerChains gs))"
    by (rule provider_env.InitGenesis_stores [OF assms(1,2,4,5) valid(2)])
  have "codec_laws (addressCodec K)"
    using assms(1) by (simp add: provider_env_def)
  then have "entry_ok L K (k, c) \<and> k \<noteq> '''' \<and> 0 \<le> sint (AddedAt c) \<and> 0 \<le> sint (SunsetAt c)"
    if "map_of (entries (kvStore ctx')) k = Some c" for k c
    using map_of_SomeD [OF that [unfolded c'(2)]] valid(1) assms(5)
    by (auto simp: list_all_iff entry_ok_def genesis_chain_ok_def with_address_def chain_addr_def
        dest: codec_laws.parse_format)
  with c'(1) show ?thesis
    by (auto simp: chain_inv_def)
qed

section \<open>A concrete run\<close>

text \<open>The governance account adds a chain, sunsets another, and two heights pass.\<close>

definition demo_add :: provider_msg where
  "demo_add = Add \<lparr>AC_Authority = demo_gov, AC_ChainId = ''d'', AC_Name = ''D'', AC_Version = ''v1'',
     AC_BlockHeight = 8\<rparr>"

definition demo_sunset :: provider_msg where
  "demo_sunset = Sunset \<lparr>SC_Authority = demo_gov, SC_ChainId = ''b'', SC_BlockHeight = 8\<rparr>"

definition demo_mid :: "(ref_store, ref_world) Context" where
  "demo_mid = deliver ref_sdk demo_keeper (deliver ref_sdk demo_keeper demo_ctx demo_add) demo_sunset"

definition demo_end :: "(ref_store, ref_world) Context" where
  "demo_end = demo_mid\<lparr>BlockHeight := 20, Events := []\<rparr>"

lemma demo_mid_eval:
  "map_of (ref_entries (kvStore demo_mid)) ''d'' = Some (added_chain \<lparr>AC_Authority = demo_gov,
     AC_ChainId = ''d'', AC_Name = ''D'', AC_Version = ''v1'', AC_BlockHeight = 8\<rparr> ''atoneaddr:consumer_d'')"
  "map_of (ref_entries (kvStore demo_mid)) ''b'' =
     Some (sunset_chain 7 8 (demo_chain ''b'' CONSUMER_STATUS_ACTIVE))"
  "BlockHeight demo_mid = 7"
  by (simp_all add: map_of_ref_entries demo_mid_def deliver_def demo_add_def demo_sunset_def AddConsumer_def
      SunsetConsumer_def check_authority_def GetAuthority_def CreateConsumerAccount_def set_chain_def
      EmitEvent_def sunset_chain_def added_chain_def NewConsumerChain_def demo_defs GovModuleName_def
      demo_ctx_def Let_def)

lemma demo_run: "(provider_step ref_sdk demo_keeper)\<^sup>*\<^sup>* demo_ctx demo_end"
    "(provider_step ref_sdk demo_keeper)\<^sup>*\<^sup>* demo_mid demo_end"
proof -
  have e: "provider_step ref_sdk demo_keeper demo_mid demo_end"
    unfolding demo_end_def by (rule step_height) (simp add: demo_mid_eval)
  then show "(provider_step ref_sdk demo_keeper)\<^sup>*\<^sup>* demo_mid demo_end" ..
  show "(provider_step ref_sdk demo_keeper)\<^sup>*\<^sup>* demo_ctx demo_end"
    using step_msg [of ref_sdk demo_keeper demo_ctx demo_add]
      step_msg [of ref_sdk demo_keeper "deliver ref_sdk demo_keeper demo_ctx demo_add" demo_sunset] e
    unfolding demo_mid_def by (meson converse_rtranclp_into_rtranclp rtranclp.rtrancl_refl)
qed

lemma demo_chain_inv: "chain_inv ref_sdk demo_keeper (map_of (ref_entries (kvStore demo_ctx)))"
  unfolding demo_entries chain_inv_def by (auto simp: demo_defs split: if_splits)

lemma demo_mid_inv: "chain_inv ref_sdk demo_keeper (map_of (ref_entries (kvStore demo_mid)))"
  unfolding demo_mid_def by (intro env_ref.deliver_inv demo_chain_inv)

theorem provider_run_invariant_witness:
  "chain_inv ref_sdk demo_keeper (map_of (ref_entries (kvStore demo_end)))"
  using provider_run_invariant [OF env_ref.provider_env_axioms demo_chain_inv demo_run(1)] by simp

theorem added_chain_never_active_witness:
  "\<exists>c. map_of (ref_entries (kvStore demo_end)) ''d'' = Some c \<and> \<not> billable c \<and> \<not> IsActive c"
proof -
  have start: "map_option IsPending (map_of (ref_entries (kvStore demo_ctx)) ''d'') \<noteq> Some False"
    by (simp add: demo_entries)
  obtain c where c: "map_of (ref_entries (kvStore demo_end)) ''d'' = Some c"
    by (simp add: demo_end_def demo_mid_eval)
  with added_chain_never_active [OF env_ref.provider_env_axioms demo_chain_inv demo_run(1) start c]
  show ?thesis by blast
qed

theorem closed_chain_frozen_witness:
  "map_of (ref_entries (kvStore demo_end)) ''b'' =
     Some (sunset_chain 7 8 (demo_chain ''b'' CONSUMER_STATUS_ACTIVE)) \<and>
   sint (SunsetAt (sunset_chain 7 8 (demo_chain ''b'' CONSUMER_STATUS_ACTIVE))) < sint (BlockHeight demo_end)"
proof -
  have "\<not> CanSunset (sunset_chain 7 8 (demo_chain ''b'' CONSUMER_STATUS_ACTIVE))"
    by (simp add: sunset_chain_def status_pred_defs status_defs)
  from closed_chain_frozen [OF env_ref.provider_env_axioms demo_mid_inv demo_run(2) demo_mid_eval(2) this]
  show ?thesis
    by (simp add: demo_end_def sunset_chain_def)
qed

theorem genesis_establishes_invariant_witness:
  "\<exists>ctx'. Keeper_InitGenesis ref_sdk demo_keeper empty_ctx demo_genesis = (ctx', Inr ()) \<and>
     chain_inv ref_sdk demo_keeper (map_of (ref_entries (kvStore ctx')))"
proof (rule genesis_establishes_invariant [OF env_ref.provider_env_axioms demo_genesis_ok(1) _
      demo_genesis_ok(2,3)])
  show "GenesisState_Validate ref_sdk demo_genesis = Inr ()"
    unfolding GenesisState_Validate_Inr_iff
    by (simp add: demo_genesis_def ref.Params_Validate_iff genesis_chain_ok_def demo_chain_def with_address_def)
qed

end
