(* ===== verification/ChainTypes.thy ===== *)
theory ChainTypes
  imports ProviderMachine
begin

text \<open>
  The stored chains as values of their declared type: \<open>ConsumerChain.Validate\<close> of
  modules/provider/types/provider.go, which no code calls, and the statuses that provider.proto
  declares. A status is an \<open>int32\<close> on the wire and in a genesis file, so it need not be one of them.

  \<^item> \<open>run_each\<close>: what every evolution keeps and every pending chain has, every run keeps.
  \<^item> From a genesis state whose statuses are declared, every chain of every later store passes
    \<open>Validate\<close> and has a declared status (\<open>stored_chains_valid\<close>).
  \<^item> \<open>GenesisState.Validate\<close> does not look at the status; a chain without one enters the store
    and stays there until it is sunset (\<open>unspecified_status_enters\<close>, \<open>unspecified_status_stays\<close>).
\<close>

section \<open>Declared statuses\<close>

definition declared :: "ConsumerStatus \<Rightarrow> bool" where
  "declared s \<longleftrightarrow> s \<in> {CONSUMER_STATUS_PENDING, CONSUMER_STATUS_ACTIVE, CONSUMER_STATUS_SUNSET,
     CONSUMER_STATUS_REMOVED, CONSUMER_STATUS_OVERDUE}"

lemma declared_pending: "declared CONSUMER_STATUS_PENDING"
  by (simp add: declared_def)

lemma owing_declared: "owing s \<Longrightarrow> declared s"
  by (auto simp: owing_def declared_def)

lemma closed_declared: "closed s \<Longrightarrow> declared s"
  by (auto simp: closed_def declared_def)

lemma declared_not_unspecified: "declared s \<Longrightarrow> s \<noteq> CONSUMER_STATUS_UNSPECIFIED"
  by (auto simp: declared_def status_defs)

lemma evolves_declared: "evolves c c' \<Longrightarrow> declared (Status c) \<Longrightarrow> declared (Status c')"
  by (auto simp: evolves_def status_next_def owing_declared closed_declared)

lemma unspecified_evolves:
  "evolves c c' \<Longrightarrow> Status c = CONSUMER_STATUS_UNSPECIFIED \<Longrightarrow>
     Status c' = CONSUMER_STATUS_UNSPECIFIED \<or> closed (Status c')"
  by (auto simp: evolves_def status_next_def owing_def status_defs)

section \<open>What every chain of a run has\<close>

context chain_history
begin

lemma run_each:
  assumes "stepr\<^sup>*\<^sup>* s t" and "inv s"
    and keep: "\<And>c c'. evolves c c' \<Longrightarrow> P c \<Longrightarrow> P c'"
    and fresh: "\<And>c. Status c = CONSUMER_STATUS_PENDING \<Longrightarrow> P c"
    and start: "\<And>k c. look s k = Some c \<Longrightarrow> P c"
  shows "look t k = Some c \<Longrightarrow> P c"
  using assms(1)
proof (induction arbitrary: k c rule: rtranclp_induct)
  case base
  then show ?case by (rule start)
next
  case (step t u)
  have t: "inv t"
    using step.hyps(1) assms(2) by (rule run_inv)
  show ?case
  proof (cases "look t k")
    case None
    then show ?thesis
      using step_fresh [OF t step.hyps(2) None step.prems] by (rule_tac fresh)
  next
    case (Some c0)
    then obtain c' where "look u k = Some c'" "evolves c0 c'"
      using step_evolves [OF t step.hyps(2)] by blast
    with step.IH [OF Some] keep step.prems show ?thesis
      by auto
  qed
qed

end

context provider_env
begin

lemmas history_each = hist.run_each

text \<open>A chain of a store with the invariant whose status is declared passes \<open>Validate\<close>, when the
  address codec, as that of the SDK, does not read the empty text.\<close>

lemma Validate_stored:
  assumes "chain_inv L K m" and "m k = Some c" and "declared (Status c)"
    and "StringToBytes (addressCodec K) '''' = Inl e"
  shows "ConsumerChain_Validate c = Inr () \<and> ChainId c = k"
proof -
  have c: "ChainId c = k" "k \<noteq> ''''" "0 \<le> sint (AddedAt c)" "0 \<le> sint (SunsetAt c)"
    "StringToBytes (addressCodec K) (ModuleAccountAddress c) = Inr (chain_addr L c)"
    using assms(1,2) by (auto simp: chain_inv_def entry_ok_def)
  then have "ModuleAccountAddress c \<noteq> ''''"
    using assms(4) by auto
  with c declared_not_unspecified [OF assms(3)] show ?thesis
    by (simp add: ConsumerChain_Validate_def)
qed

end

section \<open>Genesis\<close>

text \<open>What the import of a valid genesis state leaves in an empty store.\<close>

lemma InitGenesis_look:
  assumes "provider_env L valid_denom K entries params bal registered blocked"
    and "entries (kvStore ctx) = []" and "GenesisState_Validate L gs = Inr ()"
    and "list_all (\<lambda>c. ModuleAccountAddress c = '''') (GS_ConsumerChains gs)"
    and "list_all (\<lambda>c. BytesToString (addressCodec K) (chain_addr L c) = Inr (addr c)) (GS_ConsumerChains gs)"
    and "Keeper_InitGenesis L K ctx gs = (s, Inr ())"
    and "map_of (entries (kvStore s)) k = Some c"
  shows "\<exists>c0 \<in> set (GS_ConsumerChains gs). k = ChainId c0 \<and> c = with_address (addr c0) c0"
proof -
  have d: "distinct (map ChainId (GS_ConsumerChains gs))"
    using assms(3) by (simp add: GenesisState_Validate_Inr_iff)
  obtain ctx' where "Keeper_InitGenesis L K ctx gs = (ctx', Inr ())"
    "map_of (entries (kvStore ctx')) =
       map_of (map (\<lambda>c. (ChainId c, with_address (addr c) c)) (GS_ConsumerChains gs))"
    by (rule provider_env.InitGenesis_stores [OF assms(1,2,4,5) d])
  with assms(6,7) show ?thesis
    by (auto dest!: map_of_SomeD)
qed

lemma genesis_chain_inv:
  assumes "provider_env L valid_denom K entries params bal registered blocked"
    and "entries (kvStore ctx) = []" and "GenesisState_Validate L gs = Inr ()"
    and "list_all (\<lambda>c. ModuleAccountAddress c = '''') (GS_ConsumerChains gs)"
    and "list_all (\<lambda>c. BytesToString (addressCodec K) (chain_addr L c) = Inr (addr c)) (GS_ConsumerChains gs)"
    and "Keeper_InitGenesis L K ctx gs = (s, Inr ())"
  shows "chain_inv L K (map_of (entries (kvStore s)))"
  using genesis_establishes_invariant [OF assms(1-5)] assms(6) by simp

text \<open>Validation and import let a chain without a status in, and no run gives it an open one.\<close>

lemma unspecified_status_enters:
  "GenesisState_Validate L (gs\<lparr>GS_ConsumerChains :=
       map (\<lambda>c. c\<lparr>Status := CONSUMER_STATUS_UNSPECIFIED\<rparr>) (GS_ConsumerChains gs)\<rparr>) = Inr () \<longleftrightarrow>
     GenesisState_Validate L gs = Inr ()"
  by (auto simp: GenesisState_Validate_Inr_iff list_all_iff genesis_chain_ok_def comp_def)

lemma unspecified_status_stays:
  assumes "provider_env L valid_denom K entries params bal registered blocked"
    and "chain_inv L K (map_of (entries (kvStore s)))" and "(provider_step L K)\<^sup>*\<^sup>* s t"
    and "map_of (entries (kvStore s)) k = Some c" and "Status c = CONSUMER_STATUS_UNSPECIFIED"
  shows "\<exists>c'. map_of (entries (kvStore t)) k = Some c' \<and>
     (ConsumerChain_Validate c' = Inl ErrInvalidConsumerStatus \<or> closed (Status c'))"
proof -
  obtain c' where c': "map_of (entries (kvStore t)) k = Some c'" "evolves c c'"
    using provider_env.history_evolves [OF assms(1,3,2,4)] by blast
  have "chain_inv L K (map_of (entries (kvStore t)))"
    using provider_env.history_inv [OF assms(1,3,2)] .
  then have "ChainId c' \<noteq> ''''" "\<not> sint (AddedAt c') < 0" "\<not> sint (SunsetAt c') < 0"
    using c'(1) by (fastforce simp: chain_inv_def entry_ok_def)+
  then show ?thesis
    using unspecified_evolves [OF c'(2) assms(5)] c'(1) by (auto simp: ConsumerChain_Validate_def)
qed

section \<open>Properties\<close>

text \<open>C5: Stored chains stay well typed: from the import of a valid genesis state whose chains have declared
  statuses, along every run of messages, blocks, heights and other modules, every chain of the store
  passes ConsumerChain.Validate, has a declared status and is filed under its id.\<close>

theorem stored_chains_valid:
  assumes "provider_env L valid_denom K entries params bal registered blocked"
    and "StringToBytes (addressCodec K) '''' = Inl e"
    and "entries (kvStore ctx) = []"
    and "GenesisState_Validate L gs = Inr ()"
    and "list_all (\<lambda>c. declared (Status c) \<and> ModuleAccountAddress c = '''') (GS_ConsumerChains gs)"
    and "list_all (\<lambda>c. BytesToString (addressCodec K) (chain_addr L c) = Inr (addr c)) (GS_ConsumerChains gs)"
    and "Keeper_InitGenesis L K ctx gs = (s, Inr ())"
    and "(provider_step L K)\<^sup>*\<^sup>* s t"
    and "map_of (entries (kvStore t)) k = Some c"
  shows "ConsumerChain_Validate c = Inr () \<and> declared (Status c) \<and> ChainId c = k"
proof -
  have empty: "list_all (\<lambda>c. ModuleAccountAddress c = '''') (GS_ConsumerChains gs)"
    and start: "c \<in> set (GS_ConsumerChains gs) \<Longrightarrow> declared (Status c)" for c
    using assms(5) by (auto simp: list_all_iff)
  note s = genesis_chain_inv [OF assms(1,3,4) empty assms(6,7)]
  have "declared (Status c)"
  proof (rule provider_env.history_each [where P = "\<lambda>c. declared (Status c)", OF assms(1,8) s _ _ _ assms(9)])
    show "declared (Status c)" if "map_of (entries (kvStore s)) k = Some c" for k c
      using InitGenesis_look [OF assms(1,3,4) empty assms(6,7) that] start by auto
  qed (auto simp: evolves_declared declared_pending)
  with provider_env.Validate_stored [OF assms(1) provider_env.history_inv [OF assms(1,8) s] assms(9) _ assms(2)]
  show ?thesis by blast
qed

theorem stored_chains_valid_witness:
  "\<exists>s. Keeper_InitGenesis ref_sdk demo_keeper empty_ctx demo_genesis = (s, Inr ()) \<and>
     (\<forall>k c. map_of (ref_entries (kvStore (deliver ref_sdk demo_keeper s demo_add))) k = Some c \<longrightarrow>
        ConsumerChain_Validate c = Inr ())"
proof -
  have valid: "GenesisState_Validate ref_sdk demo_genesis = Inr ()"
    unfolding GenesisState_Validate_Inr_iff
    by (simp add: demo_genesis_def ref.Params_Validate_iff genesis_chain_ok_def demo_chain_def with_address_def)
  obtain s where s: "Keeper_InitGenesis ref_sdk demo_keeper empty_ctx demo_genesis = (s, Inr ())"
    by (rule provider_env.InitGenesis_stores [OF env_ref.provider_env_axioms demo_genesis_ok(1,2,3,4)])
  have codec: "StringToBytes (addressCodec demo_keeper) '''' = Inl (External ''decoding bech32 failed'')"
    by (simp add: demo_defs)
  have declared: "list_all (\<lambda>c. declared (Status c) \<and> ModuleAccountAddress c = '''') (GS_ConsumerChains demo_genesis)"
    by (simp add: demo_genesis_def demo_chain_def with_address_def declared_def)
  have run: "(provider_step ref_sdk demo_keeper)\<^sup>*\<^sup>* s (deliver ref_sdk demo_keeper s demo_add)"
    by (rule r_into_rtranclp) (rule step_msg)
  have "ConsumerChain_Validate c = Inr ()"
    if "map_of (ref_entries (kvStore (deliver ref_sdk demo_keeper s demo_add))) k = Some c" for k c
    using stored_chains_valid [OF env_ref.provider_env_axioms codec demo_genesis_ok(1) valid declared
        demo_genesis_ok(3) s run that] by simp
  with s show ?thesis by blast
qed

end
