(* ===== verification/Mocks.thy ===== *)
theory Mocks
  imports ProviderEnv
begin

text \<open>
  modules/provider/testutil (expected_keepers_mocks.go, validator_mocks.go): the mocks of the
  interfaces the provider module uses, with which its tests run the keeper.

  A mock is an object with a pointer to its controller and a pointer to its recorder, which points
  back to it; the objects are on a small heap, an address is a number. The controller is
  code of the gomock package: the record \<open>gomock\<close> is an argument. \<open>ctrl_Call\<close> gets the controller,
  the receiver, the name of the method and the arguments and returns the values it was told to return;
  it is \<open>None\<close> when it ends the test instead (an unexpected call). A value of the type \<open>any\<close> carries
  its dynamic type: \<open>any\<close> has one constructor per type that the mocks pass or ask for. The mocks read
  a returned value with \<open>v, _ := ret[i].(T)\<close>: a value of another type becomes the zero value of \<open>T\<close>.

  The locale \<open>playing\<close> says that a controller answers the calls of the module's interfaces as given keepers
  do; its lemmas show that the mocks then are these keepers. It is interpreted on the controller that
  passes every call on to such keepers (\<open>DoAndReturn\<close>), for all keepers.
\<close>

section \<open>Values\<close>

datatype math_dec = NilDec | MkDec int

text \<open>The protobuf type of CometBFT's public keys; the zero value has no key.\<close>

datatype PublicKey = NoKey | Ed25519 bytes | Secp256k1 bytes

type_synonym BondStatus = "32 word"

datatype ('c, 'acc, 'pk) any =
    NilAny
  | CtxAny 'c
  | CodecAny AddressCodec
  | AccountAny 'acc
  | AccAddressAny bytes
  | CoinAny Coin
  | CoinsAny "Coin list"
  | ErrorAny go_error
  | ValidatorsAny "Validator list"
  | PubKeyAny 'pk
  | PublicKeyAny PublicKey
  | IntAny math_int
  | DecAny math_dec
  | BytesAny bytes
  | Int64Any int64
  | StringAny string
  | BoolAny bool
  | BondStatusAny BondStatus

text \<open>The assertions with the zero value of the type; a nil interface is \<open>None\<close>, a nil slice empty.\<close>

fun as_Codec :: "('c, 'acc, 'pk) any \<Rightarrow> AddressCodec option" where
  "as_Codec (CodecAny v) = Some v"
| "as_Codec _ = None"

fun as_Account :: "('c, 'acc, 'pk) any \<Rightarrow> 'acc option" where
  "as_Account (AccountAny v) = Some v"
| "as_Account _ = None"

fun as_AccAddress :: "('c, 'acc, 'pk) any \<Rightarrow> bytes" where
  "as_AccAddress (AccAddressAny v) = v"
| "as_AccAddress _ = []"

fun as_Coin :: "('c, 'acc, 'pk) any \<Rightarrow> Coin" where
  "as_Coin (CoinAny v) = v"
| "as_Coin _ = \<lparr>Denom = '''', Amount = NilInt\<rparr>"

fun as_Coins :: "('c, 'acc, 'pk) any \<Rightarrow> Coin list" where
  "as_Coins (CoinsAny v) = v"
| "as_Coins _ = []"

fun as_error :: "('c, 'acc, 'pk) any \<Rightarrow> go_error option" where
  "as_error (ErrorAny v) = Some v"
| "as_error _ = None"

fun as_Validators :: "('c, 'acc, 'pk) any \<Rightarrow> Validator list" where
  "as_Validators (ValidatorsAny v) = v"
| "as_Validators _ = []"

fun as_PubKey :: "('c, 'acc, 'pk) any \<Rightarrow> 'pk option" where
  "as_PubKey (PubKeyAny v) = Some v"
| "as_PubKey _ = None"

fun as_PublicKey :: "('c, 'acc, 'pk) any \<Rightarrow> PublicKey" where
  "as_PublicKey (PublicKeyAny v) = v"
| "as_PublicKey _ = NoKey"

fun as_Int :: "('c, 'acc, 'pk) any \<Rightarrow> math_int" where
  "as_Int (IntAny v) = v"
| "as_Int _ = NilInt"

fun as_Dec :: "('c, 'acc, 'pk) any \<Rightarrow> math_dec" where
  "as_Dec (DecAny v) = v"
| "as_Dec _ = NilDec"

fun as_bytes :: "('c, 'acc, 'pk) any \<Rightarrow> bytes" where
  "as_bytes (BytesAny v) = v"
| "as_bytes _ = []"

fun as_int64 :: "('c, 'acc, 'pk) any \<Rightarrow> int64" where
  "as_int64 (Int64Any v) = v"
| "as_int64 _ = 0"

fun as_string :: "('c, 'acc, 'pk) any \<Rightarrow> string" where
  "as_string (StringAny v) = v"
| "as_string _ = ''''"

fun as_bool :: "('c, 'acc, 'pk) any \<Rightarrow> bool" where
  "as_bool (BoolAny v) = v"
| "as_bool _ = False"

fun as_BondStatus :: "('c, 'acc, 'pk) any \<Rightarrow> BondStatus" where
  "as_BondStatus (BondStatusAny v) = v"
| "as_BondStatus _ = 0"

text \<open>An account and an error, which may be nil, as an argument or a returned value.\<close>

definition account_any :: "'acc option \<Rightarrow> ('c, 'acc, 'pk) any" where
  "account_any acc = (case acc of None \<Rightarrow> NilAny | Some a \<Rightarrow> AccountAny a)"

definition error_any :: "go_error option \<Rightarrow> ('c, 'acc, 'pk) any" where
  "error_any e = (case e of None \<Rightarrow> NilAny | Some e \<Rightarrow> ErrorAny e)"

lemma any_roundtrips [simp]: "as_Account (account_any acc) = acc" "as_error (error_any e) = e"
  by (simp_all add: account_any_def error_any_def split: option.split)

section \<open>Objects and controllers\<close>

record mock_object =
  mo_ctrl :: nat
  mo_recorder :: "nat option"

record mock_recorder =
  mr_mock :: nat

record mock_heap =
  mocks :: "nat \<Rightarrow> mock_object option"
  recorders :: "nat \<Rightarrow> mock_recorder option"
  next_address :: nat

datatype mock_fault = TestStopped | IndexOutOfRange | NilDereference

type_synonym ('k, 'a) mocked = "'k \<Rightarrow> 'k \<times> (mock_fault + 'a)"

record ('k, 'c, 'acc, 'pk, 'mt) gomock =
  T_Helper :: "nat \<Rightarrow> 'k \<Rightarrow> 'k"
  ctrl_Call :: "nat \<Rightarrow> nat \<Rightarrow> string \<Rightarrow> ('c, 'acc, 'pk) any list \<Rightarrow> 'k \<Rightarrow> 'k \<times> ('c, 'acc, 'pk) any list option"
  RecordCallWithMethodType :: "nat \<Rightarrow> nat \<Rightarrow> string \<Rightarrow> string \<times> string \<Rightarrow> 'mt list \<Rightarrow> 'k \<Rightarrow> 'k \<times> nat"

text \<open>The constructors of the mocks and \<open>EXPECT\<close>. The mock is made first, then the recorder that points to it.\<close>

definition new_mock :: "nat \<Rightarrow> mock_heap \<Rightarrow> mock_heap \<times> nat" where
  "new_mock ctrl h =
     (let mock = next_address h;
          h = h\<lparr>mocks := (mocks h)(mock \<mapsto> \<lparr>mo_ctrl = ctrl, mo_recorder = None\<rparr>), next_address := Suc mock\<rparr>;
          recorder = next_address h;
          h = h\<lparr>recorders := (recorders h)(recorder \<mapsto> \<lparr>mr_mock = mock\<rparr>), next_address := Suc recorder\<rparr>;
          h = h\<lparr>mocks := (mocks h)(mock \<mapsto> \<lparr>mo_ctrl = ctrl, mo_recorder = Some recorder\<rparr>)\<rparr>
      in (h, mock))"

definition recorder_of :: "mock_heap \<Rightarrow> nat \<Rightarrow> nat option" where
  "recorder_of h m = Option.bind (mocks h m) mo_recorder"

text \<open>The body of every method of a mock: the call on the controller and the values it returns.\<close>

definition call_mock ::
    "('k, 'c, 'acc, 'pk, 'mt) gomock \<Rightarrow> mock_heap \<Rightarrow> nat \<Rightarrow> string \<Rightarrow> ('c, 'acc, 'pk) any list \<Rightarrow>
     ('k, ('c, 'acc, 'pk) any list) mocked" where
  "call_mock G h m meth args k =
     (case mocks h m of
        None \<Rightarrow> (k, Inl NilDereference)
      | Some mock \<Rightarrow>
          let k = T_Helper G (mo_ctrl mock) k
          in (case ctrl_Call G (mo_ctrl mock) m meth args k of
                (k, None) \<Rightarrow> (k, Inl TestStopped)
              | (k, Some ret) \<Rightarrow> (k, Inr ret)))"

definition ret0 :: "('k, ('c, 'acc, 'pk) any list) mocked \<Rightarrow> ('k, unit) mocked" where
  "ret0 call k = andThen (call k) (\<lambda>k ret. (k, Inr ()))"

definition ret1 ::
    "(('c, 'acc, 'pk) any \<Rightarrow> 'a) \<Rightarrow> ('k, ('c, 'acc, 'pk) any list) mocked \<Rightarrow> ('k, 'a) mocked" where
  "ret1 conv call k =
     andThen (call k) (\<lambda>k ret. (k, case ret of v # _ \<Rightarrow> Inr (conv v) | [] \<Rightarrow> Inl IndexOutOfRange))"

definition ret2 ::
    "(('c, 'acc, 'pk) any \<Rightarrow> 'a) \<Rightarrow> (('c, 'acc, 'pk) any \<Rightarrow> 'b) \<Rightarrow> ('k, ('c, 'acc, 'pk) any list) mocked \<Rightarrow>
     ('k, 'a \<times> 'b) mocked" where
  "ret2 conv conv' call k =
     andThen (call k) (\<lambda>k ret. (k, case ret of v # w # _ \<Rightarrow> Inr (conv v, conv' w) | _ \<Rightarrow> Inl IndexOutOfRange))"

text \<open>The body of every method of a recorder; the type of the method is that of the mock's type.\<close>

definition record_call ::
    "('k, 'c, 'acc, 'pk, 'mt) gomock \<Rightarrow> mock_heap \<Rightarrow> nat \<Rightarrow> string \<Rightarrow> string \<times> string \<Rightarrow> 'mt list \<Rightarrow> ('k, nat) mocked"
  where
  "record_call G h mr meth methodType args k =
     (case recorders h mr of
        None \<Rightarrow> (k, Inl NilDereference)
      | Some recorder \<Rightarrow>
          (case mocks h (mr_mock recorder) of
             None \<Rightarrow> (k, Inl NilDereference)
           | Some mock \<Rightarrow>
               let k = T_Helper G (mo_ctrl mock) k
               in apsnd Inr (RecordCallWithMethodType G (mo_ctrl mock) (mr_mock recorder) meth methodType args k)))"

section \<open>The mock of the auth keeper\<close>

type_synonym MockAuthKeeper = mock_object

type_synonym MockAuthKeeperMockRecorder = mock_recorder

definition NewMockAuthKeeper :: "nat \<Rightarrow> mock_heap \<Rightarrow> mock_heap \<times> nat" where
  "NewMockAuthKeeper = new_mock"

definition MockAuthKeeper_EXPECT :: "mock_heap \<Rightarrow> nat \<Rightarrow> nat option" where
  "MockAuthKeeper_EXPECT = recorder_of"

definition MockAuthKeeper_AddressCodec ::
    "('k, 'c, 'acc, 'pk, 'mt) gomock \<Rightarrow> mock_heap \<Rightarrow> nat \<Rightarrow> ('k, AddressCodec option) mocked" where
  "MockAuthKeeper_AddressCodec G h m =
     ret1 as_Codec (call_mock G h m ''AddressCodec'' [])"

definition MockAuthKeeperMockRecorder_AddressCodec ::
    "('k, 'c, 'acc, 'pk, 'mt) gomock \<Rightarrow> mock_heap \<Rightarrow> nat \<Rightarrow> ('k, nat) mocked" where
  "MockAuthKeeperMockRecorder_AddressCodec G h mr =
     record_call G h mr ''AddressCodec'' (''MockAuthKeeper'', ''AddressCodec'') []"

definition MockAuthKeeper_GetAccount ::
    "('k, 'c, 'acc, 'pk, 'mt) gomock \<Rightarrow> mock_heap \<Rightarrow> nat \<Rightarrow> 'c \<Rightarrow> bytes \<Rightarrow> ('k, 'acc option) mocked" where
  "MockAuthKeeper_GetAccount G h m arg0 arg1 =
     ret1 as_Account (call_mock G h m ''GetAccount'' [CtxAny arg0, AccAddressAny arg1])"

definition MockAuthKeeperMockRecorder_GetAccount ::
    "('k, 'c, 'acc, 'pk, 'mt) gomock \<Rightarrow> mock_heap \<Rightarrow> nat \<Rightarrow> 'mt \<Rightarrow> 'mt \<Rightarrow> ('k, nat) mocked" where
  "MockAuthKeeperMockRecorder_GetAccount G h mr arg0 arg1 =
     record_call G h mr ''GetAccount'' (''MockAuthKeeper'', ''GetAccount'') [arg0, arg1]"

definition MockAuthKeeper_GetModuleAddress ::
    "('k, 'c, 'acc, 'pk, 'mt) gomock \<Rightarrow> mock_heap \<Rightarrow> nat \<Rightarrow> string \<Rightarrow> ('k, bytes) mocked" where
  "MockAuthKeeper_GetModuleAddress G h m moduleName =
     ret1 as_AccAddress (call_mock G h m ''GetModuleAddress'' [StringAny moduleName])"

definition MockAuthKeeperMockRecorder_GetModuleAddress ::
    "('k, 'c, 'acc, 'pk, 'mt) gomock \<Rightarrow> mock_heap \<Rightarrow> nat \<Rightarrow> 'mt \<Rightarrow> ('k, nat) mocked" where
  "MockAuthKeeperMockRecorder_GetModuleAddress G h mr moduleName =
     record_call G h mr ''GetModuleAddress'' (''MockAuthKeeper'', ''GetModuleAddress'') [moduleName]"

definition MockAuthKeeper_NewAccountWithAddress ::
    "('k, 'c, 'acc, 'pk, 'mt) gomock \<Rightarrow> mock_heap \<Rightarrow> nat \<Rightarrow> 'c \<Rightarrow> bytes \<Rightarrow> ('k, 'acc option) mocked" where
  "MockAuthKeeper_NewAccountWithAddress G h m ctx addr =
     ret1 as_Account (call_mock G h m ''NewAccountWithAddress'' [CtxAny ctx, AccAddressAny addr])"

definition MockAuthKeeperMockRecorder_NewAccountWithAddress ::
    "('k, 'c, 'acc, 'pk, 'mt) gomock \<Rightarrow> mock_heap \<Rightarrow> nat \<Rightarrow> 'mt \<Rightarrow> 'mt \<Rightarrow> ('k, nat) mocked" where
  "MockAuthKeeperMockRecorder_NewAccountWithAddress G h mr ctx addr =
     record_call G h mr ''NewAccountWithAddress'' (''MockAuthKeeper'', ''NewAccountWithAddress'') [ctx, addr]"

definition MockAuthKeeper_SetAccount ::
    "('k, 'c, 'acc, 'pk, 'mt) gomock \<Rightarrow> mock_heap \<Rightarrow> nat \<Rightarrow> 'c \<Rightarrow> 'acc option \<Rightarrow> ('k, unit) mocked" where
  "MockAuthKeeper_SetAccount G h m ctx acc =
     ret0 (call_mock G h m ''SetAccount'' [CtxAny ctx, account_any acc])"

definition MockAuthKeeperMockRecorder_SetAccount ::
    "('k, 'c, 'acc, 'pk, 'mt) gomock \<Rightarrow> mock_heap \<Rightarrow> nat \<Rightarrow> 'mt \<Rightarrow> 'mt \<Rightarrow> ('k, nat) mocked" where
  "MockAuthKeeperMockRecorder_SetAccount G h mr ctx acc =
     record_call G h mr ''SetAccount'' (''MockAuthKeeper'', ''SetAccount'') [ctx, acc]"

section \<open>The mock of the bank keeper\<close>

type_synonym MockBankKeeper = mock_object

type_synonym MockBankKeeperMockRecorder = mock_recorder

definition NewMockBankKeeper :: "nat \<Rightarrow> mock_heap \<Rightarrow> mock_heap \<times> nat" where
  "NewMockBankKeeper = new_mock"

definition MockBankKeeper_EXPECT :: "mock_heap \<Rightarrow> nat \<Rightarrow> nat option" where
  "MockBankKeeper_EXPECT = recorder_of"

definition MockBankKeeper_GetBalance ::
    "('k, 'c, 'acc, 'pk, 'mt) gomock \<Rightarrow> mock_heap \<Rightarrow> nat \<Rightarrow> 'c \<Rightarrow> bytes \<Rightarrow> string \<Rightarrow> ('k, Coin) mocked" where
  "MockBankKeeper_GetBalance G h m ctx addr denom =
     ret1 as_Coin (call_mock G h m ''GetBalance'' [CtxAny ctx, AccAddressAny addr, StringAny denom])"

definition MockBankKeeperMockRecorder_GetBalance ::
    "('k, 'c, 'acc, 'pk, 'mt) gomock \<Rightarrow> mock_heap \<Rightarrow> nat \<Rightarrow> 'mt \<Rightarrow> 'mt \<Rightarrow> 'mt \<Rightarrow> ('k, nat) mocked" where
  "MockBankKeeperMockRecorder_GetBalance G h mr ctx addr denom =
     record_call G h mr ''GetBalance'' (''MockBankKeeper'', ''GetBalance'') [ctx, addr, denom]"

definition MockBankKeeper_SendCoinsFromModuleToAccount ::
    "('k, 'c, 'acc, 'pk, 'mt) gomock \<Rightarrow> mock_heap \<Rightarrow> nat \<Rightarrow> 'c \<Rightarrow> string \<Rightarrow> bytes \<Rightarrow> Coin list \<Rightarrow> ('k, go_error option) mocked" where
  "MockBankKeeper_SendCoinsFromModuleToAccount G h m ctx senderModule recipientAddr amt =
     ret1 as_error (call_mock G h m ''SendCoinsFromModuleToAccount'' [CtxAny ctx, StringAny senderModule, AccAddressAny recipientAddr, CoinsAny amt])"

definition MockBankKeeperMockRecorder_SendCoinsFromModuleToAccount ::
    "('k, 'c, 'acc, 'pk, 'mt) gomock \<Rightarrow> mock_heap \<Rightarrow> nat \<Rightarrow> 'mt \<Rightarrow> 'mt \<Rightarrow> 'mt \<Rightarrow> 'mt \<Rightarrow> ('k, nat) mocked" where
  "MockBankKeeperMockRecorder_SendCoinsFromModuleToAccount G h mr ctx senderModule recipientAddr amt =
     record_call G h mr ''SendCoinsFromModuleToAccount'' (''MockBankKeeper'', ''SendCoinsFromModuleToAccount'') [ctx, senderModule, recipientAddr, amt]"

definition MockBankKeeper_SendCoinsFromModuleToModule ::
    "('k, 'c, 'acc, 'pk, 'mt) gomock \<Rightarrow> mock_heap \<Rightarrow> nat \<Rightarrow> 'c \<Rightarrow> string \<Rightarrow> string \<Rightarrow> Coin list \<Rightarrow> ('k, go_error option) mocked" where
  "MockBankKeeper_SendCoinsFromModuleToModule G h m ctx senderModule recipientModule amt =
     ret1 as_error (call_mock G h m ''SendCoinsFromModuleToModule'' [CtxAny ctx, StringAny senderModule, StringAny recipientModule, CoinsAny amt])"

definition MockBankKeeperMockRecorder_SendCoinsFromModuleToModule ::
    "('k, 'c, 'acc, 'pk, 'mt) gomock \<Rightarrow> mock_heap \<Rightarrow> nat \<Rightarrow> 'mt \<Rightarrow> 'mt \<Rightarrow> 'mt \<Rightarrow> 'mt \<Rightarrow> ('k, nat) mocked" where
  "MockBankKeeperMockRecorder_SendCoinsFromModuleToModule G h mr ctx senderModule recipientModule amt =
     record_call G h mr ''SendCoinsFromModuleToModule'' (''MockBankKeeper'', ''SendCoinsFromModuleToModule'') [ctx, senderModule, recipientModule, amt]"

definition MockBankKeeper_SpendableCoins ::
    "('k, 'c, 'acc, 'pk, 'mt) gomock \<Rightarrow> mock_heap \<Rightarrow> nat \<Rightarrow> 'c \<Rightarrow> bytes \<Rightarrow> ('k, Coin list) mocked" where
  "MockBankKeeper_SpendableCoins G h m arg0 arg1 =
     ret1 as_Coins (call_mock G h m ''SpendableCoins'' [CtxAny arg0, AccAddressAny arg1])"

definition MockBankKeeperMockRecorder_SpendableCoins ::
    "('k, 'c, 'acc, 'pk, 'mt) gomock \<Rightarrow> mock_heap \<Rightarrow> nat \<Rightarrow> 'mt \<Rightarrow> 'mt \<Rightarrow> ('k, nat) mocked" where
  "MockBankKeeperMockRecorder_SpendableCoins G h mr arg0 arg1 =
     record_call G h mr ''SpendableCoins'' (''MockBankKeeper'', ''SpendableCoins'') [arg0, arg1]"

section \<open>The mock of the staking keeper\<close>

type_synonym MockStakingKeeper = mock_object

type_synonym MockStakingKeeperMockRecorder = mock_recorder

definition NewMockStakingKeeper :: "nat \<Rightarrow> mock_heap \<Rightarrow> mock_heap \<times> nat" where
  "NewMockStakingKeeper = new_mock"

definition MockStakingKeeper_EXPECT :: "mock_heap \<Rightarrow> nat \<Rightarrow> nat option" where
  "MockStakingKeeper_EXPECT = recorder_of"

definition MockStakingKeeper_GetBondedValidatorsByPower ::
    "('k, 'c, 'acc, 'pk, 'mt) gomock \<Rightarrow> mock_heap \<Rightarrow> nat \<Rightarrow> 'c \<Rightarrow> ('k, Validator list \<times> go_error option) mocked" where
  "MockStakingKeeper_GetBondedValidatorsByPower G h m ctx =
     ret2 as_Validators as_error (call_mock G h m ''GetBondedValidatorsByPower'' [CtxAny ctx])"

definition MockStakingKeeperMockRecorder_GetBondedValidatorsByPower ::
    "('k, 'c, 'acc, 'pk, 'mt) gomock \<Rightarrow> mock_heap \<Rightarrow> nat \<Rightarrow> 'mt \<Rightarrow> ('k, nat) mocked" where
  "MockStakingKeeperMockRecorder_GetBondedValidatorsByPower G h mr ctx =
     record_call G h mr ''GetBondedValidatorsByPower'' (''MockStakingKeeper'', ''GetBondedValidatorsByPower'') [ctx]"

section \<open>The mock of a validator (validator_mocks.go)\<close>

type_synonym MockValidatorI = mock_object

type_synonym MockValidatorIMockRecorder = mock_recorder

definition NewMockValidatorI :: "nat \<Rightarrow> mock_heap \<Rightarrow> mock_heap \<times> nat" where
  "NewMockValidatorI = new_mock"

definition MockValidatorI_EXPECT :: "mock_heap \<Rightarrow> nat \<Rightarrow> nat option" where
  "MockValidatorI_EXPECT = recorder_of"

definition MockValidatorI_ConsPubKey ::
    "('k, 'c, 'acc, 'pk, 'mt) gomock \<Rightarrow> mock_heap \<Rightarrow> nat \<Rightarrow> ('k, 'pk option \<times> go_error option) mocked" where
  "MockValidatorI_ConsPubKey G h m =
     ret2 as_PubKey as_error (call_mock G h m ''ConsPubKey'' [])"

definition MockValidatorIMockRecorder_ConsPubKey ::
    "('k, 'c, 'acc, 'pk, 'mt) gomock \<Rightarrow> mock_heap \<Rightarrow> nat \<Rightarrow> ('k, nat) mocked" where
  "MockValidatorIMockRecorder_ConsPubKey G h mr =
     record_call G h mr ''ConsPubKey'' (''MockValidatorI'', ''ConsPubKey'') []"

definition MockValidatorI_GetBondedTokens ::
    "('k, 'c, 'acc, 'pk, 'mt) gomock \<Rightarrow> mock_heap \<Rightarrow> nat \<Rightarrow> ('k, math_int) mocked" where
  "MockValidatorI_GetBondedTokens G h m =
     ret1 as_Int (call_mock G h m ''GetBondedTokens'' [])"

definition MockValidatorIMockRecorder_GetBondedTokens ::
    "('k, 'c, 'acc, 'pk, 'mt) gomock \<Rightarrow> mock_heap \<Rightarrow> nat \<Rightarrow> ('k, nat) mocked" where
  "MockValidatorIMockRecorder_GetBondedTokens G h mr =
     record_call G h mr ''GetBondedTokens'' (''MockValidatorI'', ''GetBondedTokens'') []"

definition MockValidatorI_GetCommission ::
    "('k, 'c, 'acc, 'pk, 'mt) gomock \<Rightarrow> mock_heap \<Rightarrow> nat \<Rightarrow> ('k, math_dec) mocked" where
  "MockValidatorI_GetCommission G h m =
     ret1 as_Dec (call_mock G h m ''GetCommission'' [])"

definition MockValidatorIMockRecorder_GetCommission ::
    "('k, 'c, 'acc, 'pk, 'mt) gomock \<Rightarrow> mock_heap \<Rightarrow> nat \<Rightarrow> ('k, nat) mocked" where
  "MockValidatorIMockRecorder_GetCommission G h mr =
     record_call G h mr ''GetCommission'' (''MockValidatorI'', ''GetCommission'') []"

definition MockValidatorI_GetConsAddr ::
    "('k, 'c, 'acc, 'pk, 'mt) gomock \<Rightarrow> mock_heap \<Rightarrow> nat \<Rightarrow> ('k, bytes \<times> go_error option) mocked" where
  "MockValidatorI_GetConsAddr G h m =
     ret2 as_bytes as_error (call_mock G h m ''GetConsAddr'' [])"

definition MockValidatorIMockRecorder_GetConsAddr ::
    "('k, 'c, 'acc, 'pk, 'mt) gomock \<Rightarrow> mock_heap \<Rightarrow> nat \<Rightarrow> ('k, nat) mocked" where
  "MockValidatorIMockRecorder_GetConsAddr G h mr =
     record_call G h mr ''GetConsAddr'' (''MockValidatorI'', ''GetConsAddr'') []"

definition MockValidatorI_GetConsensusPower ::
    "('k, 'c, 'acc, 'pk, 'mt) gomock \<Rightarrow> mock_heap \<Rightarrow> nat \<Rightarrow> math_int \<Rightarrow> ('k, int64) mocked" where
  "MockValidatorI_GetConsensusPower G h m arg0 =
     ret1 as_int64 (call_mock G h m ''GetConsensusPower'' [IntAny arg0])"

definition MockValidatorIMockRecorder_GetConsensusPower ::
    "('k, 'c, 'acc, 'pk, 'mt) gomock \<Rightarrow> mock_heap \<Rightarrow> nat \<Rightarrow> 'mt \<Rightarrow> ('k, nat) mocked" where
  "MockValidatorIMockRecorder_GetConsensusPower G h mr arg0 =
     record_call G h mr ''GetConsensusPower'' (''MockValidatorI'', ''GetConsensusPower'') [arg0]"

definition MockValidatorI_GetDelegatorShares ::
    "('k, 'c, 'acc, 'pk, 'mt) gomock \<Rightarrow> mock_heap \<Rightarrow> nat \<Rightarrow> ('k, math_dec) mocked" where
  "MockValidatorI_GetDelegatorShares G h m =
     ret1 as_Dec (call_mock G h m ''GetDelegatorShares'' [])"

definition MockValidatorIMockRecorder_GetDelegatorShares ::
    "('k, 'c, 'acc, 'pk, 'mt) gomock \<Rightarrow> mock_heap \<Rightarrow> nat \<Rightarrow> ('k, nat) mocked" where
  "MockValidatorIMockRecorder_GetDelegatorShares G h mr =
     record_call G h mr ''GetDelegatorShares'' (''MockValidatorI'', ''GetDelegatorShares'') []"

definition MockValidatorI_GetMinSelfDelegation ::
    "('k, 'c, 'acc, 'pk, 'mt) gomock \<Rightarrow> mock_heap \<Rightarrow> nat \<Rightarrow> ('k, math_int) mocked" where
  "MockValidatorI_GetMinSelfDelegation G h m =
     ret1 as_Int (call_mock G h m ''GetMinSelfDelegation'' [])"

definition MockValidatorIMockRecorder_GetMinSelfDelegation ::
    "('k, 'c, 'acc, 'pk, 'mt) gomock \<Rightarrow> mock_heap \<Rightarrow> nat \<Rightarrow> ('k, nat) mocked" where
  "MockValidatorIMockRecorder_GetMinSelfDelegation G h mr =
     record_call G h mr ''GetMinSelfDelegation'' (''MockValidatorI'', ''GetMinSelfDelegation'') []"

definition MockValidatorI_GetMoniker ::
    "('k, 'c, 'acc, 'pk, 'mt) gomock \<Rightarrow> mock_heap \<Rightarrow> nat \<Rightarrow> ('k, string) mocked" where
  "MockValidatorI_GetMoniker G h m =
     ret1 as_string (call_mock G h m ''GetMoniker'' [])"

definition MockValidatorIMockRecorder_GetMoniker ::
    "('k, 'c, 'acc, 'pk, 'mt) gomock \<Rightarrow> mock_heap \<Rightarrow> nat \<Rightarrow> ('k, nat) mocked" where
  "MockValidatorIMockRecorder_GetMoniker G h mr =
     record_call G h mr ''GetMoniker'' (''MockValidatorI'', ''GetMoniker'') []"

definition MockValidatorI_GetOperator ::
    "('k, 'c, 'acc, 'pk, 'mt) gomock \<Rightarrow> mock_heap \<Rightarrow> nat \<Rightarrow> ('k, string) mocked" where
  "MockValidatorI_GetOperator G h m =
     ret1 as_string (call_mock G h m ''GetOperator'' [])"

definition MockValidatorIMockRecorder_GetOperator ::
    "('k, 'c, 'acc, 'pk, 'mt) gomock \<Rightarrow> mock_heap \<Rightarrow> nat \<Rightarrow> ('k, nat) mocked" where
  "MockValidatorIMockRecorder_GetOperator G h mr =
     record_call G h mr ''GetOperator'' (''MockValidatorI'', ''GetOperator'') []"

definition MockValidatorI_GetStatus ::
    "('k, 'c, 'acc, 'pk, 'mt) gomock \<Rightarrow> mock_heap \<Rightarrow> nat \<Rightarrow> ('k, BondStatus) mocked" where
  "MockValidatorI_GetStatus G h m =
     ret1 as_BondStatus (call_mock G h m ''GetStatus'' [])"

definition MockValidatorIMockRecorder_GetStatus ::
    "('k, 'c, 'acc, 'pk, 'mt) gomock \<Rightarrow> mock_heap \<Rightarrow> nat \<Rightarrow> ('k, nat) mocked" where
  "MockValidatorIMockRecorder_GetStatus G h mr =
     record_call G h mr ''GetStatus'' (''MockValidatorI'', ''GetStatus'') []"

definition MockValidatorI_GetTokens ::
    "('k, 'c, 'acc, 'pk, 'mt) gomock \<Rightarrow> mock_heap \<Rightarrow> nat \<Rightarrow> ('k, math_int) mocked" where
  "MockValidatorI_GetTokens G h m =
     ret1 as_Int (call_mock G h m ''GetTokens'' [])"

definition MockValidatorIMockRecorder_GetTokens ::
    "('k, 'c, 'acc, 'pk, 'mt) gomock \<Rightarrow> mock_heap \<Rightarrow> nat \<Rightarrow> ('k, nat) mocked" where
  "MockValidatorIMockRecorder_GetTokens G h mr =
     record_call G h mr ''GetTokens'' (''MockValidatorI'', ''GetTokens'') []"

definition MockValidatorI_IsBonded ::
    "('k, 'c, 'acc, 'pk, 'mt) gomock \<Rightarrow> mock_heap \<Rightarrow> nat \<Rightarrow> ('k, bool) mocked" where
  "MockValidatorI_IsBonded G h m =
     ret1 as_bool (call_mock G h m ''IsBonded'' [])"

definition MockValidatorIMockRecorder_IsBonded ::
    "('k, 'c, 'acc, 'pk, 'mt) gomock \<Rightarrow> mock_heap \<Rightarrow> nat \<Rightarrow> ('k, nat) mocked" where
  "MockValidatorIMockRecorder_IsBonded G h mr =
     record_call G h mr ''IsBonded'' (''MockValidatorI'', ''IsBonded'') []"

definition MockValidatorI_IsJailed ::
    "('k, 'c, 'acc, 'pk, 'mt) gomock \<Rightarrow> mock_heap \<Rightarrow> nat \<Rightarrow> ('k, bool) mocked" where
  "MockValidatorI_IsJailed G h m =
     ret1 as_bool (call_mock G h m ''IsJailed'' [])"

definition MockValidatorIMockRecorder_IsJailed ::
    "('k, 'c, 'acc, 'pk, 'mt) gomock \<Rightarrow> mock_heap \<Rightarrow> nat \<Rightarrow> ('k, nat) mocked" where
  "MockValidatorIMockRecorder_IsJailed G h mr =
     record_call G h mr ''IsJailed'' (''MockValidatorI'', ''IsJailed'') []"

definition MockValidatorI_IsUnbonded ::
    "('k, 'c, 'acc, 'pk, 'mt) gomock \<Rightarrow> mock_heap \<Rightarrow> nat \<Rightarrow> ('k, bool) mocked" where
  "MockValidatorI_IsUnbonded G h m =
     ret1 as_bool (call_mock G h m ''IsUnbonded'' [])"

definition MockValidatorIMockRecorder_IsUnbonded ::
    "('k, 'c, 'acc, 'pk, 'mt) gomock \<Rightarrow> mock_heap \<Rightarrow> nat \<Rightarrow> ('k, nat) mocked" where
  "MockValidatorIMockRecorder_IsUnbonded G h mr =
     record_call G h mr ''IsUnbonded'' (''MockValidatorI'', ''IsUnbonded'') []"

definition MockValidatorI_IsUnbonding ::
    "('k, 'c, 'acc, 'pk, 'mt) gomock \<Rightarrow> mock_heap \<Rightarrow> nat \<Rightarrow> ('k, bool) mocked" where
  "MockValidatorI_IsUnbonding G h m =
     ret1 as_bool (call_mock G h m ''IsUnbonding'' [])"

definition MockValidatorIMockRecorder_IsUnbonding ::
    "('k, 'c, 'acc, 'pk, 'mt) gomock \<Rightarrow> mock_heap \<Rightarrow> nat \<Rightarrow> ('k, nat) mocked" where
  "MockValidatorIMockRecorder_IsUnbonding G h mr =
     record_call G h mr ''IsUnbonding'' (''MockValidatorI'', ''IsUnbonding'') []"

definition MockValidatorI_SharesFromTokens ::
    "('k, 'c, 'acc, 'pk, 'mt) gomock \<Rightarrow> mock_heap \<Rightarrow> nat \<Rightarrow> math_int \<Rightarrow> ('k, math_dec \<times> go_error option) mocked" where
  "MockValidatorI_SharesFromTokens G h m amt =
     ret2 as_Dec as_error (call_mock G h m ''SharesFromTokens'' [IntAny amt])"

definition MockValidatorIMockRecorder_SharesFromTokens ::
    "('k, 'c, 'acc, 'pk, 'mt) gomock \<Rightarrow> mock_heap \<Rightarrow> nat \<Rightarrow> 'mt \<Rightarrow> ('k, nat) mocked" where
  "MockValidatorIMockRecorder_SharesFromTokens G h mr amt =
     record_call G h mr ''SharesFromTokens'' (''MockValidatorI'', ''SharesFromTokens'') [amt]"

definition MockValidatorI_SharesFromTokensTruncated ::
    "('k, 'c, 'acc, 'pk, 'mt) gomock \<Rightarrow> mock_heap \<Rightarrow> nat \<Rightarrow> math_int \<Rightarrow> ('k, math_dec \<times> go_error option) mocked" where
  "MockValidatorI_SharesFromTokensTruncated G h m amt =
     ret2 as_Dec as_error (call_mock G h m ''SharesFromTokensTruncated'' [IntAny amt])"

definition MockValidatorIMockRecorder_SharesFromTokensTruncated ::
    "('k, 'c, 'acc, 'pk, 'mt) gomock \<Rightarrow> mock_heap \<Rightarrow> nat \<Rightarrow> 'mt \<Rightarrow> ('k, nat) mocked" where
  "MockValidatorIMockRecorder_SharesFromTokensTruncated G h mr amt =
     record_call G h mr ''SharesFromTokensTruncated'' (''MockValidatorI'', ''SharesFromTokensTruncated'') [amt]"

definition MockValidatorI_TmConsPublicKey ::
    "('k, 'c, 'acc, 'pk, 'mt) gomock \<Rightarrow> mock_heap \<Rightarrow> nat \<Rightarrow> ('k, PublicKey \<times> go_error option) mocked" where
  "MockValidatorI_TmConsPublicKey G h m =
     ret2 as_PublicKey as_error (call_mock G h m ''TmConsPublicKey'' [])"

definition MockValidatorIMockRecorder_TmConsPublicKey ::
    "('k, 'c, 'acc, 'pk, 'mt) gomock \<Rightarrow> mock_heap \<Rightarrow> nat \<Rightarrow> ('k, nat) mocked" where
  "MockValidatorIMockRecorder_TmConsPublicKey G h mr =
     record_call G h mr ''TmConsPublicKey'' (''MockValidatorI'', ''TmConsPublicKey'') []"

definition MockValidatorI_TokensFromShares ::
    "('k, 'c, 'acc, 'pk, 'mt) gomock \<Rightarrow> mock_heap \<Rightarrow> nat \<Rightarrow> math_dec \<Rightarrow> ('k, math_dec) mocked" where
  "MockValidatorI_TokensFromShares G h m arg0 =
     ret1 as_Dec (call_mock G h m ''TokensFromShares'' [DecAny arg0])"

definition MockValidatorIMockRecorder_TokensFromShares ::
    "('k, 'c, 'acc, 'pk, 'mt) gomock \<Rightarrow> mock_heap \<Rightarrow> nat \<Rightarrow> 'mt \<Rightarrow> ('k, nat) mocked" where
  "MockValidatorIMockRecorder_TokensFromShares G h mr arg0 =
     record_call G h mr ''TokensFromShares'' (''MockValidatorI'', ''TokensFromShares'') [arg0]"

definition MockValidatorI_TokensFromSharesRoundUp ::
    "('k, 'c, 'acc, 'pk, 'mt) gomock \<Rightarrow> mock_heap \<Rightarrow> nat \<Rightarrow> math_dec \<Rightarrow> ('k, math_dec) mocked" where
  "MockValidatorI_TokensFromSharesRoundUp G h m arg0 =
     ret1 as_Dec (call_mock G h m ''TokensFromSharesRoundUp'' [DecAny arg0])"

definition MockValidatorIMockRecorder_TokensFromSharesRoundUp ::
    "('k, 'c, 'acc, 'pk, 'mt) gomock \<Rightarrow> mock_heap \<Rightarrow> nat \<Rightarrow> 'mt \<Rightarrow> ('k, nat) mocked" where
  "MockValidatorIMockRecorder_TokensFromSharesRoundUp G h mr arg0 =
     record_call G h mr ''TokensFromSharesRoundUp'' (''MockValidatorI'', ''TokensFromSharesRoundUp'') [arg0]"

definition MockValidatorI_TokensFromSharesTruncated ::
    "('k, 'c, 'acc, 'pk, 'mt) gomock \<Rightarrow> mock_heap \<Rightarrow> nat \<Rightarrow> math_dec \<Rightarrow> ('k, math_dec) mocked" where
  "MockValidatorI_TokensFromSharesTruncated G h m arg0 =
     ret1 as_Dec (call_mock G h m ''TokensFromSharesTruncated'' [DecAny arg0])"

definition MockValidatorIMockRecorder_TokensFromSharesTruncated ::
    "('k, 'c, 'acc, 'pk, 'mt) gomock \<Rightarrow> mock_heap \<Rightarrow> nat \<Rightarrow> 'mt \<Rightarrow> ('k, nat) mocked" where
  "MockValidatorIMockRecorder_TokensFromSharesTruncated G h mr arg0 =
     record_call G h mr ''TokensFromSharesTruncated'' (''MockValidatorI'', ''TokensFromSharesTruncated'') [arg0]"

section \<open>A mock and its recorder\<close>

text \<open>A new mock and its recorder work on one controller: what \<open>EXPECT\<close> records for a method is recorded
  for the receiver and under the name with which the method later calls that controller. No other object of
  the heap changes.\<close>

definition fresh_from :: "mock_heap \<Rightarrow> bool" where
  "fresh_from h \<longleftrightarrow> (\<forall>a \<ge> next_address h. mocks h a = None \<and> recorders h a = None)"

lemma new_mock_wired:
  assumes "new_mock ctrl h = (h', m)" and "fresh_from h"
  shows "\<exists>mr. recorder_of h' m = Some mr \<and>
      (\<forall>meth mt args k. record_call G h' mr meth mt args k =
         apsnd Inr (RecordCallWithMethodType G ctrl m meth mt args (T_Helper G ctrl k))) \<and>
      (\<forall>meth args k. call_mock G h' m meth args k =
         apsnd (\<lambda>r. case r of None \<Rightarrow> Inl TestStopped | Some ret \<Rightarrow> Inr ret)
           (ctrl_Call G ctrl m meth args (T_Helper G ctrl k)))"
    and "a \<noteq> m \<Longrightarrow> mocks h' a = mocks h a" and "mocks h m = None" and "fresh_from h'"
  using assms
  by (auto simp: new_mock_def Let_def recorder_of_def record_call_def call_mock_def fresh_from_def
      split: prod.split option.split)

section \<open>Mocks that play keepers\<close>

text \<open>A result of a keeper with an error as the values a controller returns; a panic inside the call
  ends the test.\<close>

fun error_result :: "'x \<times> (fault + unit) \<Rightarrow> 'x \<times> ('c, 'acc, 'pk) any list option" where
  "error_result (x, Inl (Fail e)) = (x, Some [error_any (Some e)])"
| "error_result (x, Inl (Panic p)) = (x, None)"
| "error_result (x, Inr u) = (x, Some [error_any None])"

fun mock_error :: "'x \<times> (fault + unit) \<Rightarrow> 'x \<times> (mock_fault + go_error option)" where
  "mock_error (x, Inl (Fail e)) = (x, Inr (Some e))"
| "mock_error (x, Inl (Panic p)) = (x, Inl TestStopped)"
| "mock_error (x, Inr u) = (x, Inr None)"

text \<open>A keeper's answer to a mock's caller, when the state of the controller is related to the world of
  the keepers by \<open>rel\<close>.\<close>

definition answers ::
    "('k \<Rightarrow> 'x \<Rightarrow> bool) \<Rightarrow> 'k \<times> 'r \<Rightarrow> 'x \<times> 'r \<Rightarrow> bool" where
  "answers rel kr xr \<longleftrightarrow> rel (fst kr) (fst xr) \<and> snd kr = snd xr"

definition plays ::
    "('k, 'c, 'acc, 'pk, 'mt) gomock \<Rightarrow> ('k \<Rightarrow> 'x \<Rightarrow> bool) \<Rightarrow> nat \<Rightarrow> string \<Rightarrow> ('c, 'acc, 'pk) any list \<Rightarrow> 'x \<Rightarrow>
     'x \<times> ('c, 'acc, 'pk) any list option \<Rightarrow> bool" where
  "plays G rel m meth args x xr \<longleftrightarrow> (\<forall>ctrl k. rel k x \<longrightarrow> answers rel (ctrl_Call G ctrl m meth args k) xr)"

definition played :: "'x \<times> 'r option \<Rightarrow> 'x \<times> (mock_fault + 'r)" where
  "played xr = apsnd (\<lambda>r. case r of None \<Rightarrow> Inl TestStopped | Some ret \<Rightarrow> Inr ret) xr"

lemma played_simps [simp]:
  "played (x, None) = (x, Inl TestStopped)" "played (x, Some ret) = (x, Inr ret)"
  by (simp_all add: played_def)

lemma ret_answers:
  "answers rel (call k) (x, Inr [v]) \<Longrightarrow> conv v = b \<Longrightarrow> answers rel (ret1 conv call k) (x, Inr b)"
  "answers rel (call k) (x, Inr [v, w]) \<Longrightarrow> conv v = b \<Longrightarrow> conv' w = c \<Longrightarrow>
     answers rel (ret2 conv conv' call k) (x, Inr (b, c))"
  "answers rel (call k) (x, Inr ret) \<Longrightarrow> answers rel (ret0 call k) (x, Inr ())"
  "answers rel (call k) (x, Inl e) \<Longrightarrow> answers rel (ret1 conv call k) (x, Inl e)"
  by (cases "call k"; simp add: answers_def ret0_def ret1_def ret2_def)+

lemma ret_error:
  assumes "answers rel (call k) (played (error_result r))"
  shows "answers rel (ret1 as_error call k) (mock_error r)"
  using assms by (cases r rule: mock_error.cases) (auto intro: ret_answers)

locale playing =
  fixes G :: "('k, 'c, 'acc, 'pk, 'mt) gomock" and h :: mock_heap
    and auth :: nat and bank :: nat and staking :: nat
    and rel :: "'k \<Rightarrow> 'x \<Rightarrow> bool"
    and A :: "('x, 'acc) AuthKeeper" and B :: "'x BankKeeper" and S :: "'x StakingKeeper"
  assumes made: "mocks h auth \<noteq> None" "mocks h bank \<noteq> None" "mocks h staking \<noteq> None"
    and helper: "rel k x \<Longrightarrow> rel (T_Helper G ctrl k) x"
    and plays_GetAccount: "plays G rel auth ''GetAccount'' [CtxAny ctx, AccAddressAny a] x
        (x, Some [account_any (GetAccount A x a)])"
    and plays_NewAccount: "plays G rel auth ''NewAccountWithAddress'' [CtxAny ctx, AccAddressAny a] x
        (fst (NewAccountWithAddress A x a), Some [account_any (Some (snd (NewAccountWithAddress A x a)))])"
    and plays_SetAccount: "plays G rel auth ''SetAccount'' [CtxAny ctx, account_any (Some acc)] x
        (SetAccount A x acc, Some [])"
    and plays_GetBalance: "plays G rel bank ''GetBalance'' [CtxAny ctx, AccAddressAny a, StringAny d] x
        (x, Some [CoinAny (GetBalance B x a d)])"
    and plays_ModuleToModule: "plays G rel bank ''SendCoinsFromModuleToModule''
        [CtxAny ctx, StringAny from, StringAny to, CoinsAny cs] x
        (error_result (SendCoinsFromModuleToModule B x from to cs))"
    and plays_ModuleToAccount: "plays G rel bank ''SendCoinsFromModuleToAccount''
        [CtxAny ctx, StringAny from, AccAddressAny a, CoinsAny cs] x
        (error_result (SendCoinsFromModuleToAccount B x from a cs))"
    and plays_Validators: "plays G rel staking ''GetBondedValidatorsByPower'' [CtxAny ctx] x
        (x, Some (case GetBondedValidatorsByPower S x of
           Inl e \<Rightarrow> [ValidatorsAny [], error_any (Some e)] | Inr vs \<Rightarrow> [ValidatorsAny vs, error_any None]))"
begin

lemma call_made:
  assumes "mocks h m \<noteq> None" and "rel k x" and "plays G rel m meth args x xr"
  shows "answers rel (call_mock G h m meth args k) (played xr)"
proof -
  obtain mock where mock: "mocks h m = Some mock"
    using assms(1) by blast
  let ?r = "ctrl_Call G (mo_ctrl mock) m meth args (T_Helper G (mo_ctrl mock) k)"
  have "answers rel ?r xr"
    using assms(2,3) helper unfolding plays_def by blast
  then show ?thesis
    by (cases ?r; cases xr; cases "snd ?r") (auto simp: answers_def call_mock_def mock)
qed

text \<open>The mocks are the keepers the controller plays.\<close>

lemma mock_GetAccount:
  "rel k x \<Longrightarrow> answers rel (MockAuthKeeper_GetAccount G h auth ctx a k) (x, Inr (GetAccount A x a))"
  unfolding MockAuthKeeper_GetAccount_def
  using call_made [OF made(1) _ plays_GetAccount, of k x ctx a] by (auto intro: ret_answers(1))

lemma mock_NewAccount:
  "rel k x \<Longrightarrow> answers rel (MockAuthKeeper_NewAccountWithAddress G h auth ctx a k)
     (fst (NewAccountWithAddress A x a), Inr (Some (snd (NewAccountWithAddress A x a))))"
  unfolding MockAuthKeeper_NewAccountWithAddress_def
  using call_made [OF made(1) _ plays_NewAccount, of k x ctx a] by (auto intro: ret_answers(1))

lemma mock_SetAccount:
  "rel k x \<Longrightarrow> answers rel (MockAuthKeeper_SetAccount G h auth ctx (Some acc) k) (SetAccount A x acc, Inr ())"
  unfolding MockAuthKeeper_SetAccount_def
  using call_made [OF made(1) _ plays_SetAccount, of k x ctx acc] by (auto intro: ret_answers(3))

lemma mock_GetBalance:
  "rel k x \<Longrightarrow> answers rel (MockBankKeeper_GetBalance G h bank ctx a d k) (x, Inr (GetBalance B x a d))"
  unfolding MockBankKeeper_GetBalance_def
  using call_made [OF made(2) _ plays_GetBalance, of k x ctx a d] by (auto intro: ret_answers(1))

lemma mock_ModuleToModule:
  "rel k x \<Longrightarrow> answers rel (MockBankKeeper_SendCoinsFromModuleToModule G h bank ctx from to cs k)
     (mock_error (SendCoinsFromModuleToModule B x from to cs))"
  unfolding MockBankKeeper_SendCoinsFromModuleToModule_def
  by (intro ret_error call_made [OF made(2) _ plays_ModuleToModule])

lemma mock_ModuleToAccount:
  "rel k x \<Longrightarrow> answers rel (MockBankKeeper_SendCoinsFromModuleToAccount G h bank ctx from a cs k)
     (mock_error (SendCoinsFromModuleToAccount B x from a cs))"
  unfolding MockBankKeeper_SendCoinsFromModuleToAccount_def
  by (intro ret_error call_made [OF made(2) _ plays_ModuleToAccount])

lemma mock_Validators:
  "rel k x \<Longrightarrow> answers rel (MockStakingKeeper_GetBondedValidatorsByPower G h staking ctx k)
     (x, Inr (case GetBondedValidatorsByPower S x of Inl e \<Rightarrow> ([], Some e) | Inr vs \<Rightarrow> (vs, None)))"
  unfolding MockStakingKeeper_GetBondedValidatorsByPower_def
  using call_made [OF made(3) _ plays_Validators, of k x ctx]
  by (cases "GetBondedValidatorsByPower S x") (auto intro: ret_answers(2))

end

section \<open>The controller that passes calls on\<close>

text \<open>Its state is the world of the keepers, and it records nothing. An unexpected call ends the test.\<close>

definition pass_on ::
    "('x, 'acc) AuthKeeper \<Rightarrow> 'x BankKeeper \<Rightarrow> 'x StakingKeeper \<Rightarrow> ('x, 'c, 'acc, 'pk, 'mt) gomock" where
  "pass_on A B S =
     \<lparr>T_Helper = (\<lambda>ctrl x. x),
      ctrl_Call = (\<lambda>ctrl m meth args x.
        case args of
          [_, AccAddressAny a] \<Rightarrow>
            if meth = ''GetAccount'' then (x, Some [account_any (GetAccount A x a)])
            else if meth = ''NewAccountWithAddress''
            then (case NewAccountWithAddress A x a of (x, acc) \<Rightarrow> (x, Some [account_any (Some acc)]))
            else (x, None)
        | [_, AccountAny acc] \<Rightarrow> if meth = ''SetAccount'' then (SetAccount A x acc, Some []) else (x, None)
        | [_, AccAddressAny a, StringAny d] \<Rightarrow>
            if meth = ''GetBalance'' then (x, Some [CoinAny (GetBalance B x a d)]) else (x, None)
        | [_, StringAny from, StringAny to, CoinsAny cs] \<Rightarrow>
            if meth = ''SendCoinsFromModuleToModule''
            then error_result (SendCoinsFromModuleToModule B x from to cs) else (x, None)
        | [_, StringAny from, AccAddressAny a, CoinsAny cs] \<Rightarrow>
            if meth = ''SendCoinsFromModuleToAccount''
            then error_result (SendCoinsFromModuleToAccount B x from a cs) else (x, None)
        | [_] \<Rightarrow>
            if meth = ''GetBondedValidatorsByPower''
            then (x, Some (case GetBondedValidatorsByPower S x of
                    Inl e \<Rightarrow> [ValidatorsAny [], error_any (Some e)]
                  | Inr vs \<Rightarrow> [ValidatorsAny vs, error_any None]))
            else (x, None)
        | _ \<Rightarrow> (x, None)),
      RecordCallWithMethodType = (\<lambda>ctrl m meth mt args x. (x, 0))\<rparr>"

text \<open>The heap with one mock of each keeper, all on the controller 0, as a test makes them.\<close>

definition test_heap :: mock_heap where
  "test_heap =
     (let h = \<lparr>mocks = (\<lambda>_. None), recorders = (\<lambda>_. None), next_address = 0\<rparr>;
          (h, bank) = NewMockBankKeeper 0 h;
          (h, staking) = NewMockStakingKeeper 0 h;
          (h, auth) = NewMockAuthKeeper 0 h
      in h)"

lemma test_heap_mocks:
  "mocks test_heap 4 \<noteq> None" "mocks test_heap 0 \<noteq> None" "mocks test_heap 2 \<noteq> None"
  by (simp_all add: test_heap_def NewMockBankKeeper_def NewMockStakingKeeper_def NewMockAuthKeeper_def
      new_mock_def Let_def numeral_2_eq_2 numeral_eq_Suc)

interpretation passed: playing "pass_on A B S" test_heap 4 0 2 "(=)" A B S
  for A :: "('x, 'acc) AuthKeeper" and B :: "'x BankKeeper" and S :: "'x StakingKeeper"
  by unfold_locales
    (use test_heap_mocks in \<open>auto simp: plays_def answers_def pass_on_def account_any_def split: prod.split\<close>)

text \<open>So a fee is collected from a mock exactly as from the bank keeper it plays.\<close>

lemma passed_transfer:
  "MockBankKeeper_SendCoinsFromModuleToModule (pass_on A B S) test_heap 0 ctx from to cs x =
     mock_error (SendCoinsFromModuleToModule B x from to cs)"
  using passed.mock_ModuleToModule [where x = x and k = x and A = A and B = B and S = S, OF refl, of ctx "from" to cs]
  by (simp add: answers_def prod_eq_iff)

end
