(* ===== verification/TestApp.thy ===== *)
theory TestApp
  imports ProviderModule
begin

text \<open>
  The module accounts of the two applications of testapp (provider/app.go, consumer/app.go): the
  permissions handed to the SDK's account keeper and the addresses the bank refuses as recipients. An
  address as text is a function of the module's name, an argument.

  The second section puts the fees of the provider module into the application as it is assembled:
  the bank knows the accounts of the permissions, and those of the consumer chains are not among them.
\<close>

section \<open>Module accounts\<close>

datatype permission = Minter | Burner | StakingPerm

definition maccPerms :: "permission list gomap" where
  "maccPerms = fmap_of_list
     [(''fee_collector'', []),
      (''distribution'', []),
      (''mint'', [Minter]),
      (''bonded_tokens_pool'', [Burner, StakingPerm]),
      (''not_bonded_tokens_pool'', [Burner, StakingPerm]),
      (''gov'', [Burner])]"

definition consumer_maccPerms :: "permission list gomap" where
  "consumer_maccPerms = fmap_of_list
     [(''fee_collector'', []),
      (''distribution'', []),
      (''mint'', [Minter]),
      (''bonded_tokens_pool'', [Burner, StakingPerm]),
      (''not_bonded_tokens_pool'', [Burner, StakingPerm]),
      (''gov'', [Burner])]"

text \<open>\<open>ns\<close> is the order in which Go visits the map.\<close>

definition ModuleAccountAddrs :: "(string \<Rightarrow> string) \<Rightarrow> nat list \<Rightarrow> permission list gomap \<Rightarrow> bool gomap" where
  "ModuleAccountAddrs addr ns perms =
     fold (\<lambda>acc modAccAddrs. fmupd (addr acc) True modAccAddrs) (pick ns (keys perms)) fmempty"

definition BlockedModuleAccountAddrs :: "(string \<Rightarrow> string) \<Rightarrow> bool gomap \<Rightarrow> bool gomap" where
  "BlockedModuleAccountAddrs addr modAccAddrs = fmdrop (addr GovModuleName) modAccAddrs"

definition GetMaccPerms :: "nat list \<Rightarrow> permission list gomap \<Rightarrow> permission list gomap" where
  "GetMaccPerms ns perms =
     fold (\<lambda>k dupMaccPerms. fmupd k (the (fmlookup perms k)) dupMaccPerms) (pick ns (keys perms)) fmempty"

text \<open>The functions of the consumer, over its own permissions.\<close>

definition consumer_ModuleAccountAddrs :: "(string \<Rightarrow> string) \<Rightarrow> nat list \<Rightarrow> bool gomap" where
  "consumer_ModuleAccountAddrs addr ns =
     fold (\<lambda>acc modAccAddrs. fmupd (addr acc) True modAccAddrs) (pick ns (keys consumer_maccPerms)) fmempty"

definition consumer_BlockedModuleAccountAddrs :: "(string \<Rightarrow> string) \<Rightarrow> bool gomap \<Rightarrow> bool gomap" where
  "consumer_BlockedModuleAccountAddrs addr modAccAddrs = fmdrop (addr GovModuleName) modAccAddrs"

definition consumer_GetMaccPerms :: "nat list \<Rightarrow> permission list gomap" where
  "consumer_GetMaccPerms ns =
     fold (\<lambda>k dupMaccPerms. fmupd k (the (fmlookup consumer_maccPerms k)) dupMaccPerms)
       (pick ns (keys consumer_maccPerms)) fmempty"

lemma consumer_accounts:
  "consumer_ModuleAccountAddrs addr ns = ModuleAccountAddrs addr ns consumer_maccPerms"
  "consumer_BlockedModuleAccountAddrs = BlockedModuleAccountAddrs"
  "consumer_GetMaccPerms ns = GetMaccPerms ns consumer_maccPerms"
  by (simp_all add: fun_eq_iff consumer_ModuleAccountAddrs_def ModuleAccountAddrs_def consumer_GetMaccPerms_def
      GetMaccPerms_def consumer_BlockedModuleAccountAddrs_def BlockedModuleAccountAddrs_def)

lemma fold_fmupd_True:
  "fmlookup (fold (\<lambda>k m. fmupd (f k) True m) ks m0) x = (if x \<in> f ` set ks then Some True else fmlookup m0 x)"
  by (induction ks arbitrary: m0) auto

lemma fold_fmupd_key:
  "fmlookup (fold (\<lambda>k m. fmupd k (g k) m) ks m0) x = (if x \<in> set ks then Some (g x) else fmlookup m0 x)"
  by (induction ks arbitrary: m0) auto

text \<open>The bank refuses exactly the accounts of the modules but the one of governance, and the copy of
  the permissions is equal to them, whatever the order.\<close>

lemma blocked_accounts:
  assumes "inj addr"
  shows "flag (BlockedModuleAccountAddrs addr (ModuleAccountAddrs addr ns perms)) x \<longleftrightarrow>
    (\<exists>m. m |\<in>| fmdom perms \<and> m \<noteq> GovModuleName \<and> x = addr m)"
  using assms
  by (auto simp: BlockedModuleAccountAddrs_def ModuleAccountAddrs_def flag_def fold_fmupd_True dest: injD)

lemma GetMaccPerms_copy: "GetMaccPerms ns perms = perms"
proof (rule fmap_ext)
  show "fmlookup (GetMaccPerms ns perms) x = fmlookup perms x" for x
    by (cases "fmlookup perms x") (auto simp: GetMaccPerms_def fold_fmupd_key fmlookup_dom_iff)
qed

section \<open>Fees in the provider application\<close>

text \<open>The bank knows the module accounts whose names are in the permissions of the account keeper.
  The account of a consumer chain is not among them.\<close>

definition app_registered :: "permission list gomap \<Rightarrow> string \<Rightarrow> bool" where
  "app_registered perms m \<longleftrightarrow> m |\<in>| fmdom perms"

lemma consumer_account_unknown: "\<not> app_registered maccPerms (GetConsumerModuleAccountName chainID)"
  by (simp add: app_registered_def maccPerms_def GetConsumerModuleAccountName_def
      ConsumerModuleAccountPrefix_def fmdom_fmap_of_list)

definition overdue :: "ConsumerChain \<Rightarrow> ConsumerChain" where
  "overdue c = (if billable c then c\<lparr>Status := CONSUMER_STATUS_OVERDUE\<rparr> else c)"

lemma overdue_simps [simp]: "ChainId (overdue c) = ChainId c" "\<not> billable c \<Longrightarrow> overdue c = c"
  by (simp_all add: overdue_def)

context provider_env begin

lemma set_chain_store:
  obtains s where "set_chain K ctx c = (ctx\<lparr>kvStore := s\<rparr>, Inr ())"
    and "map_of (entries s) = (map_of (entries (kvStore ctx)))(ChainId c \<mapsto> c)"
    and "params s = params (kvStore ctx)"
proof -
  obtain s r where "Chains_Set (collections K) (kvStore ctx) (ChainId c) c = (s, r)"
    by force
  with Chains_Set [of "kvStore ctx" "ChainId c" c] show thesis
    by (intro that [of s]) (simp_all add: set_chain_def)
qed

text \<open>One step of the collection when the bank knows no account of a chain: it panics or moves
  nothing.\<close>

lemma unregistered_pays:
  assumes "valid_denom d" and "0 < f" and "entry_ok L K (k, c)"
    and "\<not> registered (GetConsumerModuleAccountName (ChainId c))"
    and "billable c" and "f \<le> bal (others ctx) (chain_addr L c) d"
  shows "\<exists>msg. collect_fee L K (coin d f) (coin d t, ctx) c = ((coin d t, ctx), Inl (Panic msg))"
proof -
  obtain msg where "SendCoinsFromModuleToModule (bankKeeper K) (others ctx)
      (GetConsumerModuleAccountName (ChainId c)) ''fee_collector'' [coin d f] = (others ctx, Inl (Panic msg))"
    using ModuleToModule_unregistered [OF assms(4), of "others ctx" "''fee_collector''" "[coin d f]"] by blast
  then show ?thesis
    using assms NewCoins [OF assms(1,2)]
    by (auto simp: collect_fee_def billable_def entry_ok_def GetBalance Coin_IsLT)
qed

lemma unregistered_late:
  assumes "entry_ok L K (k, c)" and "\<not> (billable c \<and> f \<le> bal (others ctx) (chain_addr L c) d)"
  obtains s where "collect_fee L K (coin d f) (coin d t, ctx) c = ((coin d t, ctx\<lparr>kvStore := s\<rparr>), Inr False)"
    and "map_of (entries s) = (if billable c then (map_of (entries (kvStore ctx)))(k \<mapsto> overdue c)
      else map_of (entries (kvStore ctx)))"
proof (cases "billable c")
  case True
  obtain s where "set_chain K ctx (overdue c) = (ctx\<lparr>kvStore := s\<rparr>, Inr ())"
      "map_of (entries s) = (map_of (entries (kvStore ctx)))(k \<mapsto> overdue c)"
    using set_chain_store [of ctx "overdue c"] assms(1) by (auto simp: entry_ok_def)
  with True assms show thesis
    by (intro that [of s]) (auto simp: collect_fee_def billable_def entry_ok_def GetBalance Coin_IsLT overdue_def)
next
  case False
  then show thesis
    by (intro that [of "kvStore ctx"]) (simp_all add: collect_fee_def billable_def)
qed

lemma walk_pays:
  assumes "valid_denom d" and "0 < f" and "e \<in> set es" and "list_all (entry_ok L K) es"
    and "\<And>c :: ConsumerChain. \<not> registered (GetConsumerModuleAccountName (ChainId c))"
    and "billable (snd e)" and "f \<le> bal (others ctx) (chain_addr L (snd e)) d"
  shows "\<exists>st msg. Walk (map Inr es) (\<lambda>c key v. collect_fee L K (coin d f) c v) (coin d t, ctx) = (st, Inl (Panic msg))"
  using assms(3,4,7)
proof (induction es arbitrary: ctx)
  case (Cons e' es)
  obtain k c where e': "e' = (k, c)"
    by force
  have ok: "entry_ok L K (k, c)"
    using Cons.prems(2) by (simp add: e')
  show ?case
  proof (cases "billable c \<and> f \<le> bal (others ctx) (chain_addr L c) d")
    case True
    with unregistered_pays [OF assms(1,2) ok assms(5), of ctx t] show ?thesis
      by (auto simp: e')
  next
    case False
    then obtain s where s: "collect_fee L K (coin d f) (coin d t, ctx) c = ((coin d t, ctx\<lparr>kvStore := s\<rparr>), Inr False)"
      using unregistered_late [OF ok] by metis
    have "e \<in> set es"
      using False Cons.prems(1,3) assms(6) by (auto simp: e')
    with Cons.IH [of "ctx\<lparr>kvStore := s\<rparr>"] Cons.prems(2,3) s show ?thesis
      by (simp add: e')
  qed
qed simp

lemma walk_late:
  assumes "list_all (entry_ok L K) es" and "distinct (map fst es)"
    and "\<forall>e \<in> set es. \<not> (billable (snd e) \<and> f \<le> bal (others ctx) (chain_addr L (snd e)) d)"
  shows "\<exists>s. Walk (map Inr es) (\<lambda>c key v. collect_fee L K (coin d f) c v) (coin d t, ctx) =
      ((coin d t, ctx\<lparr>kvStore := s\<rparr>), Inr ()) \<and>
    map_of (entries s) = (\<lambda>k. case map_of es k of
      Some c \<Rightarrow> if billable c then Some (overdue c) else map_of (entries (kvStore ctx)) k
    | None \<Rightarrow> map_of (entries (kvStore ctx)) k)"
  using assms
proof (induction es arbitrary: ctx)
  case Nil
  show ?case
    by (simp, rule exI [of _ "kvStore ctx"]) simp
next
  case (Cons e es)
  obtain k c where e: "e = (k, c)"
    by force
  have fresh: "map_of es k = None"
    using Cons.prems(2) by (auto simp: e map_of_eq_None_iff)
  have now: "\<not> (billable c \<and> f \<le> bal (others ctx) (chain_addr L c) d)" and ok: "entry_ok L K (k, c)"
    using Cons.prems by (auto simp: e)
  obtain s where s: "collect_fee L K (coin d f) (coin d t, ctx) c = ((coin d t, ctx\<lparr>kvStore := s\<rparr>), Inr False)"
      "map_of (entries s) = (if billable c then (map_of (entries (kvStore ctx)))(k \<mapsto> overdue c)
        else map_of (entries (kvStore ctx)))"
    by (rule unregistered_late [OF ok now])
  obtain u where u: "Walk (map Inr es) (\<lambda>c key v. collect_fee L K (coin d f) c v) (coin d t, ctx\<lparr>kvStore := s\<rparr>) =
      ((coin d t, ctx\<lparr>kvStore := u\<rparr>), Inr ())"
    "map_of (entries u) = (\<lambda>k. case map_of es k of
      Some c \<Rightarrow> if billable c then Some (overdue c) else map_of (entries s) k
    | None \<Rightarrow> map_of (entries s) k)"
    using Cons.IH [of "ctx\<lparr>kvStore := s\<rparr>"] Cons.prems by (auto simp: e cong: option.case_cong if_cong)
  have "map_of (entries u) = (\<lambda>l. case map_of (e # es) l of
      Some c \<Rightarrow> if billable c then Some (overdue c) else map_of (entries (kvStore ctx)) l
    | None \<Rightarrow> map_of (entries (kvStore ctx)) l)"
    using s(2) fresh by (auto simp: u(2) e fun_eq_iff split: option.split)
  with s(1) u(1) show ?case
    by (auto simp: e intro!: exI [of _ u])
qed

end

text \<open>C36: In the provider application no fee is ever collected: with a positive fee, a block panics when
  some chain that owes the fee holds it, and otherwise moves nothing and marks every chain that owes as
  overdue.\<close>

theorem provider_app_collects_nothing:
  assumes env: "provider_env L valid_denom K entries params bal (app_registered maccPerms) blocked"
    and p: "params (kvStore ctx) = Some p" "FeesPerBlock p = coin d f"
    and d: "valid_denom d" and f: "0 < f"
    and ok: "list_all (entry_ok L K) (entries (kvStore ctx))"
  shows "if \<exists>c \<in> snd ` set (entries (kvStore ctx)). billable c \<and> f \<le> bal (others ctx) (chain_addr L c) d
    then \<exists>ctx' msg. BeginBlocker L K ctx = (ctx', Inl (Panic msg))
    else \<exists>s. BeginBlocker L K ctx = (ctx\<lparr>kvStore := s\<rparr>, Inr ()) \<and>
         map_of (entries s) = (\<lambda>k. map_option overdue (map_of (entries (kvStore ctx)) k))"
proof -
  have coll: "collections_laws (collections K) entries params" and sdk: "sdk_laws L valid_denom"
    using env by (simp_all add: provider_env_def)
  have get: "Params_Get (collections K) (kvStore ctx) = Inr p"
    by (simp add: collections_laws.Params_Get [OF coll] p(1))
  have zero: "Coin_IsZero L (coin d n) = Inr (n = 0)" for n
    by (rule sdk_laws.Coin_IsZero [OF sdk])
  have start: "NewCoin L d (ZeroInt L) = Inr (coin d 0)"
    by (simp add: sdk_laws.ZeroInt [OF sdk] sdk_laws.NewCoin [OF sdk d])
  have iterate: "Chains_Iterate (collections K) (kvStore ctx) = Inr (map Inr (entries (kvStore ctx)))"
    and distinct: "distinct (map fst (entries (kvStore ctx)))"
    by (simp_all add: collections_laws.Chains_Iterate [OF coll] collections_laws.entries_distinct [OF coll])
  show ?thesis
  proof (cases "\<exists>e \<in> set (entries (kvStore ctx)). billable (snd e) \<and> f \<le> bal (others ctx) (chain_addr L (snd e)) d")
    case True
    then obtain e where e: "e \<in> set (entries (kvStore ctx))" "billable (snd e)"
        "f \<le> bal (others ctx) (chain_addr L (snd e)) d"
      by blast
    have "\<exists>ctx' msg. BeginBlocker L K ctx = (ctx', Inl (Panic msg))"
      using provider_env.walk_pays [OF env d f e(1) ok consumer_account_unknown e(2,3), of 0] f
      by (auto simp: BeginBlocker_def get p(2) zero CollectFeesFromConsumers_def start
          IterateConsumerChains_def Chains_Walk_def iterate)
    with True show ?thesis
      by auto
  next
    case False
    then obtain s where s: "BeginBlocker L K ctx = (ctx\<lparr>kvStore := s\<rparr>, Inr ())"
        "map_of (entries s) = (\<lambda>k. case map_of (entries (kvStore ctx)) k of
           Some c \<Rightarrow> if billable c then Some (overdue c) else map_of (entries (kvStore ctx)) k
         | None \<Rightarrow> map_of (entries (kvStore ctx)) k)"
      using provider_env.walk_late [OF env ok distinct, of f ctx d 0] f
      by (auto simp: BeginBlocker_def get p(2) zero CollectFeesFromConsumers_def start
          IterateConsumerChains_def Chains_Walk_def iterate)
    then have "map_of (entries s) k = map_option overdue (map_of (entries (kvStore ctx)) k)" for k
      by (auto split: option.split)
    with False s(1) show ?thesis
      by (auto simp: fun_eq_iff)
  qed
qed

theorem provider_app_collects_nothing_witness:
  "\<exists>ctx' msg. BeginBlocker ref_sdk (ref_keeper (app_registered maccPerms) (\<lambda>_. False)) demo_ctx =
     (ctx', Inl (Panic msg))"
proof -
  let ?K = "ref_keeper (app_registered maccPerms) (\<lambda>_. False)"
  have ok: "list_all (entry_ok ref_sdk ?K) (ref_entries (kvStore demo_ctx))"
    by (simp add: demo_entries demo_defs)
  have p: "rs_params (kvStore demo_ctx) = Some \<lparr>FeesPerBlock = coin ''photon'' 10, DowntimeSlashingWindow = 10\<rparr>"
    by (simp add: demo_ctx_def)
  have payer: "\<exists>c \<in> snd ` set (ref_entries (kvStore demo_ctx)).
      billable c \<and> 10 \<le> ref_bal (others demo_ctx) (chain_addr ref_sdk c) ''photon''"
    unfolding demo_entries by (simp add: demo_defs demo_ctx_def ref_bal_def)
  show ?thesis
    using provider_app_collects_nothing [OF env_ref.provider_env_axioms p, of "''photon''" 10] ok payer by simp
qed

end
