(* ===== verification/Assembly.thy ===== *)
theory Assembly
  imports TestApp
begin

text \<open>
  testapp/provider/app.go and ante_handler.go, and their twins of the consumer: how the two
  applications are assembled from modules of the SDK and of this repository.

  \<^item> A constructor of the SDK is a constructor of \<open>keeper\<close> with the arguments the code passes,
    less codecs, prefixes and loggers. A keeper gets the store of its key, \<open>None\<close> when that key
    was not made.
  \<^item> The calls that can fail are the record \<open>app_env\<close>, an argument: the text of the error or
    of the panic.
  \<^item> The registration of codecs, interfaces, query services and the simulation manager only hands
    values to the SDK and is left out.
  \<^item> The consumer's staking keeper is the wrapper of modules/consumer/staking, made with the same
    arguments.
\<close>

section \<open>Ante handler (ante_handler.go)\<close>

datatype decorator =
    SetUpContextDecorator
  | ExtensionOptionsDecorator
  | ValidateBasicDecorator
  | TxTimeoutHeightDecorator
  | ValidateMemoDecorator
  | ConsumeGasForTxSizeDecorator
  | DeductFeeDecorator
  | SetPubKeyDecorator
  | ValidateSigCountDecorator
  | SigGasConsumeDecorator bool
  | SigVerificationDecorator
  | IncrementSequenceDecorator

text \<open>Which of the options are set. The argument of \<open>SigGasConsumeDecorator\<close> says whether the
  SDK's default consumer is used.\<close>

record HandlerOptions =
  has_AccountKeeper :: bool
  has_BankKeeper :: bool
  has_SignModeHandler :: bool
  has_SigGasConsumer :: bool

definition NewAnteHandler :: "HandlerOptions \<Rightarrow> string + decorator list" where
  "NewAnteHandler options =
     (if \<not> has_AccountKeeper options then Inl ''account keeper is required for AnteHandler''
      else if \<not> has_BankKeeper options then Inl ''bank keeper is required for AnteHandler''
      else if \<not> has_SignModeHandler options then Inl ''sign mode handler is required for ante builder''
      else
        let defaultConsumer = (\<not> has_SigGasConsumer options)
        in Inr
          [SetUpContextDecorator,
           ExtensionOptionsDecorator,
           ValidateBasicDecorator,
           TxTimeoutHeightDecorator,
           ValidateMemoDecorator,
           ConsumeGasForTxSizeDecorator,
           DeductFeeDecorator,
           SetPubKeyDecorator,
           ValidateSigCountDecorator,
           SigGasConsumeDecorator defaultConsumer,
           SigVerificationDecorator,
           IncrementSequenceDecorator])"

definition consumer_NewAnteHandler :: "HandlerOptions \<Rightarrow> string + decorator list" where
  "consumer_NewAnteHandler options = NewAnteHandler options"

text \<open>The public keys are set before any signature is looked at, and the fee is deducted before them.\<close>

definition precedes :: "'a \<Rightarrow> 'a \<Rightarrow> 'a list \<Rightarrow> bool" where
  "precedes a b xs \<longleftrightarrow> a \<in> set (takeWhile (\<lambda>x. x \<noteq> b) xs)"

lemma ante_order:
  "NewAnteHandler options = Inr ds \<Longrightarrow>
   (\<forall>d \<in> {ValidateSigCountDecorator, SigGasConsumeDecorator (\<not> has_SigGasConsumer options), SigVerificationDecorator,
          IncrementSequenceDecorator}.
      d \<in> set ds \<and> precedes SetPubKeyDecorator d ds \<and> precedes DeductFeeDecorator d ds) \<and> distinct ds"
  by (auto simp: NewAnteHandler_def Let_def precedes_def split: if_split_asm)

section \<open>Module orders\<close>

definition PreBlockers :: "string list" where
  "PreBlockers = [''auth'']"

definition BeginBlockers :: "string list" where
  "BeginBlockers =
     [''gov'', ''staking'', ''auth'', ''bank'', ''distribution'', ''slashing'', ''mint'', ''genutil'',
      ''params'', ''vesting'', ModuleName]"

definition EndBlockers :: "string list" where
  "EndBlockers =
     [''gov'', ''staking'', ''auth'', ''bank'', ''distribution'', ''slashing'', ''mint'', ''genutil'',
      ''params'', ''vesting'', ModuleName]"

definition InitGenesisOrder :: "string list" where
  "InitGenesisOrder =
     [''auth'', ''bank'', ''distribution'', ''staking'', ''slashing'', ''gov'', ''mint'', ModuleName,
      ''genutil'', ''params'', ''vesting'', ''consensus'']"

definition consumer_PreBlockers :: "string list" where
  "consumer_PreBlockers = [''auth'']"

definition consumer_BeginBlockers :: "string list" where
  "consumer_BeginBlockers =
     [''gov'', ''staking'', ''auth'', ''bank'', ''distribution'', ''slashing'', ''mint'', ''genutil'',
      ''params'', ''vesting'']"

definition consumer_EndBlockers :: "string list" where
  "consumer_EndBlockers =
     [''gov'', ''staking'', ''auth'', ''bank'', ''distribution'', ''slashing'', ''mint'', ''genutil'',
      ''params'', ''vesting'']"

definition consumer_InitGenesisOrder :: "string list" where
  "consumer_InitGenesisOrder =
     [''auth'', ''bank'', ''distribution'', ''staking'', ''slashing'', ''gov'', ''mint'',
      ''genutil'', ''params'', ''vesting'']"

text \<open>The orders the comments of the code ask for: slashing after distribution, the provider module
  after staking, genutil after staking and auth. The one they also ask for, the provider module after
  genutil, does not hold.\<close>

lemma provider_orders:
  "precedes ''distribution'' ''slashing'' BeginBlockers" "precedes ''staking'' ModuleName EndBlockers"
  "precedes ''staking'' ''genutil'' InitGenesisOrder" "precedes ''auth'' ''genutil'' InitGenesisOrder"
  "precedes ''staking'' ModuleName InitGenesisOrder" "precedes ModuleName ''genutil'' InitGenesisOrder"
  by (simp_all add: precedes_def BeginBlockers_def EndBlockers_def InitGenesisOrder_def ModuleName_def)

section \<open>Keepers\<close>

datatype keeper =
    NewParamsKeeper "string option" "string option" "string list"
  | NewConsensusKeeper "string option" string
  | NewAccountKeeper "string option" "permission list gomap" string
  | NewBankKeeper "string option" keeper "bool gomap" string
  | NewStakingKeeper "string option" keeper keeper string
  | NewDistrKeeper "string option" keeper keeper keeper string string
  | NewSlashingKeeper "string option" keeper string
  | NewGovKeeper "string option" keeper keeper keeper keeper string
  | NewMintKeeper "string option" keeper keeper keeper string string
  | NewProviderKeeper "string option" string keeper keeper keeper

text \<open>The keepers of an application; the consumer has no keeper for consensus parameters, slashing
  and the provider module.\<close>

record app_keepers =
  k_params :: keeper
  k_consensus :: "keeper option"
  k_account :: keeper
  k_bank :: keeper
  k_staking :: keeper
  k_distr :: keeper
  k_slashing :: "keeper option"
  k_gov :: keeper
  k_mint :: keeper
  k_provider :: "keeper option"

definition keepers_of :: "app_keepers \<Rightarrow> keeper list" where
  "keepers_of ks =
     [k_params ks, k_account ks, k_bank ks, k_staking ks, k_distr ks, k_gov ks, k_mint ks] @
     List.map_filter (\<lambda>f. f ks) [k_consensus, k_slashing, k_provider]"

definition store_key :: "string list \<Rightarrow> string \<Rightarrow> string option" where
  "store_key ks name = (if name \<in> set ks then Some name else None)"

definition initParamsKeeper :: "string option \<Rightarrow> string option \<Rightarrow> keeper" where
  "initParamsKeeper key tkey =
     NewParamsKeeper key tkey
       [''auth'', ''bank'', ''staking'', ''mint'', ''distribution'', ''slashing'', ''gov'']"

definition consumer_initParamsKeeper :: "string option \<Rightarrow> string option \<Rightarrow> keeper" where
  "consumer_initParamsKeeper key tkey =
     NewParamsKeeper key tkey
       [''auth'', ''bank'', ''staking'', ''mint'', ''distribution'', ''slashing'', ''gov'']"

definition StoreKeys :: "string list" where
  "StoreKeys =
     [''acc'', ''bank'', ''staking'', ''mint'', ''distribution'', ''slashing'', ''gov'', ''params'',
      ''consensus'', ModuleName]"

definition consumer_StoreKeys :: "string list" where
  "consumer_StoreKeys = [''acc'', ''bank'', ''staking'', ''mint'', ''distribution'', ''gov'', ''params'']"

definition TransientStoreKeys :: "string list" where
  "TransientStoreKeys = [''transient_params'']"

text \<open>\<open>addr\<close> is the text of the address of a module account. The provider's keeper gets the address
  itself, the others its text.\<close>

definition new_keepers :: "(string \<Rightarrow> string) \<Rightarrow> nat list \<Rightarrow> string list \<Rightarrow> string list \<Rightarrow> app_keepers" where
  "new_keepers addr ns kvs tkvs =
     (let authority = addr GovModuleName;
          params = initParamsKeeper (store_key kvs ''params'') (store_key tkvs ''transient_params'');
          consensus = NewConsensusKeeper (store_key kvs ''consensus'') authority;
          account = NewAccountKeeper (store_key kvs ''acc'') maccPerms authority;
          moduleAccountAddresses = ModuleAccountAddrs addr ns maccPerms;
          bank = NewBankKeeper (store_key kvs ''bank'') account
            (BlockedModuleAccountAddrs addr moduleAccountAddresses) authority;
          staking = NewStakingKeeper (store_key kvs ''staking'') account bank authority;
          distr = NewDistrKeeper (store_key kvs ''distribution'') account bank staking ''fee_collector'' authority;
          slashing = NewSlashingKeeper (store_key kvs ''slashing'') staking authority;
          gov = NewGovKeeper (store_key kvs ''gov'') account bank staking distr authority;
          mint = NewMintKeeper (store_key kvs ''mint'') staking account bank ''fee_collector'' authority;
          provider = NewProviderKeeper (store_key kvs ModuleName) authority account bank staking
      in \<lparr>k_params = params, k_consensus = Some consensus, k_account = account, k_bank = bank,
          k_staking = staking, k_distr = distr, k_slashing = Some slashing, k_gov = gov, k_mint = mint,
          k_provider = Some provider\<rparr>)"

definition consumer_new_keepers :: "(string \<Rightarrow> string) \<Rightarrow> nat list \<Rightarrow> string list \<Rightarrow> string list \<Rightarrow> app_keepers" where
  "consumer_new_keepers addr ns kvs tkvs =
     (let authority = addr GovModuleName;
          params = consumer_initParamsKeeper (store_key kvs ''params'') (store_key tkvs ''transient_params'');
          account = NewAccountKeeper (store_key kvs ''acc'') consumer_maccPerms authority;
          moduleAccountAddresses = consumer_ModuleAccountAddrs addr ns;
          bank = NewBankKeeper (store_key kvs ''bank'') account
            (consumer_BlockedModuleAccountAddrs addr moduleAccountAddresses) authority;
          staking = NewStakingKeeper (store_key kvs ''staking'') account bank authority;
          distr = NewDistrKeeper (store_key kvs ''distribution'') account bank staking ''fee_collector'' authority;
          gov = NewGovKeeper (store_key kvs ''gov'') account bank staking distr authority;
          mint = NewMintKeeper (store_key kvs ''mint'') staking account bank ''fee_collector'' authority
      in \<lparr>k_params = params, k_consensus = None, k_account = account, k_bank = bank,
          k_staking = staking, k_distr = distr, k_slashing = None, k_gov = gov, k_mint = mint,
          k_provider = None\<rparr>)"

section \<open>Modules\<close>

text \<open>A module of the manager with its name and the keepers it gets.\<close>

definition new_modules :: "app_keepers \<Rightarrow> (string \<times> keeper list) list" where
  "new_modules ks =
     (let account = k_account ks; bank = k_bank ks; staking = k_staking ks
      in [(''genutil'', [account, staking]),
          (''auth'', [account]),
          (''vesting'', [account, bank]),
          (''bank'', [bank, account]),
          (''consensus'', [the (k_consensus ks)]),
          (''gov'', [k_gov ks, account, bank]),
          (''mint'', [k_mint ks, account]),
          (''slashing'', [the (k_slashing ks), account, bank, staking]),
          (''distribution'', [k_distr ks, account, bank, staking]),
          (''staking'', [staking, account, bank]),
          (ModuleName, [the (k_provider ks), account, bank, staking]),
          (''params'', [k_params ks])])"

definition consumer_new_modules :: "app_keepers \<Rightarrow> (string \<times> keeper list) list" where
  "consumer_new_modules ks =
     (let account = k_account ks; bank = k_bank ks; staking = k_staking ks
      in [(''genutil'', [account, staking]),
          (''auth'', [account]),
          (''vesting'', [account, bank]),
          (''bank'', [bank, account]),
          (''gov'', [k_gov ks, account, bank]),
          (''mint'', [k_mint ks, account]),
          (''distribution'', [k_distr ks, account, bank, staking]),
          (''staking'', [staking, account, bank]),
          (''params'', [k_params ks])])"

section \<open>Assembly\<close>

datatype app_fault = Panicking string | Exiting string

record app_env =
  ModuleAddress :: "string \<Rightarrow> string"
  RegisterStreamingServices :: "string list \<Rightarrow> string + unit"
  NewTxConfigWithOptions :: "string + unit"
  SetOrder :: "string \<Rightarrow> string list \<Rightarrow> string list \<Rightarrow> string + unit"
  RegisterServices :: "string list \<Rightarrow> string + unit"
  NewReflectionService :: "string + unit"
  NewPostHandler :: "string + unit"
  MergedRegistry :: "string + unit"
  ValidateProtoAnnotations :: "string + unit"
  LoadLatestVersion :: "string + unit"

record App =
  app_keys :: "string list"
  app_tkeys :: "string list"
  keepers :: app_keepers
  paramStore :: "keeper option"
  stakingHooks :: "keeper list"
  govRoutes :: "string list"
  MM :: "(string \<times> keeper list) list"
  orders :: "(string \<times> string list) list"
  mountedStores :: "string list"
  mountedTransient :: "string list"
  anteHandler :: "decorator list"
  stderr :: "string list"
  loaded :: bool

fun or_panic :: "string + 'a \<Rightarrow> ('a \<Rightarrow> app_fault + 'b) \<Rightarrow> app_fault + 'b" where
  "or_panic (Inl e) k = Inl (Panicking e)"
| "or_panic (Inr a) k = k a"

fun set_orders :: "app_env \<Rightarrow> string list \<Rightarrow> (string \<times> string list) list \<Rightarrow> string + unit" where
  "set_orders E mods [] = Inr ()"
| "set_orders E mods ((hook, order) # os) =
     (case SetOrder E hook mods order of Inl e \<Rightarrow> Inl e | Inr _ \<Rightarrow> set_orders E mods os)"

definition setPostHandler :: "app_env \<Rightarrow> (unit \<Rightarrow> app_fault + 'b) \<Rightarrow> app_fault + 'b" where
  "setPostHandler E k = or_panic (NewPostHandler E) k"

text \<open>The part of \<open>New\<close> after the keepers, which is the same code in both applications.\<close>

definition finish_app ::
    "app_env \<Rightarrow> bool \<Rightarrow> (HandlerOptions \<Rightarrow> string + decorator list) \<Rightarrow> App \<Rightarrow> app_fault + App" where
  "finish_app E loadLatest new_ante app =
     (let mods = map fst (MM app)
      in or_panic (NewTxConfigWithOptions E) (\<lambda>_.
         or_panic (set_orders E mods (orders app)) (\<lambda>_.
         or_panic (RegisterServices E mods) (\<lambda>_.
         or_panic (NewReflectionService E) (\<lambda>_.
           let app = app\<lparr>mountedStores := app_keys app, mountedTransient := app_tkeys app\<rparr>
           in (case new_ante \<lparr>has_AccountKeeper = True, has_BankKeeper = True,
                     has_SignModeHandler = True, has_SigGasConsumer = True\<rparr> of
                 Inl e \<Rightarrow> Inl (Panicking (''failed to create AnteHandler: '' @ e))
               | Inr ante \<Rightarrow>
                   let app = app\<lparr>anteHandler := ante\<rparr>
                   in setPostHandler E (\<lambda>_.
                      or_panic (MergedRegistry E) (\<lambda>_.
                        let app = app\<lparr>stderr := (case ValidateProtoAnnotations E of
                                    Inl e \<Rightarrow> [e] | Inr _ \<Rightarrow> [])\<rparr>
                        in if loadLatest
                           then (case LoadLatestVersion E of
                                   Inl e \<Rightarrow> Inl (Exiting (''failed to load latest version: '' @ e))
                                 | Inr _ \<Rightarrow> Inr (app\<lparr>loaded := True\<rparr>))
                           else Inr app))))))))"

definition consumer_finish_app :: "app_env \<Rightarrow> bool \<Rightarrow> App \<Rightarrow> app_fault + App" where
  "consumer_finish_app E loadLatest app = finish_app E loadLatest consumer_NewAnteHandler app"

definition New :: "app_env \<Rightarrow> nat list \<Rightarrow> bool \<Rightarrow> app_fault + App" where
  "New E ns loadLatest =
     or_panic (RegisterStreamingServices E StoreKeys) (\<lambda>_.
       let ks = new_keepers (ModuleAddress E) ns StoreKeys TransientStoreKeys
       in finish_app E loadLatest NewAnteHandler
            \<lparr>app_keys = StoreKeys, app_tkeys = TransientStoreKeys, keepers = ks,
             paramStore = k_consensus ks,
             stakingHooks = [k_distr ks, the (k_slashing ks)],
             govRoutes = [''gov'', ''params''],
             MM = new_modules ks,
             orders = [(''PreBlockers'', PreBlockers), (''BeginBlockers'', BeginBlockers),
               (''EndBlockers'', EndBlockers), (''InitGenesis'', InitGenesisOrder)],
             mountedStores = [], mountedTransient = [], anteHandler = [], stderr = [], loaded = False\<rparr>)"

definition consumer_New :: "app_env \<Rightarrow> nat list \<Rightarrow> bool \<Rightarrow> app_fault + App" where
  "consumer_New E ns loadLatest =
     or_panic (RegisterStreamingServices E consumer_StoreKeys) (\<lambda>_.
       let ks = consumer_new_keepers (ModuleAddress E) ns consumer_StoreKeys TransientStoreKeys
       in consumer_finish_app E loadLatest
            \<lparr>app_keys = consumer_StoreKeys, app_tkeys = TransientStoreKeys, keepers = ks,
             paramStore = None,
             stakingHooks = [k_distr ks],
             govRoutes = [''gov'', ''params''],
             MM = consumer_new_modules ks,
             orders = [(''PreBlockers'', consumer_PreBlockers), (''BeginBlockers'', consumer_BeginBlockers),
               (''EndBlockers'', consumer_EndBlockers), (''InitGenesis'', consumer_InitGenesisOrder)],
             mountedStores = [], mountedTransient = [], anteHandler = [], stderr = [], loaded = False\<rparr>)"

text \<open>The state is that of the context; the manager's \<open>InitGenesis\<close> and the JSON codec are arguments.\<close>

definition InitChainer ::
    "(bytes \<Rightarrow> string + 'g) \<Rightarrow> ('c \<Rightarrow> 'g \<Rightarrow> 'c \<times> (string + 'r)) \<Rightarrow> 'c \<Rightarrow> bytes \<Rightarrow> 'c \<times> (app_fault + (string + 'r))"
  where
  "InitChainer tmjson_Unmarshal MM_InitGenesis ctx appStateBytes =
     (case tmjson_Unmarshal appStateBytes of
        Inl err \<Rightarrow> (ctx, Inl (Panicking err))
      | Inr genesisState \<Rightarrow> (case MM_InitGenesis ctx genesisState of (ctx, r) \<Rightarrow> (ctx, Inr r)))"

definition consumer_InitChainer ::
    "(bytes \<Rightarrow> string + 'g) \<Rightarrow> ('c \<Rightarrow> 'g \<Rightarrow> 'c \<times> (string + 'r)) \<Rightarrow> 'c \<Rightarrow> bytes \<Rightarrow> 'c \<times> (app_fault + (string + 'r))"
  where
  "consumer_InitChainer tmjson_Unmarshal MM_InitGenesis ctx appStateBytes =
     InitChainer tmjson_Unmarshal MM_InitGenesis ctx appStateBytes"

section \<open>What is assembled\<close>

fun store_of :: "keeper \<Rightarrow> string option" where
  "store_of (NewParamsKeeper s _ _) = s"
| "store_of (NewConsensusKeeper s _) = s"
| "store_of (NewAccountKeeper s _ _) = s"
| "store_of (NewBankKeeper s _ _ _) = s"
| "store_of (NewStakingKeeper s _ _ _) = s"
| "store_of (NewDistrKeeper s _ _ _ _ _) = s"
| "store_of (NewSlashingKeeper s _ _) = s"
| "store_of (NewGovKeeper s _ _ _ _ _) = s"
| "store_of (NewMintKeeper s _ _ _ _ _) = s"
| "store_of (NewProviderKeeper s _ _ _ _) = s"

fun authority_of :: "keeper \<Rightarrow> string option" where
  "authority_of (NewParamsKeeper _ _ _) = None"
| "authority_of (NewConsensusKeeper _ u) = Some u"
| "authority_of (NewAccountKeeper _ _ u) = Some u"
| "authority_of (NewBankKeeper _ _ _ u) = Some u"
| "authority_of (NewStakingKeeper _ _ _ u) = Some u"
| "authority_of (NewDistrKeeper _ _ _ _ _ u) = Some u"
| "authority_of (NewSlashingKeeper _ _ u) = Some u"
| "authority_of (NewGovKeeper _ _ _ _ _ u) = Some u"
| "authority_of (NewMintKeeper _ _ _ _ _ u) = Some u"
| "authority_of (NewProviderKeeper _ u _ _ _) = Some u"

lemma or_panic_Inr: "or_panic r k = Inr x \<longleftrightarrow> (\<exists>a. r = Inr a \<and> k a = Inr x)"
  by (cases r) auto

lemma set_orders_Inr: "set_orders E mods os = Inr u \<longleftrightarrow> (\<forall>(h, order) \<in> set os. SetOrder E h mods order = Inr ())"
  by (induction E mods os rule: set_orders.induct) (auto split: sum.split)

lemma finish_app_Inr:
  "finish_app E loadLatest NewAnteHandler app = Inr app' \<longleftrightarrow>
     NewTxConfigWithOptions E = Inr () \<and>
     (\<forall>(h, order) \<in> set (orders app). SetOrder E h (map fst (MM app)) order = Inr ()) \<and>
     RegisterServices E (map fst (MM app)) = Inr () \<and> NewReflectionService E = Inr () \<and>
     NewPostHandler E = Inr () \<and> MergedRegistry E = Inr () \<and> (loadLatest \<longrightarrow> LoadLatestVersion E = Inr ()) \<and>
     (\<exists>ante. NewAnteHandler \<lparr>has_AccountKeeper = True, has_BankKeeper = True, has_SignModeHandler = True,
         has_SigGasConsumer = True\<rparr> = Inr ante \<and>
       app' = app\<lparr>mountedStores := app_keys app, mountedTransient := app_tkeys app, anteHandler := ante,
         stderr := (case ValidateProtoAnnotations E of Inl e \<Rightarrow> [e] | Inr _ \<Rightarrow> []),
         loaded := loaded app \<or> loadLatest\<rparr>)"
  by (cases app; auto simp: finish_app_def setPostHandler_def Let_def or_panic_Inr set_orders_Inr NewAnteHandler_def split: sum.split sum.split_asm)

text \<open>What the result of \<open>New\<close> is made of; by \<open>finish_app_Inr\<close> it returns exactly when the calls outside
  succeed.\<close>

lemma consumer_ante: "consumer_NewAnteHandler = NewAnteHandler"
  by (simp add: fun_eq_iff consumer_NewAnteHandler_def)

lemma New_Inr:
  "New E ns loadLatest = Inr app \<Longrightarrow>
   keepers app = new_keepers (ModuleAddress E) ns StoreKeys TransientStoreKeys \<and>
   mountedStores app = StoreKeys \<and> MM app = new_modules (keepers app) \<and>
   map_of (orders app) ''InitGenesis'' = Some InitGenesisOrder \<and>
   stakingHooks app = [k_distr (keepers app), the (k_slashing (keepers app))] \<and>
   paramStore app = k_consensus (keepers app) \<and> loaded app = loadLatest"
  by (auto simp: New_def or_panic_Inr finish_app_Inr Let_def)

lemma consumer_New_Inr:
  "consumer_New E ns loadLatest = Inr app \<Longrightarrow>
   keepers app = consumer_new_keepers (ModuleAddress E) ns consumer_StoreKeys TransientStoreKeys \<and>
   mountedStores app = consumer_StoreKeys \<and> MM app = consumer_new_modules (keepers app) \<and>
   map_of (orders app) ''InitGenesis'' = Some consumer_InitGenesisOrder \<and>
   stakingHooks app = [k_distr (keepers app)] \<and> paramStore app = None \<and> loaded app = loadLatest"
  by (auto simp: consumer_New_def consumer_finish_app_def or_panic_Inr finish_app_Inr Let_def consumer_ante)

text \<open>Every keeper has a store of its own, these are all stores, and every authority is the same.\<close>

definition well_wired :: "app_keepers \<Rightarrow> string list \<Rightarrow> string \<Rightarrow> bool" where
  "well_wired ks stores auth \<longleftrightarrow>
     distinct (map store_of (keepers_of ks)) \<and>
     set (map store_of (keepers_of ks)) = Some ` set stores \<and>
     (\<forall>k \<in> set (keepers_of ks). authority_of k = None \<or> authority_of k = Some auth)"

lemma store_key_own: "name \<in> set ks \<Longrightarrow> store_key ks name = Some name"
  by (simp add: store_key_def)

lemma in_StoreKeys: "''params'' \<in> set StoreKeys" "''consensus'' \<in> set StoreKeys" "''acc'' \<in> set StoreKeys"
  "''bank'' \<in> set StoreKeys" "''staking'' \<in> set StoreKeys" "''distribution'' \<in> set StoreKeys"
  "''slashing'' \<in> set StoreKeys" "''gov'' \<in> set StoreKeys" "''mint'' \<in> set StoreKeys" "ModuleName \<in> set StoreKeys"
  by (simp_all add: StoreKeys_def)

lemma in_consumer_StoreKeys: "''params'' \<in> set consumer_StoreKeys" "''acc'' \<in> set consumer_StoreKeys"
  "''bank'' \<in> set consumer_StoreKeys" "''staking'' \<in> set consumer_StoreKeys"
  "''distribution'' \<in> set consumer_StoreKeys" "''gov'' \<in> set consumer_StoreKeys" "''mint'' \<in> set consumer_StoreKeys"
  by (simp_all add: consumer_StoreKeys_def)

lemmas keeper_evals = Let_def app_keepers.select_convs option.sel store_of.simps authority_of.simps
  initParamsKeeper_def consumer_initParamsKeeper_def keepers_of_def List.map_filter_simps option.case list.map

lemma new_keepers_facts:
  "map store_of (keepers_of (new_keepers addr ns StoreKeys TransientStoreKeys)) =
     map Some [''params'', ''acc'', ''bank'', ''staking'', ''distribution'', ''gov'', ''mint'',
       ''consensus'', ''slashing'', ModuleName]"
  "map authority_of (keepers_of (new_keepers addr ns StoreKeys TransientStoreKeys)) =
     None # replicate 9 (Some (addr GovModuleName))"
  unfolding new_keepers_def keeper_evals
  by (simp_all only: store_key_own in_StoreKeys list.map append.simps keeper_evals)
    (simp add: numeral_eq_Suc)

lemma consumer_new_keepers_facts:
  "map store_of (keepers_of (consumer_new_keepers addr ns consumer_StoreKeys TransientStoreKeys)) =
     map Some [''params'', ''acc'', ''bank'', ''staking'', ''distribution'', ''gov'', ''mint'']"
  "map authority_of (keepers_of (consumer_new_keepers addr ns consumer_StoreKeys TransientStoreKeys)) =
     None # replicate 6 (Some (addr GovModuleName))"
  unfolding consumer_new_keepers_def keeper_evals
  by (simp_all only: store_key_own in_consumer_StoreKeys list.map append.simps keeper_evals)
    (simp add: numeral_eq_Suc)

lemma well_wiredI:
  assumes "map store_of (keepers_of ks) = map Some names" and "distinct names" and "set names = set stores"
    and "map authority_of (keepers_of ks) = None # replicate n (Some auth)"
  shows "well_wired ks stores auth"
proof -
  have "authority_of k = None \<or> authority_of k = Some auth" if "k \<in> set (keepers_of ks)" for k
  proof -
    have "authority_of k \<in> set (map authority_of (keepers_of ks))"
      using that by simp
    then show ?thesis
      unfolding assms(4) by (auto split: if_split_asm)
  qed
  moreover have "distinct (map store_of (keepers_of ks))"
    unfolding assms(1) using assms(2) by (simp add: distinct_map)
  moreover have "set (map store_of (keepers_of ks)) = Some ` set stores"
    unfolding assms(1) using assms(3) by simp
  ultimately show ?thesis
    unfolding well_wired_def by blast
qed

lemma new_keepers_wired:
  "well_wired (new_keepers addr ns StoreKeys TransientStoreKeys) StoreKeys (addr GovModuleName)"
  by (rule well_wiredI [OF new_keepers_facts(1) _ _ new_keepers_facts(2)])
    (auto simp: StoreKeys_def ModuleName_def)

lemma consumer_new_keepers_wired:
  "well_wired (consumer_new_keepers addr ns consumer_StoreKeys TransientStoreKeys) consumer_StoreKeys
     (addr GovModuleName)"
  by (rule well_wiredI [OF consumer_new_keepers_facts(1) _ _ consumer_new_keepers_facts(2)])
    (auto simp: consumer_StoreKeys_def)

text \<open>C39: When New returns an application, of the provider or of the consumer, every store it mounts
  belongs to exactly one keeper and no keeper is left without a store, all privileged messages obey the
  account of governance, every module is in the order of the genesis, and the ante handler checks a
  signature only after the fee is paid and the public keys are set.\<close>

theorem New_wiring:
  assumes "New E ns loadLatest = Inr app \<or> consumer_New E ns loadLatest = Inr app"
  shows "well_wired (keepers app) (mountedStores app) (ModuleAddress E GovModuleName) \<and>
    set (map fst (MM app)) \<subseteq> set (the (map_of (orders app) ''InitGenesis'')) \<and>
    (\<forall>d \<in> {ValidateSigCountDecorator, SigGasConsumeDecorator False, SigVerificationDecorator}.
       d \<in> set (anteHandler app) \<and> precedes SetPubKeyDecorator d (anteHandler app) \<and>
       precedes DeductFeeDecorator d (anteHandler app)) \<and>
    loaded app = loadLatest"
  using assms
proof
  assume new: "New E ns loadLatest = Inr app"
  then have "NewAnteHandler \<lparr>has_AccountKeeper = True, has_BankKeeper = True, has_SignModeHandler = True,
      has_SigGasConsumer = True\<rparr> = Inr (anteHandler app)"
    by (auto simp: New_def or_panic_Inr finish_app_Inr Let_def)
  with New_Inr [OF new] new_keepers_wired [of "ModuleAddress E" ns] ante_order [OF this] show ?thesis
    by (auto simp: new_modules_def InitGenesisOrder_def Let_def)
next
  assume new: "consumer_New E ns loadLatest = Inr app"
  then have "NewAnteHandler \<lparr>has_AccountKeeper = True, has_BankKeeper = True, has_SignModeHandler = True,
      has_SigGasConsumer = True\<rparr> = Inr (anteHandler app)"
    by (auto simp: consumer_New_def consumer_finish_app_def or_panic_Inr finish_app_Inr Let_def consumer_ante)
  with consumer_New_Inr [OF new] consumer_new_keepers_wired [of "ModuleAddress E" ns] ante_order [OF this] show ?thesis
    by (auto simp: consumer_new_modules_def consumer_InitGenesisOrder_def Let_def)
qed

definition demo_app_env :: app_env where
  "demo_app_env =
     \<lparr>ModuleAddress = (\<lambda>n. ''addr:'' @ n), RegisterStreamingServices = (\<lambda>_. Inr ()),
      NewTxConfigWithOptions = Inr (), SetOrder = (\<lambda>_ _ _. Inr ()), RegisterServices = (\<lambda>_. Inr ()),
      NewReflectionService = Inr (), NewPostHandler = Inr (), MergedRegistry = Inr (),
      ValidateProtoAnnotations = Inl ''annotations'', LoadLatestVersion = Inr ()\<rparr>"

theorem New_wiring_witness:
  "\<exists>app. New demo_app_env [] True = Inr app \<and> set (mountedStores app) = set StoreKeys \<and> loaded app"
proof -
  obtain app where app: "New demo_app_env [] True = Inr app"
    by (auto simp: New_def or_panic_Inr finish_app_Inr Let_def demo_app_env_def NewAnteHandler_def)
  have "loaded app"
    using New_wiring [OF disjI1 [OF app]] by blast
  with app New_Inr [OF app] show ?thesis
    by simp
qed

end
