(* ===== verification/Config.thy ===== *)
theory Config
  imports Prelude
begin

text \<open>
  config/config.go: the list of consumer chains the multiplexer serves. The file system,
  viper and the SDK's genesis reader are not in the repository: they are the record
  \<open>config_env\<close>, an argument of the functions that use them. \<open>filepath.Join\<close> and \<open>filepath.Dir\<close>
  are translated from Go's standard library (Unix paths). The main results say what
  \<open>Validate\<close> accepts and reports, and that every configuration \<open>LoadConfig\<close>
  returns is a valid one.
\<close>

section \<open>filepath.Clean, filepath.Join and filepath.Dir\<close>

fun split_slash :: "string \<Rightarrow> string list" where
  "split_slash [] = [[]]"
| "split_slash (c # cs) =
     (if c = CHR ''/'' then [] # split_slash cs
      else case split_slash cs of [] \<Rightarrow> [[c]] | p # ps \<Rightarrow> (c # p) # ps)"

fun join_slash :: "string list \<Rightarrow> string" where
  "join_slash [] = []"
| "join_slash [p] = p"
| "join_slash (p # q # ps) = p @ ''/'' @ join_slash (q # ps)"

text \<open>The elements of a path from left to right; the accumulator holds the cleaned ones in
  reverse.\<close>

fun clean_parts :: "bool \<Rightarrow> string list \<Rightarrow> string list \<Rightarrow> string list" where
  "clean_parts rooted [] acc = rev acc"
| "clean_parts rooted (p # ps) acc =
     (if p = '''' \<or> p = ''.'' then clean_parts rooted ps acc
      else if p = ''..'' then
        (case acc of
           [] \<Rightarrow> if rooted then clean_parts rooted ps [] else clean_parts rooted ps [''..'']
         | q # qs \<Rightarrow> if q = ''..'' then clean_parts rooted ps (''..'' # acc)
                    else clean_parts rooted ps qs)
      else clean_parts rooted ps (p # acc))"

definition Clean :: "string \<Rightarrow> string" where
  "Clean path =
     (if path = '''' then ''.''
      else
        let rooted = hd path = CHR ''/'';
            out = join_slash (clean_parts rooted (split_slash path) [])
        in if rooted then ''/'' @ out
           else if out = '''' then ''.'' else out)"

definition Join :: "string list \<Rightarrow> string" where
  "Join elems =
     (case dropWhile (\<lambda>e. e = '''') elems of
        [] \<Rightarrow> ''''
      | es \<Rightarrow> Clean (join_slash es))"

definition Dir :: "string \<Rightarrow> string" where
  "Dir path = Clean (rev (dropWhile (\<lambda>c. c \<noteq> CHR ''/'') (rev path)))"

section \<open>Configuration\<close>

record ChainInfo =
  CI_ChainID :: string
  GRPCAddress :: string
  Home :: string

record Config =
  Chains :: "ChainInfo list"

datatype config_error =
    ChainIDRequired nat
  | AddressRequired string
  | HomeRequired string
  | CreateDirFailed string
  | CreateFileFailed string
  | ReadFailed string
  | ParseConfigFailed string
  | InvalidConfig config_error
  | GenesisLoadFailed string string

definition GenesisFile :: "ChainInfo \<Rightarrow> string" where
  "GenesisFile c = Join [Home c, ''config'', ''genesis.json'']"

text \<open>\<open>AppGenesisFromFile\<close> is the SDK's reader: the path to the app state or an error.\<close>

definition LoadGenesisAppState ::
    "(string \<Rightarrow> string + bytes) \<Rightarrow> ChainInfo \<Rightarrow> config_error + bytes" where
  "LoadGenesisAppState AppGenesisFromFile c =
     (let genesisFile = GenesisFile c
      in case AppGenesisFromFile genesisFile of
           Inl e \<Rightarrow> Inl (GenesisLoadFailed genesisFile e)
         | Inr appState \<Rightarrow> Inr appState)"

text \<open>The loop of \<open>Validate\<close>; \<open>i\<close> is the index of the first chain of the list.\<close>

fun Validate_from :: "nat \<Rightarrow> ChainInfo list \<Rightarrow> config_error + unit" where
  "Validate_from i [] = Inr ()"
| "Validate_from i (app # apps) =
     (if CI_ChainID app = '''' then Inl (ChainIDRequired i)
      else if GRPCAddress app = '''' then Inl (AddressRequired (CI_ChainID app))
      else if Home app = '''' then Inl (HomeRequired (CI_ChainID app))
      else Validate_from (Suc i) apps)"

definition Config_Validate :: "Config \<Rightarrow> config_error + unit" where
  "Config_Validate c = Validate_from 0 (Chains c)"

definition DefaultConfig :: Config where
  "DefaultConfig = \<lparr>Chains = []\<rparr>"

text \<open>The file system and viper: a state \<open>'f\<close> and what the calls return.
  \<open>viper_Unmarshal\<close> gets the configuration it decodes into.\<close>

record 'f config_env =
  os_IsNotExist :: "'f \<Rightarrow> string \<Rightarrow> bool"
  os_MkdirAll :: "'f \<Rightarrow> string \<Rightarrow> 'f \<times> (string + unit)"
  viper_WriteConfig :: "'f \<Rightarrow> string \<Rightarrow> ChainInfo list \<Rightarrow> 'f \<times> (string + unit)"
  viper_ReadInConfig :: "'f \<Rightarrow> string \<Rightarrow> 'f \<times> (string + unit)"
  viper_Unmarshal :: "'f \<Rightarrow> Config \<Rightarrow> string + Config"

definition LoadConfig :: "'f config_env \<Rightarrow> 'f \<Rightarrow> string \<Rightarrow> 'f \<times> (config_error + Config)" where
  "LoadConfig env f configFile =
     (let config = DefaultConfig
      in if configFile = '''' then (f, Inr config)
         else if os_IsNotExist env f configFile then
           (case os_MkdirAll env f (Dir configFile) of
              (f, Inl e) \<Rightarrow> (f, Inl (CreateDirFailed e))
            | (f, Inr _) \<Rightarrow>
                (case viper_WriteConfig env f configFile (Chains config) of
                   (f, Inl e) \<Rightarrow> (f, Inl (CreateFileFailed e))
                 | (f, Inr _) \<Rightarrow> (f, Inr config)))
         else
           (case viper_ReadInConfig env f configFile of
              (f, Inl e) \<Rightarrow> (f, Inl (ReadFailed e))
            | (f, Inr _) \<Rightarrow>
                (case viper_Unmarshal env f config of
                   Inl e \<Rightarrow> (f, Inl (ParseConfigFailed e))
                 | Inr config \<Rightarrow>
                     (case Config_Validate config of
                        Inl e \<Rightarrow> (f, Inl (InvalidConfig e))
                      | Inr _ \<Rightarrow> (f, Inr config)))))"

section \<open>Lemmas\<close>

definition complete :: "ChainInfo \<Rightarrow> bool" where
  "complete c \<longleftrightarrow> CI_ChainID c \<noteq> '''' \<and> GRPCAddress c \<noteq> '''' \<and> Home c \<noteq> ''''"

definition chain_error :: "nat \<Rightarrow> ChainInfo \<Rightarrow> config_error" where
  "chain_error i c =
     (if CI_ChainID c = '''' then ChainIDRequired i
      else if GRPCAddress c = '''' then AddressRequired (CI_ChainID c)
      else HomeRequired (CI_ChainID c))"

lemma Validate_from_Inr: "Validate_from i cs = Inr () \<longleftrightarrow> list_all complete cs"
  by (induction cs arbitrary: i) (auto simp: complete_def)

lemma Validate_from_first:
  "list_all complete xs \<Longrightarrow> \<not> complete c \<Longrightarrow>
     Validate_from i (xs @ c # ys) = Inl (chain_error (i + length xs) c)"
  by (induction xs arbitrary: i) (auto simp: complete_def chain_error_def)

lemma Config_Validate_exact:
  "Config_Validate c =
     (case find (\<lambda>i. \<not> complete (Chains c ! i)) [0..<length (Chains c)] of
        None \<Rightarrow> Inr ()
      | Some i \<Rightarrow> Inl (chain_error i (Chains c ! i)))"
proof -
  let ?cs = "Chains c"
  show ?thesis
  proof (cases "find (\<lambda>i. \<not> complete (?cs ! i)) [0..<length ?cs]")
    case None
    then have "list_all complete ?cs"
      by (auto simp: find_None_iff list_all_length)
    with None show ?thesis
      by (simp add: Config_Validate_def Validate_from_Inr)
  next
    case (Some i)
    then obtain n where n: "n < length ?cs" "\<not> complete (?cs ! n)" "i = n"
        "\<forall>j<n. complete (?cs ! j)"
      by (auto simp: find_Some_iff)
    then have "?cs = take n ?cs @ ?cs ! n # drop (Suc n) ?cs"
      by (simp add: id_take_nth_drop)
    moreover have "list_all complete (take n ?cs)"
      using n(1,4) by (simp add: list_all_length)
    ultimately have "Validate_from 0 ?cs = Inl (chain_error n (?cs ! n))"
      using Validate_from_first [of "take n ?cs" "?cs ! n" 0 "drop (Suc n) ?cs"] n(1,2)
      by simp
    with Some n(3) show ?thesis
      by (simp add: Config_Validate_def)
  qed
qed

lemma LoadConfig_Inr_valid:
  "LoadConfig env f file = (f', Inr c) \<Longrightarrow> Config_Validate c = Inr ()"
  by (auto simp: LoadConfig_def DefaultConfig_def Config_Validate_def Let_def
      split: if_splits prod.splits sum.splits)

section \<open>Properties\<close>

text \<open>Config.Validate returns nil exactly when every chain has a chain id, an address and a
  home; otherwise it reports the first incomplete chain (by its index when the chain id is
  missing, else by its chain id) and the first field of it that is missing.\<close>

theorem Config_Validate_first_error:
  "Config_Validate c =
     (case find (\<lambda>i. \<not> complete (Chains c ! i)) [0..<length (Chains c)] of
        None \<Rightarrow> Inr ()
      | Some i \<Rightarrow> Inl (chain_error i (Chains c ! i)))"
  by (rule Config_Validate_exact)

text \<open>LoadConfig never hands out an unvalidated configuration: whatever the file system and
  viper do, the list of chains it returns passes Validate, and so does the default it writes.\<close>

theorem LoadConfig_returns_valid:
  assumes "LoadConfig env f file = (f', Inr c)"
  shows "Config_Validate c = Inr () \<and> list_all complete (Chains c)"
  using LoadConfig_Inr_valid [OF assms] by (simp add: Config_Validate_def Validate_from_Inr)

definition example_env :: "unit config_env" where
  "example_env = \<lparr>os_IsNotExist = (\<lambda>_ _. False),
     os_MkdirAll = (\<lambda>f _. (f, Inr ())),
     viper_WriteConfig = (\<lambda>f _ _. (f, Inr ())),
     viper_ReadInConfig = (\<lambda>f _. (f, Inr ())),
     viper_Unmarshal = (\<lambda>_ _. Inr \<lparr>Chains =
       [\<lparr>CI_ChainID = ''chain-1'', GRPCAddress = ''localhost:26658'', Home = ''/c1''\<rparr>]\<rparr>)\<rparr>"

theorem LoadConfig_returns_valid_witness:
  "Config_Validate \<lparr>Chains =
       [\<lparr>CI_ChainID = ''chain-1'', GRPCAddress = ''localhost:26658'', Home = ''/c1''\<rparr>]\<rparr> = Inr ()"
proof -
  have "LoadConfig example_env () ''ics.toml'' = ((), Inr \<lparr>Chains =
       [\<lparr>CI_ChainID = ''chain-1'', GRPCAddress = ''localhost:26658'', Home = ''/c1''\<rparr>]\<rparr>)"
    by (simp add: LoadConfig_def example_env_def Config_Validate_def DefaultConfig_def)
  from LoadConfig_returns_valid [OF this] show ?thesis
    by simp
qed

end
