(* ===== verification/AbciTypes.thy ===== *)
theory AbciTypes
  imports Config
begin

text \<open>
  The ABCI messages and the application interface of CometBFT as far as the multiplexer uses
  them, and abci/remote.go, the client of a consumer chain that runs in another process.

  The message types are CometBFT's. The fields the multiplexer reads, writes or copies by name
  are fields of the records here; all others, which it passes on untouched, are one field
  \<open>..._rest\<close>. Consensus parameters, events and the messages of the snapshot and vote
  extension calls are never looked into and are their encodings. A pointer that can be nil is an
  option. An application is a state \<open>'a\<close> and a record \<open>ABCI\<close> of functions; a call
  returns the new state with an error text or the response.
\<close>

section \<open>Messages\<close>

record GoTime =
  Unix :: int64
  Nanosecond :: int32

record ValidatorUpdate =
  PubKey :: bytes
  VU_Power :: int64

type_synonym ConsensusParams = bytes
type_synonym AbciEvent = bytes

record RequestInfo =
  ri_rest :: bytes

record ResponseInfo =
  LastBlockHeight :: int64
  LastBlockAppHash :: bytes
  ri_resp_rest :: bytes

record RequestQuery =
  rq_ChainId :: string
  Data :: bytes
  Path :: string
  rq_Height :: int64
  Prove :: bool

record ResponseQuery =
  pq_Code :: uint32
  pq_Log :: string
  pq_Value :: bytes
  pq_rest :: bytes

record RequestCheckTx =
  rc_Tx :: bytes
  rc_rest :: bytes

record ResponseCheckTx =
  pc_Code :: uint32
  pc_Log :: string
  pc_rest :: bytes

record RequestInitChain =
  ic_Time :: GoTime
  ic_ChainId :: string
  ic_ConsensusParams :: "ConsensusParams option"
  ic_Validators :: "ValidatorUpdate list"
  ic_AppStateBytes :: bytes
  ic_InitialHeight :: int64

record ResponseInitChain =
  pi_ConsensusParams :: "ConsensusParams option"
  pi_Validators :: "ValidatorUpdate list"
  pi_AppHash :: bytes

record RequestPrepareProposal =
  rp_Txs :: "bytes list"
  rp_rest :: bytes

record ResponsePrepareProposal =
  pp_Txs :: "bytes list"

record RequestProcessProposal =
  rr_Txs :: "bytes list"
  rr_rest :: bytes

datatype ProposalStatus = UNKNOWN | ACCEPT | REJECT

record ResponseProcessProposal =
  pr_Status :: ProposalStatus

record ExecTxResult =
  tr_Code :: uint32
  tr_Log :: string
  tr_rest :: bytes

record RequestFinalizeBlock =
  rf_Txs :: "bytes list"
  rf_Height :: int64
  rf_Time :: GoTime
  rf_rest :: bytes

record ResponseFinalizeBlock =
  pf_Events :: "AbciEvent list"
  pf_TxResults :: "ExecTxResult option list"
  pf_ValidatorUpdates :: "ValidatorUpdate list"
  pf_ConsensusParamUpdates :: "ConsensusParams option"
  pf_AppHash :: bytes

record ResponseCommit =
  RetainHeight :: int64

section \<open>Applications\<close>

text \<open>The context of a call: a fresh one or the one of the caller.\<close>

datatype GoContext = Background | CallerContext nat

record 'a ABCI =
  app_Info :: "'a \<Rightarrow> RequestInfo \<Rightarrow> 'a \<times> (string + ResponseInfo)"
  app_Query :: "'a \<Rightarrow> GoContext \<Rightarrow> RequestQuery \<Rightarrow> 'a \<times> (string + ResponseQuery)"
  app_CheckTx :: "'a \<Rightarrow> RequestCheckTx \<Rightarrow> 'a \<times> (string + ResponseCheckTx)"
  app_InitChain :: "'a \<Rightarrow> RequestInitChain \<Rightarrow> 'a \<times> (string + ResponseInitChain)"
  app_PrepareProposal :: "'a \<Rightarrow> RequestPrepareProposal \<Rightarrow> 'a \<times> (string + ResponsePrepareProposal)"
  app_ProcessProposal :: "'a \<Rightarrow> RequestProcessProposal \<Rightarrow> 'a \<times> (string + ResponseProcessProposal)"
  app_FinalizeBlock :: "'a \<Rightarrow> RequestFinalizeBlock \<Rightarrow> 'a \<times> (string + ResponseFinalizeBlock)"
  app_ExtendVote :: "'a \<Rightarrow> GoContext \<Rightarrow> bytes \<Rightarrow> 'a \<times> (string + bytes)"
  app_VerifyVoteExtension :: "'a \<Rightarrow> bytes \<Rightarrow> 'a \<times> (string + bytes)"
  app_Commit :: "'a \<Rightarrow> 'a \<times> (string + ResponseCommit)"
  app_ListSnapshots :: "'a \<Rightarrow> bytes \<Rightarrow> 'a \<times> (string + bytes)"
  app_OfferSnapshot :: "'a \<Rightarrow> bytes \<Rightarrow> 'a \<times> (string + bytes)"
  app_LoadSnapshotChunk :: "'a \<Rightarrow> bytes \<Rightarrow> 'a \<times> (string + bytes)"
  app_ApplySnapshotChunk :: "'a \<Rightarrow> bytes \<Rightarrow> 'a \<times> (string + bytes)"

text \<open>The generated gRPC client, every method of which takes a context. The empty
  \<open>RequestCommit\<close> is the unit value.\<close>

record 'c ABCIClient =
  cl_Info :: "'c \<Rightarrow> GoContext \<Rightarrow> RequestInfo \<Rightarrow> 'c \<times> (string + ResponseInfo)"
  cl_Query :: "'c \<Rightarrow> GoContext \<Rightarrow> RequestQuery \<Rightarrow> 'c \<times> (string + ResponseQuery)"
  cl_CheckTx :: "'c \<Rightarrow> GoContext \<Rightarrow> RequestCheckTx \<Rightarrow> 'c \<times> (string + ResponseCheckTx)"
  cl_InitChain :: "'c \<Rightarrow> GoContext \<Rightarrow> RequestInitChain \<Rightarrow> 'c \<times> (string + ResponseInitChain)"
  cl_PrepareProposal ::
    "'c \<Rightarrow> GoContext \<Rightarrow> RequestPrepareProposal \<Rightarrow> 'c \<times> (string + ResponsePrepareProposal)"
  cl_ProcessProposal ::
    "'c \<Rightarrow> GoContext \<Rightarrow> RequestProcessProposal \<Rightarrow> 'c \<times> (string + ResponseProcessProposal)"
  cl_FinalizeBlock ::
    "'c \<Rightarrow> GoContext \<Rightarrow> RequestFinalizeBlock \<Rightarrow> 'c \<times> (string + ResponseFinalizeBlock)"
  cl_ExtendVote :: "'c \<Rightarrow> GoContext \<Rightarrow> bytes \<Rightarrow> 'c \<times> (string + bytes)"
  cl_VerifyVoteExtension :: "'c \<Rightarrow> GoContext \<Rightarrow> bytes \<Rightarrow> 'c \<times> (string + bytes)"
  cl_Commit :: "'c \<Rightarrow> GoContext \<Rightarrow> unit \<Rightarrow> 'c \<times> (string + ResponseCommit)"
  cl_ListSnapshots :: "'c \<Rightarrow> GoContext \<Rightarrow> bytes \<Rightarrow> 'c \<times> (string + bytes)"
  cl_OfferSnapshot :: "'c \<Rightarrow> GoContext \<Rightarrow> bytes \<Rightarrow> 'c \<times> (string + bytes)"
  cl_LoadSnapshotChunk :: "'c \<Rightarrow> GoContext \<Rightarrow> bytes \<Rightarrow> 'c \<times> (string + bytes)"
  cl_ApplySnapshotChunk :: "'c \<Rightarrow> GoContext \<Rightarrow> bytes \<Rightarrow> 'c \<times> (string + bytes)"

section \<open>The remote client (remote.go)\<close>

definition RemoteABCIClient :: "'c ABCIClient \<Rightarrow> 'c ABCI" where
  "RemoteABCIClient a =
     \<lparr>app_Info = (\<lambda>c req. cl_Info a c Background req),
      app_Query = (\<lambda>c ctx req. cl_Query a c ctx req),
      app_CheckTx = (\<lambda>c req. cl_CheckTx a c Background req),
      app_InitChain = (\<lambda>c req. cl_InitChain a c Background req),
      app_PrepareProposal = (\<lambda>c req. cl_PrepareProposal a c Background req),
      app_ProcessProposal = (\<lambda>c req. cl_ProcessProposal a c Background req),
      app_FinalizeBlock = (\<lambda>c req. cl_FinalizeBlock a c Background req),
      app_ExtendVote = (\<lambda>c ctx req. cl_ExtendVote a c ctx req),
      app_VerifyVoteExtension = (\<lambda>c req. cl_VerifyVoteExtension a c Background req),
      app_Commit = (\<lambda>c. cl_Commit a c Background ()),
      app_ListSnapshots = (\<lambda>c req. cl_ListSnapshots a c Background req),
      app_OfferSnapshot = (\<lambda>c req. cl_OfferSnapshot a c Background req),
      app_LoadSnapshotChunk = (\<lambda>c req. cl_LoadSnapshotChunk a c Background req),
      app_ApplySnapshotChunk = (\<lambda>c req. cl_ApplySnapshotChunk a c Background req)\<rparr>"

end
