(* ===== verification/ConsumerStaking.thy ===== *)
theory ConsumerStaking
  imports AbciTypes
begin

text \<open>
  modules/consumer/staking: the staking module of a consumer chain. It wraps the SDK's x/staking:
  the keeper and the module embed the SDK's and override a few methods. The SDK's keeper works on a
  state \<open>'s\<close> (the context of the call); its methods are the record \<open>sdk_staking\<close>, an
  argument. A Go function with results and an error returns both; an error is \<open>Some\<close> text.
  \<open>Dec\<close> values and infractions are opaque. The hooks are values \<open>'h\<close>.
\<close>

section \<open>The SDK's staking module\<close>

type_synonym go_err = "string option"

record ('s, 'g) sdk_staking =
  BlockHeight :: "'s \<Rightarrow> int64"
  sk_ApplyAndReturnValidatorSetUpdates :: "'s \<Rightarrow> 's \<times> ValidatorUpdate list \<times> go_err"
  sk_BeginBlocker :: "'s \<Rightarrow> 's \<times> go_err"
  sk_EndBlocker :: "'s \<Rightarrow> 's \<times> ValidatorUpdate list \<times> go_err"
  sk_InitGenesis :: "'s \<Rightarrow> 'g \<Rightarrow> 's \<times> (string + ValidatorUpdate list)"
  UnmarshalGenesis :: "bytes \<Rightarrow> string + 'g"

section \<open>Keeper (keeper/keeper.go, keeper/validator.go)\<close>

record ('s, 'g) StakingKeeper =
  embedded :: "('s, 'g) sdk_staking"

definition NewKeeper :: "(string \<Rightarrow> ('s, 'g) sdk_staking) \<Rightarrow> string \<Rightarrow> ('s, 'g) StakingKeeper" where
  "NewKeeper stakingkeeper_NewKeeper authority =
     (let k = stakingkeeper_NewKeeper authority in \<lparr>embedded = k\<rparr>)"

definition ApplyAndReturnValidatorSetUpdates ::
    "('s, 'g) StakingKeeper \<Rightarrow> 's \<Rightarrow> 's \<times> ValidatorUpdate list \<times> go_err" where
  "ApplyAndReturnValidatorSetUpdates k ctx =
     (case sk_ApplyAndReturnValidatorSetUpdates (embedded k) ctx of
        (ctx, valUpdates, err) \<Rightarrow>
          if BlockHeight (embedded k) ctx = 0 then (ctx, valUpdates, err) else (ctx, [], err))"

text \<open>The result of \<open>Slash\<close> is the amount of burned tokens.\<close>

definition Slash :: "('s, 'g) StakingKeeper \<Rightarrow> 's \<Rightarrow> bytes \<Rightarrow> int64 \<Rightarrow> int64 \<Rightarrow> 'd \<Rightarrow> 's \<times> int \<times> go_err" where
  "Slash k ctx consAddr infractionHeight pw slashFactor = (ctx, 0, None)"

definition SlashWithInfractionReason ::
    "('s, 'g) StakingKeeper \<Rightarrow> 's \<Rightarrow> bytes \<Rightarrow> int64 \<Rightarrow> int64 \<Rightarrow> 'd \<Rightarrow> 'i \<Rightarrow> 's \<times> int \<times> go_err" where
  "SlashWithInfractionReason k ctx consAddr infractionHeight pw slashFactor infraction = (ctx, 0, None)"

definition Jail :: "('s, 'g) StakingKeeper \<Rightarrow> 's \<Rightarrow> bytes \<Rightarrow> 's \<times> go_err" where
  "Jail k ctx consAddr = (ctx, None)"

definition Unjail :: "('s, 'g) StakingKeeper \<Rightarrow> 's \<Rightarrow> bytes \<Rightarrow> 's \<times> go_err" where
  "Unjail k ctx consAddr = (ctx, None)"

section \<open>Module (module.go)\<close>

record ('s, 'g) AppModule =
  am_keeper :: "('s, 'g) StakingKeeper"

definition NewAppModule :: "('s, 'g) StakingKeeper \<Rightarrow> ('s, 'g) AppModule" where
  "NewAppModule k = \<lparr>am_keeper = k\<rparr>"

definition BeginBlock :: "('s, 'g) AppModule \<Rightarrow> 's \<Rightarrow> 's \<times> go_err" where
  "BeginBlock am ctx = sk_BeginBlocker (embedded (am_keeper am)) ctx"

definition EndBlock :: "('s, 'g) AppModule \<Rightarrow> 's \<Rightarrow> 's \<times> ValidatorUpdate list \<times> go_err" where
  "EndBlock am ctx =
     (case sk_EndBlocker (embedded (am_keeper am)) ctx of (ctx, _, err) \<Rightarrow> (ctx, [], err))"

text \<open>\<open>MustUnmarshalJSON\<close> panics on data it cannot read, as \<open>InitGenesis\<close> of the SDK can.\<close>

definition InitGenesis :: "('s, 'g) AppModule \<Rightarrow> 's \<Rightarrow> bytes \<Rightarrow> 's \<times> (string + ValidatorUpdate list)" where
  "InitGenesis am ctx data =
     (case UnmarshalGenesis (embedded (am_keeper am)) data of
        Inl p \<Rightarrow> (ctx, Inl p)
      | Inr genesisState \<Rightarrow> sk_InitGenesis (embedded (am_keeper am)) ctx genesisState)"

section \<open>Dependency injection (depinject.go)\<close>

record ModuleConfig =
  Authority :: string
  HooksOrder :: "string list"

text \<open>The SDK's functions that make an address of a module's name or of an authority string, as
  text.\<close>

record addresses =
  NewModuleAddress :: "string \<Rightarrow> string"
  NewModuleAddressOrBech32Address :: "string \<Rightarrow> string"

definition ProvideModule ::
    "addresses \<Rightarrow> (string \<Rightarrow> ('s, 'g) sdk_staking) \<Rightarrow> ModuleConfig \<Rightarrow>
     ('s, 'g) StakingKeeper \<times> ('s, 'g) AppModule" where
  "ProvideModule ad stakingkeeper_NewKeeper config =
     (let authority = (if Authority config \<noteq> '''' then NewModuleAddressOrBech32Address ad (Authority config)
                       else NewModuleAddress ad ''gov'');
          k = NewKeeper stakingkeeper_NewKeeper authority;
          m = NewAppModule k
      in (k, m))"

datatype hooks_error =
    HooksOrderLength "string list" "string list"
  | NoHooksFor string

fun collect_hooks :: "'h gomap \<Rightarrow> string list \<Rightarrow> 'h list \<Rightarrow> hooks_error + 'h list" where
  "collect_hooks stakingHooks [] multiHooks = Inr multiHooks"
| "collect_hooks stakingHooks (modName # order) multiHooks =
     (case fmlookup stakingHooks modName of
        None \<Rightarrow> Inl (NoHooksFor modName)
      | Some hook \<Rightarrow> collect_hooks stakingHooks order (multiHooks @ [hook]))"

text \<open>The result is the list of hooks handed to \<open>SetHooks\<close>, if it is called. \<open>maps.Keys\<close>
  gives the modules in the order of \<open>ns\<close>.\<close>

definition InvokeSetStakingHooks ::
    "nat list \<Rightarrow> ModuleConfig option \<Rightarrow> ('s, 'g) StakingKeeper option \<Rightarrow> 'h gomap \<Rightarrow> hooks_error + 'h list option"
  where
  "InvokeSetStakingHooks ns config keeper stakingHooks =
     (case (keeper, config) of
        (Some k, Some cfg) \<Rightarrow>
          let modNames = pick ns (keys stakingHooks);
              order = (if HooksOrder cfg = [] then sort modNames else HooksOrder cfg)
          in if length order \<noteq> length modNames then Inl (HooksOrderLength order modNames)
             else if modNames = [] then Inr None
             else (case collect_hooks stakingHooks order [] of
                     Inl e \<Rightarrow> Inl e
                   | Inr multiHooks \<Rightarrow> Inr (Some multiHooks))
      | _ \<Rightarrow> Inr None)"

section \<open>The installed hooks\<close>

lemma collect_hooks_Inr:
  "collect_hooks h order acc = Inr hs \<longleftrightarrow>
     (\<forall>a \<in> set order. fmlookup h a \<noteq> None) \<and> hs = acc @ map (\<lambda>a. the (fmlookup h a)) order"
  by (induction h order acc rule: collect_hooks.induct) (auto split: option.split)

lemma keys_Nil_iff: "keys h = [] \<longleftrightarrow> h = fmempty"
proof
  assume "keys h = []"
  then have "set (keys h) = {}"
    by simp
  then show "h = fmempty"
    by (intro fmap_ext) (simp add: fmdom_notD)
qed simp

lemma sort_pick_keys: "sort (pick ns (keys h)) = keys h"
  by (rule properties_for_sort) simp_all

text \<open>C37: SetHooks gets hooks exactly when keeper and configuration are there and some module has
  hooks; without a configured order these are the hooks of every module once, in the order of the
  module names, whatever the order in which Go visits the map; with a configured order they are the
  hooks of its entries, and the order is refused when it has an unknown name or its length is not the
  number of modules. A configured order without repetition is then an order of all modules.\<close>

theorem staking_hooks_installed:
  "(InvokeSetStakingHooks ns config keeper h = Inr (Some hs) \<longleftrightarrow>
     (\<exists>cfg. config = Some cfg \<and> keeper \<noteq> None \<and> h \<noteq> fmempty \<and>
        (let order = if HooksOrder cfg = [] then keys h else HooksOrder cfg
         in length order = length (keys h) \<and> set order \<subseteq> set (keys h) \<and>
            hs = map (\<lambda>a. the (fmlookup h a)) order \<and>
            (distinct order \<longrightarrow> mset order = mset (keys h)))))"
proof (cases "config = None \<or> keeper = None")
  case False
  then obtain cfg k where ck: "config = Some cfg" "keeper = Some k"
    by auto
  define order where "order = (if HooksOrder cfg = [] then keys h else HooksOrder cfg)"
  have run: "InvokeSetStakingHooks ns config keeper h = Inr (Some hs) \<longleftrightarrow>
      length order = length (keys h) \<and> keys h \<noteq> [] \<and> collect_hooks h order [] = Inr hs"
    by (auto simp: InvokeSetStakingHooks_def ck order_def Let_def sort_pick_keys split: sum.split)
      (metis length_0_conv length_pick)+
  have perm: "mset order = mset (keys h)"
    if "distinct order" "set order \<subseteq> set (keys h)" "length order = length (keys h)"
    using that by (metis card_subset_eq distinct_card distinct_keys finite_set set_eq_iff_mset_eq_distinct)
  have "(\<forall>a \<in> set order. fmlookup h a \<noteq> None) \<longleftrightarrow> set order \<subseteq> set (keys h)"
    by (auto simp: fmlookup_dom_iff)
  with run perm show ?thesis
    by (auto simp: ck collect_hooks_Inr keys_Nil_iff order_def [symmetric] Let_def)
qed (auto simp: InvokeSetStakingHooks_def split: option.splits)

theorem staking_hooks_installed_witness:
  "\<forall>k. InvokeSetStakingHooks [1] (Some \<lparr>Authority = '''', HooksOrder = []\<rparr>) (Some k)
     (fmupd ''slash'' (2::nat) (fmupd ''distr'' 1 fmempty)) = Inr (Some [1, 2])"
  unfolding staking_hooks_installed by (auto simp: fmlookup_dom_iff Let_def dest: arg_cong [where f = fmdom])

text \<open>A configured order that names a module twice passes the check of the length and drops the
  hooks of another module.\<close>

lemma repeated_order_drops_hooks:
  "InvokeSetStakingHooks [] (Some \<lparr>Authority = '''', HooksOrder = [''distr'', ''distr'']\<rparr>) (Some k)
     (fmupd ''slash'' (2::nat) (fmupd ''distr'' 1 fmempty)) = Inr (Some [1, 1])"
  by (simp add: InvokeSetStakingHooks_def fmlookup_dom_iff)

end
