(* ===== verification/Export.thy ===== *)
theory Export
  imports ConsumerStaking "HOL-Library.Product_Lexorder"
begin

text \<open>
  testapp/provider/export.go and testapp/consumer/export.go: the export of an application's state,
  with the preparation for a restart at height zero.

  The SDK's keepers and codecs are the record \<open>export_env\<close>, an argument. A keeper's method
  gets the context of the call (\<open>SdkContext\<close>: the store and the block height) and gives the store
  back, which all contexts share, with its error (\<open>Some\<close> text) when it has one. The methods that
  call a function for every element are given by the elements they visit, those that are there when
  the loop begins; the code drops their error. Of a validator, a delegation, a redelegation, an
  unbonding delegation and a signing info the fields the code reads or writes are kept, the rest is
  opaque. A panic, \<open>log.Fatal\<close> and a returned error are the three kinds of
  \<open>export_fault\<close>. The \<open>counter\<close> of the loop over the validators is counted and never
  read, it is left out.

  The locale \<open>staking_store\<close> states what the code relies on of the staking store, its extension
  \<open>distribution_store\<close> that the calls to the distribution module leave these parts of the store alone,
  whether they succeed or fail.
\<close>

section \<open>The outside\<close>

datatype export_fault = LogFatal string | Panicked string | Returned string

record 's SdkContext =
  ctx_store :: 's
  ctx_height :: int64

record 'o UnbondingEntry =
  CreationHeight :: int64
  entry_rest :: 'o

record 'o Redelegation =
  red_DelegatorAddress :: string
  red_ValidatorSrcAddress :: string
  red_ValidatorDstAddress :: string
  red_Entries :: "'o UnbondingEntry list"

record 'o UnbondingDelegation =
  ubd_DelegatorAddress :: string
  ubd_ValidatorAddress :: string
  ubd_Entries :: "'o UnbondingEntry list"

record 'o Validator =
  OperatorAddress :: string
  Jailed :: bool
  UnbondingHeight :: int64
  val_rest :: 'o

record Delegation =
  DelegatorAddr :: string
  ValidatorAddr :: string

record 'o FeePool =
  CommunityPool :: 'o
  pool_rest :: 'o

record 'o SigningInfo =
  StartHeight :: int64
  info_rest :: 'o

record 'o ExportedApp =
  AppState :: bytes
  Validators :: 'o
  Height :: int64
  ConsensusParams :: 'o

record ('s, 'o) export_env =
  LastBlockHeight :: int64
  NewContext :: "'s SdkContext"
  MM_ExportGenesis :: "'s SdkContext \<Rightarrow> 's \<times> (string + 'o)"
  MarshalIndent :: "'o \<Rightarrow> string + bytes"
  WriteValidators :: "'s SdkContext \<Rightarrow> string + 'o"
  GetConsensusParams :: "'s SdkContext \<Rightarrow> 'o"
  ValAddressFromBech32 :: "string \<Rightarrow> string + bytes"
  ValAddress_String :: "bytes \<Rightarrow> string"
  ValidatorAddress_StringToBytes :: "string \<Rightarrow> string + bytes"
  AccountAddress_StringToBytes :: "string \<Rightarrow> string + bytes"
  IterateValidators :: "'s SdkContext \<Rightarrow> 'o Validator list"
  GetAllDelegations :: "'s SdkContext \<Rightarrow> string + Delegation list"
  IterateRedelegations :: "'s SdkContext \<Rightarrow> 'o Redelegation list"
  SetRedelegation :: "'s SdkContext \<Rightarrow> 'o Redelegation \<Rightarrow> 's \<times> go_err"
  IterateUnbondingDelegations :: "'s SdkContext \<Rightarrow> 'o UnbondingDelegation list"
  SetUnbondingDelegation :: "'s SdkContext \<Rightarrow> 'o UnbondingDelegation \<Rightarrow> 's \<times> go_err"
  KVStoreReversePrefixIterator :: "'s \<Rightarrow> bytes list"
  iter_Close :: go_err
  GetValidator :: "'s SdkContext \<Rightarrow> bytes \<Rightarrow> string + 'o Validator"
  SetValidator :: "'s SdkContext \<Rightarrow> 'o Validator \<Rightarrow> 's \<times> go_err"
  sk_Apply :: "'s SdkContext \<Rightarrow> 's \<times> ValidatorUpdate list \<times> go_err"
  WithdrawValidatorCommission :: "'s SdkContext \<Rightarrow> bytes \<Rightarrow> 's \<times> go_err"
  WithdrawDelegationRewards :: "'s SdkContext \<Rightarrow> bytes \<Rightarrow> bytes \<Rightarrow> 's \<times> go_err"
  DeleteAllValidatorSlashEvents :: "'s SdkContext \<Rightarrow> 's"
  DeleteAllValidatorHistoricalRewards :: "'s SdkContext \<Rightarrow> 's"
  GetValidatorOutstandingRewardsCoins :: "'s SdkContext \<Rightarrow> bytes \<Rightarrow> string + 'o"
  FeePool_Get :: "'s SdkContext \<Rightarrow> string + 'o FeePool"
  FeePool_Set :: "'s SdkContext \<Rightarrow> 'o FeePool \<Rightarrow> 's \<times> go_err"
  DecCoins_Add :: "'o \<Rightarrow> 'o \<Rightarrow> 'o"
  AfterValidatorCreated :: "'s SdkContext \<Rightarrow> bytes \<Rightarrow> 's \<times> go_err"
  BeforeDelegationCreated :: "'s SdkContext \<Rightarrow> bytes \<Rightarrow> bytes \<Rightarrow> 's \<times> go_err"
  AfterDelegationModified :: "'s SdkContext \<Rightarrow> bytes \<Rightarrow> bytes \<Rightarrow> 's \<times> go_err"
  IterateValidatorSigningInfos :: "'s SdkContext \<Rightarrow> (bytes \<times> 'o SigningInfo) list"
  SetValidatorSigningInfo :: "'s SdkContext \<Rightarrow> bytes \<Rightarrow> 'o SigningInfo \<Rightarrow> 's \<times> go_err"

section \<open>Calls and loops\<close>

type_synonym ('s, 'a) export_res = "'s SdkContext \<times> (export_fault + 'a)"

text \<open>A call whose error makes the code panic, and a call whose error it drops.\<close>

fun must :: "'s SdkContext \<Rightarrow> 's \<times> go_err \<Rightarrow> ('s, unit) export_res" where
  "must ctx (s, None) = (ctx\<lparr>ctx_store := s\<rparr>, Inr ())"
| "must ctx (s, Some err) = (ctx\<lparr>ctx_store := s\<rparr>, Inl (Panicked err))"

fun dropping :: "'s SdkContext \<Rightarrow> 's \<times> go_err \<Rightarrow> 's SdkContext" where
  "dropping ctx (s, err) = ctx\<lparr>ctx_store := s\<rparr>"

definition value_or_panic :: "'s SdkContext \<Rightarrow> string + 'a \<Rightarrow> ('s, 'a) export_res" where
  "value_or_panic ctx r = (ctx, map_sum Panicked id r)"

fun each :: "('a \<Rightarrow> 's SdkContext \<Rightarrow> ('s, unit) export_res) \<Rightarrow> 'a list \<Rightarrow> 's SdkContext \<Rightarrow> ('s, unit) export_res"
  where
  "each f [] ctx = (ctx, Inr ())"
| "each f (x # xs) ctx = andThen (f x ctx) (\<lambda>ctx _. each f xs ctx)"

section \<open>Fee distribution state\<close>

fun allowed_addrs :: "('s, 'o) export_env \<Rightarrow> string list \<Rightarrow> bool gomap \<Rightarrow> export_fault + bool gomap" where
  "allowed_addrs E [] allowedAddrsMap = Inr allowedAddrsMap"
| "allowed_addrs E (addr # addrs) allowedAddrsMap =
     (case ValAddressFromBech32 E addr of
        Inl err \<Rightarrow> Inl (LogFatal err)
      | Inr _ \<Rightarrow> allowed_addrs E addrs (fmupd addr True allowedAddrsMap))"

definition withdraw_commission ::
    "('s, 'o) export_env \<Rightarrow> 'o Validator \<Rightarrow> 's SdkContext \<Rightarrow> ('s, unit) export_res" where
  "withdraw_commission E val ctx =
     andThen (value_or_panic ctx (ValidatorAddress_StringToBytes E (OperatorAddress val))) (\<lambda>ctx valAddr.
       must ctx (WithdrawValidatorCommission E ctx valAddr))"

definition withdraw_rewards ::
    "('s, 'o) export_env \<Rightarrow> Delegation \<Rightarrow> 's SdkContext \<Rightarrow> ('s, unit) export_res" where
  "withdraw_rewards E delegation ctx =
     andThen (value_or_panic ctx (AccountAddress_StringToBytes E (DelegatorAddr delegation))) (\<lambda>ctx delAddr.
     andThen (value_or_panic ctx (ValidatorAddress_StringToBytes E (ValidatorAddr delegation))) (\<lambda>ctx valAddr.
       must ctx (WithdrawDelegationRewards E ctx delAddr valAddr)))"

definition reinit_validator ::
    "('s, 'o) export_env \<Rightarrow> 'o Validator \<Rightarrow> 's SdkContext \<Rightarrow> ('s, unit) export_res" where
  "reinit_validator E val ctx =
     andThen (value_or_panic ctx (ValidatorAddress_StringToBytes E (OperatorAddress val))) (\<lambda>ctx valAddr.
     andThen (value_or_panic ctx (GetValidatorOutstandingRewardsCoins E ctx valAddr)) (\<lambda>ctx scraps.
     andThen (value_or_panic ctx (FeePool_Get E ctx)) (\<lambda>ctx feePool.
       let feePool = feePool\<lparr>CommunityPool := DecCoins_Add E (CommunityPool feePool) scraps\<rparr>;
           ctx = dropping ctx (FeePool_Set E ctx feePool)
       in must ctx (AfterValidatorCreated E ctx valAddr))))"

definition reinit_delegation ::
    "('s, 'o) export_env \<Rightarrow> Delegation \<Rightarrow> 's SdkContext \<Rightarrow> ('s, unit) export_res" where
  "reinit_delegation E del ctx =
     andThen (value_or_panic ctx (AccountAddress_StringToBytes E (DelegatorAddr del))) (\<lambda>ctx delAddr.
     andThen (value_or_panic ctx (ValidatorAddress_StringToBytes E (ValidatorAddr del))) (\<lambda>ctx valAddr.
     andThen (must ctx (BeforeDelegationCreated E ctx delAddr valAddr)) (\<lambda>ctx _.
       must ctx (AfterDelegationModified E ctx delAddr valAddr))))"

definition reset_distribution :: "('s, 'o) export_env \<Rightarrow> 's SdkContext \<Rightarrow> ('s, unit) export_res" where
  "reset_distribution E ctx =
     andThen (each (withdraw_commission E) (IterateValidators E ctx) ctx) (\<lambda>ctx _.
     andThen (value_or_panic ctx (GetAllDelegations E ctx)) (\<lambda>ctx dels.
     andThen (each (withdraw_rewards E) dels ctx) (\<lambda>ctx _.
       let ctx = ctx\<lparr>ctx_store := DeleteAllValidatorSlashEvents E ctx\<rparr>;
           ctx = ctx\<lparr>ctx_store := DeleteAllValidatorHistoricalRewards E ctx\<rparr>;
           height = ctx_height ctx;
           ctx = ctx\<lparr>ctx_height := 0\<rparr>
       in andThen (each (reinit_validator E) (IterateValidators E ctx) ctx) (\<lambda>ctx _.
          andThen (each (reinit_delegation E) dels ctx) (\<lambda>ctx _.
            (ctx\<lparr>ctx_height := height\<rparr>, Inr ()))))))"

section \<open>Staking and slashing state\<close>

definition reset_entry :: "'o UnbondingEntry \<Rightarrow> 'o UnbondingEntry" where
  "reset_entry e = e\<lparr>CreationHeight := 0\<rparr>"

definition reset_redelegation ::
    "('s, 'o) export_env \<Rightarrow> 'o Redelegation \<Rightarrow> 's SdkContext \<Rightarrow> 's SdkContext" where
  "reset_redelegation E red ctx =
     (let red = red\<lparr>red_Entries := map reset_entry (red_Entries red)\<rparr>
      in dropping ctx (SetRedelegation E ctx red))"

definition reset_unbonding ::
    "('s, 'o) export_env \<Rightarrow> 'o UnbondingDelegation \<Rightarrow> 's SdkContext \<Rightarrow> 's SdkContext" where
  "reset_unbonding E ubd ctx =
     (let ubd = ubd\<lparr>ubd_Entries := map reset_entry (ubd_Entries ubd)\<rparr>
      in dropping ctx (SetUnbondingDelegation E ctx ubd))"

definition reset_validator ::
    "('s, 'o) export_env \<Rightarrow> bool \<Rightarrow> bool gomap \<Rightarrow> bytes \<Rightarrow> 's SdkContext \<Rightarrow> ('s, unit) export_res" where
  "reset_validator E applyAllowedAddrs allowedAddrsMap key ctx =
     (let addr = drop 1 key
      in (case GetValidator E ctx addr of
            Inl _ \<Rightarrow> (ctx, Inl (Panicked ''expected validator, not found''))
          | Inr validator \<Rightarrow>
              let validator = validator\<lparr>UnbondingHeight := 0\<rparr>;
                  validator = (if applyAllowedAddrs \<and> \<not> flag allowedAddrsMap (ValAddress_String E addr)
                               then validator\<lparr>Jailed := True\<rparr> else validator)
              in (dropping ctx (SetValidator E ctx validator), Inr ())))"

definition reset_signing_info ::
    "('s, 'o) export_env \<Rightarrow> bytes \<times> 'o SigningInfo \<Rightarrow> 's SdkContext \<Rightarrow> 's SdkContext" where
  "reset_signing_info E ai ctx =
     (case ai of (addr, info) \<Rightarrow>
        let info = info\<lparr>StartHeight := 0\<rparr>
        in dropping ctx (SetValidatorSigningInfo E ctx addr info))"

definition close_iterator :: "('s, 'o) export_env \<Rightarrow> 's SdkContext \<Rightarrow> ('s, unit) export_res" where
  "close_iterator E ctx =
     (ctx, case iter_Close E of None \<Rightarrow> Inr () | Some err \<Rightarrow> Inl (Panicked err))"

definition reset_staking ::
    "('s, 'o) export_env \<Rightarrow> bool \<Rightarrow> bool gomap \<Rightarrow> 's SdkContext \<Rightarrow> ('s, unit) export_res" where
  "reset_staking E applyAllowedAddrs allowedAddrsMap ctx =
     (let ctx = fold (reset_redelegation E) (IterateRedelegations E ctx) ctx;
          ctx = fold (reset_unbonding E) (IterateUnbondingDelegations E ctx) ctx
      in andThen (each (reset_validator E applyAllowedAddrs allowedAddrsMap)
           (KVStoreReversePrefixIterator E (ctx_store ctx)) ctx) (\<lambda>ctx _. close_iterator E ctx))"

section \<open>The provider application\<close>

definition update_validator_set :: "('s, 'o) export_env \<Rightarrow> 's SdkContext \<Rightarrow> ('s, unit) export_res" where
  "update_validator_set E ctx = (case sk_Apply E ctx of (s, _, err) \<Rightarrow> must ctx (s, err))"

definition prepForZeroHeightGenesis ::
    "('s, 'o) export_env \<Rightarrow> 's SdkContext \<Rightarrow> string list \<Rightarrow> ('s, unit) export_res" where
  "prepForZeroHeightGenesis E ctx jailAllowedAddrs =
     (let applyAllowedAddrs = length jailAllowedAddrs > 0
      in (case allowed_addrs E jailAllowedAddrs fmempty of
            Inl f \<Rightarrow> (ctx, Inl f)
          | Inr allowedAddrsMap \<Rightarrow>
              andThen (reset_distribution E ctx) (\<lambda>ctx _.
              andThen (reset_staking E applyAllowedAddrs allowedAddrsMap ctx) (\<lambda>ctx _.
              andThen (update_validator_set E ctx) (\<lambda>ctx _.
                (fold (reset_signing_info E) (IterateValidatorSigningInfos E ctx) ctx, Inr ()))))))"

text \<open>The common part of \<open>ExportAppStateAndValidators\<close> of both applications, with the preparation
  as an argument.\<close>

definition export_with ::
    "('s SdkContext \<Rightarrow> string list \<Rightarrow> ('s, unit) export_res) \<Rightarrow> ('s, 'o) export_env \<Rightarrow> bool \<Rightarrow>
     string list \<Rightarrow> ('s, 'o ExportedApp) export_res" where
  "export_with prep E forZeroHeight jailAllowedAddrs =
     (let ctx = NewContext E;
          height = LastBlockHeight E + 1
      in andThen (if forZeroHeight then andThen (prep ctx jailAllowedAddrs) (\<lambda>ctx _. (ctx, Inr 0))
                  else (ctx, Inr height)) (\<lambda>ctx height.
         (case MM_ExportGenesis E ctx of
            (s, Inl err) \<Rightarrow> (ctx\<lparr>ctx_store := s\<rparr>, Inl (Returned err))
          | (s, Inr genState) \<Rightarrow>
              let ctx = ctx\<lparr>ctx_store := s\<rparr>
              in (case MarshalIndent E genState of
                    Inl err \<Rightarrow> (ctx, Inl (Returned err))
                  | Inr appState \<Rightarrow>
                      (case WriteValidators E ctx of
                         Inl err \<Rightarrow> (ctx, Inl (Returned err))
                       | Inr validators \<Rightarrow>
                           (ctx, Inr \<lparr>AppState = appState, Validators = validators, Height = height,
                                      ConsensusParams = GetConsensusParams E ctx\<rparr>))))))"

definition ExportAppStateAndValidators ::
    "('s, 'o) export_env \<Rightarrow> bool \<Rightarrow> string list \<Rightarrow> string list \<Rightarrow> ('s, 'o ExportedApp) export_res" where
  "ExportAppStateAndValidators E forZeroHeight jailAllowedAddrs modulesToExport =
     export_with (prepForZeroHeightGenesis E) E forZeroHeight jailAllowedAddrs"

section \<open>The consumer application\<close>

text \<open>Its staking keeper is the wrapper of \<open>ConsumerStaking\<close>, and it has no slashing module. The
  context a method gets is a value, so only the store of the resulting context is taken over.\<close>

definition consumer_update_validator_set ::
    "('s SdkContext, 'g) StakingKeeper \<Rightarrow> 's SdkContext \<Rightarrow> ('s, unit) export_res" where
  "consumer_update_validator_set k ctx =
     (case ApplyAndReturnValidatorSetUpdates k ctx of (ctx', _, err) \<Rightarrow> must ctx (ctx_store ctx', err))"

definition consumer_prepForZeroHeightGenesis ::
    "('s, 'o) export_env \<Rightarrow> ('s SdkContext, 'g) StakingKeeper \<Rightarrow> 's SdkContext \<Rightarrow> string list \<Rightarrow>
     ('s, unit) export_res" where
  "consumer_prepForZeroHeightGenesis E k ctx jailAllowedAddrs =
     (let applyAllowedAddrs = length jailAllowedAddrs > 0
      in (case allowed_addrs E jailAllowedAddrs fmempty of
            Inl f \<Rightarrow> (ctx, Inl f)
          | Inr allowedAddrsMap \<Rightarrow>
              andThen (reset_distribution E ctx) (\<lambda>ctx _.
              andThen (reset_staking E applyAllowedAddrs allowedAddrsMap ctx) (\<lambda>ctx _.
                consumer_update_validator_set k ctx))))"

definition consumer_ExportAppStateAndValidators ::
    "('s, 'o) export_env \<Rightarrow> ('s SdkContext, 'g) StakingKeeper \<Rightarrow> bool \<Rightarrow> string list \<Rightarrow> string list \<Rightarrow>
     ('s, 'o ExportedApp) export_res" where
  "consumer_ExportAppStateAndValidators E k forZeroHeight jailAllowedAddrs modulesToExport =
     export_with (consumer_prepForZeroHeightGenesis E k) E forZeroHeight jailAllowedAddrs"

section \<open>The staking store\<close>

text \<open>What the staking store holds is given by three views of it. \<open>vkey\<close> is the key under which
  the validator with an address is stored, prefix byte included.\<close>

definition red_key :: "'o Redelegation \<Rightarrow> string \<times> string \<times> string" where
  "red_key r = (red_DelegatorAddress r, red_ValidatorSrcAddress r, red_ValidatorDstAddress r)"

definition ubd_key :: "'o UnbondingDelegation \<Rightarrow> string \<times> string" where
  "ubd_key u = (ubd_DelegatorAddress u, ubd_ValidatorAddress u)"

locale staking_store =
  fixes E :: "('s, 'o) export_env"
    and vals :: "'s \<Rightarrow> bytes \<Rightarrow> 'o Validator option"
    and reds :: "'s \<Rightarrow> string \<times> string \<times> string \<Rightarrow> 'o Redelegation option"
    and ubds :: "'s \<Rightarrow> string \<times> string \<Rightarrow> 'o UnbondingDelegation option"
    and vkey :: "bytes \<Rightarrow> bytes"
  assumes GetValidator: "vals (ctx_store ctx) a = Some v \<Longrightarrow> GetValidator E ctx a = Inr v"
    and GetValidator_none: "vals (ctx_store ctx) a = None \<Longrightarrow> \<exists>e. GetValidator E ctx a = Inl e"
    and SetValidator: "vals (ctx_store ctx) a = Some v0 \<Longrightarrow> OperatorAddress v = OperatorAddress v0 \<Longrightarrow>
      SetValidator E ctx v = (s, err) \<Longrightarrow>
      vals s = (vals (ctx_store ctx))(a \<mapsto> v) \<and> reds s = reds (ctx_store ctx) \<and> ubds s = ubds (ctx_store ctx)"
    and validator_keys: "set (KVStoreReversePrefixIterator E s) = vkey ` dom (vals s)"
    and IterateRedelegations: "set (IterateRedelegations E ctx) = ran (reds (ctx_store ctx))"
    and reds_key: "reds s k = Some r \<Longrightarrow> red_key r = k"
    and SetRedelegation: "SetRedelegation E ctx r = (s, err) \<Longrightarrow>
      reds s = (reds (ctx_store ctx))(red_key r \<mapsto> r) \<and> vals s = vals (ctx_store ctx) \<and> ubds s = ubds (ctx_store ctx)"
    and IterateUnbondingDelegations: "set (IterateUnbondingDelegations E ctx) = ran (ubds (ctx_store ctx))"
    and ubds_key: "ubds s k' = Some u \<Longrightarrow> ubd_key u = k'"
    and SetUnbondingDelegation: "SetUnbondingDelegation E ctx u = (s, err) \<Longrightarrow>
      ubds s = (ubds (ctx_store ctx))(ubd_key u \<mapsto> u) \<and> vals s = vals (ctx_store ctx) \<and> reds s = reds (ctx_store ctx)"

section \<open>Resetting the staking state\<close>

definition reset_red :: "'o Redelegation \<Rightarrow> 'o Redelegation" where
  "reset_red r = r\<lparr>red_Entries := map reset_entry (red_Entries r)\<rparr>"

definition reset_ubd :: "'o UnbondingDelegation \<Rightarrow> 'o UnbondingDelegation" where
  "reset_ubd u = u\<lparr>ubd_Entries := map reset_entry (ubd_Entries u)\<rparr>"

definition reset_val :: "bool \<Rightarrow> 'o Validator \<Rightarrow> 'o Validator" where
  "reset_val jail v = v\<lparr>UnbondingHeight := 0, Jailed := Jailed v \<or> jail\<rparr>"

lemma reset_val_idem [simp]: "reset_val j (reset_val j v) = reset_val j v"
  by (simp add: reset_val_def)

lemma reset_keys [simp]: "red_key (reset_red r) = red_key r" "ubd_key (reset_ubd u) = ubd_key u"
  "OperatorAddress (reset_val j v) = OperatorAddress v"
  by (simp_all add: reset_red_def reset_ubd_def reset_val_def red_key_def ubd_key_def)

lemma fold_upd_keys:
  assumes "\<forall>x \<in> set xs. m0 (key x) = Some x"
  shows "fold (\<lambda>x m. m(key x \<mapsto> g x)) xs m k =
    (if k \<in> key ` set xs then map_option g (m0 k) else m k)"
  using assms by (induction xs arbitrary: m) auto

lemma fold_upd_all:
  assumes "set xs = ran m" and "\<And>k x. m k = Some x \<Longrightarrow> key x = k"
  shows "fold (\<lambda>x m. m(key x \<mapsto> g x)) xs m = (\<lambda>k. map_option g (m k))"
proof
  fix k
  have all: "\<forall>x \<in> set xs. m (key x) = Some x"
    using assms by (auto simp: ran_def)
  have "m k = None" if "k \<notin> key ` set xs"
    using that assms by (cases "m k") (auto intro: ranI)
  then show "fold (\<lambda>x m. m(key x \<mapsto> g x)) xs m k = map_option g (m k)"
    by (simp add: fold_upd_keys [where m0 = m and key = key, OF all])
qed

lemma context_same [simp]: "ctx\<lparr>ctx_store := ctx_store ctx\<rparr> = ctx"
  by (cases ctx) simp

context staking_store begin

lemma fold_redelegations:
  "\<exists>s. fold (reset_redelegation E) xs ctx = ctx\<lparr>ctx_store := s\<rparr> \<and>
     reds s = fold (\<lambda>r m. m(red_key r \<mapsto> reset_red r)) xs (reds (ctx_store ctx)) \<and>
     vals s = vals (ctx_store ctx) \<and> ubds s = ubds (ctx_store ctx)"
proof (induction xs arbitrary: ctx)
  case Nil
  show ?case
    by (rule exI [of _ "ctx_store ctx"]) simp
next
  case (Cons r xs)
  obtain s err where set: "SetRedelegation E ctx (reset_red r) = (s, err)"
    by force
  have one: "reset_redelegation E r ctx = ctx\<lparr>ctx_store := s\<rparr>"
    by (simp add: reset_redelegation_def set [unfolded reset_red_def])
  show ?case
    using Cons.IH [of "ctx\<lparr>ctx_store := s\<rparr>"] SetRedelegation [OF set] by (simp add: one)
qed

lemma fold_unbondings:
  "\<exists>s. fold (reset_unbonding E) xs ctx = ctx\<lparr>ctx_store := s\<rparr> \<and>
     ubds s = fold (\<lambda>u m. m(ubd_key u \<mapsto> reset_ubd u)) xs (ubds (ctx_store ctx)) \<and>
     vals s = vals (ctx_store ctx) \<and> reds s = reds (ctx_store ctx)"
proof (induction xs arbitrary: ctx)
  case Nil
  show ?case
    by (rule exI [of _ "ctx_store ctx"]) simp
next
  case (Cons u xs)
  obtain s err where set: "SetUnbondingDelegation E ctx (reset_ubd u) = (s, err)"
    by force
  have one: "reset_unbonding E u ctx = ctx\<lparr>ctx_store := s\<rparr>"
    by (simp add: reset_unbonding_def set [unfolded reset_ubd_def])
  show ?case
    using Cons.IH [of "ctx\<lparr>ctx_store := s\<rparr>"] SetUnbondingDelegation [OF set] by (simp add: one)
qed

lemma delegations_reset:
  "\<exists>s. fold (reset_unbonding E) (IterateUnbondingDelegations E (fold (reset_redelegation E) (IterateRedelegations E ctx) ctx))
        (fold (reset_redelegation E) (IterateRedelegations E ctx) ctx) = ctx\<lparr>ctx_store := s\<rparr> \<and>
     vals s = vals (ctx_store ctx) \<and>
     reds s = (\<lambda>k. map_option reset_red (reds (ctx_store ctx) k)) \<and>
     ubds s = (\<lambda>k. map_option reset_ubd (ubds (ctx_store ctx) k))"
proof -
  obtain s where s: "fold (reset_redelegation E) (IterateRedelegations E ctx) ctx = ctx\<lparr>ctx_store := s\<rparr>"
    "reds s = (\<lambda>k. map_option reset_red (reds (ctx_store ctx) k))"
    "vals s = vals (ctx_store ctx)" "ubds s = ubds (ctx_store ctx)"
    using fold_redelegations [of "IterateRedelegations E ctx" ctx]
      fold_upd_all [of "IterateRedelegations E ctx" "reds (ctx_store ctx)" red_key reset_red,
        OF IterateRedelegations reds_key] by auto
  let ?ctx = "ctx\<lparr>ctx_store := s\<rparr>"
  show ?thesis
    using fold_unbondings [of "IterateUnbondingDelegations E ?ctx" ?ctx] s
      fold_upd_all [of "IterateUnbondingDelegations E ?ctx" "ubds s" ubd_key reset_ubd]
      IterateUnbondingDelegations [of ?ctx] ubds_key by auto
qed

lemma reset_validator_ok:
  assumes "vals (ctx_store ctx) (drop 1 key) = Some v"
  shows "\<exists>s. reset_validator E b allowed key ctx = (ctx\<lparr>ctx_store := s\<rparr>, Inr ()) \<and>
    vals s = (vals (ctx_store ctx))(drop 1 key \<mapsto>
      reset_val (b \<and> \<not> flag allowed (ValAddress_String E (drop 1 key))) v) \<and>
    reds s = reds (ctx_store ctx) \<and> ubds s = ubds (ctx_store ctx)"
proof -
  let ?v = "reset_val (b \<and> \<not> flag allowed (ValAddress_String E (drop 1 key))) v"
  obtain s err where set: "SetValidator E ctx ?v = (s, err)"
    by force
  have "(if b \<and> \<not> flag allowed (ValAddress_String E (drop 1 key))
      then v\<lparr>UnbondingHeight := 0\<rparr>\<lparr>Jailed := True\<rparr> else v\<lparr>UnbondingHeight := 0\<rparr>) = ?v"
    by (cases v) (auto simp: reset_val_def)
  then have "reset_validator E b allowed key ctx = (ctx\<lparr>ctx_store := s\<rparr>, Inr ())"
    by (simp only: reset_validator_def Let_def GetValidator [OF assms] sum.case set dropping.simps)
  then show ?thesis
    using SetValidator [OF assms _ set] by (intro exI [of _ s]) simp
qed

lemma each_reset_validator:
  assumes "\<forall>key \<in> set ks. drop 1 key \<in> dom (vals (ctx_store ctx))"
  shows "\<exists>s. each (reset_validator E b allowed) ks ctx = (ctx\<lparr>ctx_store := s\<rparr>, Inr ()) \<and>
    vals s = (\<lambda>a. if a \<in> drop 1 ` set ks
      then map_option (reset_val (b \<and> \<not> flag allowed (ValAddress_String E a))) (vals (ctx_store ctx) a)
      else vals (ctx_store ctx) a) \<and>
    reds s = reds (ctx_store ctx) \<and> ubds s = ubds (ctx_store ctx)"
  using assms
proof (induction ks arbitrary: ctx)
  case Nil
  show ?case
    by (rule exI [of _ "ctx_store ctx"]) simp
next
  case (Cons key ks)
  then obtain v where v: "vals (ctx_store ctx) (drop 1 key) = Some v"
    by auto
  from reset_validator_ok [OF this, of b allowed] obtain s
    where s: "reset_validator E b allowed key ctx = (ctx\<lparr>ctx_store := s\<rparr>, Inr ())"
      "vals s = (vals (ctx_store ctx))(drop 1 key \<mapsto>
        reset_val (b \<and> \<not> flag allowed (ValAddress_String E (drop 1 key))) v)"
      "reds s = reds (ctx_store ctx)" "ubds s = ubds (ctx_store ctx)"
    by blast
  have "\<forall>key \<in> set ks. drop 1 key \<in> dom (vals (ctx_store (ctx\<lparr>ctx_store := s\<rparr>)))"
    using Cons.prems s(2) by auto
  from Cons.IH [OF this] obtain t where
    "each (reset_validator E b allowed) ks (ctx\<lparr>ctx_store := s\<rparr>) = (ctx\<lparr>ctx_store := t\<rparr>, Inr ())"
    "vals t = (\<lambda>a. if a \<in> drop 1 ` set ks
      then map_option (reset_val (b \<and> \<not> flag allowed (ValAddress_String E a))) (vals s a)
      else vals s a)" "reds t = reds s" "ubds t = ubds s"
    by (auto cong: if_cong)
  with s v show ?case
    by (intro exI [of _ t]) (auto simp: fun_eq_iff)
qed

lemma each_reset_validator_none:
  assumes "ks \<noteq> []" and "\<forall>key \<in> set ks. vals (ctx_store ctx) (drop 1 key) = None"
  shows "each (reset_validator E b allowed) ks ctx = (ctx, Inl (Panicked ''expected validator, not found''))"
proof -
  from assms(1) obtain key ks' where ks: "ks = key # ks'"
    by (cases ks) auto
  with assms(2) obtain e where "GetValidator E ctx (drop 1 key) = Inl e"
    using GetValidator_none [of ctx "drop 1 key"] by auto
  then show ?thesis
    by (simp add: ks reset_validator_def)
qed

end

section \<open>The calls to the distribution\<close>

text \<open>What the calls outside may do: change the store, but not the three views of the staking
  store. Whether they succeed is left open: the code panics with the error of a call that fails.\<close>

definition same_view :: "('s \<Rightarrow> 'v) \<Rightarrow> 's SdkContext \<Rightarrow> 's \<times> go_err \<Rightarrow> bool" where
  "same_view view ctx r \<longleftrightarrow> view (fst r) = view (ctx_store ctx)"

definition guarded :: "('s \<Rightarrow> 'v) \<Rightarrow> 's SdkContext \<Rightarrow> ('s, 'a) export_res \<Rightarrow> bool" where
  "guarded view ctx r \<longleftrightarrow>
     (case snd r of
        Inl f \<Rightarrow> \<exists>msg. f = export_fault.Panicked msg
      | Inr _ \<Rightarrow> \<exists>s. fst r = ctx\<lparr>ctx_store := s\<rparr> \<and> view s = view (ctx_store ctx))"

abbreviation views :: "('s \<Rightarrow> 'a) \<Rightarrow> ('s \<Rightarrow> 'b) \<Rightarrow> ('s \<Rightarrow> 'c) \<Rightarrow> 's \<Rightarrow> 'a \<times> 'b \<times> 'c" where
  "views vals reds ubds \<equiv> (\<lambda>s. (vals s, reds s, ubds s))"

lemma guarded_must: "same_view view ctx r \<Longrightarrow> guarded view ctx (must ctx r)"
  by (cases r; cases "snd r") (auto simp: same_view_def guarded_def)

lemma guarded_value: "guarded view ctx (value_or_panic ctx r)"
  by (cases r) (auto simp: value_or_panic_def guarded_def intro: exI [of _ "ctx_store ctx"])

lemma guarded_return: "view s = view (ctx_store ctx) \<Longrightarrow> guarded view ctx (ctx\<lparr>ctx_store := s\<rparr>, Inr x)"
  by (auto simp: guarded_def)

lemma guarded_then:
  assumes "guarded view ctx r" and "\<And>s x. view s = view (ctx_store ctx) \<Longrightarrow>
    guarded view (ctx\<lparr>ctx_store := s\<rparr>) (k (ctx\<lparr>ctx_store := s\<rparr>) x)"
  shows "guarded view ctx (andThen r k)"
proof (cases "snd r")
  case (Inl f)
  then show ?thesis
    using assms(1) by (cases r) (auto simp: guarded_def)
next
  case (Inr x)
  then obtain s where "r = (ctx\<lparr>ctx_store := s\<rparr>, Inr x)" "view s = view (ctx_store ctx)"
    using assms(1) by (cases r) (auto simp: guarded_def)
  then show ?thesis
    using assms(2) [of s x] by (auto simp: guarded_def split: sum.splits)
qed

lemma andThen_assoc: "andThen (andThen r f) k = andThen r (\<lambda>s a. andThen (f s a) k)"
  by (cases r; cases "snd r") auto

lemma guarded_each: "(\<And>x ctx. guarded view ctx (f x ctx)) \<Longrightarrow> guarded view ctx (each f xs ctx)"
proof (induction xs arbitrary: ctx)
  case Nil
  show ?case
    using guarded_return [of view "ctx_store ctx" ctx "()"] by simp
next
  case (Cons x xs)
  then show ?case
    by (auto intro: guarded_then)
qed

lemma guarded_store:
  assumes "guarded view (ctx\<lparr>ctx_store := s\<rparr>) r" and "view s = view (ctx_store ctx)"
  shows "guarded view ctx r"
  using assms by (auto simp: guarded_def split: sum.splits)

locale distribution_store = staking_store +
  assumes commission: "same_view (views vals reds ubds) ctx (WithdrawValidatorCommission E ctx a)"
    and rewards: "same_view (views vals reds ubds) ctx (WithdrawDelegationRewards E ctx d a)"
    and slash_events: "views vals reds ubds (DeleteAllValidatorSlashEvents E ctx) =
      views vals reds ubds (ctx_store ctx)"
    and historical: "views vals reds ubds (DeleteAllValidatorHistoricalRewards E ctx) =
      views vals reds ubds (ctx_store ctx)"
    and pool_set: "views vals reds ubds (fst (FeePool_Set E ctx p)) = views vals reds ubds (ctx_store ctx)"
    and validator_hook: "same_view (views vals reds ubds) ctx (AfterValidatorCreated E ctx a)"
    and before_hook: "same_view (views vals reds ubds) ctx (BeforeDelegationCreated E ctx d a)"
    and after_hook: "same_view (views vals reds ubds) ctx (AfterDelegationModified E ctx d a)"
begin

lemma withdraw_guarded:
  "guarded (views vals reds ubds) ctx (withdraw_commission E v ctx)"
  "guarded (views vals reds ubds) ctx (withdraw_rewards E d ctx)"
  unfolding withdraw_commission_def withdraw_rewards_def
  by (intro guarded_then guarded_value guarded_must commission rewards)+

lemma reinit_guarded:
  "guarded (views vals reds ubds) ctx (reinit_validator E v ctx)"
  "guarded (views vals reds ubds) ctx (reinit_delegation E d ctx)"
proof -
  have "guarded (views vals reds ubds) ctx
      (let ctx = dropping ctx (FeePool_Set E ctx p) in must ctx (AfterValidatorCreated E ctx a))" for ctx p a
  proof -
    obtain s err where set: "FeePool_Set E ctx p = (s, err)"
      by force
    then have "views vals reds ubds s = views vals reds ubds (ctx_store ctx)"
      using pool_set [of ctx p] by simp
    then show ?thesis
      unfolding set dropping.simps Let_def by (rule guarded_store [OF guarded_must [OF validator_hook]])
  qed
  then show "guarded (views vals reds ubds) ctx (reinit_validator E v ctx)"
    unfolding reinit_validator_def Let_def by (intro guarded_then guarded_value)
  show "guarded (views vals reds ubds) ctx (reinit_delegation E d ctx)"
    unfolding reinit_delegation_def
    by (intro guarded_then guarded_value guarded_must before_hook after_hook)
qed

lemma reset_distribution_guarded: "guarded (views vals reds ubds) ctx (reset_distribution E ctx)"
proof -
  have tail: "guarded (views vals reds ubds) ctx
      (let ctx = ctx\<lparr>ctx_store := DeleteAllValidatorSlashEvents E ctx\<rparr>;
           ctx = ctx\<lparr>ctx_store := DeleteAllValidatorHistoricalRewards E ctx\<rparr>;
           height = ctx_height ctx;
           ctx = ctx\<lparr>ctx_height := 0\<rparr>
       in andThen (each (reinit_validator E) (IterateValidators E ctx) ctx) (\<lambda>ctx _.
          andThen (each (reinit_delegation E) dels ctx) (\<lambda>ctx _. (ctx\<lparr>ctx_height := height\<rparr>, Inr ()))))"
    for ctx dels
  proof -
    define u where "u = DeleteAllValidatorHistoricalRewards E (ctx\<lparr>ctx_store := DeleteAllValidatorSlashEvents E ctx\<rparr>)"
    have u: "views vals reds ubds u = views vals reds ubds (ctx_store ctx)"
      using historical [of "ctx\<lparr>ctx_store := DeleteAllValidatorSlashEvents E ctx\<rparr>"] slash_events [of ctx]
      by (simp add: u_def)
    let ?ctx = "ctx\<lparr>ctx_store := u, ctx_height := 0\<rparr>"
    let ?r = "andThen (each (reinit_validator E) (IterateValidators E ?ctx) ?ctx)
        (\<lambda>ctx _. each (reinit_delegation E) dels ctx)"
    have "guarded (views vals reds ubds) ?ctx ?r"
      by (intro guarded_then guarded_each reinit_guarded)
    moreover have "guarded (views vals reds ubds) ctx
        (andThen r (\<lambda>c _. (c\<lparr>ctx_height := ctx_height ctx\<rparr>, Inr ())))"
      if "guarded (views vals reds ubds) ?ctx r" for r
      using that u by (cases r; cases "snd r") (auto simp: guarded_def)
    ultimately have "guarded (views vals reds ubds) ctx
        (andThen ?r (\<lambda>c _. (c\<lparr>ctx_height := ctx_height ctx\<rparr>, Inr ())))"
      by blast
    then show ?thesis
      by (simp add: Let_def u_def andThen_assoc)
  qed
  show ?thesis
    unfolding reset_distribution_def
    by (intro guarded_then guarded_each guarded_value withdraw_guarded tail)
qed

lemma reset_staking_plain:
  assumes "\<And>a. a \<in> dom (vals (ctx_store ctx)) \<Longrightarrow> drop 1 (vkey a) = a" and closes: "iter_Close E = None"
  shows "\<exists>s. reset_staking E b allowed ctx = (ctx\<lparr>ctx_store := s\<rparr>, Inr ()) \<and>
    vals s = (\<lambda>a. map_option (reset_val (b \<and> \<not> flag allowed (ValAddress_String E a))) (vals (ctx_store ctx) a)) \<and>
    reds s = (\<lambda>k. map_option reset_red (reds (ctx_store ctx) k)) \<and>
    ubds s = (\<lambda>k. map_option reset_ubd (ubds (ctx_store ctx) k))"
proof -
  obtain s where s: "fold (reset_unbonding E) (IterateUnbondingDelegations E (fold (reset_redelegation E) (IterateRedelegations E ctx) ctx))
        (fold (reset_redelegation E) (IterateRedelegations E ctx) ctx) = ctx\<lparr>ctx_store := s\<rparr>"
      "vals s = vals (ctx_store ctx)"
      "reds s = (\<lambda>k. map_option reset_red (reds (ctx_store ctx) k))"
      "ubds s = (\<lambda>k. map_option reset_ubd (ubds (ctx_store ctx) k))"
    using delegations_reset by blast
  have image: "drop 1 ` set (KVStoreReversePrefixIterator E s) = dom (vals s)"
    using assms(1) by (auto simp: validator_keys s(2) image_image)
  then have "\<forall>key \<in> set (KVStoreReversePrefixIterator E s). drop 1 key \<in> dom (vals (ctx_store (ctx\<lparr>ctx_store := s\<rparr>)))"
    by auto
  from each_reset_validator [OF this, of b allowed] obtain t where
    t: "each (reset_validator E b allowed) (KVStoreReversePrefixIterator E s) (ctx\<lparr>ctx_store := s\<rparr>) =
        (ctx\<lparr>ctx_store := t\<rparr>, Inr ())"
      "vals t = (\<lambda>a. if a \<in> dom (vals s)
        then map_option (reset_val (b \<and> \<not> flag allowed (ValAddress_String E a))) (vals s a) else vals s a)"
      "reds t = reds s" "ubds t = ubds s"
    unfolding image by (auto cong: if_cong)
  have "reset_staking E b allowed ctx = (ctx\<lparr>ctx_store := t\<rparr>, Inr ())"
    by (simp add: reset_staking_def Let_def s(1) t(1) close_iterator_def closes)
  moreover have "vals t = (\<lambda>a. map_option (reset_val (b \<and> \<not> flag allowed (ValAddress_String E a)))
      (vals (ctx_store ctx) a))"
    by (rule ext, rule option.exhaust [of "vals (ctx_store ctx) _"]) (auto simp: t(2) s(2) domIff)
  ultimately show ?thesis
    by (intro exI [of _ t]) (simp add: s(3,4) t(3,4))
qed

lemma reset_staking_not_found:
  assumes "vals (ctx_store ctx) a \<noteq> None"
    and "\<And>a. a \<in> dom (vals (ctx_store ctx)) \<Longrightarrow> vals (ctx_store ctx) (drop 1 (vkey a)) = None"
  shows "snd (reset_staking E b allowed ctx) = Inl (Panicked ''expected validator, not found'')"
proof -
  obtain s where s: "fold (reset_unbonding E) (IterateUnbondingDelegations E (fold (reset_redelegation E) (IterateRedelegations E ctx) ctx))
        (fold (reset_redelegation E) (IterateRedelegations E ctx) ctx) = ctx\<lparr>ctx_store := s\<rparr>"
      "vals s = vals (ctx_store ctx)"
    using delegations_reset by blast
  have "set (KVStoreReversePrefixIterator E s) \<noteq> {}"
    using assms(1) by (auto simp: validator_keys s(2))
  moreover have "\<forall>key \<in> set (KVStoreReversePrefixIterator E s). vals s (drop 1 key) = None"
    using assms(2) unfolding validator_keys s(2) by auto
  ultimately show ?thesis
    by (simp add: reset_staking_def Let_def s(1) each_reset_validator_none)
qed

end

lemma allowed_addrs_ok:
  "\<forall>addr \<in> set addrs. \<exists>b. ValAddressFromBech32 E addr = Inr b \<Longrightarrow>
   \<exists>m'. allowed_addrs E addrs m = Inr m' \<and> (\<forall>x. flag m' x \<longleftrightarrow> x \<in> set addrs \<or> flag m x)"
proof (induction addrs arbitrary: m)
  case (Cons addr addrs)
  then obtain b where "ValAddressFromBech32 E addr = Inr b"
    by auto
  with Cons.IH [of "fmupd addr True m"] Cons.prems show ?case
    by auto
qed simp

lemma allowed_addrs_fatal:
  "\<exists>addr \<in> set addrs. \<exists>e. ValAddressFromBech32 E addr = Inl e \<Longrightarrow>
   \<exists>e. allowed_addrs E addrs m = Inl (LogFatal e)"
  by (induction addrs arbitrary: m) (auto split: sum.split)

text \<open>An address that does not parse ends the process before anything is written; the exported
  height is 0 or the next height.\<close>

lemma bad_address_fatal:
  assumes "\<exists>addr \<in> set addrs. \<exists>e. ValAddressFromBech32 E addr = Inl e"
  shows "\<exists>e. prepForZeroHeightGenesis E ctx addrs = (ctx, Inl (LogFatal e)) \<and>
    consumer_prepForZeroHeightGenesis E k ctx addrs = (ctx, Inl (LogFatal e))"
  using allowed_addrs_fatal [OF assms, of fmempty]
  by (auto simp: prepForZeroHeightGenesis_def consumer_prepForZeroHeightGenesis_def)

lemma exported_height:
  "ExportAppStateAndValidators E forZero addrs mods = (ctx, Inr app) \<Longrightarrow>
   Height app = (if forZero then 0 else LastBlockHeight E + 1)"
  unfolding ExportAppStateAndValidators_def export_with_def Let_def andThen_Inr_iff
  by (elim exE conjE)
    (auto simp: andThen_Inr_iff split: sum.split_asm prod.split_asm if_split_asm)

section \<open>A reference world\<close>

text \<open>A store of finite maps and an environment on it with any key layout. Addresses are their own
  text, there are no delegations and the distribution keeps nothing.\<close>

record mem_store =
  r_vals :: "(bool \<times> int64) gomap"
  r_reds :: "(string \<times> string \<times> string, unit UnbondingEntry list) fmap"
  r_ubds :: "(string \<times> string, unit UnbondingEntry list) fmap"

definition ref_val :: "bytes \<Rightarrow> bool \<times> int64 \<Rightarrow> unit Validator" where
  "ref_val a jh = \<lparr>OperatorAddress = a, Jailed = fst jh, UnbondingHeight = snd jh, val_rest = ()\<rparr>"

fun ref_red :: "string \<times> string \<times> string \<Rightarrow> unit UnbondingEntry list \<Rightarrow> unit Redelegation" where
  "ref_red (d, s, t) es = \<lparr>red_DelegatorAddress = d, red_ValidatorSrcAddress = s,
     red_ValidatorDstAddress = t, red_Entries = es\<rparr>"

fun ref_ubd :: "string \<times> string \<Rightarrow> unit UnbondingEntry list \<Rightarrow> unit UnbondingDelegation" where
  "ref_ubd (d, v) es = \<lparr>ubd_DelegatorAddress = d, ubd_ValidatorAddress = v, ubd_Entries = es\<rparr>"

definition ref_vals :: "mem_store \<Rightarrow> bytes \<Rightarrow> unit Validator option" where
  "ref_vals s a = map_option (ref_val a) (fmlookup (r_vals s) a)"

definition ref_reds :: "mem_store \<Rightarrow> string \<times> string \<times> string \<Rightarrow> unit Redelegation option" where
  "ref_reds s k = map_option (ref_red k) (fmlookup (r_reds s) k)"

definition ref_ubds :: "mem_store \<Rightarrow> string \<times> string \<Rightarrow> unit UnbondingDelegation option" where
  "ref_ubds s k = map_option (ref_ubd k) (fmlookup (r_ubds s) k)"

definition listed :: "('k::linorder \<Rightarrow> 'v \<Rightarrow> 'a) \<Rightarrow> ('k, 'v) fmap \<Rightarrow> 'a list" where
  "listed f m = map (\<lambda>k. f k (the (fmlookup m k))) (sorted_list_of_fset (fmdom m))"

definition ref_export :: "(bytes \<Rightarrow> bytes) \<Rightarrow> mem_store SdkContext \<Rightarrow> (mem_store, unit) export_env" where
  "ref_export vkey ctx0 =
     \<lparr>LastBlockHeight = 7,
      NewContext = ctx0,
      MM_ExportGenesis = (\<lambda>ctx. (ctx_store ctx, Inr ())),
      MarshalIndent = (\<lambda>_. Inr ''{}''),
      WriteValidators = (\<lambda>_. Inr ()),
      GetConsensusParams = (\<lambda>_. ()),
      ValAddressFromBech32 = Inr,
      ValAddress_String = (\<lambda>a. a),
      ValidatorAddress_StringToBytes = Inr,
      AccountAddress_StringToBytes = Inr,
      IterateValidators = (\<lambda>ctx. listed ref_val (r_vals (ctx_store ctx))),
      GetAllDelegations = (\<lambda>_. Inr []),
      IterateRedelegations = (\<lambda>ctx. listed ref_red (r_reds (ctx_store ctx))),
      SetRedelegation = (\<lambda>ctx r. ((ctx_store ctx)\<lparr>r_reds := fmupd (red_key r) (red_Entries r)
        (r_reds (ctx_store ctx))\<rparr>, None)),
      IterateUnbondingDelegations = (\<lambda>ctx. listed ref_ubd (r_ubds (ctx_store ctx))),
      SetUnbondingDelegation = (\<lambda>ctx u. ((ctx_store ctx)\<lparr>r_ubds := fmupd (ubd_key u) (ubd_Entries u)
        (r_ubds (ctx_store ctx))\<rparr>, None)),
      KVStoreReversePrefixIterator = (\<lambda>s. rev (map vkey (keys (r_vals s)))),
      iter_Close = None,
      GetValidator = (\<lambda>ctx a. case ref_vals (ctx_store ctx) a of
         None \<Rightarrow> Inl ''validator does not exist'' | Some v \<Rightarrow> Inr v),
      SetValidator = (\<lambda>ctx v. ((ctx_store ctx)\<lparr>r_vals := fmupd (OperatorAddress v) (Jailed v, UnbondingHeight v)
        (r_vals (ctx_store ctx))\<rparr>, None)),
      sk_Apply = (\<lambda>ctx. (ctx_store ctx, [], None)),
      WithdrawValidatorCommission = (\<lambda>ctx _. (ctx_store ctx, None)),
      WithdrawDelegationRewards = (\<lambda>ctx _ _. (ctx_store ctx, None)),
      DeleteAllValidatorSlashEvents = ctx_store,
      DeleteAllValidatorHistoricalRewards = ctx_store,
      GetValidatorOutstandingRewardsCoins = (\<lambda>_ _. Inr ()),
      FeePool_Get = (\<lambda>_. Inr \<lparr>CommunityPool = (), pool_rest = ()\<rparr>),
      FeePool_Set = (\<lambda>ctx _. (ctx_store ctx, None)),
      DecCoins_Add = (\<lambda>_ _. ()),
      AfterValidatorCreated = (\<lambda>ctx _. (ctx_store ctx, None)),
      BeforeDelegationCreated = (\<lambda>ctx _ _. (ctx_store ctx, None)),
      AfterDelegationModified = (\<lambda>ctx _ _. (ctx_store ctx, None)),
      IterateValidatorSigningInfos = (\<lambda>_. []),
      SetValidatorSigningInfo = (\<lambda>ctx _ _. (ctx_store ctx, None))\<rparr>"

lemma set_listed: "set (listed f m) = {f k v | k v. fmlookup m k = Some v}"
proof -
  have "set (listed f m) = (\<lambda>k. f k (the (fmlookup m k))) ` {k. fmlookup m k \<noteq> None}"
    by (simp add: listed_def fmdom.rep_eq dom_def)
  then show ?thesis
    by force
qed

lemma ref_keys [simp]: "red_key (ref_red k es) = k" "ubd_key (ref_ubd k' es) = k'"
  "OperatorAddress (ref_val a jh) = a"
    apply (cases k; simp add: red_key_def)
   apply (cases k'; simp add: ubd_key_def)
  apply (simp add: ref_val_def)
  done

lemma ref_rebuild [simp]: "ref_red (red_key r) (red_Entries r) = r" "ref_ubd (ubd_key u) (ubd_Entries u) = u"
  "ref_val (OperatorAddress v) (Jailed v, UnbondingHeight v) = v"
  by (simp_all add: red_key_def ubd_key_def ref_val_def)

interpretation ref_world: distribution_store "ref_export vkey ctx0" ref_vals ref_reds ref_ubds vkey
  for vkey ctx0
proof unfold_locales
  show "set (KVStoreReversePrefixIterator (ref_export vkey ctx0) s) = vkey ` dom (ref_vals s)" for s
    by (auto simp: ref_export_def ref_vals_def fmlookup_dom_iff dom_def)
qed (auto simp: ref_export_def ref_vals_def ref_reds_def ref_ubds_def set_listed ran_def fun_eq_iff same_view_def
    red_key_def ubd_key_def)

section \<open>What the preparation does to the staking state\<close>

text \<open>Provided the reset of the distribution succeeds, the iterator closes and the key of a validator is a
  prefix byte and its address, which is
  what the code assumes, the preparation gets as far as the update of the validator set, in both applications; there every
  validator has unbonding height 0 and is jailed exactly if it was, or an allow list is given and its
  address is not on it, every entry of a redelegation and of an unbonding delegation has creation height 0,
  nothing else of them has changed, and the context has its height back.\<close>

lemma zero_height_reset:
  assumes world: "distribution_store E vals reds ubds vkey"
    and distribution: "\<not> isl (snd (reset_distribution E ctx))" and closes: "iter_Close E = None"
    and layout: "\<And>a. vkey a = CHR ''!'' # a"
    and addrs: "\<forall>addr \<in> set addrs. \<exists>b. ValAddressFromBech32 E addr = Inr b"
  shows "\<exists>s. (let ctx' = ctx\<lparr>ctx_store := s\<rparr>
      in prepForZeroHeightGenesis E ctx addrs = andThen (update_validator_set E ctx') (\<lambda>ctx _.
           (fold (reset_signing_info E) (IterateValidatorSigningInfos E ctx) ctx, Inr ())) \<and>
         consumer_prepForZeroHeightGenesis E k ctx addrs = consumer_update_validator_set k ctx') \<and>
    vals s = (\<lambda>a. map_option (\<lambda>v. v\<lparr>UnbondingHeight := 0,
      Jailed := Jailed v \<or> addrs \<noteq> [] \<and> ValAddress_String E a \<notin> set addrs\<rparr>) (vals (ctx_store ctx) a)) \<and>
    reds s = (\<lambda>p. map_option (\<lambda>r. r\<lparr>red_Entries := map (\<lambda>e. e\<lparr>CreationHeight := 0\<rparr>) (red_Entries r)\<rparr>)
      (reds (ctx_store ctx) p)) \<and>
    ubds s = (\<lambda>p. map_option (\<lambda>u. u\<lparr>ubd_Entries := map (\<lambda>e. e\<lparr>CreationHeight := 0\<rparr>) (ubd_Entries u)\<rparr>)
      (ubds (ctx_store ctx) p))"
proof -
  obtain m where m: "allowed_addrs E addrs fmempty = Inr m" "\<And>x. flag m x \<longleftrightarrow> x \<in> set addrs"
    using allowed_addrs_ok [OF addrs, of fmempty] by auto
  obtain t where t: "reset_distribution E ctx = (ctx\<lparr>ctx_store := t\<rparr>, Inr ())"
      "vals t = vals (ctx_store ctx)" "reds t = reds (ctx_store ctx)" "ubds t = ubds (ctx_store ctx)"
    using distribution_store.reset_distribution_guarded [OF world, of ctx] distribution
    by (cases "reset_distribution E ctx") (auto simp: guarded_def split: sum.splits)
  obtain s where "reset_staking E (addrs \<noteq> []) m (ctx\<lparr>ctx_store := t\<rparr>) = (ctx\<lparr>ctx_store := s\<rparr>, Inr ())"
      "vals s = (\<lambda>a. map_option (reset_val (addrs \<noteq> [] \<and> \<not> flag m (ValAddress_String E a))) (vals (ctx_store ctx) a))"
      "reds s = (\<lambda>p. map_option reset_red (reds (ctx_store ctx) p))"
      "ubds s = (\<lambda>p. map_option reset_ubd (ubds (ctx_store ctx) p))"
    using distribution_store.reset_staking_plain [OF world _ closes, of "ctx\<lparr>ctx_store := t\<rparr>" "addrs \<noteq> []" m] layout t
    by auto
  then show ?thesis
    by (intro exI [of _ s]) (simp add: prepForZeroHeightGenesis_def consumer_prepForZeroHeightGenesis_def
        m t(1) reset_val_def [abs_def] reset_red_def [abs_def] reset_ubd_def [abs_def] reset_entry_def [abs_def])
qed

abbreviation export_store :: mem_store where
  "export_store \<equiv> \<lparr>r_vals = fmupd ''v'' (False, 5) fmempty, r_reds = fmempty,
     r_ubds = fmupd (''d'', ''v'') [\<lparr>CreationHeight = 3, entry_rest = ()\<rparr>] fmempty\<rparr>"

abbreviation export_ctx :: "mem_store SdkContext" where
  "export_ctx \<equiv> \<lparr>ctx_store = export_store, ctx_height = 6\<rparr>"

lemma zero_height_reset_example:
  "\<exists>s. fst (prepForZeroHeightGenesis (ref_export (\<lambda>a. CHR ''!'' # a) export_ctx) export_ctx [''w'']) =
       \<lparr>ctx_store = s, ctx_height = 6\<rparr> \<and>
     ref_vals s ''v'' = Some \<lparr>OperatorAddress = ''v'', Jailed = True, UnbondingHeight = 0, val_rest = ()\<rparr> \<and>
     map_option ubd_Entries (ref_ubds s (''d'', ''v'')) = Some [\<lparr>CreationHeight = 0, entry_rest = ()\<rparr>]"
proof -
  let ?E = "ref_export (\<lambda>a. CHR ''!'' # a) export_ctx"
  have parse: "\<forall>addr \<in> set [''w'']. \<exists>b. ValAddressFromBech32 ?E addr = Inr b"
    by (simp add: ref_export_def)
  have env: "ValAddress_String ?E a = a" "sk_Apply ?E ctx = (ctx_store ctx, [], None)"
      "IterateValidatorSigningInfos ?E ctx = []" for a ctx
    by (simp_all add: ref_export_def)
  have before: "ref_vals export_store ''v'' = Some (ref_val ''v'' (False, 5))"
      "ref_ubds export_store (''d'', ''v'') = Some (ref_ubd (''d'', ''v'') [\<lparr>CreationHeight = 3, entry_rest = ()\<rparr>])"
    by (simp_all add: ref_vals_def ref_ubds_def)
  have ok: "\<not> isl (snd (reset_distribution ?E export_ctx))" "iter_Close ?E = None"
    by code_simp+
  show ?thesis
    using zero_height_reset [OF ref_world.distribution_store_axioms ok refl parse, of undefined]
    apply (elim exE conjE)
    subgoal for s
      by (intro exI [of _ s]) (simp add: Let_def update_validator_set_def env before ref_val_def)
    done
qed

text \<open>C38: With the keys of the staking module, a prefix byte, the length of the address and the
  address, the export for height zero panics in both applications as soon as there is a validator,
  whether the calls to the distribution module succeed or not: when one of them fails, as the withdrawal of a
  commission that is zero does, the code panics with its error; when they all succeed, it drops
  one byte of the key, looks up an address that starts with the length and panics because no validator
  has it.\<close>

theorem zero_height_export_panics:
  assumes world: "distribution_store E vals reds ubds vkey"
    and layout: "\<And>a. vkey a = CHR ''!'' # char_of (length a) # a"
    and lengths: "\<And>a. vals (ctx_store (NewContext E)) a \<noteq> None \<Longrightarrow> length a = 20"
    and validator: "vals (ctx_store (NewContext E)) a \<noteq> None"
    and addrs: "\<forall>addr \<in> set addrs. \<exists>b. ValAddressFromBech32 E addr = Inr b"
  shows "\<exists>msg. snd (ExportAppStateAndValidators E True addrs mods) = Inl (Panicked msg) \<and>
    snd (consumer_ExportAppStateAndValidators E k True addrs mods) = Inl (Panicked msg) \<and>
    (case snd (reset_distribution E (NewContext E)) of
       Inl f \<Rightarrow> f = Panicked msg
     | Inr _ \<Rightarrow> msg = ''expected validator, not found'')"
proof -
  let ?ctx = "NewContext E"
  note guarded = distribution_store.reset_distribution_guarded [OF world, of ?ctx]
  obtain m where m: "allowed_addrs E addrs fmempty = Inr m"
    using allowed_addrs_ok [OF addrs, of fmempty] by auto
  show ?thesis
  proof (cases "snd (reset_distribution E ?ctx)")
    case (Inl f)
    then obtain msg c where "reset_distribution E ?ctx = (c, Inl (Panicked msg))"
      using guarded by (cases "reset_distribution E ?ctx") (auto simp: guarded_def)
    then show ?thesis
      by (simp add: ExportAppStateAndValidators_def consumer_ExportAppStateAndValidators_def export_with_def
          prepForZeroHeightGenesis_def consumer_prepForZeroHeightGenesis_def Let_def m)
  next
    case (Inr u)
    then obtain t where t: "reset_distribution E ?ctx = (?ctx\<lparr>ctx_store := t\<rparr>, Inr ())"
        "vals t = vals (ctx_store ?ctx)"
      using guarded by (cases "reset_distribution E ?ctx") (auto simp: guarded_def)
    have "vals t (drop 1 (vkey b)) = None" if "b \<in> dom (vals t)" for b
    proof -
      have "length b = 20"
        using that lengths t(2) by auto
      then have "length (drop 1 (vkey b)) \<noteq> 20"
        by (simp add: layout)
      then show ?thesis
        using lengths t(2) by metis
    qed
    then have "snd (reset_staking E (addrs \<noteq> []) m (?ctx\<lparr>ctx_store := t\<rparr>)) =
        Inl (Panicked ''expected validator, not found'')"
      using distribution_store.reset_staking_not_found [OF world, of "?ctx\<lparr>ctx_store := t\<rparr>" a "addrs \<noteq> []" m]
        validator t(2) by simp
    then obtain c where "reset_staking E (addrs \<noteq> []) m (?ctx\<lparr>ctx_store := t\<rparr>) =
        (c, Inl (Panicked ''expected validator, not found''))"
      by (metis prod.collapse)
    then show ?thesis
      by (simp add: ExportAppStateAndValidators_def consumer_ExportAppStateAndValidators_def export_with_def
          prepForZeroHeightGenesis_def consumer_prepForZeroHeightGenesis_def Let_def m t(1))
  qed
qed

text \<open>An application with one validator, in a world where the withdrawals succeed and in one where the
  validator has no commission to withdraw.\<close>

definition withdrawing :: "go_err \<Rightarrow> (mem_store, unit) export_env" where
  "withdrawing err = (ref_export (\<lambda>a. CHR ''!'' # char_of (length a) # a)
     \<lparr>ctx_store = \<lparr>r_vals = fmupd ''validator_of_20_byte'' (False, 0) fmempty, r_reds = fmempty,
        r_ubds = fmempty\<rparr>, ctx_height = 6\<rparr>)\<lparr>WithdrawValidatorCommission := \<lambda>ctx _. (ctx_store ctx, err)\<rparr>"

interpretation ref_withdrawing: distribution_store "withdrawing err" ref_vals ref_reds ref_ubds
    "\<lambda>a. CHR ''!'' # char_of (length a) # a"
  for err
proof unfold_locales
  show "set (KVStoreReversePrefixIterator (withdrawing err) s) = (\<lambda>a. CHR ''!'' # char_of (length a) # a) ` dom (ref_vals s)" for s
    by (auto simp: withdrawing_def ref_export_def ref_vals_def fmlookup_dom_iff dom_def)
qed (auto simp: withdrawing_def ref_export_def ref_vals_def ref_reds_def ref_ubds_def set_listed ran_def fun_eq_iff same_view_def
    red_key_def ubd_key_def)

theorem zero_height_export_panics_witness:
  "snd (ExportAppStateAndValidators (withdrawing None) True [] []) =
       Inl (Panicked ''expected validator, not found'') \<and>
   snd (ExportAppStateAndValidators (withdrawing (Some ''no validator commission to withdraw'')) True [] []) =
       Inl (Panicked ''no validator commission to withdraw'')"
proof -
  have lengths: "ref_vals (ctx_store (NewContext (withdrawing err))) a \<noteq> None \<Longrightarrow> length a = 20"
    and validator: "ref_vals (ctx_store (NewContext (withdrawing err))) ''validator_of_20_byte'' \<noteq> None"
    and addrs: "\<forall>addr \<in> set []. \<exists>b. ValAddressFromBech32 (withdrawing err) addr = Inr b" for err a
    by (auto simp: withdrawing_def ref_export_def ref_vals_def split: if_splits)
  have panics: "\<exists>msg. snd (ExportAppStateAndValidators (withdrawing err) True [] []) = Inl (Panicked msg) \<and>
      (case snd (reset_distribution (withdrawing err) (NewContext (withdrawing err))) of
         Inl f \<Rightarrow> f = Panicked msg | Inr _ \<Rightarrow> msg = ''expected validator, not found'')" for err
  proof -
    have "\<exists>msg. snd (ExportAppStateAndValidators (withdrawing err) True [] []) = Inl (Panicked msg) \<and>
        snd (consumer_ExportAppStateAndValidators (withdrawing err) undefined True [] []) = Inl (Panicked msg) \<and>
        (case snd (reset_distribution (withdrawing err) (NewContext (withdrawing err))) of
           Inl f \<Rightarrow> f = Panicked msg | Inr _ \<Rightarrow> msg = ''expected validator, not found'')"
      by (rule zero_height_export_panics [OF ref_withdrawing.distribution_store_axioms refl])
        (rule lengths, assumption, rule validator, rule addrs)
    then show ?thesis
      by blast
  qed
  have "snd (reset_distribution (withdrawing None) (NewContext (withdrawing None))) = Inr ()"
    "snd (reset_distribution (withdrawing (Some ''no validator commission to withdraw''))
       (NewContext (withdrawing (Some ''no validator commission to withdraw'')))) =
     Inl (Panicked ''no validator commission to withdraw'')"
    by code_simp+
  then show ?thesis
    using panics [of None] panics [of "Some ''no validator commission to withdraw''"] by auto
qed

end
