(* ===== verification/Header.thy ===== *)
theory Header
  imports Prelude
begin

text \<open>
  abci/header.go: the header \<open>ICS:<chain_id>:\<close> in front of every multiplexed
  transaction. The functions of the Go packages \<open>bytes\<close> and \<open>fmt\<close> that the
  file calls are translated first. The main result is \<open>ParseHeader_iff\<close>: parsing is
  exactly the inverse of prefixing a chain id that contains no colon.
\<close>

section \<open>Functions of Go's bytes package\<close>

definition HasPrefix :: "bytes \<Rightarrow> bytes \<Rightarrow> bool" where
  "HasPrefix s p \<longleftrightarrow> length p \<le> length s \<and> take (length p) s = p"

fun IndexByte :: "bytes \<Rightarrow> char \<Rightarrow> int" where
  "IndexByte [] c = -1"
| "IndexByte (b # bs) c =
     (if b = c then 0
      else let i = IndexByte bs c in if i = -1 then -1 else i + 1)"

lemma HasPrefix_iff: "HasPrefix s p \<longleftrightarrow> (\<exists>t. s = p @ t)"
  by (auto simp: HasPrefix_def) (metis append_take_drop_id)

lemma IndexByte_ge: "-1 \<le> IndexByte bs c"
  by (induction bs) (auto simp: Let_def)

lemma IndexByte_absent: "IndexByte bs c = -1 \<longleftrightarrow> c \<notin> set bs"
proof (induction bs)
  case (Cons b bs)
  then show ?case
    using IndexByte_ge [of bs c] by (auto simp: Let_def)
qed simp

lemma IndexByte_append: "c \<notin> set xs \<Longrightarrow> IndexByte (xs @ c # ys) c = int (length xs)"
  by (induction xs) (auto simp: Let_def)

lemma IndexByte_split:
  assumes "IndexByte bs c \<noteq> -1"
  obtains xs ys where "bs = xs @ c # ys" and "c \<notin> set xs" and "IndexByte bs c = int (length xs)"
proof -
  from assms have "c \<in> set bs"
    by (simp add: IndexByte_absent)
  then obtain xs ys where "bs = xs @ c # ys" "c \<notin> set xs"
    by (meson split_list_first)
  then show thesis
    using that IndexByte_append by metis
qed

section \<open>The header\<close>

definition HeaderPrefix :: bytes where
  "HeaderPrefix = ''ICS:''"

definition HeaderLength :: nat where
  "HeaderLength = 4"

definition CreateTransactionHeader :: "string \<Rightarrow> bytes" where
  "CreateTransactionHeader chainID = ''ICS:'' @ chainID @ '':''"

definition ParseHeader :: "bytes \<Rightarrow> string + string \<times> bytes" where
  "ParseHeader tx =
     (if length tx < HeaderLength then Inl ''transaction too short''
      else if \<not> HasPrefix tx HeaderPrefix then Inl ''invalid header prefix''
      else
        let rest = drop HeaderLength tx;
            idx = IndexByte rest (CHR '':'')
        in if idx = -1 then Inl ''invalid header format, missing chain separator''
           else Inr (take (nat idx) rest, drop (nat (idx + 1)) rest))"

datatype validate_error =
    ParseFailed string
  | EmptyChainID
  | PayloadTooSmall nat int

definition ValidateTransaction :: "bytes \<Rightarrow> int \<Rightarrow> validate_error + unit" where
  "ValidateTransaction tx minPayloadSize =
     (case ParseHeader tx of
        Inl e \<Rightarrow> Inl (ParseFailed e)
      | Inr (chainID, payload) \<Rightarrow>
          if chainID = '''' then Inl EmptyChainID
          else if int (length payload) < minPayloadSize
          then Inl (PayloadTooSmall (length payload) minPayloadSize)
          else Inr ())"

section \<open>Lemmas\<close>

lemma length_HeaderPrefix [simp]: "length HeaderPrefix = HeaderLength"
  by (simp add: HeaderPrefix_def HeaderLength_def)

lemma ParseHeader_header:
  assumes "CHR '':'' \<notin> set chainID"
  shows "ParseHeader (CreateTransactionHeader chainID @ payload) = Inr (chainID, payload)"
proof -
  have "drop 4 (CreateTransactionHeader chainID @ payload) = chainID @ CHR '':'' # payload"
    by (simp add: CreateTransactionHeader_def)
  moreover have "HasPrefix (CreateTransactionHeader chainID @ payload) HeaderPrefix"
    by (simp add: HasPrefix_iff CreateTransactionHeader_def HeaderPrefix_def)
  ultimately show ?thesis
    using IndexByte_append [OF assms, of payload]
    by (simp add: ParseHeader_def HeaderLength_def CreateTransactionHeader_def Let_def
        nat_add_distrib)
qed

lemma ParseHeader_InrD:
  assumes "ParseHeader tx = Inr (chainID, payload)"
  shows "tx = CreateTransactionHeader chainID @ payload" and "CHR '':'' \<notin> set chainID"
proof -
  from assms have "HasPrefix tx HeaderPrefix"
    by (auto simp: ParseHeader_def split: if_splits)
  then obtain rest where tx: "tx = HeaderPrefix @ rest"
    by (auto simp: HasPrefix_iff)
  then have drop: "drop HeaderLength tx = rest"
    by simp
  with assms have idx: "IndexByte rest (CHR '':'') \<noteq> -1"
    by (auto simp: ParseHeader_def Let_def split: if_splits)
  then obtain xs ys where rest: "rest = xs @ CHR '':'' # ys" "CHR '':'' \<notin> set xs"
      "IndexByte rest (CHR '':'') = int (length xs)"
    by (rule IndexByte_split)
  with assms drop have "chainID = xs" "payload = ys"
    by (auto simp: ParseHeader_def Let_def nat_add_distrib split: if_splits)
  with tx rest show "tx = CreateTransactionHeader chainID @ payload"
      and "CHR '':'' \<notin> set chainID"
    by (simp_all add: CreateTransactionHeader_def HeaderPrefix_def)
qed

lemma ParseHeader_Inr_iff:
  "ParseHeader tx = Inr (chainID, payload) \<longleftrightarrow>
     tx = CreateTransactionHeader chainID @ payload \<and> CHR '':'' \<notin> set chainID"
  using ParseHeader_header ParseHeader_InrD by blast

lemma ParseHeader_Inl_iff:
  "(\<exists>e. ParseHeader tx = Inl e) \<longleftrightarrow>
     \<not> (\<exists>chainID payload. tx = CreateTransactionHeader chainID @ payload)"
proof -
  have "\<exists>id p. ParseHeader tx = Inr (id, p)"
    if tx: "tx = CreateTransactionHeader chainID @ payload" for chainID payload
  proof (cases "CHR '':'' \<in> set chainID")
    case True
    then obtain xs ys where "chainID = xs @ CHR '':'' # ys" "CHR '':'' \<notin> set xs"
      by (meson split_list_first)
    then have "tx = CreateTransactionHeader xs @ ys @ '':'' @ payload"
      by (simp add: tx CreateTransactionHeader_def)
    then show ?thesis
      using ParseHeader_header \<open>CHR '':'' \<notin> set xs\<close> by blast
  next
    case False
    then show ?thesis
      using tx ParseHeader_header by blast
  qed
  then show ?thesis
    using ParseHeader_InrD(1) by (metis Inl_Inr_False obj_sumE surj_pair)
qed

lemma ValidateTransaction_Inr_iff:
  "ValidateTransaction tx n = Inr () \<longleftrightarrow>
     (\<exists>chainID payload. ParseHeader tx = Inr (chainID, payload) \<and> chainID \<noteq> '''' \<and>
        n \<le> int (length payload))"
  by (auto simp: ValidateTransaction_def split: sum.splits)

section \<open>Properties\<close>

text \<open>C16: ParseHeader accepts exactly the transactions made of CreateTransactionHeader of a
  chain id without a colon followed by a payload, and returns that chain id and payload
  unchanged. Parsing is the inverse of creating the header, on every input.\<close>

theorem ParseHeader_iff:
  "ParseHeader tx = Inr (chainID, payload) \<longleftrightarrow>
     tx = CreateTransactionHeader chainID @ payload \<and> CHR '':'' \<notin> set chainID"
  by (rule ParseHeader_Inr_iff)

end
