(* ===== verification/Wire.thy ===== *)
theory Wire
  imports Prelude
begin

unbundle bit_operations_syntax

text \<open>
  The protobuf wire format as the generated code of modules/provider/types writes and reads it:
  varints, tags, the skipping of unknown fields and the loop of every \<open>Unmarshal\<close>
  method. The generated files repeat these pieces with other names (\<open>encodeVarintProvider\<close>,
  \<open>encodeVarintQuery\<close>, \<open>skipProvider\<close>, \<open>skipQuery\<close>, the loop that reads a
  varint inlined at every use); they are one definition each here.

  \<^item> An index into \<open>dAtA\<close> is a \<open>nat\<close>; where the code adds a length it has read to an
    index, the sum is taken in 64 bits and can be negative (\<open>advance\<close>).
  \<^item> The code marshals from the end of a buffer towards its front, so a marshalling function
    takes what is already written behind and returns it with more in front. \<open>encodeVarint\<close>
    moves the offset back by \<open>sov v\<close> and writes forward from there; that it
    writes exactly \<open>sov v\<close> bytes is \<open>length_varint_bytes\<close>.
  \<^item> The \<open>switch\<close> over the field numbers of a message is a table of \<open>field\<close>s.

  Main results: reading a varint inverts writing it (\<open>varint_encode\<close>), every loop makes
  progress, so unmarshalling ends on every input (the \<open>termination\<close> proofs), and a field
  that has been written is read back (\<open>unmarshal_string\<close>, \<open>unmarshal_int\<close>,
  \<open>unmarshal_message\<close>).
\<close>

section \<open>Bytes and errors\<close>

datatype pb_error =
    ErrIntOverflow
  | ErrInvalidLength
  | ErrUnexpectedEndOfGroup
  | UnexpectedEOF
  | EndGroupForNonGroup
  | IllegalTag int32 uint64
  | WrongWireType nat string
  | IllegalWireType nat
  | Embedded string

definition byte_of :: "char \<Rightarrow> 8 word" where
  "byte_of c = word_of_nat (of_char c)"

definition char_of_byte :: "8 word \<Rightarrow> char" where
  "char_of_byte w = char_of (unat w)"

lemma byte_of_char [simp]: "byte_of (char_of_byte w) = w"
proof -
  have "unat w < 256"
    using unsigned_less [of w] by simp
  then show ?thesis
    by (simp add: byte_of_def char_of_byte_def)
qed

section \<open>Writing varints\<close>

text \<open>\<open>bits.Len64\<close> of the standard library.\<close>

fun nat_len :: "nat \<Rightarrow> nat" where
  "nat_len n = (if n = 0 then 0 else Suc (nat_len (n div 2)))"

declare nat_len.simps [simp del]

definition Len64 :: "uint64 \<Rightarrow> nat" where
  "Len64 x = nat_len (unat x)"

definition sov :: "uint64 \<Rightarrow> nat" where
  "sov x = (Len64 (x OR 1) + 6) div 7"

function varint_bytes :: "uint64 \<Rightarrow> bytes" where
  "varint_bytes v =
     (if v \<ge> 0x80 then char_of_byte (ucast (v AND 0x7F OR 0x80)) # varint_bytes (drop_bit 7 v)
      else [char_of_byte (ucast v)])"
  by auto
termination
  by (relation "measure unat")
    (auto simp: word_le_nat_alt unat_drop_bit_eq drop_bit_eq_div unat_div intro!: div_less_dividend)

declare varint_bytes.simps [simp del]

definition encodeVarint :: "uint64 \<Rightarrow> bytes \<Rightarrow> bytes" where
  "encodeVarint v written = varint_bytes v @ written"

lemma nat_len_step: "n \<noteq> 0 \<Longrightarrow> nat_len n = Suc (nat_len (n div 2))"
  by (subst nat_len.simps) simp

lemma nat_len_div: "2 ^ k \<le> n \<Longrightarrow> nat_len n = k + nat_len (n div 2 ^ k)"
proof (induction k arbitrary: n)
  case (Suc k)
  then have "2 ^ k \<le> n div 2"
    by (simp add: less_eq_div_iff_mult_less_eq mult.commute)
  moreover have "0 < n"
    using Suc.prems zero_less_power [of "2 :: nat" "Suc k"] by linarith
  ultimately have "nat_len n = Suc (k + nat_len (n div 2 div 2 ^ k))"
    using Suc.IH nat_len_step [of n] by simp
  then show ?case
    by (simp add: div_mult2_eq)
qed simp

lemma nat_len_le: "n < 2 ^ k \<Longrightarrow> nat_len n \<le> k"
proof (induction k arbitrary: n)
  case (Suc k)
  then show ?case
    using Suc.IH [of "n div 2"] nat_len_step [of n] by (cases "n = 0") (auto simp: nat_len.simps [of 0])
qed (simp add: nat_len.simps)

lemma or_1_nat: "(n :: nat) OR 1 = n + of_bool (even n)"
  by (rule or_one_eq)

lemma nat_len_or_1: "n \<noteq> 0 \<Longrightarrow> nat_len (n OR 1) = nat_len n"
  unfolding or_1_nat using nat_len_step [of n] nat_len_step [of "n + 1"] by (cases "even n") auto

lemma sov_step: "128 \<le> v \<Longrightarrow> sov v = Suc (sov (drop_bit 7 v))"
proof -
  assume "128 \<le> v"
  then have n: "128 \<le> unat v"
    by (simp add: word_le_nat_alt)
  then have "unat v div 2 ^ 7 \<noteq> 0"
    by (simp add: div_eq_0_iff)
  then have "nat_len (unat v OR 1) = 7 + nat_len ((unat v div 2 ^ 7) OR 1)"
    using n nat_len_div [of 7 "unat v"] nat_len_or_1 [of "unat v"] nat_len_or_1 [of "unat v div 2 ^ 7"]
    by simp
  then show ?thesis
    by (simp add: sov_def Len64_def unsigned_or_eq drop_bit_eq_div unat_div)
qed

lemma sov_small: "v < 128 \<Longrightarrow> sov v = 1"
proof -
  assume "v < 128"
  then have "unat v < 128"
    by (simp add: word_less_nat_alt)
  then have "unat v OR 1 < 2 ^ 7" "unat v OR 1 \<noteq> 0"
    unfolding or_1_nat by (auto simp: less_Suc_eq split: if_splits) presburger+
  then have "1 \<le> nat_len (unat v OR 1)" "nat_len (unat v OR 1) \<le> 7"
    using nat_len_le [of "unat v OR 1" 7] nat_len_step [of "unat v OR 1"] by simp_all
  then show ?thesis
    by (simp add: sov_def Len64_def unsigned_or_eq)
qed

lemma sov_le_10: "sov v \<le> 10"
proof -
  have "nat_len (unat (v OR 1)) \<le> 64"
    using unsigned_less [of "v OR 1"] by (intro nat_len_le) simp
  then show ?thesis
    by (simp add: sov_def Len64_def)
qed

lemma length_varint_bytes: "length (varint_bytes v) = sov v"
proof (induction v rule: varint_bytes.induct)
  case (1 v)
  then show ?case
    by (subst varint_bytes.simps) (simp add: sov_step sov_small not_le)
qed

section \<open>Reading varints\<close>

text \<open>The loop that reads a varint into a variable of the type of the target, from \<open>i\<close> on.\<close>

function read_varint :: "bytes \<Rightarrow> nat \<Rightarrow> nat \<Rightarrow> 'a::len word \<Rightarrow> pb_error + 'a word \<times> nat" where
  "read_varint dAtA i shift acc =
     (if shift \<ge> 64 then Inl ErrIntOverflow
      else if i \<ge> length dAtA then Inl UnexpectedEOF
      else
        let b = byte_of (dAtA ! i);
            acc = acc OR push_bit shift (ucast (b AND 0x7F))
        in if b < 0x80 then Inr (acc, i + 1) else read_varint dAtA (i + 1) (shift + 7) acc)"
  by auto
termination
  by (relation "measure (\<lambda>(d, i, shift, acc). 64 - shift)") auto

declare read_varint.simps [simp del]

abbreviation varint :: "bytes \<Rightarrow> nat \<Rightarrow> pb_error + 'a::len word \<times> nat" where
  "varint dAtA i \<equiv> read_varint dAtA i 0 0"

lemma read_varint_progress:
  "read_varint d i shift acc = Inr (v, j) \<Longrightarrow> i < j \<and> j \<le> length d"
proof (induction d i shift acc rule: read_varint.induct)
  case (1 d i shift acc)
  let ?b = "byte_of (d ! i)" and ?acc = "acc OR push_bit shift (ucast (byte_of (d ! i) AND 0x7F))"
  consider "i < length d" "v = ?acc" "j = i + 1"
    | "\<not> shift \<ge> 64" "\<not> i \<ge> length d" "\<not> ?b < 0x80" "read_varint d (i + 1) (shift + 7) ?acc = Inr (v, j)"
    using 1(2) by (subst (asm) read_varint.simps) (auto simp: Let_def split: if_splits)
  then show ?case
    using 1(1) [OF _ _ refl refl] by cases force+
qed

lemma and_7F: "(x :: 'a::len word) AND 0x7F = take_bit 7 x"
  by (simp add: take_bit_eq_mask mask_eq_exp_minus_1)

lemma take_7_iff: "take_bit 7 x = x \<longleftrightarrow> unat x < 128"
  using take_bit_nat_eq_self_iff [of 7 "unat x"] by (simp add: word_unat_eq_iff unsigned_take_bit_eq)

lemma low_byte: "byte_of (char_of_byte (ucast (v AND 0x7F OR 0x80))) AND 0x7F = ucast (take_bit 7 v)"
    for v :: uint64
  unfolding byte_of_char and_7F
  by (rule bit_eqI) (auto simp: bit_simps less_Suc_eq numeral_eq_Suc)

lemma continues: "\<not> byte_of (char_of_byte (ucast (v AND 0x7F OR 0x80))) < 0x80" for v :: uint64
proof
  let ?x = "ucast (v AND 0x7F OR 0x80) :: 8 word"
  assume "byte_of (char_of_byte ?x) < 0x80"
  then have "take_bit 7 ?x = ?x"
    by (simp add: take_7_iff word_less_nat_alt)
  moreover have "bit ?x 7"
    by (simp add: bit_simps)
  ultimately show False
    by (metis bit_take_bit_iff less_irrefl)
qed

lemma split_7:
  "push_bit s (ucast (ucast (take_bit 7 v) :: 8 word)) OR push_bit (s + 7) (ucast (drop_bit 7 v)) =
     push_bit s (ucast v :: 'a::len word)" for v :: uint64
proof (rule bit_eqI)
  fix n
  have "s + 7 \<le> n \<Longrightarrow> 7 + (n - (s + 7)) = n - s"
    by simp
  then show "bit (push_bit s (ucast (ucast (take_bit 7 v) :: 8 word)) OR push_bit (s + 7) (ucast (drop_bit 7 v))
      :: 'a word) n \<longleftrightarrow> bit (push_bit s (ucast v :: 'a word)) n"
    by (cases "s + 7 \<le> n") (auto simp: bit_simps)
qed

lemma last_byte:
  fixes v :: uint64
  assumes "v < 128"
  shows "ucast (byte_of (char_of_byte (ucast v)) AND 0x7F) = (ucast v :: 'a::len word)"
    and "byte_of (char_of_byte (ucast v)) < 0x80"
proof -
  have v: "take_bit 7 v = v"
    using assms by (simp add: take_7_iff word_less_nat_alt)
  have b: "bit v n \<Longrightarrow> n < 7" for n
    using v by (metis bit_take_bit_iff)
  show "ucast (byte_of (char_of_byte (ucast v)) AND 0x7F) = (ucast v :: 'a::len word)"
    unfolding byte_of_char and_7F by (rule bit_eqI) (use b in \<open>fastforce simp: bit_simps\<close>)
  have "take_bit 7 (ucast v :: 8 word) = ucast v"
    by (rule bit_eqI) (use b in \<open>auto simp: bit_simps\<close>)
  then show "byte_of (char_of_byte (ucast v)) < 0x80"
    by (simp add: take_7_iff word_less_nat_alt)
qed

lemma varint_encode_aux:
  assumes "shift < 64" and "unat v < 2 ^ (64 - shift)"
  shows "read_varint (pre @ varint_bytes v @ post) (length pre) shift acc =
     Inr (acc OR push_bit shift (ucast v), length pre + length (varint_bytes v))"
  using assms
proof (induction v arbitrary: pre shift acc rule: varint_bytes.induct)
  case (1 v)
  show ?case
  proof (cases "0x80 \<le> v")
    case True
    let ?c = "char_of_byte (ucast (v AND 0x7F OR 0x80))" and ?v = "drop_bit 7 v"
    let ?acc = "acc OR push_bit shift (ucast (byte_of ?c AND 0x7F))"
    have bytes: "varint_bytes v = ?c # varint_bytes ?v"
      using True by (subst varint_bytes.simps) simp
    have "2 ^ 7 \<le> unat v"
      using True by (simp add: word_le_nat_alt)
    then have "(2::nat) ^ 7 < 2 ^ (64 - shift)"
      using 1(3) by linarith
    then have "7 < 64 - shift"
      by (rule power_less_imp_less_exp [rotated]) simp
    moreover have "unat ?v < 2 ^ (64 - (shift + 7))"
    proof -
      have "unat v < 2 ^ (64 - (shift + 7)) * 2 ^ 7"
        using 1(3) \<open>7 < 64 - shift\<close> power_add [of "2 :: nat" "64 - (shift + 7)" 7] by simp
      then show ?thesis
        by (simp add: drop_bit_eq_div unat_div div_less_iff_less_mult)
    qed
    ultimately have "read_varint ((pre @ [?c]) @ varint_bytes ?v @ post) (length (pre @ [?c])) (shift + 7) ?acc =
        Inr (?acc OR push_bit (shift + 7) (ucast ?v), length (pre @ [?c]) + length (varint_bytes ?v))"
      using 1(1) [OF True, of "shift + 7" "pre @ [?c]" ?acc] by simp
    moreover have "read_varint (pre @ varint_bytes v @ post) (length pre) shift acc =
        read_varint ((pre @ [?c]) @ varint_bytes ?v @ post) (length (pre @ [?c])) (shift + 7) ?acc"
      using 1(2) continues [of v]
      by (subst read_varint.simps) (simp add: bytes nth_append Let_def)
    ultimately show ?thesis
      using split_7 [of shift v, where ?'a = 'a]
      by (simp add: bytes low_byte [unfolded byte_of_char] or.assoc)
  next
    case False
    then have v: "v < 128"
      by simp
    have bytes: "varint_bytes v = [char_of_byte (ucast v)]"
      using False by (subst varint_bytes.simps) simp
    show ?thesis
      using 1(2) last_byte(1) [OF v, where ?'a = 'a] last_byte(2) [OF v]
      by (subst read_varint.simps) (simp add: bytes nth_append Let_def)
  qed
qed

lemma varint_encode:
  "read_varint (pre @ varint_bytes v @ post) (length pre) 0 0 =
     Inr (ucast v :: 'a::len word, length pre + length (varint_bytes v))"
  using varint_encode_aux [of 0 v pre post "0 :: 'a word"] unsigned_less [of v] by simp

section \<open>Lengths, skipping, fields\<close>

text \<open>\<open>iNdEx + n\<close> in 64 bits for a non-negative \<open>n\<close>: a sum beyond the largest
  \<open>int\<close> wraps to a negative one, which the code reports.\<close>

definition advance :: "nat \<Rightarrow> int64 \<Rightarrow> pb_error + nat" where
  "advance iNdEx n =
     (let postIndex = int iNdEx + sint n
      in if postIndex < 0 \<or> 2 ^ 63 \<le> postIndex then Inl ErrInvalidLength else Inr (nat postIndex))"

text \<open>Reading the length of a length-delimited field: the index after it and the end of the
  field.\<close>

definition read_length :: "bytes \<Rightarrow> nat \<Rightarrow> pb_error + nat \<times> nat" where
  "read_length dAtA iNdEx =
     (case varint dAtA iNdEx of
        Inl e \<Rightarrow> Inl e
      | Inr (len, iNdEx) \<Rightarrow>
          if sint (len :: int64) < 0 then Inl ErrInvalidLength
          else (case advance iNdEx len of
                  Inl e \<Rightarrow> Inl e
                | Inr postIndex \<Rightarrow>
                    if postIndex > length dAtA then Inl UnexpectedEOF else Inr (iNdEx, postIndex)))"

text \<open>One turn of the loop of \<open>skipProvider\<close>: the index after the entry and the depth.\<close>

definition skip_entry :: "bytes \<Rightarrow> nat \<Rightarrow> nat \<Rightarrow> pb_error + nat \<times> nat" where
  "skip_entry dAtA iNdEx depth =
     (case varint dAtA iNdEx of
        Inl e \<Rightarrow> Inl e
      | Inr (wire :: uint64, iNdEx) \<Rightarrow>
          let wireType = unat (wire AND 0x7);
              at = (\<lambda>depth r. case r of Inl e \<Rightarrow> Inl e | Inr iNdEx \<Rightarrow> Inr (iNdEx, depth))
          in if wireType = 0
             then at depth (case varint dAtA iNdEx of Inl e \<Rightarrow> Inl e | Inr (_ :: uint64, i) \<Rightarrow> Inr i)
             else if wireType = 1 then at depth (advance iNdEx 8)
             else if wireType = 2
             then at depth (case varint dAtA iNdEx of
                 Inl e \<Rightarrow> Inl e
               | Inr (len, i) \<Rightarrow> if sint (len :: int64) < 0 then Inl ErrInvalidLength else advance i len)
             else if wireType = 3 then Inr (iNdEx, depth + 1)
             else if wireType = 4
             then (if depth = 0 then Inl ErrUnexpectedEndOfGroup else Inr (iNdEx, depth - 1))
             else if wireType = 5 then at depth (advance iNdEx 4)
             else Inl (IllegalWireType wireType))"

lemma advance_Inr: "advance i n = Inr j \<Longrightarrow> 0 \<le> sint n \<Longrightarrow> i \<le> j"
  by (auto simp: advance_def Let_def split: if_splits)

lemma skip_entry_progress: "skip_entry d i k = Inr (j, k') \<Longrightarrow> i < j"
  by (auto simp: skip_entry_def Let_def split: sum.splits prod.splits if_splits
      dest!: read_varint_progress advance_Inr)

function skip_from :: "bytes \<Rightarrow> nat \<Rightarrow> nat \<Rightarrow> pb_error + nat" where
  "skip_from dAtA iNdEx depth =
     (if iNdEx < length dAtA
      then (case skip_entry dAtA iNdEx depth of
              Inl e \<Rightarrow> Inl e
            | Inr (iNdEx', depth') \<Rightarrow>
                if depth' = 0 then Inr iNdEx' else skip_from dAtA iNdEx' depth')
      else Inl UnexpectedEOF)"
  by auto
termination
  by (relation "measure (\<lambda>(d, i, k). length d - i)") (auto dest!: skip_entry_progress)

declare skip_from.simps [simp del]

definition skip :: "bytes \<Rightarrow> pb_error + nat" where
  "skip dAtA = skip_from dAtA 0 0"

text \<open>One case of the switch: a string, a varint of 32 or 64 bits, or an embedded message
  whose \<open>Unmarshal\<close> can fail.\<close>

datatype 'm field =
    StringField string "string \<Rightarrow> 'm \<Rightarrow> 'm"
  | Int32Field string "int32 \<Rightarrow> 'm \<Rightarrow> 'm"
  | Int64Field string "int64 \<Rightarrow> 'm \<Rightarrow> 'm"
  | MessageField string "bytes \<Rightarrow> 'm \<Rightarrow> pb_error + 'm"

definition slice :: "bytes \<Rightarrow> nat \<Rightarrow> nat \<Rightarrow> bytes" where
  "slice dAtA i j = take (j - i) (drop i dAtA)"

definition read_field ::
    "'m field \<Rightarrow> nat \<Rightarrow> bytes \<Rightarrow> nat \<Rightarrow> 'm \<Rightarrow> pb_error + nat \<times> 'm" where
  "read_field f wireType dAtA iNdEx m =
     (case f of
        StringField name put \<Rightarrow>
          if wireType \<noteq> 2 then Inl (WrongWireType wireType name)
          else (case read_length dAtA iNdEx of
                  Inl e \<Rightarrow> Inl e
                | Inr (iNdEx, postIndex) \<Rightarrow> Inr (postIndex, put (slice dAtA iNdEx postIndex) m))
      | Int32Field name put \<Rightarrow>
          if wireType \<noteq> 0 then Inl (WrongWireType wireType name)
          else (case varint dAtA iNdEx of
                  Inl e \<Rightarrow> Inl e
                | Inr (v, iNdEx) \<Rightarrow> Inr (iNdEx, put v m))
      | Int64Field name put \<Rightarrow>
          if wireType \<noteq> 0 then Inl (WrongWireType wireType name)
          else (case varint dAtA iNdEx of
                  Inl e \<Rightarrow> Inl e
                | Inr (v, iNdEx) \<Rightarrow> Inr (iNdEx, put v m))
      | MessageField name add \<Rightarrow>
          if wireType \<noteq> 2 then Inl (WrongWireType wireType name)
          else (case read_length dAtA iNdEx of
                  Inl e \<Rightarrow> Inl e
                | Inr (iNdEx, postIndex) \<Rightarrow>
                    (case add (slice dAtA iNdEx postIndex) m of
                       Inl e \<Rightarrow> Inl e
                     | Inr m \<Rightarrow> Inr (postIndex, m))))"

text \<open>One turn of the loop of an \<open>Unmarshal\<close> method with the switch \<open>fields\<close>.\<close>

definition read_entry ::
    "(nat \<Rightarrow> 'm field option) \<Rightarrow> bytes \<Rightarrow> nat \<Rightarrow> 'm \<Rightarrow> pb_error + nat \<times> 'm" where
  "read_entry fields dAtA preIndex m =
     (case varint dAtA preIndex of
        Inl e \<Rightarrow> Inl e
      | Inr (wire :: uint64, iNdEx) \<Rightarrow>
          let fieldNum = (ucast (drop_bit 3 wire) :: int32);
              wireType = unat (wire AND 0x7)
          in if wireType = 4 then Inl EndGroupForNonGroup
             else if sint fieldNum \<le> 0 then Inl (IllegalTag fieldNum wire)
             else (case fields (unat fieldNum) of
                     Some f \<Rightarrow> read_field f wireType dAtA iNdEx m
                   | None \<Rightarrow>
                       (case skip (drop preIndex dAtA) of
                          Inl e \<Rightarrow> Inl e
                        | Inr skippy \<Rightarrow>
                            if 2 ^ 63 \<le> preIndex + skippy then Inl ErrInvalidLength
                            else if preIndex + skippy > length dAtA then Inl UnexpectedEOF
                            else Inr (preIndex + skippy, m))))"

lemma skip_from_progress: "skip_from d i k = Inr j \<Longrightarrow> i < j"
proof (induction d i k rule: skip_from.induct)
  case (1 d i k)
  from 1(2) show ?case
    by (subst (asm) skip_from.simps)
      (auto split: if_splits sum.splits prod.splits dest: skip_entry_progress intro: less_trans [OF _ 1(1)])
qed

lemma read_length_progress: "read_length d i = Inr (j, k) \<Longrightarrow> i < j \<and> j \<le> k \<and> k \<le> length d"
  by (auto simp: read_length_def split: sum.splits prod.splits if_splits
      dest!: read_varint_progress advance_Inr)

lemma read_field_progress: "read_field f w d i m = Inr (j, m') \<Longrightarrow> i < j"
  by (auto simp: read_field_def split: field.splits sum.splits prod.splits if_splits
      dest!: read_varint_progress read_length_progress)

lemma read_entry_progress: "read_entry fields d i m = Inr (j, m') \<Longrightarrow> i < j"
  by (auto simp: read_entry_def skip_def Let_def split: sum.splits prod.splits if_splits option.splits
      dest!: read_varint_progress read_field_progress skip_from_progress)

function unmarshal_from :: "(nat \<Rightarrow> 'm field option) \<Rightarrow> bytes \<Rightarrow> nat \<Rightarrow> 'm \<Rightarrow> pb_error + 'm" where
  "unmarshal_from fields dAtA iNdEx m =
     (if iNdEx < length dAtA
      then (case read_entry fields dAtA iNdEx m of
              Inl e \<Rightarrow> Inl e
            | Inr (iNdEx', m') \<Rightarrow> unmarshal_from fields dAtA iNdEx' m')
      else if iNdEx > length dAtA then Inl UnexpectedEOF else Inr m)"
  by auto
termination
  by (relation "measure (\<lambda>(f, d, i, m). length d - i)") (auto dest!: read_entry_progress)

declare unmarshal_from.simps [simp del]

definition unmarshal :: "(nat \<Rightarrow> 'm field option) \<Rightarrow> bytes \<Rightarrow> 'm \<Rightarrow> pb_error + 'm" where
  "unmarshal fields dAtA m = unmarshal_from fields dAtA 0 m"

section \<open>Reading back what was written\<close>

text \<open>The tag byte of field \<open>n\<close> with wire type \<open>w\<close>, for the field numbers below 16 that
  all messages here have.\<close>

definition tag_byte :: "nat \<Rightarrow> nat \<Rightarrow> char" where
  "tag_byte n w = char_of (8 * n + w)"

definition put_string :: "char \<Rightarrow> bytes \<Rightarrow> bytes \<Rightarrow> bytes" where
  "put_string tag s written =
     (if length s > 0 then tag # encodeVarint (word_of_nat (length s)) (s @ written) else written)"

definition put_int :: "char \<Rightarrow> uint64 \<Rightarrow> bytes \<Rightarrow> bytes" where
  "put_int tag v written = (if v \<noteq> 0 then tag # encodeVarint v written else written)"

definition put_message :: "char \<Rightarrow> bytes \<Rightarrow> bytes \<Rightarrow> bytes" where
  "put_message tag bs written = tag # encodeVarint (word_of_nat (length bs)) (bs @ written)"

lemma unat_small: "n < 2 ^ 63 \<Longrightarrow> unat (word_of_nat n :: 64 word) = n"
  by (simp add: unsigned_of_nat take_bit_nat_eq_self)

lemma sint_of_nat_small: "n < 2 ^ 63 \<Longrightarrow> sint (word_of_nat n :: 64 word) = int n"
  by (simp add: signed_of_nat signed_take_bit_int_eq_self)

lemma advance_ok: "i + n < 2 ^ 63 \<Longrightarrow> advance i (word_of_nat n) = Inr (i + n)"
  by (simp add: advance_def sint_of_nat_small nat_int_add)

lemma varint_bytes_small: "k < 128 \<Longrightarrow> varint_bytes (word_of_nat k) = [char_of k]"
proof -
  assume k: "k < 128"
  then have u: "unat (word_of_nat k :: uint64) = k" "unat (ucast (word_of_nat k :: uint64) :: 8 word) = k"
    by (simp_all add: unsigned_ucast_eq unsigned_of_nat take_bit_nat_eq_self)
  then have "\<not> 0x80 \<le> (word_of_nat k :: uint64)"
    using k by (simp add: word_le_nat_alt)
  then show ?thesis
    by (subst varint_bytes.simps) (simp add: char_of_byte_def u(2))
qed

lemma read_tag:
  "k < 128 \<Longrightarrow> varint (pre @ char_of k # post) (length pre) = Inr (word_of_nat k :: uint64, Suc (length pre))"
  using varint_encode [of pre "word_of_nat k" post, where ?'a = 64] by (simp add: varint_bytes_small)

lemma tag_field:
  "k < 128 \<Longrightarrow> unat (ucast (drop_bit 3 (word_of_nat k :: uint64)) :: int32) = k div 8"
  by (simp add: unsigned_ucast_eq unsigned_drop_bit_eq unsigned_of_nat take_bit_nat_eq_self
      drop_bit_eq_div unat_div)

lemma tag_field_sint:
  assumes "k < 128"
  shows "sint (ucast (drop_bit 3 (word_of_nat k :: uint64)) :: int32) = int (k div 8)"
proof -
  let ?x = "ucast (drop_bit 3 (word_of_nat k :: uint64)) :: int32"
  have "sint ?x = signed_take_bit 31 (int (unat ?x))"
    by (simp add: sint_uint)
  also have "\<dots> = int (k div 8)"
    unfolding tag_field [OF assms] using assms by (intro signed_take_bit_int_eq_self) auto
  finally show ?thesis .
qed

lemma tag_wire:
  assumes "k < 128"
  shows "unat ((word_of_nat k :: uint64) AND 0x7) = k mod 8"
proof -
  have "(0x7 :: uint64) = mask 3"
    by (simp add: mask_eq_exp_minus_1)
  then have "(word_of_nat k :: uint64) AND 0x7 = take_bit 3 (word_of_nat k)"
    by (simp only: take_bit_eq_mask)
  with assms show ?thesis
    by (simp only: unsigned_take_bit_eq) (simp add: unat_small take_bit_eq_mod)
qed

lemma slice_middle: "i = length pre \<Longrightarrow> j = i + length s \<Longrightarrow> slice (pre @ s @ post) i j = s"
  by (simp add: slice_def)

lemma read_length_ok:
  fixes s :: bytes
  assumes "length pre + length (encodeVarint (word_of_nat (length s)) (s @ post)) < 2 ^ 63"
  defines "i \<equiv> length pre + length (varint_bytes (word_of_nat (length s)))"
  shows "read_length (pre @ encodeVarint (word_of_nat (length s)) (s @ post)) (length pre) =
     Inr (i, i + length s)"
proof -
  have fit: "i + length s < 2 ^ 63"
    using assms by (simp add: encodeVarint_def)
  then have "0 \<le> sint (word_of_nat (length s) :: int64)"
    by (simp add: sint_of_nat_small)
  with fit show ?thesis
    using varint_encode [of pre "word_of_nat (length s)" "s @ post", where ?'a = 64] advance_ok [OF fit]
    by (simp add: read_length_def encodeVarint_def i_def)
qed

text \<open>The state of the loop in front of \<open>rest\<close>, with \<open>pre\<close> already read.\<close>

definition unmarshal_at :: "(nat \<Rightarrow> 'm field option) \<Rightarrow> bytes \<Rightarrow> bytes \<Rightarrow> 'm \<Rightarrow> pb_error + 'm" where
  "unmarshal_at fields pre rest m = unmarshal_from fields (pre @ rest) (length pre) m"

lemma unmarshal_entry:
  assumes "fields n = Some f" and "n < 16" and "n \<noteq> 0" and "w < 8" and "w \<noteq> 4"
    and "read_field f w (pre @ tag_byte n w # q @ rest) (Suc (length pre)) m =
       Inr (Suc (length pre) + length q, m')"
  shows "unmarshal_at fields pre (tag_byte n w # q @ rest) m = unmarshal_at fields (pre @ tag_byte n w # q) rest m'"
proof -
  define k where "k = 8 * n + w"
  have k: "k < 128" "k div 8 = n" "k mod 8 = w" "tag_byte n w = char_of k"
    using assms(2,4) by (simp_all add: k_def tag_byte_def)
  have "read_entry fields (pre @ tag_byte n w # q @ rest) (length pre) m =
      Inr (Suc (length pre) + length q, m')"
    using assms(1,3,5,6) read_tag [OF k(1), of pre "q @ rest"] tag_field [OF k(1)] tag_field_sint [OF k(1)]
      tag_wire [OF k(1)] by (simp add: read_entry_def k(2-4))
  then show ?thesis
    unfolding unmarshal_at_def by (subst unmarshal_from.simps) simp
qed

lemma put_string_append: "put_string tag s rest = put_string tag s [] @ rest"
  by (simp add: put_string_def encodeVarint_def)

lemma put_int_append: "put_int tag v rest = put_int tag v [] @ rest"
  by (simp add: put_int_def encodeVarint_def)

lemma put_message_append: "put_message tag s rest = put_message tag s [] @ rest"
  by (simp add: put_message_def encodeVarint_def)

text \<open>One marshalled field in front of \<open>rest\<close> is read into the message; \<open>fits\<close> is the
  bound on the length of a Go slice.\<close>

definition fits :: "bytes \<Rightarrow> bytes \<Rightarrow> bool" where
  "fits pre rest \<longleftrightarrow> length pre + length rest < 2 ^ 63"

lemma fits_append: "fits pre (q @ rest) \<Longrightarrow> fits (pre @ q) rest"
  by (simp add: fits_def)

lemma unmarshal_string:
  assumes "fields n = Some (StringField name put)" and "n < 16" and "n \<noteq> 0"
    and "fits pre (put_string (tag_byte n 2) s rest)"
  shows "unmarshal_at fields pre (put_string (tag_byte n 2) s rest) m =
     unmarshal_at fields (pre @ put_string (tag_byte n 2) s []) rest (if s = '''' then m else put s m)"
    and "fits (pre @ put_string (tag_byte n 2) s []) rest"
proof -
  let ?t = "tag_byte n 2" and ?len = "varint_bytes (word_of_nat (length s))"
  show "fits (pre @ put_string ?t s []) rest"
    using assms(4) by (simp add: fits_append put_string_append [of _ _ rest])
  show "unmarshal_at fields pre (put_string ?t s rest) m =
      unmarshal_at fields (pre @ put_string ?t s []) rest (if s = '''' then m else put s m)"
  proof (cases "s = ''''")
    case False
    have "read_length ((pre @ [?t]) @ encodeVarint (word_of_nat (length s)) (s @ rest)) (length (pre @ [?t])) =
        Inr (length (pre @ [?t]) + length ?len, length (pre @ [?t]) + length ?len + length s)"
      using assms(4) False by (intro read_length_ok) (simp add: fits_def put_string_def)
    moreover have "slice ((pre @ ?t # ?len) @ s @ rest) (length (pre @ ?t # ?len)) (length (pre @ ?t # ?len) + length s) = s"
      by (rule slice_middle) simp_all
    ultimately have "read_field (StringField name put) 2 (pre @ ?t # (?len @ s) @ rest) (Suc (length pre)) m =
        Inr (Suc (length pre) + length (?len @ s), put s m)"
      by (simp add: read_field_def encodeVarint_def)
    from unmarshal_entry [where fields = fields and n = n and pre = pre and rest = rest and w = 2 and q = "?len @ s", OF assms(1-3) _ _ this] False show ?thesis
      by (simp add: put_string_def encodeVarint_def)
  qed (simp add: put_string_def)
qed

lemma unmarshal_message:
  assumes "fields n = Some (MessageField name add)" and "n < 16" and "n \<noteq> 0"
    and "add s m = Inr m'"
    and "fits pre (put_message (tag_byte n 2) s rest)"
  shows "unmarshal_at fields pre (put_message (tag_byte n 2) s rest) m =
     unmarshal_at fields (pre @ put_message (tag_byte n 2) s []) rest m'"
    and "fits (pre @ put_message (tag_byte n 2) s []) rest"
proof -
  let ?t = "tag_byte n 2" and ?len = "varint_bytes (word_of_nat (length s))"
  show "fits (pre @ put_message ?t s []) rest"
    using assms(5) by (simp add: fits_append put_message_append [of _ _ rest])
  have "read_length ((pre @ [?t]) @ encodeVarint (word_of_nat (length s)) (s @ rest)) (length (pre @ [?t])) =
      Inr (length (pre @ [?t]) + length ?len, length (pre @ [?t]) + length ?len + length s)"
    using assms(5) by (intro read_length_ok) (simp add: fits_def put_message_def)
  moreover have "slice ((pre @ ?t # ?len) @ s @ rest) (length (pre @ ?t # ?len)) (length (pre @ ?t # ?len) + length s) = s"
    by (rule slice_middle) simp_all
  ultimately have "read_field (MessageField name add) 2 (pre @ ?t # (?len @ s) @ rest) (Suc (length pre)) m =
      Inr (Suc (length pre) + length (?len @ s), m')"
    using assms(4) by (simp add: read_field_def encodeVarint_def)
  from unmarshal_entry [where fields = fields and n = n and pre = pre and rest = rest and w = 2 and q = "?len @ s", OF assms(1-3) _ _ this] show
    "unmarshal_at fields pre (put_message ?t s rest) m = unmarshal_at fields (pre @ put_message ?t s []) rest m'"
    by (simp add: put_message_def encodeVarint_def)
qed

lemma read_int:
  "read_varint (pre @ t # varint_bytes v @ rest) (Suc (length pre)) 0 0 =
     Inr (ucast v :: 'a::len word, Suc (length pre) + length (varint_bytes v))"
  using varint_encode [of "pre @ [t]" v rest, where ?'a = 'a] by simp

lemma unmarshal_int:
  assumes "n < 16" and "n \<noteq> 0" and "fits pre (put_int (tag_byte n 0) v rest)"
    and "fields n = Some (Int64Field name put64) \<and> m' = put64 v m \<or>
      fields n = Some (Int32Field name put32) \<and> m' = put32 (ucast v) m"
  shows "unmarshal_at fields pre (put_int (tag_byte n 0) v rest) m =
     unmarshal_at fields (pre @ put_int (tag_byte n 0) v []) rest (if v = 0 then m else m')"
    and "fits (pre @ put_int (tag_byte n 0) v []) rest"
proof -
  let ?t = "tag_byte n 0"
  show "fits (pre @ put_int ?t v []) rest"
    using assms(3) by (simp add: fits_append put_int_append [of _ _ rest])
  obtain f where f: "fields n = Some f"
      "read_field f 0 (pre @ ?t # varint_bytes v @ rest) (Suc (length pre)) m =
        Inr (Suc (length pre) + length (varint_bytes v), m')"
    using assms(4) read_int [of pre ?t v rest, where ?'a = 64] read_int [of pre ?t v rest, where ?'a = 32]
    by (auto simp: read_field_def)
  from unmarshal_entry [where fields = fields and n = n and pre = pre and rest = rest and w = 0 and q = "varint_bytes v", OF f(1) assms(1,2) _ _ f(2)] show
    "unmarshal_at fields pre (put_int ?t v rest) m =
       unmarshal_at fields (pre @ put_int ?t v []) rest (if v = 0 then m else m')"
    by (simp add: put_int_def encodeVarint_def)
qed

lemma unmarshal_end: "unmarshal_at fields pre [] m = Inr m"
  by (simp add: unmarshal_at_def unmarshal_from.simps)

lemma unmarshal_start: "unmarshal fields bs m = unmarshal_at fields [] bs m"
  by (simp add: unmarshal_def unmarshal_at_def)

lemma length_put_string [simp]:
  "length (put_string tag s rest) = (if s = '''' then 0 else 1 + length s + sov (word_of_nat (length s))) + length rest"
  by (simp add: put_string_def encodeVarint_def length_varint_bytes)

lemma length_put_int [simp]:
  "length (put_int tag v rest) = (if v = 0 then 0 else 1 + sov v) + length rest"
  by (simp add: put_int_def encodeVarint_def length_varint_bytes)

lemma length_put_message [simp]:
  "length (put_message tag s rest) = 1 + length s + sov (word_of_nat (length s)) + length rest"
  by (simp add: put_message_def encodeVarint_def length_varint_bytes)

end
