(* ===== verification/ProviderCodec.thy ===== *)
theory ProviderCodec
  imports QueryServer Wire
begin

text \<open>
  The encoding of consumer chains (provider.pb.go) and of the query for the active chains
  (query.pb.go), which the multiplexer and the provider exchange. \<open>page_Unmarshal\<close> is the
  SDK's \<open>PageResponse.Unmarshal\<close>, which reads into an existing value. Main results:
  \<open>Size\<close> is the length of what \<open>MarshalToSizedBuffer\<close> writes, so \<open>Marshal\<close>
  never runs out of its buffer, and unmarshalling inverts marshalling.
\<close>

section \<open>ConsumerChain (provider.pb.go)\<close>

definition zero_ConsumerChain :: ConsumerChain where
  "zero_ConsumerChain = \<lparr>ChainId = '''', Name = '''', Version = '''', Status = 0, AddedAt = 0,
     SunsetAt = 0, ModuleAccountAddress = ''''\<rparr>"

definition ConsumerChain_Size :: "ConsumerChain \<Rightarrow> nat" where
  "ConsumerChain_Size m =
     (let str = (\<lambda>s :: string. let l = length s in if l > 0 then 1 + l + sov (word_of_nat l) else 0);
          num = (\<lambda>v :: uint64. if v \<noteq> 0 then 1 + sov v else 0)
      in str (ChainId m) + str (Name m) + str (Version m) + num (scast (Status m)) +
         num (AddedAt m) + num (SunsetAt m) + str (ModuleAccountAddress m))"

definition ConsumerChain_MarshalToSizedBuffer :: "ConsumerChain \<Rightarrow> bytes \<Rightarrow> bytes" where
  "ConsumerChain_MarshalToSizedBuffer m written =
     (let written = put_string (CHR 0x3A) (ModuleAccountAddress m) written;
          written = put_int (CHR 0x30) (SunsetAt m) written;
          written = put_int (CHR 0x28) (AddedAt m) written;
          written = put_int (CHR 0x20) (scast (Status m)) written;
          written = put_string (CHR 0x1A) (Version m) written;
          written = put_string (CHR 0x12) (Name m) written
      in put_string (CHR 0x0A) (ChainId m) written)"

text \<open>\<open>Marshal\<close> of every message: a buffer of the computed size, filled from its end, of
  which the first as many bytes as were written are returned.\<close>

definition marshal_sized :: "nat \<Rightarrow> bytes \<Rightarrow> fault + bytes" where
  "marshal_sized sz written =
     (if length written > sz then Inl (Panic ''index out of range'')
      else let dAtA = replicate (sz - length written) (CHR 0x00) @ written
           in Inr (take (length written) dAtA))"

definition ConsumerChain_Marshal :: "ConsumerChain \<Rightarrow> fault + bytes" where
  "ConsumerChain_Marshal m =
     marshal_sized (ConsumerChain_Size m) (ConsumerChain_MarshalToSizedBuffer m [])"

definition ConsumerChain_fields :: "nat \<Rightarrow> ConsumerChain field option" where
  "ConsumerChain_fields n =
     (if n = 1 then Some (StringField ''ChainId'' (\<lambda>s m. m\<lparr>ChainId := s\<rparr>))
      else if n = 2 then Some (StringField ''Name'' (\<lambda>s m. m\<lparr>Name := s\<rparr>))
      else if n = 3 then Some (StringField ''Version'' (\<lambda>s m. m\<lparr>Version := s\<rparr>))
      else if n = 4 then Some (Int32Field ''Status'' (\<lambda>v m. m\<lparr>Status := v\<rparr>))
      else if n = 5 then Some (Int64Field ''AddedAt'' (\<lambda>v m. m\<lparr>AddedAt := v\<rparr>))
      else if n = 6 then Some (Int64Field ''SunsetAt'' (\<lambda>v m. m\<lparr>SunsetAt := v\<rparr>))
      else if n = 7
      then Some (StringField ''ModuleAccountAddress'' (\<lambda>s m. m\<lparr>ModuleAccountAddress := s\<rparr>))
      else None)"

definition ConsumerChain_Unmarshal :: "bytes \<Rightarrow> ConsumerChain \<Rightarrow> pb_error + ConsumerChain" where
  "ConsumerChain_Unmarshal dAtA m = unmarshal ConsumerChain_fields dAtA m"

section \<open>The query for the active chains (query.pb.go)\<close>

definition ActiveRequest_Size :: "QueryActiveConsumerChainsRequest \<Rightarrow> nat" where
  "ActiveRequest_Size m =
     (case QAC_Pagination m of None \<Rightarrow> 0 | Some p \<Rightarrow> 1 + length p + sov (word_of_nat (length p)))"

definition ActiveRequest_MarshalToSizedBuffer :: "QueryActiveConsumerChainsRequest \<Rightarrow> bytes \<Rightarrow> bytes" where
  "ActiveRequest_MarshalToSizedBuffer m written =
     (case QAC_Pagination m of None \<Rightarrow> written | Some p \<Rightarrow> put_message (CHR 0x0A) p written)"

definition ActiveRequest_Marshal :: "QueryActiveConsumerChainsRequest \<Rightarrow> fault + bytes" where
  "ActiveRequest_Marshal m = marshal_sized (ActiveRequest_Size m) (ActiveRequest_MarshalToSizedBuffer m [])"

definition ActiveResponse_Size :: "QueryActiveConsumerChainsResponse \<Rightarrow> nat" where
  "ActiveResponse_Size m =
     (\<Sum>e\<leftarrow>QAC_ConsumerChains m.
        let l = ConsumerChain_Size e in 1 + l + sov (word_of_nat l)) +
     (case QAC_PageResponse m of None \<Rightarrow> 0 | Some p \<Rightarrow> 1 + length p + sov (word_of_nat (length p)))"

text \<open>The loop over the chains runs from the last to the first.\<close>

definition ActiveResponse_MarshalToSizedBuffer :: "QueryActiveConsumerChainsResponse \<Rightarrow> bytes \<Rightarrow> bytes" where
  "ActiveResponse_MarshalToSizedBuffer m written =
     (let written = (case QAC_PageResponse m of
            None \<Rightarrow> written | Some p \<Rightarrow> put_message (CHR 0x12) p written)
      in foldr (\<lambda>c. put_message (CHR 0x0A) (ConsumerChain_MarshalToSizedBuffer c []))
           (QAC_ConsumerChains m) written)"

definition ActiveResponse_Marshal :: "QueryActiveConsumerChainsResponse \<Rightarrow> fault + bytes" where
  "ActiveResponse_Marshal m =
     marshal_sized (ActiveResponse_Size m) (ActiveResponse_MarshalToSizedBuffer m [])"

definition zero_ActiveResponse :: QueryActiveConsumerChainsResponse where
  "zero_ActiveResponse = \<lparr>QAC_ConsumerChains = [], QAC_PageResponse = None\<rparr>"

definition add_chain ::
    "bytes \<Rightarrow> QueryActiveConsumerChainsResponse \<Rightarrow> pb_error + QueryActiveConsumerChainsResponse" where
  "add_chain bs m =
     (case ConsumerChain_Unmarshal bs zero_ConsumerChain of
        Inl e \<Rightarrow> Inl e
      | Inr c \<Rightarrow> Inr (m\<lparr>QAC_ConsumerChains := QAC_ConsumerChains m @ [c]\<rparr>))"

definition ActiveResponse_fields ::
    "(bytes \<Rightarrow> page \<Rightarrow> pb_error + page) \<Rightarrow> nat \<Rightarrow> QueryActiveConsumerChainsResponse field option" where
  "ActiveResponse_fields page_Unmarshal n =
     (if n = 1 then Some (MessageField ''ConsumerChains'' add_chain)
      else if n = 2
      then Some (MessageField ''Pagination'' (\<lambda>bs m.
             case page_Unmarshal bs (case QAC_PageResponse m of None \<Rightarrow> '''' | Some p \<Rightarrow> p) of
               Inl e \<Rightarrow> Inl e
             | Inr p \<Rightarrow> Inr (m\<lparr>QAC_PageResponse := Some p\<rparr>)))
      else None)"

definition ActiveResponse_Unmarshal ::
    "(bytes \<Rightarrow> page \<Rightarrow> pb_error + page) \<Rightarrow> bytes \<Rightarrow> QueryActiveConsumerChainsResponse \<Rightarrow>
     pb_error + QueryActiveConsumerChainsResponse" where
  "ActiveResponse_Unmarshal page_Unmarshal dAtA m = unmarshal (ActiveResponse_fields page_Unmarshal) dAtA m"

section \<open>Sizes\<close>

lemma marshal_sized_exact: "length written = sz \<Longrightarrow> marshal_sized sz written = Inr written"
  by (simp add: marshal_sized_def)

lemma length_ConsumerChain: "length (ConsumerChain_MarshalToSizedBuffer m w) = ConsumerChain_Size m + length w"
  by (simp add: ConsumerChain_MarshalToSizedBuffer_def ConsumerChain_Size_def Let_def)

lemma ConsumerChain_Marshal_ok: "ConsumerChain_Marshal m = Inr (ConsumerChain_MarshalToSizedBuffer m [])"
  unfolding ConsumerChain_Marshal_def by (rule marshal_sized_exact) (simp add: length_ConsumerChain)

lemma ActiveRequest_Marshal_ok: "ActiveRequest_Marshal m = Inr (ActiveRequest_MarshalToSizedBuffer m [])"
  unfolding ActiveRequest_Marshal_def
  by (rule marshal_sized_exact)
    (simp add: ActiveRequest_MarshalToSizedBuffer_def ActiveRequest_Size_def split: option.split)

lemma length_chains:
  "length (foldr (\<lambda>c. put_message t (ConsumerChain_MarshalToSizedBuffer c [])) cs w) =
     (\<Sum>e\<leftarrow>cs. let l = ConsumerChain_Size e in 1 + l + sov (word_of_nat l)) + length w"
  by (induction cs) (simp_all add: length_ConsumerChain Let_def)

lemma ActiveResponse_Marshal_ok: "ActiveResponse_Marshal m = Inr (ActiveResponse_MarshalToSizedBuffer m [])"
  unfolding ActiveResponse_Marshal_def
  by (rule marshal_sized_exact)
    (simp add: ActiveResponse_MarshalToSizedBuffer_def ActiveResponse_Size_def length_chains
      split: option.split)

section \<open>Round trips\<close>

lemma tags:
  "CHR 0x0A = tag_byte 1 2" "CHR 0x12 = tag_byte 2 2" "CHR 0x1A = tag_byte 3 2" "CHR 0x20 = tag_byte 4 0"
  "CHR 0x28 = tag_byte 5 0" "CHR 0x30 = tag_byte 6 0" "CHR 0x3A = tag_byte 7 2"
  by (simp_all add: tag_byte_def char_of_def bit_Suc_0_iff)

lemma ucast_scast_32: "ucast (scast (s :: int32) :: uint64) = s"
  by (rule bit_eqI) (auto simp: bit_simps)

lemma scast_zero_iff: "scast (s :: int32) = (0 :: uint64) \<longleftrightarrow> s = 0"
  by (metis ucast_scast_32 unsigned_0 signed_0)

lemma ConsumerChain_roundtrip:
  assumes "ConsumerChain_Size m < 2 ^ 63"
  shows "ConsumerChain_Unmarshal (ConsumerChain_MarshalToSizedBuffer m []) zero_ConsumerChain = Inr m"
proof -
  have f: "ConsumerChain_fields 1 = Some (StringField ''ChainId'' (\<lambda>s m. m\<lparr>ChainId := s\<rparr>))"
    "ConsumerChain_fields 2 = Some (StringField ''Name'' (\<lambda>s m. m\<lparr>Name := s\<rparr>))"
    "ConsumerChain_fields 3 = Some (StringField ''Version'' (\<lambda>s m. m\<lparr>Version := s\<rparr>))"
    "ConsumerChain_fields 4 = Some (Int32Field ''Status'' (\<lambda>v m. m\<lparr>Status := v\<rparr>))"
    "ConsumerChain_fields 5 = Some (Int64Field ''AddedAt'' (\<lambda>v m. m\<lparr>AddedAt := v\<rparr>))"
    "ConsumerChain_fields 6 = Some (Int64Field ''SunsetAt'' (\<lambda>v m. m\<lparr>SunsetAt := v\<rparr>))"
    "ConsumerChain_fields 7 =
      Some (StringField ''ModuleAccountAddress'' (\<lambda>s m. m\<lparr>ModuleAccountAddress := s\<rparr>))"
    by (simp_all add: ConsumerChain_fields_def)
  have n: "(1::nat) < 16" "(2::nat) < 16" "(3::nat) < 16" "(4::nat) < 16" "(5::nat) < 16" "(6::nat) < 16"
      "(7::nat) < 16" "(1::nat) \<noteq> 0" "(2::nat) \<noteq> 0" "(3::nat) \<noteq> 0" "(4::nat) \<noteq> 0" "(5::nat) \<noteq> 0"
      "(6::nat) \<noteq> 0" "(7::nat) \<noteq> 0"
    by simp_all
  define w7 where "w7 = put_string (tag_byte 7 2) (ModuleAccountAddress m) []"
  define w6 where "w6 = put_int (tag_byte 6 0) (SunsetAt m) w7"
  define w5 where "w5 = put_int (tag_byte 5 0) (AddedAt m) w6"
  define w4 where "w4 = put_int (tag_byte 4 0) (scast (Status m)) w5"
  define w3 where "w3 = put_string (tag_byte 3 2) (Version m) w4"
  define w2 where "w2 = put_string (tag_byte 2 2) (Name m) w3"
  have bytes: "ConsumerChain_MarshalToSizedBuffer m [] = put_string (tag_byte 1 2) (ChainId m) w2"
    by (simp add: ConsumerChain_MarshalToSizedBuffer_def Let_def tags w2_def w3_def w4_def w5_def w6_def w7_def)
  have fit: "fits [] (put_string (tag_byte 1 2) (ChainId m) w2)"
    using assms length_ConsumerChain [of m "[]"] unfolding bytes fits_def by simp
  note s1 = unmarshal_string [where fields = ConsumerChain_fields and n = 1, OF f(1) n(1,8) fit]
  note s2 = unmarshal_string [where fields = ConsumerChain_fields and n = 2, OF f(2) n(2,9) s1(2) [unfolded w2_def]]
  note s3 = unmarshal_string [where fields = ConsumerChain_fields and n = 3, OF f(3) n(3,10) s2(2) [unfolded w3_def]]
  note s4 = unmarshal_int [where fields = ConsumerChain_fields and n = 4, OF n(4,11) s3(2) [unfolded w4_def] disjI2 [OF conjI [OF f(4) refl]]]
  note s5 = unmarshal_int [where fields = ConsumerChain_fields and n = 5, OF n(5,12) s4(2) [unfolded w5_def] disjI1 [OF conjI [OF f(5) refl]]]
  note s6 = unmarshal_int [where fields = ConsumerChain_fields and n = 6, OF n(6,13) s5(2) [unfolded w6_def] disjI1 [OF conjI [OF f(6) refl]]]
  note s7 = unmarshal_string [where fields = ConsumerChain_fields and n = 7, OF f(7) n(7,14) s6(2) [unfolded w7_def]]
  have "unmarshal_at ConsumerChain_fields [] (put_string (tag_byte 1 2) (ChainId m) w2) zero_ConsumerChain = Inr m"
    unfolding s1(1) unfolding w2_def s2(1) unfolding w3_def s3(1) unfolding w4_def s4(1)
    unfolding w5_def s5(1) unfolding w6_def s6(1) unfolding w7_def s7(1) unfolding unmarshal_end
    by (simp add: zero_ConsumerChain_def ucast_scast_32 scast_zero_iff)
  then show ?thesis
    by (simp add: ConsumerChain_Unmarshal_def unmarshal_start bytes)
qed

lemma ActiveResponse_chains:
  assumes "fits pre (foldr (\<lambda>c. put_message (tag_byte 1 2) (ConsumerChain_MarshalToSizedBuffer c [])) cs [])"
  shows "unmarshal_at (ActiveResponse_fields pu) pre
       (foldr (\<lambda>c. put_message (tag_byte 1 2) (ConsumerChain_MarshalToSizedBuffer c [])) cs []) m =
     Inr (m\<lparr>QAC_ConsumerChains := QAC_ConsumerChains m @ cs\<rparr>)"
  using assms
proof (induction cs arbitrary: pre m)
  case (Cons c cs)
  let ?bs = "ConsumerChain_MarshalToSizedBuffer c []"
  let ?rest = "foldr (\<lambda>c. put_message (tag_byte 1 2) (ConsumerChain_MarshalToSizedBuffer c [])) cs []"
  have "length ?bs < 2 ^ 63"
    using Cons.prems by (simp add: fits_def)
  then have "ConsumerChain_Unmarshal ?bs zero_ConsumerChain = Inr c"
    by (intro ConsumerChain_roundtrip) (simp add: length_ConsumerChain)
  then have add: "add_chain ?bs m = Inr (m\<lparr>QAC_ConsumerChains := QAC_ConsumerChains m @ [c]\<rparr>)"
    by (simp add: add_chain_def)
  have f: "ActiveResponse_fields pu 1 = Some (MessageField ''ConsumerChains'' add_chain)"
    by (simp add: ActiveResponse_fields_def)
  have fit: "fits pre (put_message (tag_byte 1 2) ?bs ?rest)"
    using Cons.prems by simp
  note step = unmarshal_message [where fields = "ActiveResponse_fields pu" and n = 1, OF f _ _ add fit]
  show ?case
    using step(1) Cons.IH [OF step(2)] by simp
qed (simp add: unmarshal_end)

lemma ActiveResponse_roundtrip:
  assumes "ActiveResponse_Size \<lparr>QAC_ConsumerChains = cs, QAC_PageResponse = None\<rparr> < 2 ^ 63"
  shows "ActiveResponse_Unmarshal pu
       (ActiveResponse_MarshalToSizedBuffer \<lparr>QAC_ConsumerChains = cs, QAC_PageResponse = None\<rparr> [])
       zero_ActiveResponse = Inr \<lparr>QAC_ConsumerChains = cs, QAC_PageResponse = None\<rparr>"
proof -
  have "fits [] (foldr (\<lambda>c. put_message (tag_byte 1 2) (ConsumerChain_MarshalToSizedBuffer c [])) cs [])"
    using assms by (simp add: fits_def length_chains ActiveResponse_Size_def)
  then show ?thesis
    using ActiveResponse_chains [of "[]" cs pu zero_ActiveResponse]
    by (simp add: ActiveResponse_Unmarshal_def ActiveResponse_MarshalToSizedBuffer_def unmarshal_start tags
        zero_ActiveResponse_def)
qed

section \<open>Properties\<close>

text \<open>Marshal of a consumer chain always succeeds, writes exactly Size bytes, and Unmarshal
  reads the chain back, with every status and height, also negative ones.\<close>

theorem ConsumerChain_codec:
  assumes "ConsumerChain_Size m < 2 ^ 63"
  shows "\<exists>bs. ConsumerChain_Marshal m = Inr bs \<and> length bs = ConsumerChain_Size m \<and>
     ConsumerChain_Unmarshal bs zero_ConsumerChain = Inr m"
  using ConsumerChain_Marshal_ok ConsumerChain_roundtrip [OF assms] length_ConsumerChain [of m "[]"] by simp

theorem ConsumerChain_codec_witness:
  "\<exists>bs. ConsumerChain_Marshal (demo_chain ''b'' (- 1)) = Inr bs \<and>
     ConsumerChain_Unmarshal bs zero_ConsumerChain = Inr (demo_chain ''b'' (- 1))"
proof -
  have "ConsumerChain_Size (demo_chain ''b'' (- 1)) < 2 ^ 63"
    using sov_le_10 [of 1] sov_le_10 [of 2] sov_le_10 [of 20] sov_le_10 [of 5] sov_le_10 [of "scast (- 1 :: int32)"]
    by (simp add: ConsumerChain_Size_def demo_chain_def)
  with ConsumerChain_codec [of "demo_chain ''b'' (- 1)"] show ?thesis by blast
qed

end
