(* ===== verification/Multiplexer.thy ===== *)
theory Multiplexer
  imports AbciTypes Header ProviderCodec
begin

text \<open>
  abci/multiplexer.go: the state of the multiplexer, its construction, the genesis values, the
  handlers of the configured chains, the halt conditions, the query for the active chains and the
  initialisation of a consumer chain. \<open>'p\<close> is the state of the provider application and
  \<open>'c\<close> the state behind the connection to a consumer application; the functions the
  multiplexer calls on them, and what it takes from other packages, are the record
  \<open>mux_env\<close>. Logging is left out. Two handlers never share an application here: that
  two chains are configured with one address is not modelled.
\<close>

section \<open>State\<close>

record 'c ChainHandler =
  ch_ChainID :: string
  ch_app :: 'c
  ch_config :: ChainInfo

record ServerConfig =
  HaltHeight :: uint64
  HaltTime :: uint64

record ('p, 'c) Multiplexer =
  svrCfg :: ServerConfig
  providerChain :: 'p
  providerChainID :: string
  chainHandlers :: "'c ChainHandler gomap"
  rejectedConsumerChains :: "bool gomap"
  initializedConsumerChains :: "bool gomap"
  activeChains :: "bool gomap"
  providerGenesisValidators :: "ValidatorUpdate list"
  providerGenesisConsensusParams :: "ConsensusParams option"
  chainConfig :: Config

text \<open>A genesis document has the validators' keys and powers; a key is converted by CometBFT's
  \<open>PubKeyToProto\<close>, which can fail.\<close>

record GenesisDoc =
  gd_Validators :: "(bytes \<times> int64) list"
  gd_ConsensusParams :: ConsensusParams

record ('p, 'c) mux_env =
  provider :: "'p ABCI"
  remote :: "'c ABCI"
  AppGenesisFromFile :: "string \<Rightarrow> string + bytes"
  GenDocProvider :: "string + GenesisDoc"
  PubKeyToProto :: "bytes \<Rightarrow> string + bytes"
  grpc_NewClient :: "string \<Rightarrow> string + 'c"
  page_Unmarshal :: "bytes \<Rightarrow> page \<Rightarrow> pb_error + page"

datatype mux_error =
    MarshalRequest fault
  | QueryFailed string
  | QueryCode uint32 string
  | UnmarshalResponse pb_error
  | ActiveChainsFailed mux_error
  | HandlerNotFound string
  | LoadGenesisFailed string config_error
  | InitializeFailed string string
  | HaltAtHeight uint64
  | HaltAtTime uint64
  | NodeShouldHalt mux_error
  | InvalidTx nat string
  | ProviderFinalizeFailed string
  | AppError string
  | LoadGenesisDoc string
  | ConvertPubKey string
  | PrepareConnection string
  | ConnectionFailed string mux_error
  | DuplicateChainID string

section \<open>Construction and startup\<close>

text \<open>\<open>p0\<close> and the empty id stand for the fields that \<open>Start\<close> sets.\<close>

definition NewMultiplexer :: "ServerConfig \<Rightarrow> 'p \<Rightarrow> Config \<Rightarrow> ('p, 'c) Multiplexer" where
  "NewMultiplexer cfg p0 chainCfg =
     \<lparr>svrCfg = cfg, providerChain = p0, providerChainID = '''', chainHandlers = fmempty,
      rejectedConsumerChains = fmempty, initializedConsumerChains = fmempty, activeChains = fmempty,
      providerGenesisValidators = [], providerGenesisConsensusParams = None, chainConfig = chainCfg\<rparr>"

fun convert_validators ::
    "(bytes \<Rightarrow> string + bytes) \<Rightarrow> ValidatorUpdate list \<Rightarrow> (bytes \<times> int64) list \<Rightarrow>
     ValidatorUpdate list \<times> (mux_error + unit)" where
  "convert_validators conv vals [] = (vals, Inr ())"
| "convert_validators conv vals ((key, pw) # rest) =
     (case conv key of
        Inl e \<Rightarrow> (vals, Inl (ConvertPubKey e))
      | Inr pubKey \<Rightarrow>
          convert_validators conv (vals @ [\<lparr>PubKey = pubKey, VU_Power = pw\<rparr>]) rest)"

definition loadGenesisValues ::
    "('p, 'c) mux_env \<Rightarrow> ('p, 'c) Multiplexer \<Rightarrow> ('p, 'c) Multiplexer \<times> (mux_error + unit)" where
  "loadGenesisValues env m =
     (if providerGenesisValidators m \<noteq> [] \<and> providerGenesisConsensusParams m \<noteq> None then (m, Inr ())
      else case GenDocProvider env of
          Inl e \<Rightarrow> (m, Inl (LoadGenesisDoc e))
        | Inr genDoc \<Rightarrow>
            (case convert_validators (PubKeyToProto env) [] (gd_Validators genDoc) of
               (vals, Inl e) \<Rightarrow> (m\<lparr>providerGenesisValidators := vals\<rparr>, Inl e)
             | (vals, Inr _) \<Rightarrow>
                 (m\<lparr>providerGenesisValidators := vals,
                    providerGenesisConsensusParams := Some (gd_ConsensusParams genDoc)\<rparr>, Inr ())))"

definition TrimPrefix :: "string \<Rightarrow> string \<Rightarrow> string" where
  "TrimPrefix s p = (if HasPrefix s p then drop (length p) s else s)"

definition initRemoteGrpcConn :: "('p, 'c) mux_env \<Rightarrow> ChainInfo \<Rightarrow> mux_error + 'c" where
  "initRemoteGrpcConn env chainInfo =
     (let abciServerAddr = TrimPrefix (GRPCAddress chainInfo) ''tcp://''
      in case grpc_NewClient env abciServerAddr of
           Inl e \<Rightarrow> Inl (PrepareConnection e)
         | Inr conn \<Rightarrow> Inr conn)"

fun init_handlers ::
    "('p, 'c) mux_env \<Rightarrow> ('p, 'c) Multiplexer \<Rightarrow> ChainInfo list \<Rightarrow>
     ('p, 'c) Multiplexer \<times> (mux_error + unit)" where
  "init_handlers env m [] = (m, Inr ())"
| "init_handlers env m (chainInfo # rest) =
     (case initRemoteGrpcConn env chainInfo of
        Inl e \<Rightarrow> (m, Inl (ConnectionFailed (CI_ChainID chainInfo) e))
      | Inr conn \<Rightarrow>
          let handler = \<lparr>ch_ChainID = CI_ChainID chainInfo, ch_app = conn, ch_config = chainInfo\<rparr>
          in if fmlookup (chainHandlers m) (CI_ChainID chainInfo) \<noteq> None
             then (m, Inl (DuplicateChainID (CI_ChainID chainInfo)))
             else init_handlers env
                    (m\<lparr>chainHandlers := fmupd (CI_ChainID chainInfo) handler (chainHandlers m)\<rparr>) rest)"

definition initChainHandlers ::
    "('p, 'c) mux_env \<Rightarrow> ('p, 'c) Multiplexer \<Rightarrow> ('p, 'c) Multiplexer \<times> (mux_error + unit)" where
  "initChainHandlers env m = init_handlers env m (Chains (chainConfig m))"

section \<open>Halting\<close>

definition checkHaltConditions :: "('p, 'c) Multiplexer \<Rightarrow> RequestFinalizeBlock \<Rightarrow> mux_error + unit" where
  "checkHaltConditions m req =
     (if HaltHeight (svrCfg m) > 0 \<and> rf_Height req \<ge> HaltHeight (svrCfg m)
      then Inl (HaltAtHeight (HaltHeight (svrCfg m)))
      else if HaltTime (svrCfg m) > 0 \<and> sint (Unix (rf_Time req)) \<ge> sint (HaltTime (svrCfg m))
      then Inl (HaltAtTime (HaltTime (svrCfg m)))
      else Inr ())"

section \<open>Active chains\<close>

definition getActiveChainIDsFromProvider ::
    "('p, 'c) mux_env \<Rightarrow> ('p, 'c) Multiplexer \<Rightarrow> GoContext \<Rightarrow>
     ('p, 'c) Multiplexer \<times> (mux_error + string list)" where
  "getActiveChainIDsFromProvider env m ctx =
     (case ActiveRequest_Marshal \<lparr>QAC_Pagination = None\<rparr> of
        Inl e \<Rightarrow> (m, Inl (MarshalRequest e))
      | Inr queryReqBytes \<Rightarrow>
          let abciReq = \<lparr>rq_ChainId = '''', Data = queryReqBytes,
                Path = ''/ics.provider.v1.Query/ActiveConsumerChains'', rq_Height = 0, Prove = False\<rparr>
          in (case app_Query (provider env) (providerChain m) ctx abciReq of
                (p, Inl e) \<Rightarrow> (m\<lparr>providerChain := p\<rparr>, Inl (QueryFailed e))
              | (p, Inr abciResp) \<Rightarrow>
                  (m\<lparr>providerChain := p\<rparr>,
                   if pq_Code abciResp \<noteq> 0 then Inl (QueryCode (pq_Code abciResp) (pq_Log abciResp))
                   else (case ActiveResponse_Unmarshal (page_Unmarshal env) (pq_Value abciResp)
                               zero_ActiveResponse of
                       Inl e \<Rightarrow> Inl (UnmarshalResponse e)
                     | Inr queryResp \<Rightarrow> Inr (map ChainId (QAC_ConsumerChains queryResp))))))"

definition active_map :: "string list \<Rightarrow> bool gomap" where
  "active_map activeChainIDs = fold (\<lambda>chainID m. fmupd chainID True m) activeChainIDs fmempty"

definition updateActiveChains ::
    "('p, 'c) mux_env \<Rightarrow> ('p, 'c) Multiplexer \<Rightarrow> GoContext \<Rightarrow>
     ('p, 'c) Multiplexer \<times> (mux_error + unit)" where
  "updateActiveChains env m ctx =
     (case getActiveChainIDsFromProvider env m ctx of
        (m, Inl e) \<Rightarrow> (m, Inl (ActiveChainsFailed e))
      | (m, Inr activeChainIDs) \<Rightarrow> (m\<lparr>activeChains := active_map activeChainIDs\<rparr>, Inr ()))"

section \<open>Initialising a consumer chain\<close>

definition set_app :: "string \<Rightarrow> 'c \<Rightarrow> ('p, 'c) Multiplexer \<Rightarrow> ('p, 'c) Multiplexer" where
  "set_app chainID c m =
     (case fmlookup (chainHandlers m) chainID of
        None \<Rightarrow> m
      | Some h \<Rightarrow> m\<lparr>chainHandlers := fmupd chainID (h\<lparr>ch_app := c\<rparr>) (chainHandlers m)\<rparr>)"

definition mark_initialized :: "string \<Rightarrow> ('p, 'c) Multiplexer \<Rightarrow> ('p, 'c) Multiplexer" where
  "mark_initialized chainID m =
     m\<lparr>initializedConsumerChains := fmupd chainID True (initializedConsumerChains m)\<rparr>"

definition initChainIfNeeded ::
    "('p, 'c) mux_env \<Rightarrow> ('p, 'c) Multiplexer \<Rightarrow> string \<Rightarrow> int64 \<Rightarrow> GoTime \<Rightarrow>
     ('p, 'c) Multiplexer \<times> (mux_error + bytes)" where
  "initChainIfNeeded env m chainID height blockTime =
     (if flag (initializedConsumerChains m) chainID then (m, Inr [])
      else case fmlookup (chainHandlers m) chainID of
          None \<Rightarrow> (m, Inl (HandlerNotFound chainID))
        | Some handler \<Rightarrow>
            (case app_Info (remote env) (ch_app handler) \<lparr>ri_rest = ''''\<rparr> of
               (c, r) \<Rightarrow>
                 let m = set_app chainID c m;
                     has_state = (case r of Inl _ \<Rightarrow> False
                       | Inr infoResp \<Rightarrow> sint (LastBlockHeight infoResp) > 0 \<or>
                                        LastBlockAppHash infoResp \<noteq> [])
                 in if has_state then (mark_initialized chainID m, Inr [])
                    else case LoadGenesisAppState (AppGenesisFromFile env) (ch_config handler) of
                        Inl e \<Rightarrow> (m, Inl (LoadGenesisFailed chainID e))
                      | Inr appState \<Rightarrow>
                          let initReq = \<lparr>ic_Time = blockTime, ic_ChainId = chainID,
                                ic_ConsensusParams = providerGenesisConsensusParams m,
                                ic_Validators = providerGenesisValidators m,
                                ic_AppStateBytes = appState, ic_InitialHeight = height\<rparr>
                          in (case app_InitChain (remote env) c initReq of
                                (c, Inl e) \<Rightarrow> (set_app chainID c m, Inl (InitializeFailed chainID e))
                              | (c, Inr resp) \<Rightarrow>
                                  (mark_initialized chainID (set_app chainID c m),
                                   Inr (pi_AppHash resp)))))"

end
