(* ===== verification/Handlers.thy ===== *)
theory Handlers
  imports Multiplexer
begin

text \<open>
  abci/abci.go: the ABCI handlers of the multiplexer.

  A goroutine per chain calls the chain's application and sends the result on a channel. Each
  call only touches the application of its own chain, so the calls of a handler are
  executed in the order in which their results arrive. That order and the order in which Go visits
  a map are not determined: they are schedules \<open>ns\<close>, arguments of the handlers, applied by
  \<open>pick\<close> to the list of the chains. A handler that returns early leaves goroutines behind
  that still run, so all calls are made in every case.
\<close>

section \<open>Queries and the mempool\<close>

definition Info ::
    "('p, 'c) mux_env \<Rightarrow> ('p, 'c) Multiplexer \<Rightarrow> RequestInfo \<Rightarrow>
     ('p, 'c) Multiplexer \<times> (string + ResponseInfo)" where
  "Info env m req =
     (case app_Info (provider env) (providerChain m) req of (p, r) \<Rightarrow> (m\<lparr>providerChain := p\<rparr>, r))"

definition Query ::
    "('p, 'c) mux_env \<Rightarrow> ('p, 'c) Multiplexer \<Rightarrow> GoContext \<Rightarrow> RequestQuery \<Rightarrow>
     ('p, 'c) Multiplexer \<times> (string + ResponseQuery)" where
  "Query env m ctx req =
     (if rq_ChainId req = providerChainID m
      then case app_Query (provider env) (providerChain m) ctx req of (p, r) \<Rightarrow> (m\<lparr>providerChain := p\<rparr>, r)
      else case fmlookup (chainHandlers m) (rq_ChainId req) of
          None \<Rightarrow> (m, Inr \<lparr>pq_Code = 1, pq_Log = ''unknown chain: '' @ rq_ChainId req,
                         pq_Value = '''', pq_rest = ''''\<rparr>)
        | Some handler \<Rightarrow>
            (case app_Query (remote env) (ch_app handler) ctx req of
               (c, r) \<Rightarrow> (set_app (rq_ChainId req) c m, r)))"

definition check_error :: "string \<Rightarrow> ResponseCheckTx" where
  "check_error log = \<lparr>pc_Code = 1, pc_Log = log, pc_rest = ''''\<rparr>"

definition CheckTx ::
    "('p, 'c) mux_env \<Rightarrow> ('p, 'c) Multiplexer \<Rightarrow> RequestCheckTx \<Rightarrow>
     ('p, 'c) Multiplexer \<times> (string + ResponseCheckTx)" where
  "CheckTx env m req =
     (case ParseHeader (rc_Tx req) of
        Inl err \<Rightarrow> (m, Inr (check_error err))
      | Inr (chainID, payload) \<Rightarrow>
          let strippedReq = req\<lparr>rc_Tx := payload\<rparr>
          in if chainID = providerChainID m
             then (case app_CheckTx (provider env) (providerChain m) strippedReq of
                     (p, r) \<Rightarrow> (m\<lparr>providerChain := p\<rparr>, r))
             else case fmlookup (chainHandlers m) chainID of
                 None \<Rightarrow> (m, Inr (check_error (''unknown chain: '' @ chainID)))
               | Some handler \<Rightarrow>
                   if \<not> flag (initializedConsumerChains m) chainID
                   then (m, Inr (check_error (''chain not initialized: '' @ chainID)))
                   else (case app_CheckTx (remote env) (ch_app handler) strippedReq of
                           (c, r) \<Rightarrow> (set_app chainID c m, r)))"

section \<open>Shared pieces\<close>

text \<open>The app hashes in the order of the chain ids.\<close>

definition combine_hashes :: "bytes gomap \<Rightarrow> bytes" where
  "combine_hashes chainHashes =
     concat (map (\<lambda>chainID. the (fmlookup chainHashes chainID)) (keys chainHashes))"

text \<open>The calls of the goroutines, in the order in which the results arrive: \<open>call\<close> changes
  the state of the multiplexer and yields the result.\<close>

fun run_jobs :: "('j \<Rightarrow> 'm \<Rightarrow> 'm \<times> 'r) \<Rightarrow> 'j list \<Rightarrow> 'm \<Rightarrow> 'm \<times> 'r list" where
  "run_jobs call [] m = (m, [])"
| "run_jobs call (j # js) m =
     (case call j m of (m, r) \<Rightarrow> (case run_jobs call js m of (m, rs) \<Rightarrow> (m, r # rs)))"

section \<open>InitChain\<close>

definition init_consumer ::
    "('p, 'c) mux_env \<Rightarrow> RequestInitChain \<Rightarrow> string \<Rightarrow> ('p, 'c) Multiplexer \<Rightarrow>
     ('p, 'c) Multiplexer \<times> string \<times> (mux_error + ResponseInitChain)" where
  "init_consumer env req chainID m =
     (case fmlookup (chainHandlers m) chainID of
        None \<Rightarrow> (m, chainID, Inl (HandlerNotFound chainID))
      | Some handler \<Rightarrow>
          let consumerReq = req\<lparr>ic_ChainId := chainID, ic_Validators := providerGenesisValidators m,
                ic_ConsensusParams := providerGenesisConsensusParams m\<rparr>
          in (case LoadGenesisAppState (AppGenesisFromFile env) (ch_config handler) of
                Inl err \<Rightarrow> (m, chainID, Inl (LoadGenesisFailed chainID err))
              | Inr appState \<Rightarrow>
                  (case app_InitChain (remote env) (ch_app handler)
                          (consumerReq\<lparr>ic_AppStateBytes := appState\<rparr>) of
                     (c, Inl err) \<Rightarrow> (set_app chainID c m, chainID, Inl (AppError err))
                   | (c, Inr resp) \<Rightarrow> (set_app chainID c m, chainID, Inr resp))))"

definition collect_init ::
    "string \<times> (mux_error + ResponseInitChain) \<Rightarrow> bytes gomap \<times> ('p, 'c) Multiplexer \<Rightarrow>
     bytes gomap \<times> ('p, 'c) Multiplexer" where
  "collect_init res st =
     (case res of
        (chainID, Inl err) \<Rightarrow> st
      | (chainID, Inr response) \<Rightarrow>
          (case st of (chainHashes, m) \<Rightarrow>
             (fmupd chainID (pi_AppHash response) chainHashes, mark_initialized chainID m)))"

definition InitChain ::
    "('p, 'c) mux_env \<Rightarrow> nat list \<Rightarrow> ('p, 'c) Multiplexer \<Rightarrow> RequestInitChain \<Rightarrow>
     ('p, 'c) Multiplexer \<times> (string + ResponseInitChain)" where
  "InitChain env ns m req =
     (case app_InitChain (provider env) (providerChain m) req of
        (p, Inl err) \<Rightarrow> (m\<lparr>providerChain := p\<rparr>, Inl err)
      | (p, Inr providerResp) \<Rightarrow>
          let m = m\<lparr>providerChain := p,
                providerGenesisConsensusParams := pi_ConsensusParams providerResp,
                providerGenesisValidators := pi_Validators providerResp\<rparr>;
              chainHashes = fmupd (providerChainID m) (pi_AppHash providerResp) fmempty
          in (case run_jobs (init_consumer env req) (pick ns (keys (chainHandlers m))) m of
                (m, results) \<Rightarrow>
                  (case fold collect_init results (chainHashes, m) of
                     (chainHashes, m) \<Rightarrow>
                       (m, Inr \<lparr>pi_ConsensusParams = pi_ConsensusParams providerResp,
                                pi_Validators = pi_Validators providerResp,
                                pi_AppHash = combine_hashes chainHashes\<rparr>))))"

section \<open>Proposals\<close>

definition PrepareProposal ::
    "('p, 'c) Multiplexer \<Rightarrow> RequestPrepareProposal \<Rightarrow>
     ('p, 'c) Multiplexer \<times> (string + ResponsePrepareProposal)" where
  "PrepareProposal m req = (m, Inr \<lparr>pp_Txs = rp_Txs req\<rparr>)"

text \<open>Sorting the transactions by chain; \<open>None\<close> when one has no valid header.\<close>

fun route_proposal ::
    "('p, 'c) Multiplexer \<Rightarrow> bytes list gomap \<Rightarrow> bytes list \<Rightarrow> bytes list gomap option" where
  "route_proposal m chainTxs [] = Some chainTxs"
| "route_proposal m chainTxs (tx # txs) =
     (case ParseHeader tx of
        Inl err \<Rightarrow> None
      | Inr (chainID, payload) \<Rightarrow>
          if chainID \<noteq> providerChainID m \<and> fmlookup (chainHandlers m) chainID = None
          then route_proposal m chainTxs txs
          else if chainID \<noteq> providerChainID m \<and> \<not> flag (initializedConsumerChains m) chainID
          then route_proposal m chainTxs txs
          else route_proposal m (push chainID payload chainTxs) txs)"

definition process_chain ::
    "('p, 'c) mux_env \<Rightarrow> RequestProcessProposal \<Rightarrow> bytes list gomap \<Rightarrow> string \<Rightarrow>
     ('p, 'c) Multiplexer \<Rightarrow> ('p, 'c) Multiplexer \<times> string \<times> (string + ResponseProcessProposal)" where
  "process_chain env req chainTxs chainID m =
     (let chainReq = req\<lparr>rr_Txs := bucket chainTxs chainID\<rparr>
      in if chainID = providerChainID m
         then (case app_ProcessProposal (provider env) (providerChain m) chainReq of
                 (p, r) \<Rightarrow> (m\<lparr>providerChain := p\<rparr>, chainID, r))
         else case fmlookup (chainHandlers m) chainID of
             None \<Rightarrow> (m, chainID, Inl ''nil handler'')
           | Some handler \<Rightarrow>
               (case app_ProcessProposal (remote env) (ch_app handler) chainReq of
                  (c, r) \<Rightarrow> (set_app chainID c m, chainID, r)))"

fun proposal_results ::
    "('p, 'c) Multiplexer \<Rightarrow> (string \<times> (string + ResponseProcessProposal)) list \<Rightarrow>
     ('p, 'c) Multiplexer \<times> (string + ResponseProcessProposal)" where
  "proposal_results m [] = (m, Inr \<lparr>pr_Status = ACCEPT\<rparr>)"
| "proposal_results m ((chainID, Inl err) # results) = (m, Inl err)"
| "proposal_results m ((chainID, Inr response) # results) =
     (if chainID = providerChainID m \<and> pr_Status response \<noteq> ACCEPT
      then (m, Inr \<lparr>pr_Status = pr_Status response\<rparr>)
      else if chainID \<noteq> providerChainID m \<and> pr_Status response \<noteq> ACCEPT
      then proposal_results
             (m\<lparr>rejectedConsumerChains := fmupd chainID True (rejectedConsumerChains m)\<rparr>) results
      else proposal_results m results)"

definition ProcessProposal ::
    "('p, 'c) mux_env \<Rightarrow> nat list \<Rightarrow> ('p, 'c) Multiplexer \<Rightarrow> RequestProcessProposal \<Rightarrow>
     ('p, 'c) Multiplexer \<times> (string + ResponseProcessProposal)" where
  "ProcessProposal env ns m req =
     (case route_proposal m fmempty (rr_Txs req) of
        None \<Rightarrow> (m, Inr \<lparr>pr_Status = REJECT\<rparr>)
      | Some chainTxs \<Rightarrow>
          (case run_jobs (process_chain env req chainTxs) (pick ns (keys chainTxs)) m of
             (m, results) \<Rightarrow> proposal_results (m\<lparr>rejectedConsumerChains := fmempty\<rparr>) results))"

section \<open>FinalizeBlock\<close>

record routed =
  chainTxs :: "bytes list gomap"
  txPositions :: "nat list gomap"
  skippedIndices :: "nat list"

definition no_txs :: routed where
  "no_txs = \<lparr>chainTxs = fmempty, txPositions = fmempty, skippedIndices = []\<rparr>"

fun route_block ::
    "('p, 'c) Multiplexer \<Rightarrow> routed \<Rightarrow> nat \<Rightarrow> bytes list \<Rightarrow> mux_error + routed" where
  "route_block m rt idx [] = Inr rt"
| "route_block m rt idx (tx # txs) =
     (case ParseHeader tx of
        Inl err \<Rightarrow> Inl (InvalidTx idx err)
      | Inr (chainID, payload) \<Rightarrow>
          if flag (rejectedConsumerChains m) chainID
          then route_block m (rt\<lparr>skippedIndices := skippedIndices rt @ [idx]\<rparr>) (Suc idx) txs
          else if chainID \<noteq> providerChainID m \<and> fmlookup (chainHandlers m) chainID = None
          then route_block m (rt\<lparr>skippedIndices := skippedIndices rt @ [idx]\<rparr>) (Suc idx) txs
          else route_block m (rt\<lparr>chainTxs := push chainID payload (chainTxs rt),
                                txPositions := push chainID idx (txPositions rt)\<rparr>) (Suc idx) txs)"

text \<open>The loop over the active chains, which starts a goroutine for each chain that takes part
  in the block: the list of these chains in the order of the loop.\<close>

fun launch ::
    "('p, 'c) mux_env \<Rightarrow> RequestFinalizeBlock \<Rightarrow> string list \<Rightarrow> ('p, 'c) Multiplexer \<Rightarrow>
     ('p, 'c) Multiplexer \<times> string list" where
  "launch env req [] m = (m, [])"
| "launch env req (chainID # ids) m =
     (if flag (rejectedConsumerChains m) chainID then launch env req ids m
      else if fmlookup (chainHandlers m) chainID = None then launch env req ids m
      else case initChainIfNeeded env m chainID (rf_Height req) (rf_Time req) of
          (m, Inl err) \<Rightarrow> launch env req ids m
        | (m, Inr _) \<Rightarrow>
            if \<not> flag (initializedConsumerChains m) chainID then launch env req ids m
            else (case launch env req ids m of (m, jobs) \<Rightarrow> (m, chainID # jobs)))"

record block_result =
  br_chainID :: string
  br_response :: ResponseFinalizeBlock
  br_positions :: "nat list"

definition finalize_chain ::
    "('p, 'c) mux_env \<Rightarrow> RequestFinalizeBlock \<Rightarrow> routed \<Rightarrow> string \<Rightarrow> ('p, 'c) Multiplexer \<Rightarrow>
     ('p, 'c) Multiplexer \<times> (string + block_result)" where
  "finalize_chain env req rt chainID m =
     (case fmlookup (chainHandlers m) chainID of
        None \<Rightarrow> (m, Inl ''nil handler'')
      | Some handler \<Rightarrow>
          (case app_FinalizeBlock (remote env) (ch_app handler)
                  (req\<lparr>rf_Txs := bucket (chainTxs rt) chainID\<rparr>) of
             (c, Inl err) \<Rightarrow> (set_app chainID c m, Inl err)
           | (c, Inr resp) \<Rightarrow>
               (set_app chainID c m, Inr \<lparr>br_chainID = chainID, br_response = resp,
                  br_positions = bucket (txPositions rt) chainID\<rparr>)))"

text \<open>\<open>place ps rs slots\<close> stores the results at the positions; the loop stops at the
  shorter of the two lists.\<close>

fun place :: "nat list \<Rightarrow> 'r list \<Rightarrow> 'r list \<Rightarrow> 'r list" where
  "place (pos # ps) (r # rs) slots = place ps rs (slots[pos := r])"
| "place _ _ slots = slots"

definition skipped_result :: "ExecTxResult option" where
  "skipped_result = Some \<lparr>tr_Code = 1, tr_Log = ''transaction skipped'', tr_rest = ''''\<rparr>"

record gathered =
  g_TxResults :: "ExecTxResult option list"
  g_hashes :: "bytes gomap"
  g_events :: "AbciEvent list"

definition collect_block :: "(string + block_result) \<Rightarrow> gathered \<Rightarrow> gathered" where
  "collect_block res g =
     (case res of
        Inl err \<Rightarrow> g
      | Inr r \<Rightarrow>
          \<lparr>g_TxResults = place (br_positions r) (pf_TxResults (br_response r)) (g_TxResults g),
           g_hashes = fmupd (br_chainID r) (pf_AppHash (br_response r)) (g_hashes g),
           g_events = g_events g @ pf_Events (br_response r)\<rparr>)"

text \<open>The response before the results of the consumer chains arrive.\<close>

definition gathered_provider ::
    "string \<Rightarrow> nat \<Rightarrow> routed \<Rightarrow> ResponseFinalizeBlock \<Rightarrow> gathered" where
  "gathered_provider provID n rt providerResp =
     (let slots = place (bucket (txPositions rt) provID) (pf_TxResults providerResp) (replicate n None)
      in \<lparr>g_TxResults = fold (\<lambda>idx xs. xs[idx := skipped_result]) (skippedIndices rt) slots,
          g_hashes = fmupd provID (pf_AppHash providerResp) fmempty,
          g_events = pf_Events providerResp\<rparr>)"

text \<open>The second half of the handler: the active chains are visited in the order of
  \<open>ns\<close>, their results arrive in the order of \<open>ns'\<close>.\<close>

definition finalize_consumers ::
    "('p, 'c) mux_env \<Rightarrow> nat list \<Rightarrow> nat list \<Rightarrow> RequestFinalizeBlock \<Rightarrow> routed \<Rightarrow> ResponseFinalizeBlock \<Rightarrow>
     ('p, 'c) Multiplexer \<Rightarrow> ('p, 'c) Multiplexer \<times> gathered" where
  "finalize_consumers env ns ns' req rt providerResp m =
     (case launch env req (pick ns (keys (activeChains m))) m of
        (m, jobs) \<Rightarrow>
          (case run_jobs (finalize_chain env req rt) (pick ns' jobs) m of
             (m, results) \<Rightarrow>
               (m, fold collect_block results
                     (gathered_provider (providerChainID m) (length (rf_Txs req)) rt providerResp))))"

definition FinalizeBlock ::
    "('p, 'c) mux_env \<Rightarrow> nat list \<Rightarrow> nat list \<Rightarrow> ('p, 'c) Multiplexer \<Rightarrow> GoContext \<Rightarrow>
     RequestFinalizeBlock \<Rightarrow> ('p, 'c) Multiplexer \<times> (mux_error + ResponseFinalizeBlock)" where
  "FinalizeBlock env ns ns' m ctx req =
     (case checkHaltConditions m req of
        Inl err \<Rightarrow> (m, Inl (NodeShouldHalt err))
      | Inr _ \<Rightarrow>
          (case route_block m no_txs 0 (rf_Txs req) of
             Inl err \<Rightarrow> (m, Inl err)
           | Inr rt \<Rightarrow>
               let providerReq = req\<lparr>rf_Txs := bucket (chainTxs rt) (providerChainID m)\<rparr>
               in (case app_FinalizeBlock (provider env) (providerChain m) providerReq of
                     (p, Inl err) \<Rightarrow> (m\<lparr>providerChain := p\<rparr>, Inl (ProviderFinalizeFailed err))
                   | (p, Inr providerResp) \<Rightarrow>
                       let m = m\<lparr>providerChain := p\<rparr>;
                           m = (if sint (rf_Height req) > 1 then fst (updateActiveChains env m ctx) else m)
                       in (case finalize_consumers env ns ns' req rt providerResp m of
                             (m, g) \<Rightarrow>
                               (m, Inr \<lparr>pf_Events = g_events g, pf_TxResults = g_TxResults g,
                                        pf_ValidatorUpdates = pf_ValidatorUpdates providerResp,
                                        pf_ConsensusParamUpdates = pf_ConsensusParamUpdates providerResp,
                                        pf_AppHash = combine_hashes (g_hashes g)\<rparr>)))))"

section \<open>Commit\<close>

fun commit_chains ::
    "('p, 'c) mux_env \<Rightarrow> string list \<Rightarrow> ('p, 'c) Multiplexer \<Rightarrow> ResponseCommit \<Rightarrow>
     ('p, 'c) Multiplexer \<times> ResponseCommit" where
  "commit_chains env [] m response = (m, response)"
| "commit_chains env (chainID # ids) m response =
     (if \<not> flag (initializedConsumerChains m) chainID then commit_chains env ids m response
      else if flag (rejectedConsumerChains m) chainID then commit_chains env ids m response
      else case fmlookup (chainHandlers m) chainID of
          None \<Rightarrow> commit_chains env ids m response
        | Some handler \<Rightarrow>
            (case app_Commit (remote env) (ch_app handler) of
               (c, Inl err) \<Rightarrow> commit_chains env ids (set_app chainID c m) response
             | (c, Inr resp) \<Rightarrow> commit_chains env ids (set_app chainID c m) resp))"

definition Commit ::
    "('p, 'c) mux_env \<Rightarrow> nat list \<Rightarrow> ('p, 'c) Multiplexer \<Rightarrow>
     ('p, 'c) Multiplexer \<times> (string + ResponseCommit)" where
  "Commit env ns m =
     (case app_Commit (provider env) (providerChain m) of
        (p, Inl err) \<Rightarrow> (m\<lparr>providerChain := p\<rparr>, Inl err)
      | (p, Inr response) \<Rightarrow>
          let m = m\<lparr>providerChain := p\<rparr>
          in (case commit_chains env (pick ns (keys (activeChains m))) m response of
                (m, response) \<Rightarrow> (m, Inr response)))"

section \<open>Votes and snapshots\<close>

text \<open>An empty response is the empty encoding.\<close>

definition ExtendVote :: "('p, 'c) Multiplexer \<Rightarrow> bytes \<Rightarrow> string + bytes" where
  "ExtendVote m req = Inr ''''"

datatype VerifyStatus = VERIFY_ACCEPT | VERIFY_REJECT

definition VerifyVoteExtension :: "('p, 'c) Multiplexer \<Rightarrow> bytes \<Rightarrow> string + VerifyStatus" where
  "VerifyVoteExtension m req = Inr VERIFY_ACCEPT"

definition ListSnapshots :: "('p, 'c) Multiplexer \<Rightarrow> bytes \<Rightarrow> string + bytes" where
  "ListSnapshots m req = Inr ''''"

definition OfferSnapshot :: "('p, 'c) Multiplexer \<Rightarrow> bytes \<Rightarrow> string + bytes" where
  "OfferSnapshot m req = Inr ''''"

definition LoadSnapshotChunk :: "('p, 'c) Multiplexer \<Rightarrow> bytes \<Rightarrow> string + bytes" where
  "LoadSnapshotChunk m req = Inr ''''"

datatype ApplyStatus = APPLY_ACCEPT | APPLY_OTHER

definition ApplySnapshotChunk :: "('p, 'c) Multiplexer \<Rightarrow> bytes \<Rightarrow> string + ApplyStatus" where
  "ApplySnapshotChunk m req = Inr APPLY_ACCEPT"

end
