(* ===== verification/Concurrency.thy ===== *)
theory Concurrency
  imports Handlers
begin

text \<open>
  The handlers do not depend on the order in which Go visits a map or in which the goroutines
  finish. \<open>independent_calls\<close> is the contract of the calls of a handler: calls for different
  chains commute and do not see each other. Inside it, running the calls in any order gives one
  state, and every call gives the result it has on the initial state (\<open>run_jobs_eq\<close>,
  \<open>run_jobs_pick\<close>). The interpretations discharge the contract for the calls of
  \<open>InitChain\<close>, \<open>ProcessProposal\<close>, \<open>FinalizeBlock\<close> and \<open>Commit\<close> and for the
  initialisation of the active chains.
\<close>

section \<open>Independent calls\<close>

locale independent_calls =
  fixes call :: "string \<Rightarrow> 'm \<Rightarrow> 'm \<times> 'r"
  assumes state_commute: "a \<noteq> b \<Longrightarrow> fst (call a (fst (call b m))) = fst (call b (fst (call a m)))"
    and result_frame: "a \<noteq> b \<Longrightarrow> snd (call a (fst (call b m))) = snd (call a m)"

sublocale independent_calls \<subseteq> keyed_fold "\<lambda>j. j" "\<lambda>j m. fst (call j m)"
  by unfold_locales (simp add: state_commute)

context independent_calls
begin

lemma run_jobs_eq:
  "distinct js \<Longrightarrow>
     run_jobs call js m = (fold (\<lambda>j m. fst (call j m)) js m, map (\<lambda>j. snd (call j m)) js)"
proof (induction js arbitrary: m)
  case (Cons j js)
  have "map (\<lambda>i. snd (call i (fst (call j m)))) js = map (\<lambda>i. snd (call i m)) js"
    using Cons.prems by (auto intro!: result_frame)
  with Cons show ?case
    by (cases "call j m") simp
qed simp

lemma run_jobs_pick:
  "distinct js \<Longrightarrow>
     run_jobs call (pick ns js) m =
       (fold (\<lambda>j m. fst (call j m)) js m, map (\<lambda>j. snd (call j m)) (pick ns js))"
  by (simp add: run_jobs_eq fold_pick)

end

section \<open>The state of one chain\<close>

lemma set_app_lookup [simp]:
  "fmlookup (chainHandlers (set_app b c m)) a =
     (if a = b then map_option (\<lambda>h. h\<lparr>ch_app := c\<rparr>) (fmlookup (chainHandlers m) a)
      else fmlookup (chainHandlers m) a)"
  by (simp add: set_app_def split: option.split)

lemma set_app_simps [simp]:
  "svrCfg (set_app a c m) = svrCfg m" "providerChain (set_app a c m) = providerChain m"
  "providerChainID (set_app a c m) = providerChainID m"
  "rejectedConsumerChains (set_app a c m) = rejectedConsumerChains m"
  "initializedConsumerChains (set_app a c m) = initializedConsumerChains m"
  "activeChains (set_app a c m) = activeChains m"
  "providerGenesisValidators (set_app a c m) = providerGenesisValidators m"
  "providerGenesisConsensusParams (set_app a c m) = providerGenesisConsensusParams m"
  "chainConfig (set_app a c m) = chainConfig m"
  by (simp_all add: set_app_def split: option.split)

lemma mark_initialized_simps [simp]:
  "svrCfg (mark_initialized a m) = svrCfg m" "providerChain (mark_initialized a m) = providerChain m"
  "providerChainID (mark_initialized a m) = providerChainID m"
  "rejectedConsumerChains (mark_initialized a m) = rejectedConsumerChains m"
  "flag (initializedConsumerChains (mark_initialized a m)) b \<longleftrightarrow>
     b = a \<or> flag (initializedConsumerChains m) b"
  "activeChains (mark_initialized a m) = activeChains m"
  "chainHandlers (mark_initialized a m) = chainHandlers m"
  "providerGenesisValidators (mark_initialized a m) = providerGenesisValidators m"
  "providerGenesisConsensusParams (mark_initialized a m) = providerGenesisConsensusParams m"
  "chainConfig (mark_initialized a m) = chainConfig m"
  by (simp_all add: mark_initialized_def)

lemma set_app_commute: "a \<noteq> b \<Longrightarrow> set_app a c (set_app b d m) = set_app b d (set_app a c m)"
  by (simp add: set_app_def fmupd_commute split: option.split)

lemma mark_commute: "mark_initialized a (mark_initialized b m) = mark_initialized b (mark_initialized a m)"
  by (cases "a = b") (simp_all add: mark_initialized_def fmupd_commute)

lemma mark_set_app: "mark_initialized a (set_app b c m) = set_app b c (mark_initialized a m)"
  by (simp add: set_app_def mark_initialized_def split: option.split)

lemma set_app_twice [simp]: "set_app a d (set_app a c m) = set_app a d m"
  by (auto simp: set_app_def split: option.split intro!: Multiplexer.equality fmap_ext)

text \<open>An update of chain \<open>a\<close>: perhaps a new state of the provider, when \<open>a\<close> is the
  provider's chain, perhaps a new state of the application of its handler, perhaps its mark.\<close>

definition set_provider :: "string \<Rightarrow> 'p \<Rightarrow> ('p, 'c) Multiplexer \<Rightarrow> ('p, 'c) Multiplexer" where
  "set_provider a p m = (if a = providerChainID m then m\<lparr>providerChain := p\<rparr> else m)"

definition local_upd ::
    "string \<Rightarrow> 'p option \<times> 'c option \<times> bool \<Rightarrow> ('p, 'c) Multiplexer \<Rightarrow> ('p, 'c) Multiplexer" where
  "local_upd a r m =
     (case r of (po, co, mark) \<Rightarrow>
        (if mark then mark_initialized a else (\<lambda>m. m))
          ((case co of None \<Rightarrow> (\<lambda>m. m) | Some c \<Rightarrow> set_app a c)
            ((case po of None \<Rightarrow> (\<lambda>m. m) | Some p \<Rightarrow> set_provider a p) m)))"

lemma set_provider_simps [simp]:
  "providerChainID (set_provider a p m) = providerChainID m"
  "rejectedConsumerChains (set_provider a p m) = rejectedConsumerChains m"
  "initializedConsumerChains (set_provider a p m) = initializedConsumerChains m"
  "chainHandlers (set_provider a p m) = chainHandlers m"
  "providerGenesisValidators (set_provider a p m) = providerGenesisValidators m"
  "providerGenesisConsensusParams (set_provider a p m) = providerGenesisConsensusParams m"
  "a \<noteq> providerChainID m \<Longrightarrow> providerChain (set_provider a p m) = providerChain m"
  by (simp_all add: set_provider_def)

lemma set_provider_commutes:
  "set_provider a p (set_app b c m) = set_app b c (set_provider a p m)"
  "set_provider a p (mark_initialized b m) = mark_initialized b (set_provider a p m)"
  "a \<noteq> b \<Longrightarrow> set_provider a p (set_provider b q m) = set_provider b q (set_provider a p m)"
  by (simp_all add: set_provider_def set_app_def mark_initialized_def split: option.split)

lemma local_upd_simps [simp]:
  "providerChainID (local_upd b r m) = providerChainID m"
  "providerGenesisValidators (local_upd b r m) = providerGenesisValidators m"
  "providerGenesisConsensusParams (local_upd b r m) = providerGenesisConsensusParams m"
  "rejectedConsumerChains (local_upd b r m) = rejectedConsumerChains m"
  "a \<noteq> b \<Longrightarrow> fmlookup (chainHandlers (local_upd b r m)) a = fmlookup (chainHandlers m) a"
  "a \<noteq> b \<Longrightarrow> flag (initializedConsumerChains (local_upd b r m)) a = flag (initializedConsumerChains m) a"
  "b \<noteq> providerChainID m \<Longrightarrow> providerChain (local_upd b r m) = providerChain m"
  by (cases r; simp add: local_upd_def split: option.split)+

lemma local_upd_commutes:
  "a \<noteq> b \<Longrightarrow> set_app a c (local_upd b r m) = local_upd b r (set_app a c m)"
  "mark_initialized a (local_upd b r m) = local_upd b r (mark_initialized a m)"
  "a \<noteq> b \<Longrightarrow> set_provider a p (local_upd b r m) = local_upd b r (set_provider a p m)"
  by (cases r; simp add: local_upd_def set_app_commute mark_commute mark_set_app set_provider_commutes
      split: option.split)+

lemma local_upd_commute: "a \<noteq> b \<Longrightarrow> local_upd a r (local_upd b s m) = local_upd b s (local_upd a r m)"
  by (cases r; simp add: local_upd_def [of a] local_upd_commutes split: option.split)

text \<open>A call that only updates its chain, and that an update of another chain neither disturbs
  nor is disturbed by, is independent of the calls for other chains.\<close>

definition touches :: "string \<Rightarrow> ('p, 'c) Multiplexer \<Rightarrow> ('p, 'c) Multiplexer \<Rightarrow> bool" where
  "touches a m m' \<longleftrightarrow> (\<exists>r. m' = local_upd a r m)"

lemma touches_intros:
  "touches a m m"
  "touches a m (set_app a c m)"
  "touches a m (mark_initialized a m)"
  "touches a m (mark_initialized a (set_app a c m))"
  "touches a m (set_provider a p m)"
  unfolding touches_def
  by (rule exI [of _ "(None, None, False)"], simp add: local_upd_def)
    (rule exI [of _ "(None, Some c, False)"], simp add: local_upd_def,
     rule exI [of _ "(None, None, True)"], simp add: local_upd_def,
     rule exI [of _ "(None, Some c, True)"], simp add: local_upd_def,
     rule exI [of _ "(Some p, None, False)"], simp add: local_upd_def)

lemma independent_callsI:
  fixes call :: "string \<Rightarrow> ('p, 'c) Multiplexer \<Rightarrow> ('p, 'c) Multiplexer \<times> 'r"
  assumes local: "\<And>a m. touches a m (fst (call a m))"
    and frame: "\<And>a b r m. a \<noteq> b \<Longrightarrow> call a (local_upd b r m) = apfst (local_upd b r) (call a m)"
  shows "independent_calls call"
proof
  fix a b :: string and m :: "('p, 'c) Multiplexer"
  assume ab: "a \<noteq> b"
  obtain r s where rs: "fst (call a m) = local_upd a r m" "fst (call b m) = local_upd b s m"
    using local unfolding touches_def by blast
  show "fst (call a (fst (call b m))) = fst (call b (fst (call a m)))"
    using ab rs frame [of a b s m] frame [of b a r m] local_upd_commute [of b a s r m] by simp
  show "snd (call a (fst (call b m))) = snd (call a m)"
    using ab rs frame [of a b s m] by simp
qed

text \<open>What calls for the chains \<open>js\<close> leave alone.\<close>

lemma touches_fixed:
  assumes "touches a m m'"
  shows "svrCfg m' = svrCfg m" and "providerChainID m' = providerChainID m"
    and "rejectedConsumerChains m' = rejectedConsumerChains m" and "activeChains m' = activeChains m"
    and "chainConfig m' = chainConfig m"
    and "fmlookup (chainHandlers m') b = None \<longleftrightarrow> fmlookup (chainHandlers m) b = None"
    and "providerChainID m \<noteq> a \<Longrightarrow> providerChain m' = providerChain m"
    and "b \<noteq> a \<Longrightarrow> fmlookup (chainHandlers m') b = fmlookup (chainHandlers m) b"
    and "b \<noteq> a \<Longrightarrow> flag (initializedConsumerChains m') b = flag (initializedConsumerChains m) b"
    and "flag (initializedConsumerChains m) b \<Longrightarrow> flag (initializedConsumerChains m') b"
proof -
  obtain po co mark where m': "m' = local_upd a (po, co, mark) m"
    using assms unfolding touches_def by auto
  note simps = m' local_upd_def set_provider_def
  show "svrCfg m' = svrCfg m" "providerChainID m' = providerChainID m"
    "rejectedConsumerChains m' = rejectedConsumerChains m" "activeChains m' = activeChains m"
    "chainConfig m' = chainConfig m"
    "fmlookup (chainHandlers m') b = None \<longleftrightarrow> fmlookup (chainHandlers m) b = None"
    by (simp_all add: simps split: option.split)
  show "providerChainID m \<noteq> a \<Longrightarrow> providerChain m' = providerChain m"
    "b \<noteq> a \<Longrightarrow> fmlookup (chainHandlers m') b = fmlookup (chainHandlers m) b"
    "b \<noteq> a \<Longrightarrow> flag (initializedConsumerChains m') b = flag (initializedConsumerChains m) b"
    "flag (initializedConsumerChains m) b \<Longrightarrow> flag (initializedConsumerChains m') b"
    by (simp_all add: simps split: option.split)
qed

lemma fold_touches:
  assumes "\<And>a m. touches a m (fst (call a m))"
  defines "loop \<equiv> \<lambda>js m. fold (\<lambda>j m. fst (call j m)) js m"
  shows "svrCfg (loop js m) = svrCfg m" and "providerChainID (loop js m) = providerChainID m"
    and "rejectedConsumerChains (loop js m) = rejectedConsumerChains m"
    and "activeChains (loop js m) = activeChains m" and "chainConfig (loop js m) = chainConfig m"
    and "fmlookup (chainHandlers (loop js m)) b = None \<longleftrightarrow> fmlookup (chainHandlers m) b = None"
    and "providerChainID m \<notin> set js \<Longrightarrow> providerChain (loop js m) = providerChain m"
    and "b \<notin> set js \<Longrightarrow> fmlookup (chainHandlers (loop js m)) b = fmlookup (chainHandlers m) b"
    and "b \<notin> set js \<Longrightarrow>
      flag (initializedConsumerChains (loop js m)) b = flag (initializedConsumerChains m) b"
    and "flag (initializedConsumerChains m) b \<Longrightarrow> flag (initializedConsumerChains (loop js m)) b"
  unfolding loop_def
  by (induction js arbitrary: m) (simp_all add: touches_fixed [OF assms(1)])

text \<open>What a loop of independent calls leaves of chain \<open>a\<close> is what its own call leaves.\<close>

lemma fold_local:
  fixes call :: "string \<Rightarrow> ('p, 'c) Multiplexer \<Rightarrow> ('p, 'c) Multiplexer \<times> 'r" and m
  assumes touch: "\<And>a m. touches a m (fst (call a m))" and indep: "independent_calls call"
    and js: "distinct js" "a \<in> set js"
  defines "m' \<equiv> fold (\<lambda>j m. fst (call j m)) js m"
  shows "fmlookup (chainHandlers m') a = fmlookup (chainHandlers (fst (call a m))) a"
    and "flag (initializedConsumerChains m') a = flag (initializedConsumerChains (fst (call a m))) a"
proof -
  define ks where "ks = a # remove1 a js"
  have ks: "mset js = mset ks" "distinct (map (\<lambda>j. j) js)" "a \<notin> set (remove1 a js)"
    using js by (simp_all add: ks_def)
  have "keyed_fold (\<lambda>j. j) (\<lambda>j m. fst (call j m))"
    using indep by (simp add: keyed_fold_def independent_calls_def)
  then have "m' = fold (\<lambda>j m. fst (call j m)) (remove1 a js) (fst (call a m))"
    using keyed_fold.fold_order [OF _ ks(2,1), of "\<lambda>j m. fst (call j m)" m]
    by (simp add: m'_def ks_def)
  then show "fmlookup (chainHandlers m') a = fmlookup (chainHandlers (fst (call a m))) a"
    and "flag (initializedConsumerChains m') a = flag (initializedConsumerChains (fst (call a m))) a"
    using fold_touches(8,9) [of call a "remove1 a js"] touch ks(3) by simp_all
qed

section \<open>The calls of the handlers\<close>

lemma init_consumer_touches: "touches a m (fst (init_consumer env req a m))"
    by (auto simp: init_consumer_def Let_def touches_intros split: option.split sum.split prod.split)

interpretation init_calls: independent_calls "init_consumer env req" for env req
proof (rule independent_callsI)
  show "touches a m (fst (init_consumer env req a m))" for a m
    by (rule init_consumer_touches)
  show "init_consumer env req a (local_upd b r m) = apfst (local_upd b r) (init_consumer env req a m)"
    if "a \<noteq> b" for a b r m
    using that
    by (simp add: init_consumer_def Let_def local_upd_commutes split: option.split sum.split prod.split)
qed

lemma provider_upd: "m\<lparr>providerChain := p\<rparr> = set_provider (providerChainID m) p m"
  by (simp add: set_provider_def)

lemma process_chain_touches: "touches a m (fst (process_chain env req txs a m))"
  by (auto simp: process_chain_def Let_def provider_upd touches_intros split: option.split prod.split)

interpretation proposal_calls: independent_calls "process_chain env req txs" for env req txs
proof (rule independent_callsI)
  show "touches a m (fst (process_chain env req txs a m))" for a m
    by (rule process_chain_touches)
  show "process_chain env req txs a (local_upd b r m) = apfst (local_upd b r) (process_chain env req txs a m)"
    if "a \<noteq> b" for a b r m
    using that
    by (auto simp: process_chain_def Let_def provider_upd local_upd_commutes split: option.split prod.split)
qed

lemma finalize_chain_touches: "touches a m (fst (finalize_chain env req rt a m))"
    by (auto simp: finalize_chain_def touches_intros split: option.split sum.split prod.split)

interpretation block_calls: independent_calls "finalize_chain env req rt" for env req rt
proof (rule independent_callsI)
  show "touches a m (fst (finalize_chain env req rt a m))" for a m
    by (rule finalize_chain_touches)
  show "finalize_chain env req rt a (local_upd b r m) = apfst (local_upd b r) (finalize_chain env req rt a m)"
    if "a \<noteq> b" for a b r m
    using that
    by (simp add: finalize_chain_def local_upd_commutes split: option.split sum.split prod.split)
qed

text \<open>One turn of the loop that starts the goroutines of \<open>FinalizeBlock\<close>, and one of the loop
  of \<open>Commit\<close>.\<close>

definition take_part ::
    "('p, 'c) mux_env \<Rightarrow> RequestFinalizeBlock \<Rightarrow> string \<Rightarrow> ('p, 'c) Multiplexer \<Rightarrow>
     ('p, 'c) Multiplexer \<times> bool" where
  "take_part env req a m =
     (if flag (rejectedConsumerChains m) a \<or> fmlookup (chainHandlers m) a = None then (m, False)
      else case initChainIfNeeded env m a (rf_Height req) (rf_Time req) of
          (m, Inl e) \<Rightarrow> (m, False)
        | (m, Inr _) \<Rightarrow> (m, flag (initializedConsumerChains m) a))"

definition commit_one ::
    "('p, 'c) mux_env \<Rightarrow> string \<Rightarrow> ('p, 'c) Multiplexer \<Rightarrow> ('p, 'c) Multiplexer \<times> ResponseCommit option" where
  "commit_one env a m =
     (if \<not> flag (initializedConsumerChains m) a \<or> flag (rejectedConsumerChains m) a then (m, None)
      else case fmlookup (chainHandlers m) a of
          None \<Rightarrow> (m, None)
        | Some h \<Rightarrow>
            (case app_Commit (remote env) (ch_app h) of
               (c, Inl e) \<Rightarrow> (set_app a c m, None)
             | (c, Inr resp) \<Rightarrow> (set_app a c m, Some resp)))"

lemma initChainIfNeeded_touches: "touches a m (fst (initChainIfNeeded env m a h t))"
  by (auto simp: initChainIfNeeded_def Let_def touches_intros split: option.split sum.split prod.split)

lemma initChainIfNeeded_frame:
  "a \<noteq> b \<Longrightarrow> initChainIfNeeded env (local_upd b r m) a h t =
     apfst (local_upd b r) (initChainIfNeeded env m a h t)"
  by (simp add: initChainIfNeeded_def Let_def local_upd_commutes split: option.split sum.split prod.split)

lemma take_part_touches: "touches a m (fst (take_part env req a m))"
    using initChainIfNeeded_touches [of a m env "rf_Height req" "rf_Time req"]
    by (auto simp: take_part_def touches_intros split: sum.split prod.split)

interpretation launch_calls: independent_calls "take_part env req" for env req
proof (rule independent_callsI)
  show "touches a m (fst (take_part env req a m))" for a m
    by (rule take_part_touches)
  show "take_part env req a (local_upd b r m) = apfst (local_upd b r) (take_part env req a m)"
    if "a \<noteq> b" for a b r m
    using that by (auto simp: take_part_def initChainIfNeeded_frame split: sum.split prod.split)
qed

lemma commit_one_touches: "touches a m (fst (commit_one env a m))"
    by (auto simp: commit_one_def touches_intros split: option.split sum.split prod.split)

interpretation commit_calls: independent_calls "commit_one env" for env
proof (rule independent_callsI)
  show "touches a m (fst (commit_one env a m))" for a m
    by (rule commit_one_touches)
  show "commit_one env a (local_upd b r m) = apfst (local_upd b r) (commit_one env a m)"
    if "a \<noteq> b" for a b r m
    using that by (simp add: commit_one_def local_upd_commutes split: option.split sum.split prod.split)
qed

lemma launch_run_jobs:
  "launch env req ids m =
     (case run_jobs (take_part env req) ids m of (m', rs) \<Rightarrow> (m', map fst (filter snd (zip ids rs))))"
proof (induction ids arbitrary: m)
  case (Cons a ids)
  show ?case
    by (simp add: take_part_def Cons split: sum.split prod.split)
qed simp

lemma commit_run_jobs:
  "commit_chains env ids m r =
     (case run_jobs (commit_one env) ids m of
        (m', rs) \<Rightarrow> (m', fold (\<lambda>resp r. case resp of None \<Rightarrow> r | Some x \<Rightarrow> x) rs r))"
proof (induction ids arbitrary: m r)
  case (Cons a ids)
  show ?case
    by (simp add: commit_one_def Cons split: sum.split prod.split option.split)
qed simp

text \<open>The chains that take part in a block.\<close>

definition joins :: "('p, 'c) mux_env \<Rightarrow> RequestFinalizeBlock \<Rightarrow> ('p, 'c) Multiplexer \<Rightarrow> string \<Rightarrow> bool" where
  "joins env req m a = snd (take_part env req a m)"

lemma filter_zip_map: "map fst (filter snd (zip xs (map p xs))) = filter p xs"
  by (induction xs) auto

lemma launch_pick:
  "distinct ids \<Longrightarrow> launch env req (pick ns ids) m =
     (fold (\<lambda>a m. fst (take_part env req a m)) ids m, filter (joins env req m) (pick ns ids))"
  by (simp add: launch_run_jobs launch_calls.run_jobs_pick filter_zip_map joins_def [abs_def])

lemma commit_pick:
  "distinct ids \<Longrightarrow> fst (commit_chains env (pick ns ids) m r) = fold (\<lambda>a m. fst (commit_one env a m)) ids m"
  by (simp add: commit_run_jobs commit_calls.run_jobs_pick)

end
