(* ===== verification/Routing.thy ===== *)
theory Routing
  imports Concurrency
begin

text \<open>
  How the transactions of a block or a proposal are sorted by chain, and how results are put
  back at the positions of the transactions. \<open>addressed a i txs\<close> is the specification: the
  payloads with the header of chain \<open>a\<close>, in order, each with its index.
\<close>

section \<open>Transactions by chain\<close>

fun addressed :: "string \<Rightarrow> nat \<Rightarrow> bytes list \<Rightarrow> (nat \<times> bytes) list" where
  "addressed a i [] = []"
| "addressed a i (tx # txs) =
     (case ParseHeader tx of
        Inl _ \<Rightarrow> []
      | Inr (b, payload) \<Rightarrow> if b = a then [(i, payload)] else []) @ addressed a (Suc i) txs"

definition routable :: "('p, 'c) Multiplexer \<Rightarrow> string \<Rightarrow> bool" where
  "routable m a \<longleftrightarrow>
     \<not> flag (rejectedConsumerChains m) a \<and>
     (a = providerChainID m \<or> fmlookup (chainHandlers m) a \<noteq> None)"

fun unroutable_indices :: "('p, 'c) Multiplexer \<Rightarrow> nat \<Rightarrow> bytes list \<Rightarrow> nat list" where
  "unroutable_indices m i [] = []"
| "unroutable_indices m i (tx # txs) =
     (case ParseHeader tx of
        Inl _ \<Rightarrow> []
      | Inr (b, payload) \<Rightarrow> if routable m b then [] else [i]) @ unroutable_indices m (Suc i) txs"

lemma addressed_iff:
  "(j, p) \<in> set (addressed a i txs) \<longleftrightarrow> i \<le> j \<and> j < i + length txs \<and> ParseHeader (txs ! (j - i)) = Inr (a, p)"
proof (induction txs arbitrary: i)
  case (Cons tx txs)
  have "(j, p) \<in> set (addressed a (Suc i) txs) \<longleftrightarrow>
      i < j \<and> j < i + length (tx # txs) \<and> ParseHeader ((tx # txs) ! (j - i)) = Inr (a, p)"
    using Cons.IH by (auto simp: nth_Cons' Suc_le_eq)
  then show ?case
    by (cases "i = j") (auto split: sum.splits prod.splits)
qed simp

lemma addressed_index: "j \<in> fst ` set (addressed a i txs) \<longleftrightarrow>
    i \<le> j \<and> j < i + length txs \<and> (\<exists>p. ParseHeader (txs ! (j - i)) = Inr (a, p))"
proof -
  have "j \<in> fst ` set (addressed a i txs) \<longleftrightarrow> (\<exists>p. (j, p) \<in> set (addressed a i txs))"
    by (simp add: Domain_iff flip: Domain_fst)
  then show ?thesis
    by (simp add: addressed_iff)
qed

lemma sorted_addressed: "sorted_wrt (<) (map fst (addressed a i txs))"
proof (induction txs arbitrary: i)
  case (Cons tx txs)
  have later: "j \<in> set (map fst (addressed a (Suc i) txs)) \<Longrightarrow> i < j" for j
    unfolding set_map addressed_index by simp
  show ?case
  proof (cases "\<exists>p. ParseHeader tx = Inr (a, p)")
    case True
    then obtain p where "addressed a i (tx # txs) = (i, p) # addressed a (Suc i) txs"
      by auto
    then show ?thesis
      using later Cons by simp
  next
    case False
    then have "addressed a i (tx # txs) = addressed a (Suc i) txs"
      by (cases "ParseHeader tx") auto
    with Cons show ?thesis by simp
  qed
qed simp

lemma distinct_addressed: "distinct (map fst (addressed a i txs))"
  using sorted_addressed strict_sorted_iff by blast

lemma unroutable_iff: "j \<in> set (unroutable_indices m i txs) \<longleftrightarrow>
    i \<le> j \<and> j < i + length txs \<and> (\<exists>a p. ParseHeader (txs ! (j - i)) = Inr (a, p) \<and> \<not> routable m a)"
proof (induction txs arbitrary: i)
  case (Cons tx txs)
  have "j \<in> set (unroutable_indices m (Suc i) txs) \<longleftrightarrow> i < j \<and> j < i + length (tx # txs) \<and>
      (\<exists>a p. ParseHeader ((tx # txs) ! (j - i)) = Inr (a, p) \<and> \<not> routable m a)"
    using Cons.IH by (auto simp: nth_Cons' Suc_le_eq)
  then show ?case
    by (cases "i = j"; cases "ParseHeader tx") auto
qed simp

text \<open>What the loop of \<open>FinalizeBlock\<close> computes, and when it fails.\<close>

lemma route_block_Inr:
  "route_block m rt i txs = Inr rt' \<Longrightarrow>
     bucket (chainTxs rt') a = bucket (chainTxs rt) a @ (if routable m a then map snd (addressed a i txs) else []) \<and>
     bucket (txPositions rt') a =
       bucket (txPositions rt) a @ (if routable m a then map fst (addressed a i txs) else []) \<and>
     skippedIndices rt' = skippedIndices rt @ unroutable_indices m i txs"
proof (induction m rt i txs rule: route_block.induct)
  case (2 m rt i tx txs)
  then obtain b p where b: "ParseHeader tx = Inr (b, p)"
    by (cases "ParseHeader tx") auto
  show ?case
  proof (cases "routable m b")
    case True
    then show ?thesis
      using 2(3) [OF b refl] 2(4) b by (auto simp: routable_def)
  next
    case False
    then have "route_block m (rt\<lparr>skippedIndices := skippedIndices rt @ [i]\<rparr>) (Suc i) txs = Inr rt'"
      using 2(4) b by (auto simp: routable_def split: if_splits)
    then have "bucket (chainTxs rt') a = bucket (chainTxs rt) a @
        (if routable m a then map snd (addressed a (Suc i) txs) else []) \<and>
      bucket (txPositions rt') a =
        bucket (txPositions rt) a @ (if routable m a then map fst (addressed a (Suc i) txs) else []) \<and>
      skippedIndices rt' = skippedIndices rt @ [i] @ unroutable_indices m (Suc i) txs"
      using 2(1) [OF b refl] 2(2) [OF b refl] False
      by (cases "flag (rejectedConsumerChains m) b") (simp_all add: routable_def)
    moreover have "b = a \<Longrightarrow> \<not> routable m a"
      using False by simp
    ultimately show ?thesis
      using False b by auto
  qed
qed simp

lemma route_block_total:
  "(\<exists>rt'. route_block m rt i txs = Inr rt') \<longleftrightarrow> list_all (\<lambda>tx. \<exists>a p. ParseHeader tx = Inr (a, p)) txs"
proof (induction m rt i txs rule: route_block.induct)
  case (2 m rt i tx txs)
  then show ?case
    by (cases "ParseHeader tx") (auto split: prod.splits)
qed simp

lemma route_proposal_total:
  "route_proposal m c txs \<noteq> None \<longleftrightarrow> list_all (\<lambda>tx. \<exists>a p. ParseHeader tx = Inr (a, p)) txs"
proof (induction m c txs rule: route_proposal.induct)
  case (2 m c tx txs)
  then show ?case
    by (cases "ParseHeader tx") (auto split: prod.splits)
qed simp

text \<open>The chains that take part in a proposal.\<close>

definition proposable :: "('p, 'c) Multiplexer \<Rightarrow> string \<Rightarrow> bool" where
  "proposable m a \<longleftrightarrow>
     a = providerChainID m \<or>
     fmlookup (chainHandlers m) a \<noteq> None \<and> flag (initializedConsumerChains m) a"

lemma route_proposal_Some:
  "route_proposal m c txs = Some c' \<Longrightarrow>
     bucket c' a = bucket c a @ (if proposable m a then map snd (addressed a i txs) else []) \<and>
     (a |\<in>| fmdom c' \<longleftrightarrow> a |\<in>| fmdom c \<or> proposable m a \<and> addressed a i txs \<noteq> [])"
proof (induction m c txs arbitrary: i rule: route_proposal.induct)
  case (2 m c tx txs)
  then obtain b p where b: "ParseHeader tx = Inr (b, p)"
    by (cases "ParseHeader tx") auto
  show ?case
  proof (cases "proposable m b")
    case True
    then have "route_proposal m (push b p c) txs = Some c'"
      using 2(4) b by (auto simp: proposable_def split: if_splits)
    from 2(3) [OF b refl _ _ this, of "Suc i"] True b show ?thesis
      by (auto simp: proposable_def)
  next
    case False
    then have "route_proposal m c txs = Some c'"
      using 2(4) b by (auto simp: proposable_def split: if_splits)
    moreover have "b = a \<Longrightarrow> \<not> proposable m a"
      using False by simp
    ultimately show ?thesis
      using 2(1) [OF b refl, of "Suc i"] 2(2) [OF b refl, of "Suc i"] False b
      by (cases "fmlookup (chainHandlers m) b = None") (auto simp: proposable_def)
  qed
qed simp

section \<open>Results by position\<close>

lemma length_place [simp]: "length (place ps rs xs) = length xs"
  by (induction ps rs xs rule: place.induct) auto

lemma place_nth:
  "distinct ps \<Longrightarrow> i < length xs \<Longrightarrow>
     place ps rs xs ! i = (case map_of (zip ps rs) i of None \<Rightarrow> xs ! i | Some r \<Rightarrow> r)"
proof (induction ps rs xs rule: place.induct)
  case (1 p ps r rs xs)
  have "p \<notin> fst ` set (zip ps rs)"
    using 1(2) by (auto dest: set_zip_leftD)
  then have "map_of (zip ps rs) p = None"
    by (simp add: map_of_eq_None_iff)
  with 1 show ?case
    by (auto simp: nth_list_update split: option.splits)
qed auto

lemma place_outside: "i \<notin> set ps \<Longrightarrow> place ps rs xs ! i = xs ! i"
  by (induction ps rs xs rule: place.induct) auto

lemma place_commute:
  "set ps \<inter> set qs = {} \<Longrightarrow> place ps rs (place qs ss xs) = place qs ss (place ps rs xs)"
proof (induction ps rs xs rule: place.induct)
  case (1 p ps r rs xs)
  have "place qs ss (xs[p := r]) = (place qs ss xs)[p := r]" if "p \<notin> set qs" for xs
    using that
  proof (induction qs ss xs rule: place.induct)
    case (1 q qs s ss xs)
    then show ?case
      by (simp add: list_update_swap)
  qed auto
  with 1 show ?case
    by auto
qed auto

end
