(* ===== verification/Block.thy ===== *)
theory Block
  imports Routing
begin

text \<open>
  What a block of the multiplexer computes: the response of \<open>FinalizeBlock\<close> in terms of the
  answers of the applications, its independence of every schedule up to the order of the events,
  and what it leaves alone.
\<close>

section \<open>Gathering the answers\<close>

definition res_place :: "(string + block_result) \<Rightarrow> ExecTxResult option list \<Rightarrow> ExecTxResult option list" where
  "res_place res xs =
     (case res of Inl _ \<Rightarrow> xs | Inr r \<Rightarrow> place (br_positions r) (pf_TxResults (br_response r)) xs)"

definition res_hash :: "(string + block_result) \<Rightarrow> bytes gomap \<Rightarrow> bytes gomap" where
  "res_hash res h =
     (case res of Inl _ \<Rightarrow> h | Inr r \<Rightarrow> fmupd (br_chainID r) (pf_AppHash (br_response r)) h)"

definition res_events :: "(string + block_result) \<Rightarrow> AbciEvent list" where
  "res_events res = (case res of Inl _ \<Rightarrow> [] | Inr r \<Rightarrow> pf_Events (br_response r))"

lemma fold_collect_block:
  "fold collect_block rs g =
     \<lparr>g_TxResults = fold res_place rs (g_TxResults g), g_hashes = fold res_hash rs (g_hashes g),
      g_events = g_events g @ concat (map res_events rs)\<rparr>"
  by (induction rs arbitrary: g)
    (simp_all add: collect_block_def res_place_def res_hash_def res_events_def split: sum.split)

text \<open>The answer of the call for chain \<open>j\<close> is labelled with \<open>j\<close> and with the
  positions of its transactions; the positions of different chains are disjoint.\<close>

definition labelled :: "routed \<Rightarrow> (string \<Rightarrow> string + block_result) \<Rightarrow> bool" where
  "labelled rt f \<longleftrightarrow>
     (\<forall>j r. f j = Inr r \<longrightarrow> br_chainID r = j \<and> br_positions r = bucket (txPositions rt) j)"

definition disjoint_positions :: "routed \<Rightarrow> bool" where
  "disjoint_positions rt \<longleftrightarrow>
     (\<forall>a b. a \<noteq> b \<longrightarrow> set (bucket (txPositions rt) a) \<inter> set (bucket (txPositions rt) b) = {})"

lemma keyed_place:
  "labelled rt f \<Longrightarrow> disjoint_positions rt \<Longrightarrow> keyed_fold (\<lambda>j. j) (\<lambda>j. res_place (f j))"
  by unfold_locales
    (auto simp: res_place_def labelled_def disjoint_positions_def place_commute split: sum.split)

lemma keyed_hash: "labelled rt f \<Longrightarrow> keyed_fold (\<lambda>j. j) (\<lambda>j. res_hash (f j))"
  by unfold_locales (auto simp: res_hash_def labelled_def fmupd_commute split: sum.split)

lemma fold_res_hash:
  assumes "labelled rt f"
  shows "fmlookup (fold (\<lambda>j. res_hash (f j)) js h) a =
     (if a \<in> set js then (case f a of Inl _ \<Rightarrow> fmlookup h a | Inr r \<Rightarrow> Some (pf_AppHash (br_response r)))
      else fmlookup h a)"
proof (induction js arbitrary: h)
  case (Cons j js)
  have "fmlookup (res_hash (f j) h) a =
      (if a = j then (case f a of Inl _ \<Rightarrow> fmlookup h a | Inr r \<Rightarrow> Some (pf_AppHash (br_response r)))
       else fmlookup h a)"
    using assms by (auto simp: res_hash_def labelled_def split: sum.splits)
  with Cons show ?case
    by (auto split: sum.split)
qed simp

lemma length_fold_place: "length (fold (\<lambda>j. res_place (f j)) js xs) = length xs"
  by (induction js arbitrary: xs) (simp_all add: res_place_def split: sum.split)

lemma fold_res_place:
  assumes "labelled rt f" and "disjoint_positions rt" and "distinct (bucket (txPositions rt) a)"
    and "i \<in> set (bucket (txPositions rt) a)" and "i < length xs" and "distinct js"
  shows "fold (\<lambda>j. res_place (f j)) js xs ! i =
     (if a \<in> set js
      then (case f a of
              Inl _ \<Rightarrow> xs ! i
            | Inr r \<Rightarrow> (case map_of (zip (bucket (txPositions rt) a) (pf_TxResults (br_response r))) i of
                None \<Rightarrow> xs ! i | Some x \<Rightarrow> x))
      else xs ! i)"
  using assms(5,6)
proof (induction js arbitrary: xs)
  case (Cons j js)
  let ?ys = "res_place (f j) xs"
  have len: "length ?ys = length xs"
    by (simp add: res_place_def split: sum.split)
  have other: "?ys ! i = xs ! i" if "j \<noteq> a"
  proof -
    have "i \<notin> set (bucket (txPositions rt) j)"
      using assms(2,4) that unfolding disjoint_positions_def by blast
    then show ?thesis
      using assms(1) by (auto simp: res_place_def labelled_def place_outside split: sum.split)
  qed
  have own: "?ys ! i = (case f a of
        Inl _ \<Rightarrow> xs ! i
      | Inr r \<Rightarrow> (case map_of (zip (bucket (txPositions rt) a) (pf_TxResults (br_response r))) i of
          None \<Rightarrow> xs ! i | Some x \<Rightarrow> x))" if "j = a"
    using assms(1,3) Cons.prems(1) that
    by (auto simp: res_place_def labelled_def place_nth split: sum.split)
  show ?case
  proof (cases "j = a")
    case True
    then have "a \<notin> set js"
      using Cons.prems(2) by simp
    with True Cons.IH [of ?ys] Cons.prems len own show ?thesis
      by simp
  next
    case False
    with Cons.IH [of ?ys] Cons.prems len show ?thesis
      unfolding other [OF False] by auto
  qed
qed simp

lemma fold_res_place_outside:
  assumes "labelled rt f" and "\<And>a. a \<in> set js \<Longrightarrow> i \<notin> set (bucket (txPositions rt) a)"
  shows "fold (\<lambda>j. res_place (f j)) js xs ! i = xs ! i"
  using assms(2)
proof (induction js arbitrary: xs)
  case (Cons j js)
  have "res_place (f j) xs ! i = xs ! i"
    using assms(1) Cons.prems by (auto simp: res_place_def labelled_def place_outside split: sum.split)
  with Cons show ?case
    by simp
qed simp

section \<open>The sorted transactions of a block\<close>

definition positions :: "string \<Rightarrow> bytes list \<Rightarrow> nat list" where
  "positions a txs = map fst (addressed a 0 txs)"

definition payloads :: "string \<Rightarrow> bytes list \<Rightarrow> bytes list" where
  "payloads a txs = map snd (addressed a 0 txs)"

lemma positions_iff:
  "i \<in> set (positions a txs) \<longleftrightarrow> i < length txs \<and> (\<exists>p. ParseHeader (txs ! i) = Inr (a, p))"
  using addressed_index [of i a 0 txs] by (simp add: positions_def)

lemma distinct_positions: "distinct (positions a txs)"
  by (simp add: positions_def distinct_addressed)

lemma routed_block:
  assumes "route_block m no_txs 0 txs = Inr rt"
  shows "bucket (chainTxs rt) a = (if routable m a then payloads a txs else [])"
    and "bucket (txPositions rt) a = (if routable m a then positions a txs else [])"
    and "skippedIndices rt = unroutable_indices m 0 txs"
  using route_block_Inr [OF assms, of a] by (simp_all add: no_txs_def payloads_def positions_def)

lemma routed_disjoint: "route_block m no_txs 0 txs = Inr rt \<Longrightarrow> disjoint_positions rt"
  by (auto simp: disjoint_positions_def routed_block positions_iff)

lemma finalize_chain_labelled: "labelled rt (\<lambda>j. snd (finalize_chain env req rt j m))"
  by (auto simp: labelled_def finalize_chain_def split: option.splits sum.splits prod.splits)

lemma filter_pick_perm: "mset (pick ns' (filter p (pick ns xs))) = mset (filter p xs)"
  by (simp add: mset_filter)

section \<open>Order\<close>

text \<open>The states the applications are called on: after the initialisation of the active
  chains.\<close>

definition started ::
    "('p, 'c) mux_env \<Rightarrow> RequestFinalizeBlock \<Rightarrow> ('p, 'c) Multiplexer \<Rightarrow> ('p, 'c) Multiplexer" where
  "started env req m = fold (\<lambda>a m. fst (take_part env req a m)) (keys (activeChains m)) m"

definition answer ::
    "('p, 'c) mux_env \<Rightarrow> RequestFinalizeBlock \<Rightarrow> routed \<Rightarrow> ('p, 'c) Multiplexer \<Rightarrow> string \<Rightarrow> string + block_result"
  where
  "answer env req rt m a = snd (finalize_chain env req rt a (started env req m))"

definition workers :: "('p, 'c) mux_env \<Rightarrow> RequestFinalizeBlock \<Rightarrow> ('p, 'c) Multiplexer \<Rightarrow> string list" where
  "workers env req m = filter (joins env req m) (keys (activeChains m))"

lemma started_fixed [simp]:
  "providerChainID (started env req m) = providerChainID m"
  "rejectedConsumerChains (started env req m) = rejectedConsumerChains m"
  "activeChains (started env req m) = activeChains m"
  by (simp_all add: started_def fold_touches [OF take_part_touches])

lemma mset_concat_order: "mset js = mset ks \<Longrightarrow> mset (concat (map f js)) = mset (concat (map f ks))"
  by (simp add: mset_concat flip: sum_mset_sum_list)

text \<open>The responses of the consumer chains as they enter the response of the multiplexer.\<close>

lemma finalize_consumers_eq:
  fixes env :: "('p, 'c) mux_env" and m :: "('p, 'c) Multiplexer" and pr req rt
  assumes "disjoint_positions rt"
  defines "g0 \<equiv> gathered_provider (providerChainID m) (length (rf_Txs req)) rt pr"
  shows "\<exists>evs. finalize_consumers env ns ns' req rt pr m =
     (fold (\<lambda>j m. fst (finalize_chain env req rt j m)) (workers env req m) (started env req m),
      \<lparr>g_TxResults = fold (\<lambda>j. res_place (answer env req rt m j)) (workers env req m) (g_TxResults g0),
       g_hashes = fold (\<lambda>j. res_hash (answer env req rt m j)) (workers env req m) (g_hashes g0),
       g_events = g_events g0 @ evs\<rparr>) \<and>
     mset evs = mset (concat (map (\<lambda>j. res_events (answer env req rt m j)) (workers env req m)))"
proof -
  let ?ids = "keys (activeChains m)" and ?m = "started env req m" and ?f = "answer env req rt m"
  define js where "js = pick ns' (filter (joins env req m) (pick ns ?ids))"
  have js: "mset js = mset (workers env req m)" "distinct js"
    by (simp_all add: js_def workers_def filter_pick_perm)
  have lab: "labelled rt ?f"
    unfolding answer_def by (rule finalize_chain_labelled)
  have launched: "launch env req (pick ns ?ids) m = (?m, filter (joins env req m) (pick ns ?ids))"
    by (simp add: launch_pick started_def)
  have jobs: "run_jobs (finalize_chain env req rt) js ?m =
      (fold (\<lambda>j m. fst (finalize_chain env req rt j m)) js ?m, map ?f js)"
    using block_calls.run_jobs_eq [OF js(2)] by (simp add: answer_def [abs_def])
  have d: "distinct (map (\<lambda>j. j) js)"
    using js(2) by simp
  have prov: "providerChainID (fold (\<lambda>j m. fst (finalize_chain env req rt j m)) ks ?m) = providerChainID m" for ks
    by (simp add: fold_touches [OF finalize_chain_touches])
  show ?thesis
    unfolding finalize_consumers_def launched prod.case js_def [symmetric] jobs fold_collect_block g0_def
    using block_calls.fold_order [OF d js(1), of env req rt ?m]
      keyed_fold.fold_order [OF keyed_place [OF lab assms(1)] d js(1)]
      keyed_fold.fold_order [OF keyed_hash [OF lab] d js(1)]
    by (intro exI [of _ "concat (map (\<lambda>j. res_events (?f j)) js)"] conjI)
      (simp_all add: fold_map comp_def prov mset_concat_order [OF js(1)])
qed


section \<open>The handler in two halves\<close>

text \<open>Everything up to the response of the provider and the query for the active chains.\<close>

definition block_start ::
    "('p, 'c) mux_env \<Rightarrow> ('p, 'c) Multiplexer \<Rightarrow> GoContext \<Rightarrow> RequestFinalizeBlock \<Rightarrow>
     ('p, 'c) Multiplexer \<times> (mux_error + routed \<times> ResponseFinalizeBlock)" where
  "block_start env m ctx req =
     (case checkHaltConditions m req of
        Inl e \<Rightarrow> (m, Inl (NodeShouldHalt e))
      | Inr _ \<Rightarrow>
          (case route_block m no_txs 0 (rf_Txs req) of
             Inl e \<Rightarrow> (m, Inl e)
           | Inr rt \<Rightarrow>
               (case app_FinalizeBlock (provider env) (providerChain m)
                       (req\<lparr>rf_Txs := bucket (chainTxs rt) (providerChainID m)\<rparr>) of
                  (p, Inl e) \<Rightarrow> (m\<lparr>providerChain := p\<rparr>, Inl (ProviderFinalizeFailed e))
                | (p, Inr pr) \<Rightarrow>
                    (if sint (rf_Height req) > 1
                     then fst (updateActiveChains env (m\<lparr>providerChain := p\<rparr>) ctx)
                     else m\<lparr>providerChain := p\<rparr>, Inr (rt, pr)))))"

definition block_response :: "ResponseFinalizeBlock \<Rightarrow> gathered \<Rightarrow> ResponseFinalizeBlock" where
  "block_response pr g =
     \<lparr>pf_Events = g_events g, pf_TxResults = g_TxResults g,
      pf_ValidatorUpdates = pf_ValidatorUpdates pr,
      pf_ConsensusParamUpdates = pf_ConsensusParamUpdates pr, pf_AppHash = combine_hashes (g_hashes g)\<rparr>"

lemma FinalizeBlock_halves:
  "FinalizeBlock env ns ns' m ctx req =
     andThen (block_start env m ctx req)
       (\<lambda>m (rt, pr). apsnd (\<lambda>g. Inr (block_response pr g)) (finalize_consumers env ns ns' req rt pr m))"
  by (simp add: FinalizeBlock_def block_start_def block_response_def Let_def split: sum.split prod.split)

lemma updateActiveChains_fixed [simp]:
  "svrCfg (fst (updateActiveChains env m ctx)) = svrCfg m"
  "providerChainID (fst (updateActiveChains env m ctx)) = providerChainID m"
  "chainHandlers (fst (updateActiveChains env m ctx)) = chainHandlers m"
  "rejectedConsumerChains (fst (updateActiveChains env m ctx)) = rejectedConsumerChains m"
  "initializedConsumerChains (fst (updateActiveChains env m ctx)) = initializedConsumerChains m"
  by (simp_all add: updateActiveChains_def getActiveChainIDsFromProvider_def Let_def
      split: sum.split prod.split)

lemma block_start_fixed:
  assumes "block_start env m ctx req = (m', r)"
  shows "svrCfg m' = svrCfg m" and "providerChainID m' = providerChainID m"
    and "chainHandlers m' = chainHandlers m" and "rejectedConsumerChains m' = rejectedConsumerChains m"
    and "initializedConsumerChains m' = initializedConsumerChains m"
    and "r = Inr (rt, pr) \<Longrightarrow> route_block m no_txs 0 (rf_Txs req) = Inr rt"
  using assms by (auto simp: block_start_def split: sum.splits prod.splits if_splits)

text \<open>The response computed without any schedule: its events are those of the chains in the
  order of their ids.\<close>

definition gathered_block ::
    "('p, 'c) mux_env \<Rightarrow> RequestFinalizeBlock \<Rightarrow> routed \<Rightarrow> ResponseFinalizeBlock \<Rightarrow>
     ('p, 'c) Multiplexer \<Rightarrow> gathered" where
  "gathered_block env req rt pr m =
     fold collect_block (map (answer env req rt m) (workers env req m))
       (gathered_provider (providerChainID m) (length (rf_Txs req)) rt pr)"

definition finished ::
    "('p, 'c) mux_env \<Rightarrow> RequestFinalizeBlock \<Rightarrow> routed \<Rightarrow> ('p, 'c) Multiplexer \<Rightarrow> ('p, 'c) Multiplexer"
  where
  "finished env req rt m =
     fold (\<lambda>j m. fst (finalize_chain env req rt j m)) (workers env req m) (started env req m)"

definition same_block :: "ResponseFinalizeBlock \<Rightarrow> ResponseFinalizeBlock \<Rightarrow> bool" where
  "same_block r r' \<longleftrightarrow>
     pf_TxResults r = pf_TxResults r' \<and> pf_AppHash r = pf_AppHash r' \<and>
     pf_ValidatorUpdates r = pf_ValidatorUpdates r' \<and>
     pf_ConsensusParamUpdates r = pf_ConsensusParamUpdates r' \<and>
     mset (pf_Events r) = mset (pf_Events r')"

lemma finalize_consumers_reference:
  assumes "disjoint_positions rt"
  shows "fst (finalize_consumers env ns ns' req rt pr m) = finished env req rt m"
    and "same_block (block_response pr (snd (finalize_consumers env ns ns' req rt pr m)))
      (block_response pr (gathered_block env req rt pr m))"
proof -
  let ?g = "gathered_block env req rt pr m"
    and ?start = "gathered_provider (providerChainID m) (length (rf_Txs req)) rt pr"
  have g: "g_TxResults ?g =
        fold (\<lambda>j. res_place (answer env req rt m j)) (workers env req m) (g_TxResults ?start)"
      "g_hashes ?g = fold (\<lambda>j. res_hash (answer env req rt m j)) (workers env req m) (g_hashes ?start)"
      "g_events ?g =
        g_events ?start @ concat (map (\<lambda>j. res_events (answer env req rt m j)) (workers env req m))"
    unfolding gathered_block_def fold_collect_block by (simp_all add: fold_map comp_def)
  obtain evs where *: "finalize_consumers env ns ns' req rt pr m =
      (finished env req rt m,
       \<lparr>g_TxResults = g_TxResults ?g, g_hashes = g_hashes ?g, g_events = g_events ?start @ evs\<rparr>)"
    "mset evs = mset (concat (map (\<lambda>j. res_events (answer env req rt m j)) (workers env req m)))"
    using finalize_consumers_eq [OF assms, of env ns ns' req pr m] unfolding finished_def g by blast
  then show "fst (finalize_consumers env ns ns' req rt pr m) = finished env req rt m"
    by simp
  show "same_block (block_response pr (snd (finalize_consumers env ns ns' req rt pr m)))
      (block_response pr ?g)"
    by (simp add: same_block_def block_response_def * g(3))
qed

end
