(* ===== verification/BlockSpec.thy ===== *)
theory BlockSpec
  imports Block
begin

text \<open>
  The specification of a block: the response of \<open>FinalizeBlock\<close> position by position and
  chain by chain, without any loop, and the state it leaves of every chain. A chain is
  processed alone: \<open>chain_start\<close> is the state after its own initialisation only, and
  \<open>chain_response\<close> the answer of its application to the payloads with its header.
\<close>

section \<open>One chain\<close>

definition chain_start ::
    "('p, 'c) mux_env \<Rightarrow> RequestFinalizeBlock \<Rightarrow> ('p, 'c) Multiplexer \<Rightarrow> string \<Rightarrow> 'c ChainHandler option" where
  "chain_start env req m a = fmlookup (chainHandlers (fst (take_part env req a m))) a"

definition chain_response ::
    "('p, 'c) mux_env \<Rightarrow> RequestFinalizeBlock \<Rightarrow> ('p, 'c) Multiplexer \<Rightarrow> string \<Rightarrow>
     string + ResponseFinalizeBlock" where
  "chain_response env req m a =
     (case chain_start env req m a of
        None \<Rightarrow> Inl ''nil handler''
      | Some h \<Rightarrow> snd (app_FinalizeBlock (remote env) (ch_app h) (req\<lparr>rf_Txs := payloads a (rf_Txs req)\<rparr>)))"

definition nth_result :: "nat list \<Rightarrow> 'r option list \<Rightarrow> nat \<Rightarrow> 'r option" where
  "nth_result ps rs i = (case map_of (zip ps rs) i of None \<Rightarrow> None | Some r \<Rightarrow> r)"

definition tx_result ::
    "('p, 'c) mux_env \<Rightarrow> RequestFinalizeBlock \<Rightarrow> ResponseFinalizeBlock \<Rightarrow> ('p, 'c) Multiplexer \<Rightarrow>
     nat \<Rightarrow> ExecTxResult option" where
  "tx_result env req pr m i =
     (case ParseHeader (rf_Txs req ! i) of
        Inl _ \<Rightarrow> None
      | Inr (a, _) \<Rightarrow>
          if \<not> routable m a then skipped_result
          else if a = providerChainID m
          then nth_result (positions a (rf_Txs req)) (pf_TxResults pr) i
          else if a \<notin> set (workers env req m) then None
          else (case chain_response env req m a of
                  Inl _ \<Rightarrow> None
                | Inr r \<Rightarrow> nth_result (positions a (rf_Txs req)) (pf_TxResults r) i))"

definition answering ::
    "('p, 'c) mux_env \<Rightarrow> RequestFinalizeBlock \<Rightarrow> ('p, 'c) Multiplexer \<Rightarrow> string list" where
  "answering env req m = filter (\<lambda>a. \<not> isl (chain_response env req m a)) (workers env req m)"

definition block_hash ::
    "('p, 'c) mux_env \<Rightarrow> RequestFinalizeBlock \<Rightarrow> ResponseFinalizeBlock \<Rightarrow> ('p, 'c) Multiplexer \<Rightarrow> bytes" where
  "block_hash env req pr m =
     concat (map (\<lambda>a. if a = providerChainID m then pf_AppHash pr
                       else case chain_response env req m a of Inl _ \<Rightarrow> '''' | Inr r \<Rightarrow> pf_AppHash r)
       (insort (providerChainID m) (answering env req m)))"

lemma workers_routable: "a \<in> set (workers env req m) \<Longrightarrow> routable m a"
  by (auto simp: workers_def joins_def take_part_def routable_def split: if_splits sum.splits prod.splits)

lemma distinct_workers [simp]: "distinct (workers env req m)"
  by (simp add: workers_def)

lemma sorted_workers: "sorted (workers env req m)"
  using sorted_filter [of "\<lambda>a. a" "keys (activeChains m)" "joins env req m"] by (simp add: workers_def)

lemma started_lookup:
  "a \<in> set (workers env req m) \<Longrightarrow>
     fmlookup (chainHandlers (started env req m)) a = chain_start env req m a"
  unfolding started_def chain_start_def
  by (rule fold_local(1) [OF take_part_touches launch_calls.independent_calls_axioms])
    (auto simp: workers_def)

lemma answer_worker:
  assumes "route_block m0 no_txs 0 (rf_Txs req) = Inr rt" and "a \<in> set (workers env req m)"
    and "routable m0 a"
  shows "answer env req rt m a =
    (case chain_response env req m a of
       Inl e \<Rightarrow> Inl e
     | Inr r \<Rightarrow> Inr \<lparr>br_chainID = a, br_response = r, br_positions = positions a (rf_Txs req)\<rparr>)"
  using assms(3)
  by (simp add: answer_def finalize_chain_def started_lookup [OF assms(2)] chain_response_def
      routed_block [OF assms(1)] split: option.split prod.split sum.split)

section \<open>The results\<close>

lemma length_skip: "length (fold (\<lambda>i xs. xs[i := v]) is xs) = length xs"
  by (induction "is" arbitrary: xs) simp_all

lemma skip_nth:
  "i < length xs \<Longrightarrow> fold (\<lambda>i xs. xs[i := v]) is xs ! i = (if i \<in> set is then v else xs ! i)"
  by (induction "is" arbitrary: xs) auto

lemma slot_nth:
  "distinct ps \<Longrightarrow> i < n \<Longrightarrow> place ps rs (replicate n None) ! i = nth_result ps rs i"
  by (simp add: place_nth nth_result_def split: option.split)

lemma nth_result_outside: "i \<notin> set ps \<Longrightarrow> nth_result ps rs i = None"
proof -
  assume "i \<notin> set ps"
  then have "map_of (zip ps rs) i = None"
    by (auto simp: map_of_eq_None_iff dest: set_zip_leftD)
  then show ?thesis
    by (simp add: nth_result_def)
qed

lemma gathered_results:
  "g_TxResults (gathered_block env req rt pr m) =
     fold (\<lambda>j. res_place (answer env req rt m j)) (workers env req m)
       (g_TxResults (gathered_provider (providerChainID m) (length (rf_Txs req)) rt pr))"
  "g_hashes (gathered_block env req rt pr m) =
     fold (\<lambda>j. res_hash (answer env req rt m j)) (workers env req m)
       (fmupd (providerChainID m) (pf_AppHash pr) fmempty)"
  unfolding gathered_block_def fold_collect_block
  by (simp_all add: fold_map comp_def gathered_provider_def Let_def)

lemma answer_labelled: "labelled rt (answer env req rt m)"
  unfolding answer_def by (rule finalize_chain_labelled)

lemma gathered_block_length:
  "length (g_TxResults (gathered_block env req rt pr m)) = length (rf_Txs req)"
  unfolding gathered_results(1) length_fold_place
  by (simp add: gathered_provider_def Let_def length_skip)

lemma provider_slot:
  assumes "route_block m no_txs 0 (rf_Txs req) = Inr rt" and "i < length (rf_Txs req)"
    and "ParseHeader (rf_Txs req ! i) = Inr (a, p)"
  shows "g_TxResults (gathered_provider (providerChainID m) (length (rf_Txs req)) rt pr) ! i =
    (if \<not> routable m a then skipped_result
     else if a = providerChainID m then nth_result (positions a (rf_Txs req)) (pf_TxResults pr) i
     else None)"
proof -
  let ?ps = "bucket (txPositions rt) (providerChainID m)"
  have ps: "distinct ?ps"
    "a \<noteq> providerChainID m \<or> \<not> routable m a \<Longrightarrow> i \<notin> set ?ps"
    using assms(3) by (auto simp: routed_block [OF assms(1)] distinct_positions positions_iff)
  have "i \<in> set (skippedIndices rt) \<longleftrightarrow> \<not> routable m a"
    using assms(2,3) by (simp add: routed_block(3) [OF assms(1)] unroutable_iff)
  then show ?thesis
    using assms(2) ps(2)
    by (auto simp: gathered_provider_def Let_def skip_nth slot_nth distinct_positions
        nth_result_outside routed_block(2) [OF assms(1)])
qed

lemma gathered_block_nth:
  assumes route: "route_block m0 no_txs 0 (rf_Txs req) = Inr rt" and i: "i < length (rf_Txs req)"
    and same: "routable m = routable m0" "providerChainID m = providerChainID m0"
    and prov: "fmlookup (chainHandlers m) (providerChainID m) = None"
  shows "g_TxResults (gathered_block env req rt pr m) ! i = tx_result env req pr m i"
proof -
  let ?start = "g_TxResults (gathered_provider (providerChainID m) (length (rf_Txs req)) rt pr)"
  obtain a p where a: "ParseHeader (rf_Txs req ! i) = Inr (a, p)"
  proof -
    have "list_all (\<lambda>tx. \<exists>a p. ParseHeader tx = Inr (a, p)) (rf_Txs req)"
      using route route_block_total by blast
    then show ?thesis
      using i that by (auto simp: list_all_length)
  qed
  have start: "length ?start = length (rf_Txs req)"
    "?start ! i = (if \<not> routable m a then skipped_result
     else if a = providerChainID m then nth_result (positions a (rf_Txs req)) (pf_TxResults pr) i
     else None)"
    using provider_slot [OF route i a] same
    by (simp_all add: gathered_provider_def Let_def length_skip)
  have notprov: "b \<in> set (workers env req m) \<Longrightarrow> b \<noteq> providerChainID m" for b
    using prov by (auto simp: workers_def joins_def take_part_def split: if_splits)
  show ?thesis
  proof (cases "routable m a \<and> a \<in> set (workers env req m)")
    case True
    have pos: "bucket (txPositions rt) a = positions a (rf_Txs req)"
      using True same by (simp add: routed_block [OF route])
    have "i \<in> set (positions a (rf_Txs req))"
      using i a by (simp add: positions_iff)
    then have "g_TxResults (gathered_block env req rt pr m) ! i =
        (case answer env req rt m a of Inl _ \<Rightarrow> ?start ! i
         | Inr r \<Rightarrow> (case map_of (zip (positions a (rf_Txs req)) (pf_TxResults (br_response r))) i of
             None \<Rightarrow> ?start ! i | Some x \<Rightarrow> x))"
      unfolding gathered_results(1)
      using fold_res_place [OF answer_labelled routed_disjoint [OF route], of a i ?start "workers env req m",
          unfolded pos] True i start(1) by (simp add: distinct_positions)
    with True a start(2) notprov same show ?thesis
      by (simp add: tx_result_def answer_worker [OF route] nth_result_def split: sum.split
          cong: option.case_cong)
  next
    case False
    have "i \<notin> set (bucket (txPositions rt) b)" if "b \<in> set (workers env req m)" for b
      using False that a workers_routable [OF that] same
      by (auto simp: routed_block [OF route] positions_iff)
    then have "g_TxResults (gathered_block env req rt pr m) ! i = ?start ! i"
      unfolding gathered_results(1)
      by (intro fold_res_place_outside [OF answer_labelled]) auto
    with False a start(2) show ?thesis
      by (auto simp: tx_result_def)
  qed
qed

lemma gathered_block_hash:
  assumes route: "route_block m0 no_txs 0 (rf_Txs req) = Inr rt"
    and same: "routable m = routable m0"
    and prov: "fmlookup (chainHandlers m) (providerChainID m) = None"
  shows "combine_hashes (g_hashes (gathered_block env req rt pr m)) = block_hash env req pr m"
proof -
  let ?ws = "workers env req m" and ?h = "g_hashes (gathered_block env req rt pr m)"
  have notprov: "providerChainID m \<notin> set ?ws"
    using prov by (auto simp: workers_def joins_def take_part_def split: if_splits)
  have lookup: "fmlookup ?h a =
      (if a \<in> set ?ws
       then (case chain_response env req m a of Inl _ \<Rightarrow> None | Inr r \<Rightarrow> Some (pf_AppHash r))
       else if a = providerChainID m then Some (pf_AppHash pr) else None)" for a
    unfolding gathered_results(2) fold_res_hash [OF answer_labelled]
    using notprov workers_routable [of a env req m] same
    by (auto simp: answer_worker [OF route] split: sum.split)
  have "set (keys ?h) = set (insort (providerChainID m) (answering env req m))"
    using lookup notprov
    by (auto simp: fmlookup_dom_iff answering_def set_insort_key split: sum.splits if_splits)
  moreover have "sorted (insort (providerChainID m) (answering env req m))"
    using sorted_filter [of "\<lambda>a. a", simplified, OF sorted_workers]
    by (simp add: answering_def sorted_insort)
  moreover have "distinct (insort (providerChainID m) (answering env req m))"
    using notprov by (simp add: answering_def distinct_insort)
  ultimately have keys: "keys ?h = insort (providerChainID m) (answering env req m)"
    by (intro sorted_distinct_set_unique) simp_all
  show ?thesis
    unfolding combine_hashes_def block_hash_def keys using notprov
    by (intro arg_cong [where f = concat] map_cong)
      (auto simp: lookup answering_def set_insort_key split: sum.split)
qed

end
