(* ===== verification/MuxDemo.thy ===== *)
theory MuxDemo
  imports Block
begin

text \<open>
  A concrete world for the witnesses of the multiplexer's theorems: an application whose state
  is its name and the number of blocks it has seen, a multiplexer with the provider \<open>p\<close> and
  the consumer chains \<open>a\<close> and \<open>b\<close>, of which \<open>b\<close> is not initialised yet, and blocks and
  proposals for them. The application rejects proposals that contain the transaction \<open>bad\<close>.
\<close>

definition demo_result :: "bytes \<Rightarrow> ExecTxResult option" where
  "demo_result tx = Some \<lparr>tr_Code = 0, tr_Log = tx, tr_rest = ''''\<rparr>"

definition demo_app :: "bytes \<Rightarrow> (string \<times> nat) ABCI" where
  "demo_app active =
     \<lparr>app_Info = (\<lambda>s req. (s, Inr \<lparr>LastBlockHeight = 0, LastBlockAppHash = '''', ri_resp_rest = ''''\<rparr>)),
      app_Query = (\<lambda>s ctx req. (s, Inr \<lparr>pq_Code = 0, pq_Log = '''', pq_Value = active, pq_rest = ''''\<rparr>)),
      app_CheckTx = (\<lambda>s req. (s, Inr \<lparr>pc_Code = 0, pc_Log = rc_Tx req, pc_rest = ''''\<rparr>)),
      app_InitChain = (\<lambda>s req. (s, Inr \<lparr>pi_ConsensusParams = Some ''cp'',
         pi_Validators = [\<lparr>PubKey = ''k'', VU_Power = 5\<rparr>], pi_AppHash = fst s\<rparr>)),
      app_PrepareProposal = (\<lambda>s req. (s, Inr \<lparr>pp_Txs = rp_Txs req\<rparr>)),
      app_ProcessProposal = (\<lambda>s req.
         (s, Inr \<lparr>pr_Status = (if ''bad'' \<in> set (rr_Txs req) then REJECT else ACCEPT)\<rparr>)),
      app_FinalizeBlock = (\<lambda>s req. ((fst s, Suc (snd s)), Inr
         \<lparr>pf_Events = [fst s], pf_TxResults = map demo_result (rf_Txs req), pf_ValidatorUpdates = [],
          pf_ConsensusParamUpdates = None, pf_AppHash = fst s\<rparr>)),
      app_ExtendVote = (\<lambda>s ctx req. (s, Inr '''')),
      app_VerifyVoteExtension = (\<lambda>s req. (s, Inr '''')),
      app_Commit = (\<lambda>s. (s, Inr \<lparr>RetainHeight = word_of_nat (snd s)\<rparr>)),
      app_ListSnapshots = (\<lambda>s req. (s, Inr '''')),
      app_OfferSnapshot = (\<lambda>s req. (s, Inr '''')),
      app_LoadSnapshotChunk = (\<lambda>s req. (s, Inr '''')),
      app_ApplySnapshotChunk = (\<lambda>s req. (s, Inr ''''))\<rparr>"

definition demo_env :: "bytes \<Rightarrow> (string \<times> nat, string \<times> nat) mux_env" where
  "demo_env active =
     \<lparr>provider = demo_app active, remote = demo_app '''', AppGenesisFromFile = (\<lambda>f. Inr ''{}''),
      GenDocProvider = Inl ''no file'', PubKeyToProto = Inr, grpc_NewClient = (\<lambda>addr. Inr (addr, 0)),
      page_Unmarshal = (\<lambda>b p. Inr p)\<rparr>"

definition demo_info :: "string \<Rightarrow> ChainInfo" where
  "demo_info cid = \<lparr>CI_ChainID = cid, GRPCAddress = cid, Home = ''/'' @ cid\<rparr>"

definition demo_handler :: "string \<Rightarrow> (string \<times> nat) ChainHandler" where
  "demo_handler cid = \<lparr>ch_ChainID = cid, ch_app = (cid, 0), ch_config = demo_info cid\<rparr>"

definition demo_mux :: "(string \<times> nat, string \<times> nat) Multiplexer" where
  "demo_mux =
     \<lparr>svrCfg = \<lparr>HaltHeight = 0, HaltTime = 0\<rparr>, providerChain = (''p'', 0), providerChainID = ''p'',
      chainHandlers = fmupd ''b'' (demo_handler ''b'') (fmupd ''a'' (demo_handler ''a'') fmempty),
      rejectedConsumerChains = fmempty, initializedConsumerChains = fmupd ''a'' True fmempty,
      activeChains = fmupd ''b'' True (fmupd ''a'' True fmempty), providerGenesisValidators = [],
      providerGenesisConsensusParams = None,
      chainConfig = \<lparr>Chains = [demo_info ''a'', demo_info ''b'']\<rparr>\<rparr>"

definition demo_txs :: "bytes list" where
  "demo_txs = [CreateTransactionHeader ''a'' @ ''x'', CreateTransactionHeader ''z'' @ ''y'',
     CreateTransactionHeader ''p'' @ ''w'', CreateTransactionHeader ''b'' @ ''v'']"

definition demo_block :: "int64 \<Rightarrow> bytes list \<Rightarrow> RequestFinalizeBlock" where
  "demo_block height txs =
     \<lparr>rf_Txs = txs, rf_Height = height, rf_Time = \<lparr>Unix = 0, Nanosecond = 0\<rparr>, rf_rest = ''''\<rparr>"

text \<open>Evaluation.\<close>

lemma demo_headers [simp]:
  "ParseHeader (CreateTransactionHeader ''a'' @ p) = Inr (''a'', p)"
  "ParseHeader (CreateTransactionHeader ''b'' @ p) = Inr (''b'', p)"
  "ParseHeader (CreateTransactionHeader ''p'' @ p) = Inr (''p'', p)"
  "ParseHeader (CreateTransactionHeader ''z'' @ p) = Inr (''z'', p)"
  by (simp_all add: ParseHeader_header)

lemmas demo_mux_simps =
  demo_mux_def demo_env_def demo_app_def demo_handler_def demo_info_def demo_block_def demo_txs_def
  demo_result_def

lemma demo_keys [simp]:
  "keys (chainHandlers demo_mux) = [''a'', ''b'']" "keys (activeChains demo_mux) = [''a'', ''b'']"
  by (simp_all add: demo_mux_def fmlookup_dom_iff)

end
