(* ===== verification/BlockProps.thy ===== *)
theory BlockProps
  imports BlockSpec MuxDemo
begin

text \<open>The properties of \<open>FinalizeBlock\<close>, with their witnesses in the demo world.\<close>

section \<open>Order\<close>

text \<open>C1: FinalizeBlock does not depend on the order in which Go visits the active chains or on
  the order in which the results of the consumer chains arrive: the state, the app hash, every
  transaction result, the validator updates, the consensus parameter updates and the error are the
  same, and the events are the same up to their order.\<close>

theorem FinalizeBlock_order:
  "fst (FinalizeBlock env ns1 ns1' m ctx req) = fst (FinalizeBlock env ns2 ns2' m ctx req) \<and>
   rel_sum (=) same_block (snd (FinalizeBlock env ns1 ns1' m ctx req))
     (snd (FinalizeBlock env ns2 ns2' m ctx req))"
proof (cases "block_start env m ctx req")
  case (Pair m1 r)
  show ?thesis
  proof (cases r)
    case (Inr rp)
    obtain rt pr where rp: "rp = (rt, pr)"
      by (cases rp)
    note disj = routed_disjoint [OF block_start_fixed(6) [OF Pair]]
    have resp: "same_block (block_response pr (snd (finalize_consumers env ns ns' req rt pr m1)))
        (block_response pr (gathered_block env req rt pr m1))" for ns ns'
      using Inr rp by (intro finalize_consumers_reference(2) disj) simp
    have state: "fst (finalize_consumers env ns ns' req rt pr m1) = finished env req rt m1" for ns ns'
      using Inr rp by (intro finalize_consumers_reference(1) disj) simp
    have trans: "same_block a c \<Longrightarrow> same_block b c \<Longrightarrow> same_block a b" for a b c
      by (simp add: same_block_def)
    show ?thesis
      using trans [OF resp resp] by (simp add: FinalizeBlock_halves Pair Inr rp state)
  qed (use Pair in \<open>simp add: FinalizeBlock_halves\<close>)
qed

section \<open>Responses\<close>

lemma provider_not_active:
  "fmlookup (chainHandlers m) (providerChainID m) = None \<Longrightarrow> providerChainID m \<notin> set (workers env req m)"
  by (auto simp: workers_def joins_def take_part_def split: if_splits)

lemma events_of_answers:
  assumes "route_block m0 no_txs 0 (rf_Txs req) = Inr rt" and "routable m = routable m0"
  shows "concat (map (\<lambda>j. res_events (answer env req rt m j)) (workers env req m)) =
    concat (map (\<lambda>a. case chain_response env req m a of Inl _ \<Rightarrow> [] | Inr r \<Rightarrow> pf_Events r)
      (workers env req m))"
  using workers_routable [of _ env req m] assms(2)
  by (intro arg_cong [where f = concat] map_cong refl)
    (auto simp: answer_worker [OF assms(1)] res_events_def split: sum.split)

lemma FinalizeBlock_resp:
  assumes start: "block_start env m ctx req = (m1, Inr (rt, pr))"
    and prov: "fmlookup (chainHandlers m) (providerChainID m) = None"
  shows "\<exists>resp. snd (FinalizeBlock env ns ns' m ctx req) = Inr resp \<and>
     length (pf_TxResults resp) = length (rf_Txs req) \<and>
     (\<forall>i < length (rf_Txs req). pf_TxResults resp ! i = tx_result env req pr m1 i) \<and>
     pf_AppHash resp = block_hash env req pr m1 \<and>
     pf_ValidatorUpdates resp = pf_ValidatorUpdates pr \<and>
     pf_ConsensusParamUpdates resp = pf_ConsensusParamUpdates pr \<and>
     mset (pf_Events resp) = mset (pf_Events pr @
       concat (map (\<lambda>a. case chain_response env req m1 a of Inl _ \<Rightarrow> [] | Inr r \<Rightarrow> pf_Events r)
         (workers env req m1)))"
proof -
  note fixed = block_start_fixed [OF start]
  have route: "route_block m no_txs 0 (rf_Txs req) = Inr rt"
    by (rule fixed(6)) simp
  have same: "routable m1 = routable m" "providerChainID m1 = providerChainID m"
    by (simp_all add: routable_def fun_eq_iff fixed)
  have prov1: "fmlookup (chainHandlers m1) (providerChainID m1) = None"
    using prov by (simp add: fixed)
  define resp where "resp = block_response pr (snd (finalize_consumers env ns ns' req rt pr m1))"
  have eq: "snd (FinalizeBlock env ns ns' m ctx req) = Inr resp"
    by (simp add: FinalizeBlock_halves start resp_def)
  have ref: "same_block resp (block_response pr (gathered_block env req rt pr m1))"
    unfolding resp_def by (rule finalize_consumers_reference [OF routed_disjoint [OF route]])
  have "g_events (gathered_block env req rt pr m1) = pf_Events pr @
      concat (map (\<lambda>j. res_events (answer env req rt m1 j)) (workers env req m1))"
    unfolding gathered_block_def fold_collect_block
    by (simp add: gathered_provider_def Let_def comp_def)
  with ref eq show ?thesis
    by (auto simp: same_block_def block_response_def gathered_block_length
        gathered_block_nth [OF route _ same prov1] gathered_block_hash [OF route same(1) prov1]
        events_of_answers [OF route same(1)])
qed

text \<open>C2: once the provider has answered, FinalizeBlock answers, with one result per transaction:
  \<open>transaction skipped\<close> for a transaction of a rejected or unknown chain; for the k-th
  transaction of a chain that takes part in the block the k-th result of its application; nothing
  (a nil result) where the application failed, returned fewer results or does not take part. The app
  hash is the concatenation of the hashes of the provider and of the answering chains in the order of
  their ids, the updates are the provider's, the events are those of the provider and the answering
  chains.\<close>

theorem FinalizeBlock_response:
  assumes start: "block_start env m ctx req = (m1, Inr (rt, pr))"
    and prov: "fmlookup (chainHandlers m) (providerChainID m) = None"
  shows "\<exists>resp. snd (FinalizeBlock env ns ns' m ctx req) = Inr resp \<and>
     length (pf_TxResults resp) = length (rf_Txs req) \<and>
     (\<forall>i < length (rf_Txs req). pf_TxResults resp ! i = tx_result env req pr m1 i) \<and>
     pf_AppHash resp = block_hash env req pr m1 \<and>
     pf_ValidatorUpdates resp = pf_ValidatorUpdates pr \<and>
     pf_ConsensusParamUpdates resp = pf_ConsensusParamUpdates pr \<and>
     mset (pf_Events resp) = mset (pf_Events pr @
       concat (map (\<lambda>a. case chain_response env req m1 a of Inl _ \<Rightarrow> [] | Inr r \<Rightarrow> pf_Events r)
         (workers env req m1)))"
  by (rule FinalizeBlock_resp [OF assms])

section \<open>State\<close>

lemma finished_lookup:
  "fmlookup (chainHandlers (finished env req rt m)) a =
     (if a \<in> set (workers env req m)
      then fmlookup (chainHandlers (fst (finalize_chain env req rt a (started env req m)))) a
      else if a \<in> set (keys (activeChains m)) then chain_start env req m a
      else fmlookup (chainHandlers m) a)"
proof -
  have workers: "a \<in> set (workers env req m) \<Longrightarrow>
      fmlookup (chainHandlers (finished env req rt m)) a =
      fmlookup (chainHandlers (fst (finalize_chain env req rt a (started env req m)))) a"
    unfolding finished_def
    by (rule fold_local(1) [OF finalize_chain_touches block_calls.independent_calls_axioms])
      simp_all
  have others: "a \<notin> set (workers env req m) \<Longrightarrow>
      fmlookup (chainHandlers (finished env req rt m)) a = fmlookup (chainHandlers (started env req m)) a"
    unfolding finished_def by (simp add: fold_touches [OF finalize_chain_touches])
  have active: "a \<in> set (keys (activeChains m)) \<Longrightarrow>
      fmlookup (chainHandlers (started env req m)) a = chain_start env req m a"
    unfolding started_def chain_start_def
    by (rule fold_local(1) [OF take_part_touches launch_calls.independent_calls_axioms]) simp_all
  have rest: "a \<notin> set (keys (activeChains m)) \<Longrightarrow>
      fmlookup (chainHandlers (started env req m)) a = fmlookup (chainHandlers m) a"
    unfolding started_def by (simp add: fold_touches [OF take_part_touches] del: set_keys)
  show ?thesis
    using workers others active rest by presburger
qed

lemma finalize_chain_lookup:
  "fmlookup (chainHandlers (fst (finalize_chain env req rt a m))) a =
     map_option (\<lambda>h. h\<lparr>ch_app := fst (app_FinalizeBlock (remote env) (ch_app h)
         (req\<lparr>rf_Txs := bucket (chainTxs rt) a\<rparr>))\<rparr>)
       (fmlookup (chainHandlers m) a)"
  by (auto simp: finalize_chain_def split: option.split sum.split prod.split)

lemma finished_fixed:
  "rejectedConsumerChains (finished env req rt m) = rejectedConsumerChains m"
  "activeChains (finished env req rt m) = activeChains m"
  "providerChainID (finished env req rt m) = providerChainID m"
  by (simp_all add: finished_def fold_touches [OF finalize_chain_touches])

lemma finished_provider:
  assumes "fmlookup (chainHandlers m) (providerChainID m) = None"
  shows "providerChain (finished env req rt m) = providerChain m"
proof -
  have untouched: "fst (take_part env req (providerChainID m) m') = m'"
    if "fmlookup (chainHandlers m') (providerChainID m) = None" for m'
    using that by (simp add: take_part_def)
  have "providerChain (fold (\<lambda>a m. fst (take_part env req a m)) js m') = providerChain m'"
    if "fmlookup (chainHandlers m') (providerChainID m) = None" "providerChainID m' = providerChainID m"
    for js m'
    using that
  proof (induction js arbitrary: m')
    case (Cons j js)
    have "providerChain (fst (take_part env req j m')) = providerChain m'"
      using Cons.prems untouched [of m'] touches_fixed(7) [OF take_part_touches, of m' j env req]
      by (cases "j = providerChainID m") auto
    with Cons show ?case
      by (simp add: touches_fixed [OF take_part_touches])
  qed simp
  then have "providerChain (started env req m) = providerChain m"
    using assms by (simp add: started_def)
  then show ?thesis
    using provider_not_active [OF assms, of env req]
    by (simp add: finished_def fold_touches [OF finalize_chain_touches])
qed

lemma FinalizeBlock_left:
  assumes start: "block_start env m ctx req = (m1, Inr (rt, pr))"
    and prov: "fmlookup (chainHandlers m) (providerChainID m) = None"
  shows "let m' = fst (FinalizeBlock env ns ns' m ctx req) in
    fmlookup (chainHandlers m') a =
     (if a \<in> set (workers env req m1)
      then map_option (\<lambda>h. h\<lparr>ch_app := fst (app_FinalizeBlock (remote env) (ch_app h)
             (req\<lparr>rf_Txs := payloads a (rf_Txs req)\<rparr>))\<rparr>) (chain_start env req m1 a)
      else if a |\<in>| fmdom (activeChains m1) \<and> \<not> flag (rejectedConsumerChains m) a
      then chain_start env req m1 a
      else fmlookup (chainHandlers m) a) \<and>
    providerChain m' = providerChain m1 \<and> rejectedConsumerChains m' = rejectedConsumerChains m"
proof -
  note fixed = block_start_fixed [OF start]
  have route: "route_block m no_txs 0 (rf_Txs req) = Inr rt"
    by (rule fixed(6)) simp
  have m': "fst (FinalizeBlock env ns ns' m ctx req) = finished env req rt m1"
    using finalize_consumers_reference(1) [OF routed_disjoint [OF route]]
    by (simp add: FinalizeBlock_halves start)
  have routable: "a \<in> set (workers env req m1) \<Longrightarrow> routable m a"
    using workers_routable [of a env req m1] by (simp add: routable_def fixed)
  have rejected: "flag (rejectedConsumerChains m) a \<Longrightarrow> chain_start env req m1 a = fmlookup (chainHandlers m) a"
    by (simp add: chain_start_def take_part_def fixed)
  have not_worker: "flag (rejectedConsumerChains m) a \<Longrightarrow> a \<notin> set (workers env req m1)"
    using routable by (auto simp: routable_def)
  show ?thesis
    unfolding m' Let_def finished_lookup finalize_chain_lookup
    using routable rejected not_worker prov
    by (simp add: finished_fixed finished_provider fixed routed_block [OF route] started_lookup)
qed

text \<open>C14: what FinalizeBlock leaves: the application of a chain that takes part has executed
  exactly one FinalizeBlock call with the payloads of its own transactions, after its own
  initialisation; the application of every chain that is not active is untouched, and that of a chain
  that is rejected as well; the provider's state is the one after its own calls; the rejected chains
  stay as they are.\<close>

theorem FinalizeBlock_state:
  assumes start: "block_start env m ctx req = (m1, Inr (rt, pr))"
    and prov: "fmlookup (chainHandlers m) (providerChainID m) = None"
  shows "let m' = fst (FinalizeBlock env ns ns' m ctx req) in
    fmlookup (chainHandlers m') a =
     (if a \<in> set (workers env req m1)
      then map_option (\<lambda>h. h\<lparr>ch_app := fst (app_FinalizeBlock (remote env) (ch_app h)
             (req\<lparr>rf_Txs := payloads a (rf_Txs req)\<rparr>))\<rparr>) (chain_start env req m1 a)
      else if a |\<in>| fmdom (activeChains m1) \<and> \<not> flag (rejectedConsumerChains m) a
      then chain_start env req m1 a
      else fmlookup (chainHandlers m) a) \<and>
    providerChain m' = providerChain m1 \<and> rejectedConsumerChains m' = rejectedConsumerChains m"
  by (rule FinalizeBlock_left [OF assms])

section \<open>Errors\<close>

definition halts :: "('p, 'c) Multiplexer \<Rightarrow> RequestFinalizeBlock \<Rightarrow> bool" where
  "halts m req \<longleftrightarrow>
     0 < uint (HaltHeight (svrCfg m)) \<and> uint (HaltHeight (svrCfg m)) \<le> uint (rf_Height req) \<or>
     0 < uint (HaltTime (svrCfg m)) \<and> sint (HaltTime (svrCfg m)) \<le> sint (Unix (rf_Time req))"

lemma checkHalt_iff: "isl (checkHaltConditions m req) \<longleftrightarrow> halts m req"
  by (auto simp: checkHaltConditions_def halts_def word_less_def word_le_def)

text \<open>C17: FinalizeBlock fails exactly when a configured halt height or halt time is reached, a
  transaction has no valid header, or the provider's own FinalizeBlock fails on the provider's
  transactions. It then has called no consumer application and changed nothing but, at most, the
  state of the provider: no handler, active chain, rejected or initialised chain changes. Failures of
  consumer chains and of the query for the active chains never fail the block.\<close>

theorem FinalizeBlock_fails_iff:
  "(isl (snd (FinalizeBlock env ns ns' m ctx req)) \<longleftrightarrow>
      halts m req \<or>
      (\<exists>tx \<in> set (rf_Txs req). isl (ParseHeader tx)) \<or>
      isl (snd (app_FinalizeBlock (provider env) (providerChain m)
        (req\<lparr>rf_Txs := if routable m (providerChainID m) then payloads (providerChainID m) (rf_Txs req)
                         else []\<rparr>)))) \<and>
   (isl (snd (FinalizeBlock env ns ns' m ctx req)) \<longrightarrow>
      (\<exists>p. fst (FinalizeBlock env ns ns' m ctx req) = m\<lparr>providerChain := p\<rparr>))"
proof -
  have valid: "(\<exists>rt. route_block m no_txs 0 (rf_Txs req) = Inr rt) \<longleftrightarrow>
      \<not> (\<exists>tx \<in> set (rf_Txs req). isl (ParseHeader tx))"
    unfolding route_block_total by (auto simp: list_all_iff isl_def) (metis obj_sumE surj_pair)
  show ?thesis
  proof (cases "checkHaltConditions m req")
    case (Inl e)
    then have "halts m req"
      using checkHalt_iff [of m req] by simp
    then show ?thesis
      by (auto simp: FinalizeBlock_halves block_start_def Inl intro: exI [of _ "providerChain m"])
  next
    case no_halt: (Inr u)
    then have "\<not> halts m req"
      using checkHalt_iff [of m req] by simp
    show ?thesis
    proof (cases "route_block m no_txs 0 (rf_Txs req)")
      case (Inl e)
      with valid no_halt show ?thesis
        by (auto simp: FinalizeBlock_halves block_start_def intro: exI [of _ "providerChain m"])
    next
      case (Inr rt)
      have "bucket (chainTxs rt) (providerChainID m) =
          (if routable m (providerChainID m) then payloads (providerChainID m) (rf_Txs req) else [])"
        by (simp add: routed_block [OF Inr])
      with valid no_halt Inr \<open>\<not> halts m req\<close> show ?thesis
        by (auto simp: FinalizeBlock_halves block_start_def split: prod.splits sum.splits)
    qed
  qed
qed

section \<open>New chains\<close>

lemma initChainIfNeeded_healthy:
  assumes "fmlookup (chainHandlers m) a = Some h"
    and "LoadGenesisAppState (AppGenesisFromFile env) (ch_config h) = Inr appState"
    and "\<And>c r. \<exists>c' resp. app_InitChain (remote env) c r = (c', Inr resp)"
  shows "\<exists>hash. snd (initChainIfNeeded env m a height t) = Inr hash"
    and "flag (initializedConsumerChains (fst (initChainIfNeeded env m a height t))) a"
proof -
  obtain c r where info: "app_Info (remote env) (ch_app h) \<lparr>ri_rest = ''''\<rparr> = (c, r)"
    by (cases "app_Info (remote env) (ch_app h) \<lparr>ri_rest = ''''\<rparr>")
  define initReq where "initReq = \<lparr>ic_Time = t, ic_ChainId = a,
      ic_ConsensusParams = providerGenesisConsensusParams m, ic_Validators = providerGenesisValidators m,
      ic_AppStateBytes = appState, ic_InitialHeight = height\<rparr>"
  obtain c' resp where init: "app_InitChain (remote env) c initReq = (c', Inr resp)"
    using assms(3) by blast
  show "\<exists>hash. snd (initChainIfNeeded env m a height t) = Inr hash"
    and "flag (initializedConsumerChains (fst (initChainIfNeeded env m a height t))) a"
    using init by (simp_all add: initChainIfNeeded_def assms(1,2) info Let_def initReq_def)
qed

text \<open>A chain that the provider lists as active takes part in that very block, when it is
  configured, not rejected, its genesis file loads and its application accepts InitChain: it is
  initialised, marked so for good, and its application is called for the block.\<close>

theorem active_chain_starts:
  assumes start: "block_start env m ctx req = (m1, Inr (rt, pr))"
    and active: "a |\<in>| fmdom (activeChains m1)" and not_rejected: "\<not> flag (rejectedConsumerChains m) a"
    and handler: "fmlookup (chainHandlers m) a = Some h"
    and genesis: "LoadGenesisAppState (AppGenesisFromFile env) (ch_config h) = Inr appState"
    and healthy: "\<And>c r. \<exists>c' resp. app_InitChain (remote env) c r = (c', Inr resp)"
  shows "a \<in> set (workers env req m1) \<and>
    flag (initializedConsumerChains (fst (FinalizeBlock env ns ns' m ctx req))) a"
proof -
  note fixed = block_start_fixed [OF start]
  have route: "route_block m no_txs 0 (rf_Txs req) = Inr rt"
    by (rule fixed(6)) simp
  have h1: "fmlookup (chainHandlers m1) a = Some h"
    by (simp add: fixed handler)
  note ok = initChainIfNeeded_healthy [OF h1 genesis healthy, of "rf_Height req" "rf_Time req"]
  have part: "snd (take_part env req a m1)" "flag (initializedConsumerChains (fst (take_part env req a m1))) a"
    using ok by (auto simp: take_part_def not_rejected fixed handler split: prod.split sum.split)
  have worker: "a \<in> set (workers env req m1)"
    using active part(1) by (simp add: workers_def joins_def)
  have "flag (initializedConsumerChains (started env req m1)) a"
    unfolding started_def
    using fold_local(2) [OF take_part_touches launch_calls.independent_calls_axioms,
        of "keys (activeChains m1)" a env req m1] active part(2) by simp
  then have "flag (initializedConsumerChains (finished env req rt m1)) a"
    unfolding finished_def by (rule fold_touches(10) [OF finalize_chain_touches])
  with worker show ?thesis
    by (simp add: FinalizeBlock_halves start
        finalize_consumers_reference(1) [OF routed_disjoint [OF route]])
qed

section \<open>A block of the demo world\<close>

lemma demo_joins:
  "joins (demo_env '''') (demo_block 1 demo_txs) (demo_mux\<lparr>providerChain := s\<rparr>) ''a''"
  "joins (demo_env '''') (demo_block 1 demo_txs) (demo_mux\<lparr>providerChain := s\<rparr>) ''b''"
  by (simp_all add: joins_def take_part_def initChainIfNeeded_def Let_def demo_mux_simps
      LoadGenesisAppState_def GenesisFile_def set_app_def mark_initialized_def)

lemma demo_workers:
  "workers (demo_env '''') (demo_block 1 demo_txs) (demo_mux\<lparr>providerChain := s\<rparr>) = [''a'', ''b'']"
  using demo_joins by (simp add: workers_def)

definition demo_routed :: routed where
  "demo_routed =
     \<lparr>chainTxs = push ''b'' ''v'' (push ''p'' ''w'' (push ''a'' ''x'' fmempty)),
      txPositions = push ''b'' 3 (push ''p'' 2 (push ''a'' 0 fmempty)), skippedIndices = [1]\<rparr>"

definition demo_answer :: ResponseFinalizeBlock where
  "demo_answer =
     \<lparr>pf_Events = [''p''], pf_TxResults = [demo_result ''w''], pf_ValidatorUpdates = [],
      pf_ConsensusParamUpdates = None, pf_AppHash = ''p''\<rparr>"

lemma demo_start:
  "block_start (demo_env '''') demo_mux Background (demo_block 1 demo_txs) =
     (demo_mux\<lparr>providerChain := (''p'', 1)\<rparr>, Inr (demo_routed, demo_answer))"
  by (simp add: block_start_def checkHaltConditions_def demo_mux_simps no_txs_def demo_routed_def
      demo_answer_def numeral_2_eq_2 numeral_3_eq_3)

lemma demo_no_provider_handler: "fmlookup (chainHandlers demo_mux) (providerChainID demo_mux) = None"
  by (simp add: demo_mux_simps)

theorem FinalizeBlock_response_witness:
  "\<exists>resp. snd (FinalizeBlock (demo_env '''') [1] [] demo_mux Background (demo_block 1 demo_txs)) = Inr resp \<and>
     pf_TxResults resp ! 0 = demo_result ''x'' \<and> pf_TxResults resp ! 1 = skipped_result \<and>
     pf_TxResults resp ! 2 = demo_result ''w'' \<and> pf_TxResults resp ! 3 = demo_result ''v'' \<and>
     pf_AppHash resp = ''abp''"
proof -
  let ?env = "demo_env ''''" and ?req = "demo_block 1 demo_txs"
    and ?m = "demo_mux\<lparr>providerChain := (''p'', 1)\<rparr>"
  have results: "tx_result ?env ?req demo_answer ?m 0 = demo_result ''x''"
    "tx_result ?env ?req demo_answer ?m 1 = skipped_result"
    "tx_result ?env ?req demo_answer ?m 2 = demo_result ''w''"
    "tx_result ?env ?req demo_answer ?m 3 = demo_result ''v''"
    by code_simp+
  have hash: "block_hash ?env ?req demo_answer ?m = ''abp''"
    by code_simp
  obtain resp where "snd (FinalizeBlock ?env [1] [] demo_mux Background ?req) = Inr resp"
    "\<forall>i < length (rf_Txs ?req). pf_TxResults resp ! i = tx_result ?env ?req demo_answer ?m i"
    "pf_AppHash resp = block_hash ?env ?req demo_answer ?m"
    using FinalizeBlock_response [OF demo_start demo_no_provider_handler, of "[1]" "[]"] by blast
  then show ?thesis
    using results hash by (intro exI [of _ resp]) (simp add: demo_block_def demo_txs_def)
qed

theorem FinalizeBlock_fails_iff_witness:
  "isl (snd (FinalizeBlock (demo_env '''') [] [] demo_mux Background (demo_block 1 [''junk'']))) \<and>
   (\<exists>p. fst (FinalizeBlock (demo_env '''') [] [] demo_mux Background (demo_block 1 [''junk''])) =
      demo_mux\<lparr>providerChain := p\<rparr>)"
proof -
  have "\<exists>tx \<in> set (rf_Txs (demo_block 1 [''junk''])). isl (ParseHeader tx)"
    by (simp add: demo_block_def ParseHeader_def HasPrefix_def HeaderPrefix_def)
  then show ?thesis
    using FinalizeBlock_fails_iff [of "demo_env ''''" "[]" "[]" demo_mux Background "demo_block 1 [''junk'']"]
    by blast
qed

theorem FinalizeBlock_state_witness:
  "let m' = fst (FinalizeBlock (demo_env '''') [] [] demo_mux Background (demo_block 1 demo_txs))
   in map_option ch_app (fmlookup (chainHandlers m') ''a'') = Some (''a'', 1) \<and> providerChain m' = (''p'', 1)"
proof -
  let ?env = "demo_env ''''" and ?req = "demo_block 1 demo_txs"
    and ?m = "demo_mux\<lparr>providerChain := (''p'', 1)\<rparr>"
  have "chain_start ?env ?req ?m ''a'' = Some (demo_handler ''a'')"
    by (simp add: chain_start_def take_part_def initChainIfNeeded_def demo_mux_simps)
  moreover have "fst (app_FinalizeBlock (remote ?env) (ch_app (demo_handler ''a'')) r) = (''a'', 1)" for r
    by (simp add: demo_mux_simps)
  moreover have "providerChain ?m = (''p'', 1)"
    by simp
  ultimately show ?thesis
    using FinalizeBlock_state [OF demo_start demo_no_provider_handler, of "[]" "[]" "''a''"]
    by (simp add: demo_workers Let_def)
qed

theorem active_chain_starts_witness:
  "flag (initializedConsumerChains demo_mux) ''b'' = False \<and>
   flag (initializedConsumerChains
     (fst (FinalizeBlock (demo_env '''') [] [] demo_mux Background (demo_block 1 demo_txs)))) ''b''"
proof -
  have "''b'' |\<in>| fmdom (activeChains (demo_mux\<lparr>providerChain := (''p'', 1)\<rparr>))"
    "\<not> flag (rejectedConsumerChains demo_mux) ''b''"
    "fmlookup (chainHandlers demo_mux) ''b'' = Some (demo_handler ''b'')"
    "LoadGenesisAppState (AppGenesisFromFile (demo_env '''')) (ch_config (demo_handler ''b'')) = Inr ''{}''"
    "\<And>c r. \<exists>c' resp. app_InitChain (remote (demo_env '''')) c r = (c', Inr resp)"
    by (simp_all add: demo_mux_simps LoadGenesisAppState_def GenesisFile_def)
  from active_chain_starts [OF demo_start this, of "[]" "[]"] show ?thesis
    by (simp add: demo_mux_def)
qed

text \<open>The order of the events in the response of FinalizeBlock is not determined: it follows the
  order in which the results of the consumer chains arrive, so two nodes can answer the same block
  from the same state with different responses.\<close>

theorem FinalizeBlock_events_follow_arrival:
  "\<exists>ns'. map_sum id pf_Events
       (snd (FinalizeBlock (demo_env '''') [] [] demo_mux Background (demo_block 1 []))) =
         Inr [''p'', ''a'', ''b''] \<and>
     map_sum id pf_Events
       (snd (FinalizeBlock (demo_env '''') [] ns' demo_mux Background (demo_block 1 []))) =
         Inr [''p'', ''b'', ''a'']"
  by (rule exI [of _ "[1]"]) code_simp

end
