(* ===== verification/MuxProps.thy ===== *)
theory MuxProps
  imports BlockProps
begin

text \<open>
  The properties of the other handlers of the multiplexer: \<open>Commit\<close>, \<open>InitChain\<close>,
  \<open>ProcessProposal\<close> and \<open>CheckTx\<close>, and of its construction, with their witnesses in the
  demo world.
\<close>

section \<open>Commit\<close>

definition commits :: "('p, 'c) Multiplexer \<Rightarrow> string \<Rightarrow> bool" where
  "commits m a \<longleftrightarrow>
     a |\<in>| fmdom (activeChains m) \<and> flag (initializedConsumerChains m) a \<and>
     \<not> flag (rejectedConsumerChains m) a \<and> fmlookup (chainHandlers m) a \<noteq> None"

definition commit_response :: "('p, 'c) mux_env \<Rightarrow> ('p, 'c) Multiplexer \<Rightarrow> string \<Rightarrow> string + ResponseCommit" where
  "commit_response env m a =
     (case fmlookup (chainHandlers m) a of
        None \<Rightarrow> Inl ''nil handler''
      | Some h \<Rightarrow> snd (app_Commit (remote env) (ch_app h)))"

lemma commit_one_fixed:
  "providerChain (fst (commit_one env a m)) = providerChain m"
  "initializedConsumerChains (fst (commit_one env a m)) = initializedConsumerChains m"
  by (simp_all add: commit_one_def split: option.split prod.split sum.split)

lemma commit_fold_fixed:
  "providerChain (fold (\<lambda>a m. fst (commit_one env a m)) js m) = providerChain m"
  "initializedConsumerChains (fold (\<lambda>a m. fst (commit_one env a m)) js m) = initializedConsumerChains m"
  by (induction js arbitrary: m) (simp_all add: commit_one_fixed)

lemma commit_one_lookup:
  "fmlookup (chainHandlers (fst (commit_one env a m))) a =
     (if flag (initializedConsumerChains m) a \<and> \<not> flag (rejectedConsumerChains m) a
      then map_option (\<lambda>h. h\<lparr>ch_app := fst (app_Commit (remote env) (ch_app h))\<rparr>)
             (fmlookup (chainHandlers m) a)
      else fmlookup (chainHandlers m) a)"
  by (simp add: commit_one_def split: option.split prod.split sum.split)

lemma commit_fold_lookup:
  assumes "distinct js"
  shows "fmlookup (chainHandlers (fold (\<lambda>a m. fst (commit_one env a m)) js m)) a =
     (if a \<in> set js \<and> flag (initializedConsumerChains m) a \<and> \<not> flag (rejectedConsumerChains m) a
      then map_option (\<lambda>h. h\<lparr>ch_app := fst (app_Commit (remote env) (ch_app h))\<rparr>)
             (fmlookup (chainHandlers m) a)
      else fmlookup (chainHandlers m) a)"
proof (cases "a \<in> set js")
  case True
  have "fmlookup (chainHandlers (fold (\<lambda>a m. fst (commit_one env a m)) js m)) a =
      fmlookup (chainHandlers (fst (commit_one env a m))) a"
    by (rule fold_local(1) [OF commit_one_touches commit_calls.independent_calls_axioms assms True])
  with True show ?thesis
    by (simp add: commit_one_lookup)
qed (simp add: fold_touches [OF commit_one_touches])

lemma commit_one_answer:
  "snd (commit_one env a m) = Some r \<Longrightarrow>
     flag (initializedConsumerChains m) a \<and> \<not> flag (rejectedConsumerChains m) a \<and>
     fmlookup (chainHandlers m) a \<noteq> None \<and> commit_response env m a = Inr r"
  by (auto simp: commit_one_def commit_response_def split: if_splits option.splits prod.splits sum.splits)

lemma last_answer:
  "fold (\<lambda>resp r. case resp of None \<Rightarrow> r | Some x \<Rightarrow> x) rs r \<in> insert r {x. Some x \<in> set rs}"
  by (induction rs arbitrary: r) (auto split: option.splits)

text \<open>C21: Commit fails exactly when the provider's Commit fails, and then commits no consumer.
  Otherwise it calls Commit once on the application of every chain that is active, initialised, not
  rejected and configured, in whatever order the chains are visited, and on no other; nothing else of
  the multiplexer changes. Its response is that of the provider or of one of the committed consumer
  chains.\<close>

theorem Commit_correct:
  "case app_Commit (provider env) (providerChain m) of
     (p, Inl e) \<Rightarrow> Commit env ns m = (m\<lparr>providerChain := p\<rparr>, Inl e)
   | (p, Inr r0) \<Rightarrow>
       (\<forall>a. fmlookup (chainHandlers (fst (Commit env ns m))) a =
          (if commits m a
           then map_option (\<lambda>h. h\<lparr>ch_app := fst (app_Commit (remote env) (ch_app h))\<rparr>)
                  (fmlookup (chainHandlers m) a)
           else fmlookup (chainHandlers m) a)) \<and>
       providerChain (fst (Commit env ns m)) = p \<and>
       activeChains (fst (Commit env ns m)) = activeChains m \<and>
       rejectedConsumerChains (fst (Commit env ns m)) = rejectedConsumerChains m \<and>
       initializedConsumerChains (fst (Commit env ns m)) = initializedConsumerChains m \<and>
       (\<exists>r. snd (Commit env ns m) = Inr r \<and>
          r \<in> insert r0 {r. \<exists>a. commits m a \<and> commit_response env m a = Inr r})"
proof -
  obtain p res where app: "app_Commit (provider env) (providerChain m) = (p, res)"
    by (cases "app_Commit (provider env) (providerChain m)")
  show ?thesis
  proof (cases res)
    case (Inr r0)
    let ?m = "m\<lparr>providerChain := p\<rparr>" and ?js = "pick ns (keys (activeChains m))"
    let ?r = "snd (commit_chains env ?js ?m r0)"
    have state: "fst (Commit env ns m) = fold (\<lambda>a m. fst (commit_one env a m)) ?js ?m"
      using commit_calls.run_jobs_eq [of ?js env ?m]
      by (simp add: Commit_def app Inr commit_run_jobs Let_def split: prod.split)
    have ans: "snd (Commit env ns m) = Inr ?r"
      by (simp add: Commit_def app Inr Let_def split: prod.split)
    have "?r \<in> insert r0 {x. Some x \<in> set (map (\<lambda>a. snd (commit_one env a ?m)) ?js)}"
      using commit_calls.run_jobs_eq [of ?js env ?m] last_answer [of "map (\<lambda>a. snd (commit_one env a ?m)) ?js" r0]
      by (simp add: commit_run_jobs)
    then have "?r \<in> insert r0 {r. \<exists>a. commits m a \<and> commit_response env m a = Inr r}"
      using commit_one_answer [of env _ ?m ?r]
      by (auto simp: commits_def commit_response_def eq_commute [of "Some _"])
    with ans show ?thesis
      by (simp add: app Inr state commit_fold_lookup commit_fold_fixed commits_def
          fold_touches [OF commit_one_touches])
  qed (simp add: app Commit_def)
qed

text \<open>The response of \<open>Commit\<close> depends on the order in which the chains are visited: it is
  that of the last one.\<close>

lemma Commit_response_follows_order:
  fixes m
  defines "m \<equiv> demo_mux\<lparr>chainHandlers := fmupd ''b'' ((demo_handler ''b'')\<lparr>ch_app := (''b'', 7)\<rparr>)
      (chainHandlers demo_mux), initializedConsumerChains := fmupd ''b'' True (fmupd ''a'' True fmempty)\<rparr>"
  shows "snd (Commit (demo_env '''') [] m) = Inr \<lparr>RetainHeight = 7\<rparr>"
    and "snd (Commit (demo_env '''') [1] m) = Inr \<lparr>RetainHeight = 0\<rparr>"
  unfolding m_def by code_simp+

section \<open>InitChain\<close>

definition init_response ::
    "('p, 'c) mux_env \<Rightarrow> RequestInitChain \<Rightarrow> ('p, 'c) Multiplexer \<Rightarrow> string \<Rightarrow>
     mux_error + ResponseInitChain" where
  "init_response env req m a =
     (case fmlookup (chainHandlers m) a of
        None \<Rightarrow> Inl (HandlerNotFound a)
      | Some h \<Rightarrow>
          (case LoadGenesisAppState (AppGenesisFromFile env) (ch_config h) of
             Inl e \<Rightarrow> Inl (LoadGenesisFailed a e)
           | Inr appState \<Rightarrow>
               map_sum AppError id (snd (app_InitChain (remote env) (ch_app h)
                 (req\<lparr>ic_ChainId := a, ic_Validators := providerGenesisValidators m,
                      ic_ConsensusParams := providerGenesisConsensusParams m,
                      ic_AppStateBytes := appState\<rparr>)))))"

lemma init_consumer_answer: "snd (init_consumer env req a m) = (a, init_response env req m a)"
  by (simp add: init_consumer_def init_response_def Let_def split: option.split sum.split prod.split)

lemma init_consumer_initialized:
  "initializedConsumerChains (fst (init_consumer env req a m)) = initializedConsumerChains m"
  by (simp add: init_consumer_def Let_def split: option.split sum.split prod.split)

lemma init_fold_initialized:
  "initializedConsumerChains (fold (\<lambda>a m. fst (init_consumer env req a m)) js m) =
     initializedConsumerChains m"
  by (induction js arbitrary: m) (simp_all add: init_consumer_initialized)

lemma init_fold_genesis:
  "providerGenesisValidators (fold (\<lambda>a m. fst (init_consumer env req a m)) js m) = providerGenesisValidators m"
  "providerGenesisConsensusParams (fold (\<lambda>a m. fst (init_consumer env req a m)) js m) =
     providerGenesisConsensusParams m"
proof -
  have *: "providerGenesisValidators (fst (init_consumer env req a m)) = providerGenesisValidators m"
    "providerGenesisConsensusParams (fst (init_consumer env req a m)) = providerGenesisConsensusParams m" for a m
    by (simp_all add: init_consumer_def Let_def split: option.split sum.split prod.split)
  show "providerGenesisValidators (fold (\<lambda>a m. fst (init_consumer env req a m)) js m) = providerGenesisValidators m"
    by (induction js arbitrary: m) (simp_all add: *)
  show "providerGenesisConsensusParams (fold (\<lambda>a m. fst (init_consumer env req a m)) js m) =
     providerGenesisConsensusParams m"
    by (induction js arbitrary: m) (simp_all add: *)
qed

lemma collect_init_simps [simp]:
  "collect_init (a, Inl e) st = st"
  "collect_init (a, Inr r) (h, m) = (fmupd a (pi_AppHash r) h, mark_initialized a m)"
  by (simp_all add: collect_init_def)

lemma collect_init_hashes:
  "fmlookup (fst (fold collect_init (map (\<lambda>a. (a, f a)) js) (h, m))) a =
     (if a \<in> set js then (case f a of Inl _ \<Rightarrow> fmlookup h a | Inr r \<Rightarrow> Some (pi_AppHash r))
      else fmlookup h a)"
proof (induction js arbitrary: h m)
  case (Cons j js)
  then show ?case
    by (cases "f j") (auto split: sum.split)
qed simp

lemma collect_init_state:
  "flag (initializedConsumerChains (snd (fold collect_init (map (\<lambda>a. (a, f a)) js) (h, m)))) a \<longleftrightarrow>
     flag (initializedConsumerChains m) a \<or> a \<in> set js \<and> \<not> isl (f a)"
  "chainHandlers (snd (fold collect_init (map (\<lambda>a. (a, f a)) js) (h, m))) = chainHandlers m"
  "providerChain (snd (fold collect_init (map (\<lambda>a. (a, f a)) js) (h, m))) = providerChain m"
  "providerGenesisValidators (snd (fold collect_init (map (\<lambda>a. (a, f a)) js) (h, m))) =
     providerGenesisValidators m"
  "providerGenesisConsensusParams (snd (fold collect_init (map (\<lambda>a. (a, f a)) js) (h, m))) =
     providerGenesisConsensusParams m"
proof (induction js arbitrary: h m)
  case (Cons j js)
  {
    case 1
    show ?case
      by (cases "f j") (auto simp: Cons(1))
  next
    case 2
    show ?case
      by (cases "f j") (simp_all add: Cons(2))
  next
    case 3
    show ?case
      by (cases "f j") (simp_all add: Cons(3))
  next
    case 4
    show ?case
      by (cases "f j") (simp_all add: Cons(4))
  next
    case 5
    show ?case
      by (cases "f j") (simp_all add: Cons(5))
  }
qed simp_all

text \<open>C22: InitChain fails exactly when the provider's InitChain fails, and then calls no consumer.
  Otherwise every configured chain gets one InitChain call with the provider's validators and
  consensus parameters and the genesis state of its own home directory; exactly the chains whose call
  succeeds become initialised; the app hash is the concatenation of the hashes of the provider and of
  these chains in the order of their ids. Neither the order in which Go visits the handlers nor the
  order of the answers matters.\<close>

theorem InitChain_correct:
  assumes "fmlookup (chainHandlers m) (providerChainID m) = None"
  shows "case app_InitChain (provider env) (providerChain m) req of
     (p, Inl e) \<Rightarrow> InitChain env ns m req = (m\<lparr>providerChain := p\<rparr>, Inl e)
   | (p, Inr pr) \<Rightarrow>
       let m1 = m\<lparr>providerChain := p, providerGenesisConsensusParams := pi_ConsensusParams pr,
             providerGenesisValidators := pi_Validators pr\<rparr>;
           ok = filter (\<lambda>a. \<not> isl (init_response env req m1 a)) (keys (chainHandlers m));
           hash = (\<lambda>a. case init_response env req m1 a of Inl _ \<Rightarrow> pi_AppHash pr | Inr r \<Rightarrow> pi_AppHash r)
       in snd (InitChain env ns m req) =
            Inr \<lparr>pi_ConsensusParams = pi_ConsensusParams pr, pi_Validators = pi_Validators pr,
                 pi_AppHash = concat (map hash (insort (providerChainID m) ok))\<rparr> \<and>
          (\<forall>a. flag (initializedConsumerChains (fst (InitChain env ns m req))) a \<longleftrightarrow>
             flag (initializedConsumerChains m) a \<or> a \<in> set ok) \<and>
          providerGenesisValidators (fst (InitChain env ns m req)) = pi_Validators pr \<and>
          providerGenesisConsensusParams (fst (InitChain env ns m req)) = pi_ConsensusParams pr"
proof -
  obtain p res where app: "app_InitChain (provider env) (providerChain m) req = (p, res)"
    by (cases "app_InitChain (provider env) (providerChain m) req")
  show ?thesis
  proof (cases res)
    case (Inr pr)
    define m1 where "m1 = m\<lparr>providerChain := p, providerGenesisConsensusParams := pi_ConsensusParams pr,
        providerGenesisValidators := pi_Validators pr\<rparr>"
    let ?js = "keys (chainHandlers m)" and ?f = "init_response env req m1"
    define ok where "ok = filter (\<lambda>a. \<not> isl (?f a)) ?js"
    define m2 where "m2 = fold (\<lambda>a m. fst (init_consumer env req a m)) ?js m1"
    let ?h0 = "fmupd (providerChainID m) (pi_AppHash pr) fmempty"
    let ?out = "fold collect_init (map (\<lambda>a. (a, ?f a)) (pick ns ?js)) (?h0, m2)"
    have run: "InitChain env ns m req = (snd ?out, Inr \<lparr>pi_ConsensusParams = pi_ConsensusParams pr,
        pi_Validators = pi_Validators pr, pi_AppHash = combine_hashes (fst ?out)\<rparr>)"
      using init_calls.run_jobs_pick [of ?js env req ns m1]
      by (simp add: InitChain_def app Inr init_consumer_answer Let_def m1_def m2_def split: prod.split)
    have lookup: "fmlookup (fst ?out) a =
        (if a \<in> set ?js then (case ?f a of Inl _ \<Rightarrow> fmlookup ?h0 a | Inr r \<Rightarrow> Some (pi_AppHash r))
         else fmlookup ?h0 a)" for a
      by (simp add: collect_init_hashes)
    have notprov: "providerChainID m \<notin> set ?js"
      using assms by (simp add: fmlookup_dom_iff)
    have "set (keys (fst ?out)) = set (insort (providerChainID m) ok)"
      using lookup notprov by (auto simp: fmlookup_dom_iff ok_def set_insort_key split: sum.splits if_splits)
    moreover have "sorted (insort (providerChainID m) ok)" "distinct (insort (providerChainID m) ok)"
      using sorted_filter [of "\<lambda>a. a" ?js] notprov by (simp_all add: ok_def sorted_insort distinct_insort)
    ultimately have keys: "keys (fst ?out) = insort (providerChainID m) ok"
      by (intro sorted_distinct_set_unique) simp_all
    have prov: "?f (providerChainID m) = Inl (HandlerNotFound (providerChainID m))"
      using assms by (simp add: init_response_def m1_def)
    have "combine_hashes (fst ?out) = concat (map (\<lambda>a. case ?f a of Inl _ \<Rightarrow> pi_AppHash pr
        | Inr r \<Rightarrow> pi_AppHash r) (insort (providerChainID m) ok))"
      unfolding combine_hashes_def keys using notprov prov
      by (intro arg_cong [where f = concat] map_cong)
        (auto simp: lookup ok_def set_insort_key split: sum.split)
    then show ?thesis
      by (simp add: app Inr run collect_init_state m2_def init_fold_initialized init_fold_genesis
          Let_def flip: m1_def ok_def) (auto simp: ok_def m1_def)
  qed (simp add: app InitChain_def)
qed

section \<open>Proposals\<close>

definition participates :: "('p, 'c) Multiplexer \<Rightarrow> bytes list \<Rightarrow> string \<Rightarrow> bool" where
  "participates m txs a \<longleftrightarrow> proposable m a \<and> payloads a txs \<noteq> []"

definition proposal_answer ::
    "('p, 'c) mux_env \<Rightarrow> RequestProcessProposal \<Rightarrow> ('p, 'c) Multiplexer \<Rightarrow> string \<Rightarrow>
     string + ResponseProcessProposal" where
  "proposal_answer env req m a =
     (let chainReq = req\<lparr>rr_Txs := payloads a (rr_Txs req)\<rparr>
      in if a = providerChainID m then snd (app_ProcessProposal (provider env) (providerChain m) chainReq)
         else case fmlookup (chainHandlers m) a of
             None \<Rightarrow> Inl ''nil handler''
           | Some h \<Rightarrow> snd (app_ProcessProposal (remote env) (ch_app h) chainReq))"

lemma process_chain_answer:
  "bucket c a = payloads a (rr_Txs req) \<Longrightarrow>
     snd (process_chain env req c a m) = (a, proposal_answer env req m a)"
  by (simp add: process_chain_def proposal_answer_def Let_def split: prod.split option.split)

lemma proposal_results_accept:
  "snd (proposal_results m rs) = Inr \<lparr>pr_Status = ACCEPT\<rparr> \<longleftrightarrow>
     (\<forall>(a, r) \<in> set rs. \<not> isl r \<and> (a = providerChainID m \<longrightarrow> r = Inr \<lparr>pr_Status = ACCEPT\<rparr>))"
proof (induction m rs rule: proposal_results.induct)
  case (3 m a r rs)
  have "r = \<lparr>pr_Status = ACCEPT\<rparr> \<longleftrightarrow> pr_Status r = ACCEPT"
    by (metis (full_types) ResponseProcessProposal.select_convs(1) ResponseProcessProposal.surjective old.unit.exhaust)
  with 3 show ?case
    by (cases "a = providerChainID m"; cases "pr_Status r = ACCEPT") simp_all
qed simp_all

lemma proposal_results_rejected:
  "snd (proposal_results m rs) = Inr \<lparr>pr_Status = ACCEPT\<rparr> \<Longrightarrow>
     flag (rejectedConsumerChains (fst (proposal_results m rs))) a \<longleftrightarrow>
     flag (rejectedConsumerChains m) a \<or>
     (\<exists>r. (a, Inr r) \<in> set rs \<and> a \<noteq> providerChainID m \<and> pr_Status r \<noteq> ACCEPT)"
proof (induction m rs rule: proposal_results.induct)
  case (3 m b r rs)
  then show ?case
    by (cases "b = providerChainID m"; cases "pr_Status r = ACCEPT") auto
qed simp_all

lemma proposal_results_fixed:
  "chainHandlers (fst (proposal_results m rs)) = chainHandlers m"
  "initializedConsumerChains (fst (proposal_results m rs)) = initializedConsumerChains m"
  "activeChains (fst (proposal_results m rs)) = activeChains m"
  "providerChainID (fst (proposal_results m rs)) = providerChainID m"
  "svrCfg (fst (proposal_results m rs)) = svrCfg m"
  "chainConfig (fst (proposal_results m rs)) = chainConfig m"
  "flag (rejectedConsumerChains (fst (proposal_results m rs))) a \<Longrightarrow>
     flag (rejectedConsumerChains m) a \<or> a \<in> fst ` set rs \<and> a \<noteq> providerChainID m"
  by (induction m rs rule: proposal_results.induct) (auto split: if_splits)

lemma ProcessProposal_run:
  assumes "route_proposal m fmempty (rr_Txs req) = Some c"
  shows "ProcessProposal env ns m req =
     proposal_results
       ((fold (\<lambda>a m. fst (process_chain env req c a m)) (keys c) m)\<lparr>rejectedConsumerChains := fmempty\<rparr>)
       (map (\<lambda>a. (a, proposal_answer env req m a)) (pick ns (keys c)))"
    and "a \<in> set (keys c) \<longleftrightarrow> participates m (rr_Txs req) a"
proof -
  note route = route_proposal_Some [OF assms, where i = 0]
  have dom: "b \<in> set (keys c) \<longleftrightarrow> participates m (rr_Txs req) b" for b
    using route [of b] by (simp add: participates_def payloads_def)
  then show "a \<in> set (keys c) \<longleftrightarrow> participates m (rr_Txs req) a" .
  have "snd (process_chain env req c b m) = (b, proposal_answer env req m b)" if "b \<in> set (keys c)" for b
    using route [of b] dom [of b] that
    by (intro process_chain_answer) (simp add: payloads_def participates_def del: set_keys)
  then have answers: "map (\<lambda>b. snd (process_chain env req c b m)) (pick ns (keys c)) =
      map (\<lambda>b. (b, proposal_answer env req m b)) (pick ns (keys c))"
    by (intro map_cong) simp_all
  show "ProcessProposal env ns m req =
     proposal_results
       ((fold (\<lambda>a m. fst (process_chain env req c a m)) (keys c) m)\<lparr>rejectedConsumerChains := fmempty\<rparr>)
       (map (\<lambda>a. (a, proposal_answer env req m a)) (pick ns (keys c)))"
    unfolding answers [symmetric] by (simp add: ProcessProposal_def assms proposal_calls.run_jobs_pick)
qed

lemma headers_valid:
  "list_all (\<lambda>tx. \<exists>a p. ParseHeader tx = Inr (a, p)) txs \<longleftrightarrow> (\<forall>tx \<in> set txs. \<not> isl (ParseHeader tx))"
  by (auto simp: list_all_iff isl_def) (metis obj_sumE surj_pair)

lemma ProcessProposal_accepts:
  "snd (ProcessProposal env ns m req) = Inr \<lparr>pr_Status = ACCEPT\<rparr> \<longleftrightarrow>
     (\<forall>tx \<in> set (rr_Txs req). \<not> isl (ParseHeader tx)) \<and>
     (\<forall>a. participates m (rr_Txs req) a \<longrightarrow> \<not> isl (proposal_answer env req m a)) \<and>
     (participates m (rr_Txs req) (providerChainID m) \<longrightarrow>
        proposal_answer env req m (providerChainID m) = Inr \<lparr>pr_Status = ACCEPT\<rparr>)"
proof (cases "route_proposal m fmempty (rr_Txs req)")
  case None
  then show ?thesis
    using route_proposal_total [of m fmempty "rr_Txs req"] headers_valid [of "rr_Txs req"]
    by (simp add: ProcessProposal_def)
next
  case (Some c)
  have "(\<forall>tx \<in> set (rr_Txs req). \<not> isl (ParseHeader tx))"
    using Some route_proposal_total [of m fmempty "rr_Txs req"] headers_valid [of "rr_Txs req"] by simp
  then show ?thesis
    unfolding ProcessProposal_run(1) [OF Some] proposal_results_accept
    using ProcessProposal_run(2) [OF Some]
    by (auto simp: fold_touches [OF process_chain_touches] simp del: set_keys)
qed

lemma ProcessProposal_rejects:
  assumes "snd (ProcessProposal env ns m req) = Inr \<lparr>pr_Status = ACCEPT\<rparr>"
  shows "flag (rejectedConsumerChains (fst (ProcessProposal env ns m req))) a \<longleftrightarrow>
     participates m (rr_Txs req) a \<and> a \<noteq> providerChainID m \<and>
     proposal_answer env req m a \<noteq> Inr \<lparr>pr_Status = ACCEPT\<rparr>"
proof -
  obtain c where c: "route_proposal m fmempty (rr_Txs req) = Some c"
    using assms by (cases "route_proposal m fmempty (rr_Txs req)") (simp_all add: ProcessProposal_def)
  have one: "r = \<lparr>pr_Status = ACCEPT\<rparr> \<longleftrightarrow> pr_Status r = ACCEPT" for r :: ResponseProcessProposal
    by (cases r) simp
  let ?m = "(fold (\<lambda>a m. fst (process_chain env req c a m)) (keys c) m)\<lparr>rejectedConsumerChains := fmempty\<rparr>"
    and ?ans = "proposal_answer env req m"
  have prov: "providerChainID ?m = providerChainID m"
    by (simp add: fold_touches [OF process_chain_touches])
  have "flag (rejectedConsumerChains (fst (ProcessProposal env ns m req))) a \<longleftrightarrow>
      (\<exists>r. (a, Inr r) \<in> set (map (\<lambda>a. (a, ?ans a)) (pick ns (keys c))) \<and>
        a \<noteq> providerChainID m \<and> pr_Status r \<noteq> ACCEPT)"
    using proposal_results_rejected [OF assms [unfolded ProcessProposal_run(1) [OF c]], of a]
    unfolding ProcessProposal_run(1) [OF c] prov by simp
  also have "\<dots> \<longleftrightarrow> participates m (rr_Txs req) a \<and> a \<noteq> providerChainID m \<and> ?ans a \<noteq> Inr \<lparr>pr_Status = ACCEPT\<rparr>"
  proof (cases "participates m (rr_Txs req) a")
    case True
    then obtain r where "?ans a = Inr r"
      using assms [unfolded ProcessProposal_accepts] by (cases "?ans a") auto
    with True ProcessProposal_run(2) [OF c, of a] one [of r] show ?thesis
      by (auto simp: image_iff simp del: set_keys)
  qed (use ProcessProposal_run(2) [OF c, of a] in auto)
  finally show ?thesis .
qed

text \<open>C15: ProcessProposal accepts a proposal exactly when every transaction has a valid header, the
  provider accepts its transactions (or has none) and no participating chain fails; the rejection of a
  consumer never rejects the proposal. The consumers marked as rejected are then exactly those that took
  part and did not accept, with the marks of earlier proposals cleared. None of this depends on the
  order in which the chains answer.\<close>

theorem ProcessProposal_correct:
  "(snd (ProcessProposal env ns m req) = Inr \<lparr>pr_Status = ACCEPT\<rparr> \<longleftrightarrow>
      (\<forall>tx \<in> set (rr_Txs req). \<not> isl (ParseHeader tx)) \<and>
      (\<forall>a. participates m (rr_Txs req) a \<longrightarrow> \<not> isl (proposal_answer env req m a)) \<and>
      (participates m (rr_Txs req) (providerChainID m) \<longrightarrow>
         proposal_answer env req m (providerChainID m) = Inr \<lparr>pr_Status = ACCEPT\<rparr>)) \<and>
   (snd (ProcessProposal env ns m req) = Inr \<lparr>pr_Status = ACCEPT\<rparr> \<longrightarrow>
      (\<forall>a. flag (rejectedConsumerChains (fst (ProcessProposal env ns m req))) a \<longleftrightarrow>
         participates m (rr_Txs req) a \<and> a \<noteq> providerChainID m \<and>
         proposal_answer env req m a \<noteq> Inr \<lparr>pr_Status = ACCEPT\<rparr>))"
  using ProcessProposal_accepts [of env ns m req] ProcessProposal_rejects [of env ns m req] by blast

section \<open>The demo world\<close>

definition demo_init :: RequestInitChain where
  "demo_init = \<lparr>ic_Time = \<lparr>Unix = 0, Nanosecond = 0\<rparr>, ic_ChainId = ''p'', ic_ConsensusParams = None,
     ic_Validators = [], ic_AppStateBytes = '''', ic_InitialHeight = 1\<rparr>"

theorem InitChain_correct_witness:
  "map_sum id pi_AppHash (snd (InitChain (demo_env '''') [1] demo_mux demo_init)) = Inr ''abp''"
proof -
  have ok: "app_InitChain (provider (demo_env '''')) (providerChain demo_mux) demo_init =
      ((''p'', 0), Inr \<lparr>pi_ConsensusParams = Some ''cp'', pi_Validators = [\<lparr>PubKey = ''k'', VU_Power = 5\<rparr>],
        pi_AppHash = ''p''\<rparr>)"
    by (simp add: demo_env_def demo_app_def demo_mux_def)
  define m1 where "m1 = demo_mux\<lparr>providerChain := (''p'', 0), providerGenesisConsensusParams := Some ''cp'',
      providerGenesisValidators := [\<lparr>PubKey = ''k'', VU_Power = 5\<rparr>]\<rparr>"
  have "init_response (demo_env '''') demo_init m1 a = Inr \<lparr>pi_ConsensusParams = Some ''cp'',
      pi_Validators = [\<lparr>PubKey = ''k'', VU_Power = 5\<rparr>], pi_AppHash = a\<rparr>" if "a = ''a'' \<or> a = ''b''" for a
    using that by (auto simp: init_response_def m1_def demo_mux_simps LoadGenesisAppState_def GenesisFile_def)
  moreover have "init_response (demo_env '''') demo_init m1 ''p'' = Inl (HandlerNotFound ''p'')"
    by (simp add: init_response_def m1_def demo_mux_def)
  moreover have "providerChainID demo_mux = ''p''"
    by (simp add: demo_mux_def)
  ultimately show ?thesis
    using InitChain_correct [OF demo_no_provider_handler, of "demo_env ''''" "[1]" demo_init]
    by (simp add: ok Let_def flip: m1_def)
qed

theorem ProcessProposal_correct_witness:
  "let req = \<lparr>rr_Txs = [CreateTransactionHeader ''a'' @ ''bad'', CreateTransactionHeader ''p'' @ ''w''], rr_rest = ''''\<rparr>
   in flag (rejectedConsumerChains (fst (ProcessProposal (demo_env '''') [1] demo_mux req))) ''a''"
proof -
  let ?req = "\<lparr>rr_Txs = [CreateTransactionHeader ''a'' @ ''bad'', CreateTransactionHeader ''p'' @ ''w''], rr_rest = ''''\<rparr>"
  have "snd (ProcessProposal (demo_env '''') [1] demo_mux ?req) = Inr \<lparr>pr_Status = ACCEPT\<rparr>"
    "participates demo_mux (rr_Txs ?req) ''a''" "''a'' \<noteq> providerChainID demo_mux"
    "proposal_answer (demo_env '''') ?req demo_mux ''a'' \<noteq> Inr \<lparr>pr_Status = ACCEPT\<rparr>"
    by code_simp+
  then show ?thesis
    using ProcessProposal_correct [of "demo_env ''''" "[1]" demo_mux ?req] unfolding Let_def by blast
qed

end
