(* ===== verification/Lifecycle.thy ===== *)
theory Lifecycle
  imports MuxProps
begin

text \<open>
  The life of a node: abci/genesis.go, the parts of abci/multiplexer.go that start and stop the
  multiplexer, and cmd/start.go and cmd/main.go.

  Everything these functions do outside the multiplexer is a call of code of other packages. The
  state \<open>node\<close> holds the list of the calls made so far, and the results of the calls are the
  record \<open>node_env\<close>, an argument: every result may depend on all calls made before. A
  result is \<open>Inl\<close> with the text of the error. What the calls do to the client context, the
  metrics and the context that catches signals is not looked at. A panic and a returned error are
  the two kinds of \<open>life_fault\<close>.
\<close>

section \<open>The outside\<close>

datatype ext_call =
    OpenTraceFile string
  | OpenDB string string
  | CreateProvider
  | LoadNodeKey
  | CreateNode
  | StartNode
  | StopNode
  | WaitNode
  | CloseProvider
  | CloseConn string
  | CloseTrace
  | LocalClient
  | RegisterTxService
  | RegisterTendermintService
  | RegisterNodeService
  | DialGrpc string int int
  | NewGrpcServer
  | GoGrpcServer
  | NewTelemetry
  | NewApiServer
  | RegisterAPIRoutes
  | SetTelemetry
  | GoApiServer

type_synonym calls = "ext_call list"

datatype life_error =
    TraceWriterFailed string
  | OpenDBFailed string
  | GenesisValuesFailed mux_error
  | StartNativeFailed life_error
  | ChainHandlersFailed mux_error
  | NodeKeyFailed string
  | NewNodeFailed string
  | NodeStartFailed string
  | NilApp
  | BadGrpcAddress string
  | GrpcClientFailed string
  | GrpcServerFailed string
  | TelemetryFailed string
  | EnableServersFailed life_error
  | WaitFailed string
  | NodeStopFailed string
  | CloseFailed string
  | ServerConfigFailed string
  | ServerConfigInvalid string
  | NoGrpcListenAddress
  | StartFailed life_error

datatype life_fault = Err life_error | PanicWith string

record 'p node_env =
  v_chain_id :: string
  v_genesis_file :: "string option"
  v_home :: string
  v_trace_store :: string
  v_db_backend :: string
  v_grpc_only :: bool
  RootDir :: string
  TelemetryEnabled :: bool
  GRPC_Address :: string
  GRPC_MaxSendMsgSize :: int
  GRPC_MaxRecvMsgSize :: int
  DefaultGRPCMaxSendMsgSize :: int
  DefaultGRPCMaxRecvMsgSize :: int
  GRPCListenAddress :: string
  GetConfig :: "string + bool \<times> bool"
  ValidateBasic :: "string + unit"
  os_Open :: "string \<Rightarrow> string + bytes"
  ParseChainIDFromGenesis :: "bytes \<Rightarrow> string + string"
  os_OpenFile :: "calls \<Rightarrow> string \<Rightarrow> string + unit"
  db_NewDB :: "calls \<Rightarrow> string \<Rightarrow> string \<Rightarrow> string + unit"
  providerCreator :: "calls \<Rightarrow> 'p"
  LoadOrGenNodeKey :: "calls \<Rightarrow> string + unit"
  NewNodeWithContext :: "calls \<Rightarrow> string + unit"
  node_Start :: "calls \<Rightarrow> string + unit"
  node_IsRunning :: "calls \<Rightarrow> bool"
  node_Stop :: "calls \<Rightarrow> string + unit"
  provider_Close :: "calls \<Rightarrow> string + unit"
  conn_Close :: "calls \<Rightarrow> string \<Rightarrow> string + unit"
  trace_Close :: "calls \<Rightarrow> string + unit"
  local_New :: "calls \<Rightarrow> bool \<Rightarrow> string + unit"
  SplitHostPort :: "string \<Rightarrow> string + unit"
  grpc_Dial :: "calls \<Rightarrow> string + unit"
  grpc_Server :: "calls \<Rightarrow> string + unit"
  telemetry_New :: "calls \<Rightarrow> string + unit"
  g_Wait :: "calls \<Rightarrow> string + unit"

text \<open>\<open>hasProvider\<close>, \<open>cmNode\<close> and \<open>traceWriter\<close> say whether these pointers of the
  multiplexer are set; \<open>grpcEnable\<close> and \<open>apiEnable\<close> are fields of its server configuration.\<close>

record ('p, 'c) node =
  mux :: "('p, 'c) Multiplexer"
  hasProvider :: bool
  cmNode :: bool
  traceWriter :: bool
  grpcEnable :: bool
  apiEnable :: bool
  calls :: calls

definition did :: "ext_call \<Rightarrow> ('p, 'c) node \<Rightarrow> ('p, 'c) node" where
  "did c nd = nd\<lparr>calls := calls nd @ [c]\<rparr>"

text \<open>A call with a result: the results are asked with the calls before it.\<close>

definition ask ::
    "ext_call \<Rightarrow> (string \<Rightarrow> life_error) \<Rightarrow> (calls \<Rightarrow> string + unit) \<Rightarrow> ('p, 'c) node \<Rightarrow>
     ('p, 'c) node \<times> (life_fault + unit)" where
  "ask c err f nd = (did c nd, map_sum (\<lambda>e. Err (err e)) id (f (calls nd)))"

section \<open>The chain id of the provider (genesis.go)\<close>

definition getProviderChainID :: "'p node_env \<Rightarrow> life_fault + string" where
  "getProviderChainID v =
     (let chainID = v_chain_id v
      in if chainID = ''''
         then let genesisPathCfg = (case v_genesis_file v of None \<Rightarrow> '''' | Some f \<Rightarrow> f);
                  genesisPathCfg = (if genesisPathCfg = '''' then Join [''config'', ''genesis.json'']
                                    else genesisPathCfg)
              in (case os_Open v (Join [v_home v, genesisPathCfg]) of
                    Inl err \<Rightarrow> Inl (PanicWith err)
                  | Inr reader \<Rightarrow>
                      (case ParseChainIDFromGenesis v reader of
                         Inl err \<Rightarrow> Inl (PanicWith (''failed to parse chain-id from genesis file: '' @ err))
                       | Inr chainID \<Rightarrow> Inr chainID))
         else Inr chainID)"

text \<open>\<open>AppGenesisFromFile\<close> of the configuration's genesis file, then \<open>ToGenesisDoc\<close>.\<close>

definition GetGenDocProvider ::
    "(string \<Rightarrow> string + 'g) \<Rightarrow> ('g \<Rightarrow> string + GenesisDoc) \<Rightarrow> string \<Rightarrow> string + GenesisDoc" where
  "GetGenDocProvider appGenesisFromFile toGenesisDoc genesisFile =
     (case appGenesisFromFile genesisFile of
        Inl err \<Rightarrow> Inl err
      | Inr appGenesis \<Rightarrow> toGenesisDoc appGenesis)"

section \<open>Starting\<close>

definition getTraceWriter :: "'p node_env \<Rightarrow> ('p, 'c) node \<Rightarrow> ('p, 'c) node \<times> (life_fault + bool)" where
  "getTraceWriter env nd =
     (let traceWriterFile = v_trace_store env
      in if traceWriterFile = '''' then (nd, Inr False)
         else andThen (ask (OpenTraceFile traceWriterFile) TraceWriterFailed
                        (\<lambda>cs. os_OpenFile env cs traceWriterFile) nd)
                (\<lambda>nd _. (nd, Inr True)))"

definition openDB :: "'p node_env \<Rightarrow> ('p, 'c) node \<Rightarrow> ('p, 'c) node \<times> (life_fault + unit)" where
  "openDB env nd =
     (let dataDir = Join [RootDir env, ''data'']
      in ask (OpenDB (v_db_backend env) dataDir) OpenDBFailed (\<lambda>cs. db_NewDB env cs (v_db_backend env) dataDir) nd)"

definition startNativeProvider ::
    "'p node_env \<Rightarrow> ('p, 'c) mux_env \<Rightarrow> ('p, 'c) node \<Rightarrow> ('p, 'c) node \<times> (life_fault + unit)" where
  "startNativeProvider env menv nd =
     andThen (getTraceWriter env nd) (\<lambda>nd w.
     andThen (openDB env (nd\<lparr>traceWriter := w\<rparr>)) (\<lambda>nd _.
       let nd = (did CreateProvider nd)\<lparr>hasProvider := True,
                  mux := (mux nd)\<lparr>providerChain := providerCreator env (calls nd)\<rparr>\<rparr>
       in (case getProviderChainID env of
             Inl fault \<Rightarrow> (nd, Inl fault)
           | Inr chainID \<Rightarrow>
               (case loadGenesisValues menv ((mux nd)\<lparr>providerChainID := chainID\<rparr>) of
                  (m, Inl err) \<Rightarrow> (nd\<lparr>mux := m\<rparr>, Inl (Err (GenesisValuesFailed err)))
                | (m, Inr _) \<Rightarrow> (nd\<lparr>mux := m\<rparr>, Inr ())))))"

definition startCmtNode :: "'p node_env \<Rightarrow> ('p, 'c) node \<Rightarrow> ('p, 'c) node \<times> (life_fault + unit)" where
  "startCmtNode env nd =
     andThen (ask LoadNodeKey NodeKeyFailed (LoadOrGenNodeKey env) nd) (\<lambda>nd _.
     andThen (ask CreateNode NewNodeFailed (NewNodeWithContext env) nd) (\<lambda>nd _.
     andThen (ask StartNode NodeStartFailed (node_Start env) nd) (\<lambda>nd _.
       (nd\<lparr>cmNode := True\<rparr>, Inr ()))))"

definition startGRPCServer :: "'p node_env \<Rightarrow> ('p, 'c) node \<Rightarrow> ('p, 'c) node \<times> (life_fault + unit)" where
  "startGRPCServer env nd =
     (case SplitHostPort env (GRPC_Address env) of
        Inl err \<Rightarrow> (nd, Inl (Err (BadGrpcAddress err)))
      | Inr _ \<Rightarrow>
          let maxSendMsgSize = (if GRPC_MaxSendMsgSize env = 0 then DefaultGRPCMaxSendMsgSize env
                                else GRPC_MaxSendMsgSize env);
              maxRecvMsgSize = (if GRPC_MaxRecvMsgSize env = 0 then DefaultGRPCMaxRecvMsgSize env
                                else GRPC_MaxRecvMsgSize env)
          in andThen (ask (DialGrpc (GRPC_Address env) maxRecvMsgSize maxSendMsgSize) GrpcClientFailed
                       (grpc_Dial env) nd) (\<lambda>nd _.
             andThen (ask NewGrpcServer GrpcServerFailed (grpc_Server env) nd) (\<lambda>nd _.
               (did GoGrpcServer nd, Inr ()))))"

text \<open>\<open>local.New\<close> returns no error; that it can panic when there is no node is the first
  summand of \<open>local_New\<close>.\<close>

definition registerServices :: "'p node_env \<Rightarrow> ('p, 'c) node \<Rightarrow> ('p, 'c) node \<times> (life_fault + unit)" where
  "registerServices env nd =
     (case local_New env (calls nd) (cmNode nd) of
        Inl p \<Rightarrow> (did LocalClient nd, Inl (PanicWith p))
      | Inr _ \<Rightarrow>
          (did RegisterNodeService (did RegisterTendermintService (did RegisterTxService (did LocalClient nd))),
           Inr ()))"

definition startApiServer :: "'p node_env \<Rightarrow> ('p, 'c) node \<Rightarrow> ('p, 'c) node \<times> (life_fault + unit)" where
  "startApiServer env nd =
     andThen (ask NewTelemetry TelemetryFailed (telemetry_New env) nd) (\<lambda>nd _.
       let nd = did RegisterAPIRoutes (did NewApiServer nd);
           nd = (if TelemetryEnabled env then did SetTelemetry nd else nd)
       in (did GoApiServer nd, Inr ()))"

definition enableGRPCAndAPIServers ::
    "'p node_env \<Rightarrow> ('p, 'c) node \<Rightarrow> ('p, 'c) node \<times> (life_fault + unit)" where
  "enableGRPCAndAPIServers env nd =
     (if \<not> hasProvider nd then (nd, Inl (Err NilApp))
      else andThen (if apiEnable nd \<or> grpcEnable nd then registerServices env nd else (nd, Inr ())) (\<lambda>nd _.
        if grpcEnable nd
        then andThen (startGRPCServer env nd) (\<lambda>nd _.
               if apiEnable nd then startApiServer env nd else (nd, Inr ()))
        else (nd, Inr ())))"

definition wrap_fault :: "(life_error \<Rightarrow> life_error) \<Rightarrow> 's \<times> (life_fault + 'a) \<Rightarrow> 's \<times> (life_fault + 'a)" where
  "wrap_fault w r =
     (case r of
        (s, Inl (Err e)) \<Rightarrow> (s, Inl (Err (w e)))
      | (s, Inl (PanicWith p)) \<Rightarrow> (s, Inl (PanicWith p))
      | (s, Inr a) \<Rightarrow> (s, Inr a))"

definition startHandlers :: "('p, 'c) mux_env \<Rightarrow> ('p, 'c) node \<Rightarrow> ('p, 'c) node \<times> (life_fault + unit)" where
  "startHandlers menv nd =
     (case initChainHandlers menv (mux nd) of
        (m, Inl err) \<Rightarrow> (nd\<lparr>mux := m\<rparr>, Inl (Err (ChainHandlersFailed err)))
      | (m, Inr _) \<Rightarrow> (nd\<lparr>mux := m\<rparr>, Inr ()))"

definition Start ::
    "'p node_env \<Rightarrow> ('p, 'c) mux_env \<Rightarrow> ('p, 'c) node \<Rightarrow> ('p, 'c) node \<times> (life_fault + unit)" where
  "Start env menv nd =
     andThen (wrap_fault StartNativeFailed (startNativeProvider env menv nd)) (\<lambda>nd _.
     andThen (startHandlers menv nd) (\<lambda>nd _.
     andThen (if v_grpc_only env then (nd\<lparr>grpcEnable := True\<rparr>, Inr ()) else startCmtNode env nd) (\<lambda>nd _.
     andThen (wrap_fault EnableServersFailed (enableGRPCAndAPIServers env nd)) (\<lambda>nd _.
       (nd, map_sum (\<lambda>e. Err (WaitFailed e)) id (g_Wait env (calls nd)))))))"

section \<open>Stopping\<close>

definition stopCometNode :: "'p node_env \<Rightarrow> ('p, 'c) node \<Rightarrow> ('p, 'c) node \<times> (life_error + unit)" where
  "stopCometNode env nd =
     (if cmNode nd \<and> node_IsRunning env (calls nd)
      then (case node_Stop env (calls nd) of
              Inl err \<Rightarrow> (did StopNode nd, Inl (NodeStopFailed err))
            | Inr _ \<Rightarrow> (did WaitNode (did StopNode nd), Inr ()))
      else (nd, Inr ()))"

definition stopTraceWriter :: "'p node_env \<Rightarrow> ('p, 'c) node \<Rightarrow> ('p, 'c) node \<times> (life_error + unit)" where
  "stopTraceWriter env nd =
     (if traceWriter nd then (did CloseTrace nd, map_sum CloseFailed id (trace_Close env (calls nd)))
      else (nd, Inr ()))"

text \<open>\<open>errors.Join\<close>: a joined error is the list of its errors, nil the empty list.\<close>

definition errors_Join :: "life_error list \<Rightarrow> life_error + unit \<Rightarrow> life_error list" where
  "errors_Join errs r = (case r of Inl e \<Rightarrow> errs @ [e] | Inr _ \<Rightarrow> errs)"

fun close_conns ::
    "'p node_env \<Rightarrow> string list \<Rightarrow> ('p, 'c) node \<Rightarrow> life_error list \<Rightarrow> ('p, 'c) node \<times> life_error list" where
  "close_conns env [] nd errs = (nd, errs)"
| "close_conns env (chainID # ids) nd errs =
     close_conns env ids (did (CloseConn chainID) nd)
       (errors_Join errs (map_sum CloseFailed id (conn_Close env (calls nd) chainID)))"

text \<open>The handlers are visited in the order of \<open>ns\<close>; \<open>Close\<close> on a provider that was never created
  is a call on a nil interface.\<close>

definition nil_dereference :: string where
  "nil_dereference = ''invalid memory address or nil pointer dereference''"

definition Stop ::
    "'p node_env \<Rightarrow> nat list \<Rightarrow> ('p, 'c) node \<Rightarrow> ('p, 'c) node \<times> (string + life_error list)" where
  "Stop env ns nd =
     (case stopCometNode env nd of
        (nd, r) \<Rightarrow>
          let errs = errors_Join [] r
          in if \<not> hasProvider nd then (nd, Inl nil_dereference)
             else let errs = errors_Join errs (map_sum CloseFailed id (provider_Close env (calls nd)));
                      nd = did CloseProvider nd
                  in (case close_conns env (pick ns (keys (chainHandlers (mux nd)))) nd errs of
                        (nd, errs) \<Rightarrow>
                          (case stopTraceWriter env nd of (nd, r) \<Rightarrow> (nd, Inr (errors_Join errs r)))))"

section \<open>The start command (cmd/start.go, cmd/main.go)\<close>

definition TrimSpace :: "string \<Rightarrow> string" where
  "TrimSpace s =
     (let blank = (\<lambda>c. c \<in> {CHR '' '', CHR 0x09, CHR 0x0A, CHR 0x0B, CHR 0x0C, CHR 0x0D})
      in rev (dropWhile blank (rev (dropWhile blank s))))"

definition getAndValidateConfig :: "'p node_env \<Rightarrow> life_error + bool \<times> bool" where
  "getAndValidateConfig env =
     (case GetConfig env of
        Inl err \<Rightarrow> Inl (ServerConfigFailed err)
      | Inr config \<Rightarrow>
          (case ValidateBasic env of
             Inl err \<Rightarrow> Inl (ServerConfigInvalid err)
           | Inr _ \<Rightarrow> if TrimSpace (GRPCListenAddress env) = '''' then Inl NoGrpcListenAddress else Inr config))"

text \<open>The deferred \<open>Stop\<close> runs after \<open>Start\<close>, whether it returned or panicked; an error of
  \<open>Stop\<close> is only logged, a panic of it replaces the result.\<close>

definition start ::
    "'p node_env \<Rightarrow> ('p, 'c) mux_env \<Rightarrow> nat list \<Rightarrow> Config \<Rightarrow> ServerConfig \<Rightarrow> 'p \<Rightarrow>
     calls \<times> (life_fault + unit)" where
  "start env menv ns config halt p0 =
     (case getAndValidateConfig env of
        Inl err \<Rightarrow> ([], Inl (Err err))
      | Inr (grpc, api) \<Rightarrow>
          let multiplexer = \<lparr>mux = NewMultiplexer halt p0 config, hasProvider = False, cmNode = False,
                traceWriter = False, grpcEnable = grpc, apiEnable = api, calls = []\<rparr>
          in (case wrap_fault StartFailed (Start env menv multiplexer) of
                (nd, result) \<Rightarrow>
                  (case Stop env ns nd of
                     (nd, Inl p) \<Rightarrow> (calls nd, Inl (PanicWith p))
                   | (nd, Inr _) \<Rightarrow> (calls nd, result))))"

text \<open>The handler of the command; without CometBFT it does nothing.\<close>

definition NewProvider ::
    "'p node_env \<Rightarrow> ('p, 'c) mux_env \<Rightarrow> nat list \<Rightarrow> Config \<Rightarrow> ServerConfig \<Rightarrow> 'p \<Rightarrow> bool \<Rightarrow>
     calls \<times> (life_fault + unit)" where
  "NewProvider env menv ns config halt p0 withCmt =
     (if \<not> withCmt then ([], Inr ()) else start env menv ns config halt p0)"

section \<open>What Stop does\<close>

text \<open>The calls of \<open>Stop\<close> in their order, the result of each, and the errors of a list of calls.\<close>

definition stop_calls :: "'p node_env \<Rightarrow> nat list \<Rightarrow> ('p, 'c) node \<Rightarrow> calls" where
  "stop_calls env ns nd =
     (if cmNode nd \<and> node_IsRunning env (calls nd)
      then StopNode # (if isl (node_Stop env (calls nd)) then [] else [WaitNode]) else []) @
     CloseProvider # map CloseConn (pick ns (keys (chainHandlers (mux nd)))) @
     (if traceWriter nd then [CloseTrace] else [])"

fun stop_result :: "'p node_env \<Rightarrow> calls \<Rightarrow> ext_call \<Rightarrow> string + unit" where
  "stop_result env cs StopNode = node_Stop env cs"
| "stop_result env cs CloseProvider = provider_Close env cs"
| "stop_result env cs (CloseConn a) = conn_Close env cs a"
| "stop_result env cs CloseTrace = trace_Close env cs"
| "stop_result env cs _ = Inr ()"

fun call_errors :: "'p node_env \<Rightarrow> calls \<Rightarrow> calls \<Rightarrow> string list" where
  "call_errors env cs [] = []"
| "call_errors env cs (c # rest) =
     (case stop_result env cs c of Inl e \<Rightarrow> [e] | Inr _ \<Rightarrow> []) @ call_errors env (cs @ [c]) rest"

fun error_text :: "life_error \<Rightarrow> string" where
  "error_text (NodeStopFailed e) = e"
| "error_text (CloseFailed e) = e"
| "error_text _ = ''''"

lemma call_errors_append: "call_errors env cs (xs @ ys) = call_errors env cs xs @ call_errors env (cs @ xs) ys"
  by (induction env cs xs rule: call_errors.induct) simp_all

lemma did_simps [simp]:
  "calls (did c nd) = calls nd @ [c]" "mux (did c nd) = mux nd" "hasProvider (did c nd) = hasProvider nd"
  "traceWriter (did c nd) = traceWriter nd" "cmNode (did c nd) = cmNode nd"
  by (simp_all add: did_def)

lemma join_text [simp]:
  "map error_text (errors_Join errs (map_sum CloseFailed f r)) =
     map error_text errs @ (case r of Inl e \<Rightarrow> [e] | Inr _ \<Rightarrow> [])"
  by (cases r) (simp_all add: errors_Join_def)

lemma close_conns_eq:
  "\<exists>errs'. close_conns env ids nd errs = (nd\<lparr>calls := calls nd @ map CloseConn ids\<rparr>, errs') \<and>
     map error_text errs' = map error_text errs @ call_errors env (calls nd) (map CloseConn ids)"
proof (induction ids arbitrary: nd errs)
  case (Cons a ids)
  show ?case
    using Cons [of "did (CloseConn a) nd" "errors_Join errs (map_sum CloseFailed id (conn_Close env (calls nd) a))"]
    by (auto simp: did_def)
qed simp

lemma Stop_run:
  assumes "hasProvider nd"
  shows "\<exists>errs. Stop env ns nd = (nd\<lparr>calls := calls nd @ stop_calls env ns nd\<rparr>, Inr errs) \<and>
    map error_text errs = call_errors env (calls nd) (stop_calls env ns nd) \<and>
    (\<forall>a. count_list (stop_calls env ns nd) (CloseConn a) =
       (if a |\<in>| fmdom (chainHandlers (mux nd)) then 1 else 0))"
proof -
  let ?ids = "pick ns (keys (chainHandlers (mux nd)))"
  define nd1 where "nd1 = fst (stopCometNode env nd)"
  define errs1 where "errs1 = errors_Join [] (snd (stopCometNode env nd))"
  define comet where "comet = (if cmNode nd \<and> node_IsRunning env (calls nd)
      then StopNode # (if isl (node_Stop env (calls nd)) then [] else [WaitNode]) else [])"
  have nd1: "nd1 = nd\<lparr>calls := calls nd @ comet\<rparr>"
    and errs1: "map error_text errs1 = call_errors env (calls nd) comet"
    by (auto simp: nd1_def errs1_def comet_def stopCometNode_def did_def errors_Join_def split: sum.splits)
  define errs2 where "errs2 = errors_Join errs1 (map_sum CloseFailed id (provider_Close env (calls nd1)))"
  obtain errs3 where closed: "close_conns env ?ids (did CloseProvider nd1) errs2 =
      ((did CloseProvider nd1)\<lparr>calls := calls (did CloseProvider nd1) @ map CloseConn ?ids\<rparr>, errs3)"
    and errs3: "map error_text errs3 = map error_text errs2 @
      call_errors env (calls (did CloseProvider nd1)) (map CloseConn ?ids)"
    using close_conns_eq by blast
  define nd3 where "nd3 = (did CloseProvider nd1)\<lparr>calls := calls (did CloseProvider nd1) @ map CloseConn ?ids\<rparr>"
  define errs where "errs = errors_Join errs3 (snd (stopTraceWriter env nd3))"
  have run: "Stop env ns nd = (fst (stopTraceWriter env nd3), Inr errs)"
  proof -
    obtain r where r: "stopCometNode env nd = (nd1, r)"
      by (simp add: nd1_def prod_eq_iff)
    have "hasProvider nd1" "mux nd1 = mux nd"
      by (simp_all add: nd1 assms)
    then show ?thesis
      using closed [unfolded errs2_def errs1_def r snd_conv]
      by (simp add: Stop_def r Let_def errs_def nd3_def split: prod.split)
  qed
  have calls3: "calls nd3 = calls nd @ comet @ CloseProvider # map CloseConn ?ids"
    by (simp add: nd3_def nd1)
  have stop: "stop_calls env ns nd = comet @ CloseProvider # map CloseConn ?ids @
      (if traceWriter nd then [CloseTrace] else [])"
    by (simp add: stop_calls_def comet_def)
  have final: "fst (stopTraceWriter env nd3) = nd\<lparr>calls := calls nd @ stop_calls env ns nd\<rparr>"
    by (simp add: stopTraceWriter_def stop did_def nd3_def nd1)
  have texts: "map error_text errs = call_errors env (calls nd) (stop_calls env ns nd)"
    unfolding stop errs_def call_errors_append
    using errs1 errs3
    by (simp add: stopTraceWriter_def errs2_def nd1 nd3_def call_errors_append) (simp add: errors_Join_def)
  have conns: "count_list (map CloseConn ids) (CloseConn a) = count_list ids a" for ids a
    by (induction ids) auto
  have "count_list ?ids a = (if a |\<in>| fmdom (chainHandlers (mux nd)) then 1 else 0)" for a
    using distinct_count_atmost_1 [of ?ids] by (simp flip: count_mset)
  then have "count_list (stop_calls env ns nd) (CloseConn a) = (if a |\<in>| fmdom (chainHandlers (mux nd)) then 1 else 0)" for a
    by (simp add: stop comet_def conns)
  with run final texts show ?thesis
    by auto
qed

text \<open>C32: once the provider has been created, Stop never panics and makes every call that shuts a
  component down, whatever the calls before returned: it stops the comet node if it is running, closes
  the provider, closes the connection of every configured chain exactly once, and closes the trace
  writer if there is one. It returns exactly the errors of the calls that failed, in their order, so no
  error when none failed.\<close>

theorem Stop_complete:
  assumes "hasProvider nd"
  shows "\<exists>errs. Stop env ns nd = (nd\<lparr>calls := calls nd @ stop_calls env ns nd\<rparr>, Inr errs) \<and>
    map error_text errs = call_errors env (calls nd) (stop_calls env ns nd) \<and>
    (\<forall>a. count_list (stop_calls env ns nd) (CloseConn a) =
       (if a |\<in>| fmdom (chainHandlers (mux nd)) then 1 else 0))"
  by (rule Stop_run [OF assms])

section \<open>A start that fails early\<close>

text \<open>The first calls of a start: the trace file, if one is configured, and the database, which is
  opened after it. A start gets no further when one of them fails.\<close>

definition trace_calls :: "'p node_env \<Rightarrow> calls" where
  "trace_calls env = (if v_trace_store env = '''' then [] else [OpenTraceFile (v_trace_store env)])"

definition trace_fails :: "'p node_env \<Rightarrow> bool" where
  "trace_fails env \<longleftrightarrow> v_trace_store env \<noteq> '''' \<and> isl (os_OpenFile env [] (v_trace_store env))"

definition db_fails :: "'p node_env \<Rightarrow> bool" where
  "db_fails env \<longleftrightarrow> isl (db_NewDB env (trace_calls env) (v_db_backend env) (Join [RootDir env, ''data'']))"

lemma getTraceWriter_opens:
  assumes "calls nd = []"
  shows "getTraceWriter env nd = (nd\<lparr>calls := trace_calls env\<rparr>,
    if trace_fails env then Inl (Err (TraceWriterFailed (projl (os_OpenFile env [] (v_trace_store env)))))
    else Inr (v_trace_store env \<noteq> ''''))"
  using assms
  by (cases nd; cases "os_OpenFile env [] (v_trace_store env)")
    (simp_all add: getTraceWriter_def trace_calls_def trace_fails_def ask_def did_def)

lemma Start_fails_early:
  assumes nd: "calls nd = []" "\<not> hasProvider nd" "\<not> cmNode nd" and fails: "trace_fails env \<or> db_fails env"
  shows "\<exists>nd' e. Start env menv nd = (nd', Inl (Err e)) \<and> \<not> hasProvider nd' \<and> \<not> cmNode nd'"
proof (cases "trace_fails env")
  case True
  then show ?thesis
    by (simp add: Start_def startNativeProvider_def getTraceWriter_opens nd wrap_fault_def)
next
  case False
  with fails obtain e where
    "db_NewDB env (trace_calls env) (v_db_backend env) (Join [RootDir env, ''data'']) = Inl e"
    by (auto simp: db_fails_def isl_def)
  with False show ?thesis
    by (simp add: Start_def startNativeProvider_def getTraceWriter_opens nd openDB_def ask_def wrap_fault_def Let_def)
qed

text \<open>C33: when the node cannot open its trace file, or, whether a trace file is configured or not, its
  database, the start command does not return the error: the deferred Stop closes a provider
  that was never created, which panics.\<close>

theorem failed_start_panics:
  assumes "getAndValidateConfig env = Inr cfg" and "trace_fails env \<or> db_fails env"
  shows "snd (start env menv ns config halt p0) = Inl (PanicWith nil_dereference)"
proof -
  let ?nd = "\<lparr>mux = NewMultiplexer halt p0 config, hasProvider = False, cmNode = False,
      traceWriter = False, grpcEnable = fst cfg, apiEnable = snd cfg, calls = []\<rparr>"
  obtain nd e where nd: "Start env menv ?nd = (nd, Inl (Err e))" "\<not> hasProvider nd" "\<not> cmNode nd"
    using Start_fails_early [of ?nd env menv] assms(2) by auto
  then have "snd (Stop env ns nd) = Inl nil_dereference"
    by (simp add: Stop_def stopCometNode_def Let_def)
  then obtain nd' where "Stop env ns nd = (nd', Inl nil_dereference)"
    by (metis prod.collapse)
  moreover obtain grpc api where "cfg = (grpc, api)"
    by (cases cfg)
  ultimately show ?thesis
    using nd(1) assms(1) by (simp add: start_def wrap_fault_def Let_def)
qed

section \<open>The handlers of the configured chains\<close>

definition configured_handler :: "('p, 'c) mux_env \<Rightarrow> ChainInfo \<Rightarrow> 'c ChainHandler option" where
  "configured_handler menv c =
     (case grpc_NewClient menv (TrimPrefix (GRPCAddress c) ''tcp://'') of
        Inl _ \<Rightarrow> None
      | Inr conn \<Rightarrow> Some \<lparr>ch_ChainID = CI_ChainID c, ch_app = conn, ch_config = c\<rparr>)"

lemma init_handlers_iff:
  "snd (init_handlers menv m cs) = Inr () \<longleftrightarrow>
     (\<forall>c \<in> set cs. configured_handler menv c \<noteq> None) \<and> distinct (map CI_ChainID cs) \<and>
     (\<forall>c \<in> set cs. fmlookup (chainHandlers m) (CI_ChainID c) = None)"
proof (induction cs arbitrary: m)
  case (Cons c cs)
  then show ?case
    by (auto simp: initRemoteGrpcConn_def configured_handler_def Let_def split: sum.split)
qed simp

lemma init_handlers_lookup:
  "snd (init_handlers menv m cs) = Inr () \<Longrightarrow>
     fmlookup (chainHandlers (fst (init_handlers menv m cs))) a =
       (case map_of (map (\<lambda>c. (CI_ChainID c, c)) cs) a of
          None \<Rightarrow> fmlookup (chainHandlers m) a
        | Some c \<Rightarrow> configured_handler menv c)"
proof (induction cs arbitrary: m)
  case (Cons c cs)
  obtain conn where conn: "initRemoteGrpcConn menv c = Inr conn"
    using Cons.prems by (cases "initRemoteGrpcConn menv c") simp_all
  define m1 where "m1 = m\<lparr>chainHandlers := fmupd (CI_ChainID c)
      \<lparr>ch_ChainID = CI_ChainID c, ch_app = conn, ch_config = c\<rparr> (chainHandlers m)\<rparr>"
  have fresh: "fmlookup (chainHandlers m) (CI_ChainID c) = None"
    using Cons.prems [unfolded init_handlers_iff] by auto
  have step: "init_handlers menv m (c # cs) = init_handlers menv m1 cs"
    by (simp add: conn Let_def fresh m1_def)
  have "CI_ChainID c \<notin> CI_ChainID ` set cs"
    using Cons.prems [unfolded init_handlers_iff] by auto
  then have "map_of (map (\<lambda>c. (CI_ChainID c, c)) cs) (CI_ChainID c) = None"
    by (simp add: map_of_eq_None_iff image_image)
  moreover have "configured_handler menv c = Some \<lparr>ch_ChainID = CI_ChainID c, ch_app = conn, ch_config = c\<rparr>"
    using conn by (simp add: configured_handler_def initRemoteGrpcConn_def Let_def split: sum.splits)
  ultimately show ?case
    unfolding step using Cons.IH [of m1] Cons.prems [unfolded step]
    by (auto simp: m1_def split: option.split)
qed simp

text \<open>InitChainHandlers succeeds exactly when a connection to every configured chain can be
  prepared and the configured chain ids are pairwise different and not taken; it then has one handler
  per configured chain, with the chain's configuration and the connection to its address.\<close>

theorem initChainHandlers_correct:
  "(snd (initChainHandlers menv m) = Inr () \<longleftrightarrow>
      (\<forall>c \<in> set (Chains (chainConfig m)). configured_handler menv c \<noteq> None) \<and>
      distinct (map CI_ChainID (Chains (chainConfig m))) \<and>
      (\<forall>c \<in> set (Chains (chainConfig m)). fmlookup (chainHandlers m) (CI_ChainID c) = None)) \<and>
   (snd (initChainHandlers menv m) = Inr () \<longrightarrow>
      (\<forall>a. fmlookup (chainHandlers (fst (initChainHandlers menv m))) a =
         (case map_of (map (\<lambda>c. (CI_ChainID c, c)) (Chains (chainConfig m))) a of
            None \<Rightarrow> fmlookup (chainHandlers m) a
          | Some c \<Rightarrow> configured_handler menv c)))"
  unfolding initChainHandlers_def using init_handlers_iff init_handlers_lookup by blast

section \<open>A node of the demo world\<close>

definition demo_node_env :: "(string \<times> nat) node_env" where
  "demo_node_env =
     \<lparr>v_chain_id = ''p'', v_genesis_file = None, v_home = ''/h'', v_trace_store = '''', v_db_backend = ''db'',
      v_grpc_only = False, RootDir = ''/h'', TelemetryEnabled = False, GRPC_Address = ''g'',
      GRPC_MaxSendMsgSize = 0, GRPC_MaxRecvMsgSize = 0, DefaultGRPCMaxSendMsgSize = 1,
      DefaultGRPCMaxRecvMsgSize = 1, GRPCListenAddress = ''l'', GetConfig = Inr (True, True),
      ValidateBasic = Inr (), os_Open = (\<lambda>f. Inl ''none''), ParseChainIDFromGenesis = (\<lambda>b. Inr ''p''),
      os_OpenFile = (\<lambda>cs f. Inr ()), db_NewDB = (\<lambda>cs b d. Inl ''locked''), providerCreator = (\<lambda>cs. (''p'', 0)),
      LoadOrGenNodeKey = (\<lambda>cs. Inr ()), NewNodeWithContext = (\<lambda>cs. Inr ()), node_Start = (\<lambda>cs. Inr ()),
      node_IsRunning = (\<lambda>cs. True), node_Stop = (\<lambda>cs. Inl ''busy''), provider_Close = (\<lambda>cs. Inr ()),
      conn_Close = (\<lambda>cs a. if a = ''a'' then Inl ''reset'' else Inr ()), trace_Close = (\<lambda>cs. Inr ()),
      local_New = (\<lambda>cs b. Inr ()), SplitHostPort = (\<lambda>a. Inr ()), grpc_Dial = (\<lambda>cs. Inr ()),
      grpc_Server = (\<lambda>cs. Inr ()), telemetry_New = (\<lambda>cs. Inr ()), g_Wait = (\<lambda>cs. Inr ())\<rparr>"

definition demo_node :: "(string \<times> nat, string \<times> nat) node" where
  "demo_node = \<lparr>mux = demo_mux, hasProvider = True, cmNode = True, traceWriter = False,
     grpcEnable = True, apiEnable = True, calls = []\<rparr>"

theorem Stop_complete_witness:
  "\<exists>errs. Stop demo_node_env [1] demo_node =
       (demo_node\<lparr>calls := [StopNode, CloseProvider, CloseConn ''b'', CloseConn ''a'']\<rparr>, Inr errs) \<and>
     map error_text errs = [''busy'', ''reset'']"
proof -
  have "stop_calls demo_node_env [1] demo_node = [StopNode, CloseProvider, CloseConn ''b'', CloseConn ''a'']"
    "call_errors demo_node_env [] [StopNode, CloseProvider, CloseConn ''b'', CloseConn ''a''] = [''busy'', ''reset'']"
    by code_simp+
  moreover have "hasProvider demo_node" "calls demo_node = []"
    by (simp_all add: demo_node_def)
  ultimately show ?thesis
    using Stop_complete [of demo_node demo_node_env "[1]"] by auto
qed

text \<open>The database is locked, with and without a trace file that opens, and a trace file that does not open.\<close>

theorem failed_start_panics_witness:
  "list_all (\<lambda>env. snd (start env (demo_env '''') [] DefaultConfig \<lparr>HaltHeight = 0, HaltTime = 0\<rparr> (''nil'', 0)) =
       Inl (PanicWith nil_dereference))
     [demo_node_env, demo_node_env\<lparr>v_trace_store := ''t''\<rparr>,
      demo_node_env\<lparr>v_trace_store := ''t'', os_OpenFile := \<lambda>cs f. Inl ''denied'', db_NewDB := \<lambda>cs b d. Inr ()\<rparr>]"
  by (simp, intro conjI; rule failed_start_panics [where cfg = "(True, True)"])
    (simp_all add: demo_node_env_def getAndValidateConfig_def TrimSpace_def Let_def trace_fails_def db_fails_def)

theorem initChainHandlers_correct_witness:
  "map_option ch_app (fmlookup (chainHandlers (fst (initChainHandlers (demo_env '''')
      (demo_mux\<lparr>chainHandlers := fmempty\<rparr>)))) ''a'') = Some (''a'', 0)"
proof -
  let ?m = "demo_mux\<lparr>chainHandlers := fmempty\<rparr>"
  have ok: "snd (initChainHandlers (demo_env '''') ?m) = Inr ()"
    by code_simp
  have "fmlookup (chainHandlers (fst (initChainHandlers (demo_env '''') ?m))) ''a'' =
      configured_handler (demo_env '''') (demo_info ''a'')"
    using initChainHandlers_correct [of "demo_env ''''" ?m] ok by (simp add: demo_mux_def demo_info_def)
  then show ?thesis
    by (simp add: configured_handler_def demo_env_def demo_info_def TrimPrefix_def HasPrefix_def)
qed

end
