(* ===== verification/AppCommands.thy ===== *)
theory AppCommands
  imports Assembly Export Lifecycle
begin

text \<open>
  testapp/cmd: the handlers of the commands start and export of the two applications. The start handler
  of the provider loads the configuration of the consumer chains and starts the node of \<open>Lifecycle\<close>; the
  export command builds an application of \<open>Assembly\<close> and exports its state with \<open>Export\<close>.

  The options of the application are the record \<open>app_options\<close>; the environment of the export is a
  function of the application and of the height that is loaded.
\<close>

section \<open>Start of the provider (root.go)\<close>

datatype command_error =
    ConfigNotLoaded string config_error
  | NodeFault life_fault

definition customStartHandler ::
    "'f config_env \<Rightarrow> 'p node_env \<Rightarrow> ('p, 'c) mux_env \<Rightarrow> nat list \<Rightarrow> 'f \<Rightarrow> ServerConfig \<Rightarrow> 'p \<Rightarrow> bool \<Rightarrow>
     'f \<times> calls \<times> (command_error + unit)" where
  "customStartHandler cenv nenv menv ns f cfg p0 inProcessConsensus =
     (let homeDir = RootDir nenv;
          file = Join [homeDir, ''config'', ''ics.toml'']
      in (case LoadConfig cenv f file of
            (f, Inl err) \<Rightarrow> (f, [], Inl (ConfigNotLoaded file err))
          | (f, Inr icsConfig) \<Rightarrow>
              (case NewProvider nenv menv ns icsConfig cfg p0 inProcessConsensus of
                 (cs, r) \<Rightarrow> (f, cs, map_sum NodeFault id r))))"

section \<open>Export\<close>

text \<open>The value of the home option is \<open>None\<close> when it is not a string.\<close>

record app_options =
  flag_home :: "string option"
  is_viper :: bool
  inv_check_period :: int

datatype export_error =
    HomeNotSet
  | NotViper
  | AppFault app_fault
  | LoadHeightFailed string
  | ExportFault export_fault

definition newApp :: "(app_options \<Rightarrow> app_env) \<Rightarrow> nat list \<Rightarrow> app_options \<Rightarrow> app_fault + App" where
  "newApp E ns appOpts = New (E appOpts) ns True"

definition consumer_newApp :: "(app_options \<Rightarrow> app_env) \<Rightarrow> nat list \<Rightarrow> app_options \<Rightarrow> app_fault + App" where
  "consumer_newApp E ns appOpts = consumer_New (E appOpts) ns True"

text \<open>\<open>state app h\<close> is the environment of the export of the application with the height that is
  loaded, \<open>None\<close> for the latest.\<close>

definition export_command ::
    "(app_env \<Rightarrow> nat list \<Rightarrow> bool \<Rightarrow> app_fault + App) \<Rightarrow> (app_options \<Rightarrow> app_env) \<Rightarrow> nat list \<Rightarrow>
     (App \<Rightarrow> int64 \<Rightarrow> string + unit) \<Rightarrow> (App \<Rightarrow> int64 option \<Rightarrow> ('s, 'o) export_env) \<Rightarrow>
     (('s, 'o) export_env \<Rightarrow> ('s, 'o ExportedApp) export_res) \<Rightarrow> int64 \<Rightarrow> app_options \<Rightarrow> export_error + 'o ExportedApp"
  where
  "export_command new E ns load_height state export height appOpts =
     (case flag_home appOpts of
        None \<Rightarrow> Inl HomeNotSet
      | Some homePath \<Rightarrow>
          if homePath = '''' then Inl HomeNotSet
          else if \<not> is_viper appOpts then Inl NotViper
          else
            let appOpts = appOpts\<lparr>inv_check_period := 1\<rparr>;
                run = (\<lambda>app h. map_sum ExportFault id (snd (export (state app h))))
            in if height \<noteq> -1 then
                 (case new (E appOpts) ns False of
                    Inl e \<Rightarrow> Inl (AppFault e)
                  | Inr simApp \<Rightarrow>
                      (case load_height simApp height of
                         Inl err \<Rightarrow> Inl (LoadHeightFailed err)
                       | Inr _ \<Rightarrow> run simApp (Some height)))
               else
                 (case new (E appOpts) ns True of
                    Inl e \<Rightarrow> Inl (AppFault e)
                  | Inr simApp \<Rightarrow> run simApp None))"

definition appExport ::
    "(app_options \<Rightarrow> app_env) \<Rightarrow> nat list \<Rightarrow> (App \<Rightarrow> int64 \<Rightarrow> string + unit) \<Rightarrow>
     (App \<Rightarrow> int64 option \<Rightarrow> ('s, 'o) export_env) \<Rightarrow> int64 \<Rightarrow> bool \<Rightarrow> string list \<Rightarrow> app_options \<Rightarrow> string list \<Rightarrow>
     export_error + 'o ExportedApp" where
  "appExport E ns load_height state height forZeroHeight jailAllowedAddrs appOpts modulesToExport =
     export_command New E ns load_height state
       (\<lambda>X. ExportAppStateAndValidators X forZeroHeight jailAllowedAddrs modulesToExport) height appOpts"

definition consumer_appExport ::
    "(app_options \<Rightarrow> app_env) \<Rightarrow> nat list \<Rightarrow> (App \<Rightarrow> int64 \<Rightarrow> string + unit) \<Rightarrow>
     (App \<Rightarrow> int64 option \<Rightarrow> ('s, 'o) export_env) \<Rightarrow> ('s SdkContext, 'g) ConsumerStaking.StakingKeeper \<Rightarrow> int64 \<Rightarrow> bool \<Rightarrow>
     string list \<Rightarrow> app_options \<Rightarrow> string list \<Rightarrow> export_error + 'o ExportedApp" where
  "consumer_appExport E ns load_height state k height forZeroHeight jailAllowedAddrs appOpts modulesToExport =
     export_command consumer_New E ns load_height state
       (\<lambda>X. consumer_ExportAppStateAndValidators X k forZeroHeight jailAllowedAddrs modulesToExport) height appOpts"

section \<open>What the commands guarantee\<close>

text \<open>Nothing is started with a configuration that is not valid.\<close>

lemma start_needs_valid_config:
  assumes "customStartHandler cenv nenv menv ns f cfg p0 withCmt = (f', cs, r)" and "cs \<noteq> [] \<or> r = Inr ()"
  shows "\<exists>c. LoadConfig cenv f (Join [RootDir nenv, ''config'', ''ics.toml'']) = (f', Inr c) \<and>
    Config_Validate c = Inr () \<and> (cs, r) = apsnd (map_sum NodeFault id) (NewProvider nenv menv ns c cfg p0 withCmt)"
proof -
  obtain c where c: "LoadConfig cenv f (Join [RootDir nenv, ''config'', ''ics.toml'']) = (f', Inr c)"
    using assms by (auto simp: customStartHandler_def Let_def split: prod.splits sum.splits)
  moreover have "Config_Validate c = Inr ()"
    using LoadConfig_Inr_valid [OF c] by (simp add: Config_Validate_def Validate_from_Inr)
  ultimately show ?thesis
    using assms(1) by (cases "NewProvider nenv menv ns c cfg p0 withCmt") (simp add: customStartHandler_def Let_def)
qed

text \<open>The export of the latest height builds the application with its latest version, the export of
  another height builds it without and then loads that height.\<close>

lemma appExport_Inr:
  "appExport E ns load_height state height forZero addrs appOpts mods = Inr x \<Longrightarrow>
   \<exists>app h. New (E (appOpts\<lparr>inv_check_period := 1\<rparr>)) ns (height = -1) = Inr app \<and> loaded app = (height = -1) \<and>
     h = (if height = -1 then None else Some height) \<and> (height \<noteq> -1 \<longrightarrow> load_height app height = Inr ()) \<and>
     snd (ExportAppStateAndValidators (state app h) forZero addrs mods) = Inr x \<and>
     Height x = (if forZero then 0 else LastBlockHeight (state app h) + 1)"
proof -
  have run: "snd (ExportAppStateAndValidators X forZero addrs mods) = Inr x \<Longrightarrow>
      Height x = (if forZero then 0 else LastBlockHeight X + 1)" for X
    using exported_height [of X forZero addrs mods "fst (ExportAppStateAndValidators X forZero addrs mods)"]
    by (simp add: prod_eq_iff)
  have sum: "map_sum f id r = Inr x \<longleftrightarrow> r = Inr x" for f and r :: "export_fault + _"
    by (cases r) simp_all
  assume "appExport E ns load_height state height forZero addrs appOpts mods = Inr x"
  then show ?thesis
    using New_Inr [of "E (appOpts\<lparr>inv_check_period := 1\<rparr>)" ns "height = -1"]
    by (auto simp: appExport_def export_command_def Let_def sum run split: option.split_asm if_split_asm sum.split_asm)
qed

end
