(* ===== verification/MuxMachine.thy ===== *)
theory MuxMachine
  imports MuxProps
begin

text \<open>
  The multiplexer as a machine: the sequences of ABCI calls it serves, what every call keeps, and
  the properties that span several calls. \<open>mux_ok\<close> is the invariant of its maps and
  \<open>kept\<close> relates two states of one run.
\<close>

section \<open>What a call keeps\<close>

definition handler_id :: "'c ChainHandler option \<Rightarrow> (string \<times> ChainInfo) option" where
  "handler_id ho = map_option (\<lambda>h. (ch_ChainID h, ch_config h)) ho"

definition kept :: "('p, 'c) Multiplexer \<Rightarrow> ('p, 'c) Multiplexer \<Rightarrow> bool" where
  "kept m m' \<longleftrightarrow>
     svrCfg m' = svrCfg m \<and> providerChainID m' = providerChainID m \<and> chainConfig m' = chainConfig m \<and>
     (\<forall>a. handler_id (fmlookup (chainHandlers m') a) = handler_id (fmlookup (chainHandlers m) a)) \<and>
     (\<forall>a. flag (initializedConsumerChains m) a \<longrightarrow> flag (initializedConsumerChains m') a)"

definition mux_ok :: "('p, 'c) Multiplexer \<Rightarrow> bool" where
  "mux_ok m \<longleftrightarrow>
     fmlookup (chainHandlers m) (providerChainID m) = None \<and>
     (\<forall>a. flag (initializedConsumerChains m) a \<or> flag (rejectedConsumerChains m) a \<longrightarrow>
        fmlookup (chainHandlers m) a \<noteq> None)"

text \<open>A call that is safe keeps both; safe calls can be composed.\<close>

definition safe :: "('p, 'c) Multiplexer \<Rightarrow> ('p, 'c) Multiplexer \<Rightarrow> bool" where
  "safe m m' \<longleftrightarrow> kept m m' \<and> (mux_ok m \<longrightarrow> mux_ok m')"

lemma handler_id_None [simp]: "handler_id ho = None \<longleftrightarrow> ho = None" "handler_id None = None"
  by (simp_all add: handler_id_def)

lemma safe_refl [simp]: "safe m m"
  by (simp add: safe_def kept_def)

lemma safe_trans: "safe m m' \<Longrightarrow> safe m' m'' \<Longrightarrow> safe m m''"
  by (auto simp: safe_def kept_def)

lemma safe_fold: "(\<And>a m. safe m (f a m)) \<Longrightarrow> safe m (fold f js m)"
  by (induction js arbitrary: m) (auto intro: safe_trans)

lemma safe_basic [simp]:
  "safe m (m\<lparr>providerChain := p\<rparr>)"
  "safe m (m\<lparr>activeChains := ac\<rparr>)"
  "safe m (m\<lparr>rejectedConsumerChains := fmempty\<rparr>)"
  "safe m (m\<lparr>providerGenesisConsensusParams := cp\<rparr>)"
  "safe m (m\<lparr>providerGenesisValidators := vs\<rparr>)"
  "safe m (set_app a c m)"
  by (auto simp: safe_def kept_def mux_ok_def handler_id_def map_option.compositionality comp_def
      split: if_splits)

lemma safe_mark [simp]: "fmlookup (chainHandlers m) a \<noteq> None \<Longrightarrow> safe m (mark_initialized a m)"
  by (auto simp: safe_def kept_def mux_ok_def)

lemma safe_reject:
  "fmlookup (chainHandlers m) a \<noteq> None \<Longrightarrow>
     safe m (m\<lparr>rejectedConsumerChains := fmupd a True (rejectedConsumerChains m)\<rparr>)"
  by (auto simp: safe_def kept_def mux_ok_def)

section \<open>The calls\<close>

lemma initChainIfNeeded_safe: "safe m (fst (initChainIfNeeded env m a h t))"
proof -
  have "safe m (mark_initialized a (set_app a c m))" if "fmlookup (chainHandlers m) a = Some hd" for c hd
    using that by (intro safe_trans [OF safe_basic(6) safe_mark]) simp
  then show ?thesis
    by (auto simp: initChainIfNeeded_def Let_def split: option.split sum.split prod.split)
qed

lemma take_part_safe: "safe m (fst (take_part env req a m))"
  using initChainIfNeeded_safe [of m env a "rf_Height req" "rf_Time req"]
  by (auto simp: take_part_def split: sum.split prod.split)

lemma finalize_chain_safe: "safe m (fst (finalize_chain env req rt a m))"
  by (auto simp: finalize_chain_def split: option.split sum.split prod.split)

lemma commit_one_safe: "safe m (fst (commit_one env a m))"
  by (auto simp: commit_one_def split: option.split sum.split prod.split)

lemma init_consumer_safe: "safe m (fst (init_consumer env req a m))"
  by (auto simp: init_consumer_def Let_def split: option.split sum.split prod.split)

lemma process_chain_safe: "safe m (fst (process_chain env req c a m))"
  by (auto simp: process_chain_def Let_def split: option.split prod.split)

lemma updateActiveChains_safe: "safe m (fst (updateActiveChains env m ctx))"
  by (auto simp: updateActiveChains_def getActiveChainIDsFromProvider_def Let_def
      intro: safe_trans [OF safe_basic(1) safe_basic(2)] split: sum.split prod.split)

lemma block_start_safe: "safe m (fst (block_start env m ctx req))"
  by (auto simp: block_start_def intro: safe_trans [OF safe_basic(1) updateActiveChains_safe]
      split: sum.split prod.split)

lemma finished_safe: "safe m (finished env req rt m)"
  unfolding finished_def started_def
  by (intro safe_trans [OF safe_fold safe_fold] take_part_safe finalize_chain_safe)

lemma FinalizeBlock_safe: "safe m (fst (FinalizeBlock env ns ns' m ctx req))"
proof (cases "block_start env m ctx req")
  case (Pair m1 r)
  have m1: "safe m m1"
    using block_start_safe [of m env ctx req] by (simp add: Pair)
  show ?thesis
  proof (cases r)
    case (Inr rp)
    obtain rt pr where rp: "rp = (rt, pr)"
      by (cases rp)
    have "route_block m no_txs 0 (rf_Txs req) = Inr rt"
      by (rule block_start_fixed(6) [OF Pair]) (simp add: Inr rp)
    then show ?thesis
      by (simp add: FinalizeBlock_halves Pair Inr rp finalize_consumers_reference(1) routed_disjoint
          safe_trans [OF m1 finished_safe])
  qed (simp add: FinalizeBlock_halves Pair m1)
qed

lemma Commit_safe: "safe m (fst (Commit env ns m))"
proof -
  have "safe m (fst (commit_chains env (pick ns (keys (activeChains m))) (m\<lparr>providerChain := p\<rparr>) r))" for p r
    by (simp add: commit_pick safe_trans [OF safe_basic(1) safe_fold] commit_one_safe)
  then show ?thesis
    by (simp add: Commit_def Let_def split: sum.split prod.split) (metis fst_conv)
qed

lemma collect_init_safe:
  assumes "\<forall>(a, r) \<in> set rs. \<not> isl r \<longrightarrow> fmlookup (chainHandlers m) a \<noteq> None"
  shows "safe m (snd (fold collect_init rs (h, m)))"
  using assms
proof (induction rs arbitrary: h m)
  case (Cons r rs)
  show ?case
  proof (cases r)
    case (Pair a res)
    then show ?thesis
      using Cons by (cases res) (auto intro: safe_trans [OF safe_mark])
  qed
qed simp

lemma proposal_results_safe:
  assumes "\<forall>(a, r) \<in> set rs. a \<noteq> providerChainID m \<longrightarrow> fmlookup (chainHandlers m) a \<noteq> None"
  shows "safe m (fst (proposal_results m rs))"
  using assms
  by (induction m rs rule: proposal_results.induct) (auto intro: safe_trans [OF safe_reject])

lemma InitChain_safe: "safe m (fst (InitChain env ns m req))"
proof (cases "app_InitChain (provider env) (providerChain m) req")
  case (Pair p res)
  show ?thesis
  proof (cases res)
    case (Inr pr)
    define m1 where "m1 = m\<lparr>providerChain := p, providerGenesisConsensusParams := pi_ConsensusParams pr,
        providerGenesisValidators := pi_Validators pr\<rparr>"
    let ?js = "keys (chainHandlers m)"
    define m2 where "m2 = fold (\<lambda>a m. fst (init_consumer env req a m)) ?js m1"
    have m1: "safe m m1"
      unfolding m1_def by (intro safe_trans [OF safe_trans [OF safe_basic(1) safe_basic(4)] safe_basic(5)])
    have "safe m1 m2"
      unfolding m2_def by (intro safe_fold init_consumer_safe)
    moreover have "\<forall>a \<in> set ?js. fmlookup (chainHandlers m2) a \<noteq> None"
      by (auto simp: m2_def fold_touches [OF init_consumer_touches] m1_def fmlookup_dom_iff)
    ultimately have "safe m (snd (fold collect_init (map (\<lambda>a. (a, init_response env req m1 a)) (pick ns ?js)) (h, m2)))" for h
      using m1 by (intro safe_trans [OF safe_trans [OF m1] collect_init_safe]) auto
    then show ?thesis
      using init_calls.run_jobs_pick [of ?js env req ns m1]
      by (simp add: InitChain_def Pair Inr init_consumer_answer Let_def split: prod.split
          flip: m1_def m2_def) (metis snd_conv)
  qed (simp add: InitChain_def Pair)
qed

lemma ProcessProposal_safe: "safe m (fst (ProcessProposal env ns m req))"
proof (cases "route_proposal m fmempty (rr_Txs req)")
  case (Some c)
  let ?m = "(fold (\<lambda>a m. fst (process_chain env req c a m)) (keys c) m)\<lparr>rejectedConsumerChains := fmempty\<rparr>"
  have "safe m ?m"
    by (rule safe_trans [OF safe_fold safe_basic(3)]) (rule process_chain_safe)
  moreover have "safe ?m (fst (proposal_results ?m (map (\<lambda>a. (a, proposal_answer env req m a)) (pick ns (keys c)))))"
    using ProcessProposal_run(2) [OF Some]
    by (intro proposal_results_safe)
      (auto simp: fold_touches [OF process_chain_touches] participates_def proposable_def simp del: set_keys)
  ultimately show ?thesis
    unfolding ProcessProposal_run(1) [OF Some] by (rule safe_trans)
qed (simp add: ProcessProposal_def)

lemma mempool_safe:
  "safe m (fst (Info env m ireq))" "safe m (fst (Query env m ctx qreq))" "safe m (fst (CheckTx env m creq))"
  by (auto simp: Info_def Query_def CheckTx_def Let_def split: prod.split option.split sum.split)

section \<open>Runs\<close>

inductive mux_step :: "('p, 'c) mux_env \<Rightarrow> ('p, 'c) Multiplexer \<Rightarrow> ('p, 'c) Multiplexer \<Rightarrow> bool"
  for env :: "('p, 'c) mux_env" where
  info: "mux_step env m (fst (Info env m ireq))"
| query: "mux_step env m (fst (Query env m ctx qreq))"
| check: "mux_step env m (fst (CheckTx env m creq))"
| init: "mux_step env m (fst (InitChain env ns m initreq))"
| prepare: "mux_step env m (fst (PrepareProposal m prereq))"
| process: "mux_step env m (fst (ProcessProposal env ns m procreq))"
| finalize: "mux_step env m (fst (FinalizeBlock env ns ns' m ctx freq))"
| commit: "mux_step env m (fst (Commit env ns m))"

abbreviation mux_run :: "('p, 'c) mux_env \<Rightarrow> ('p, 'c) Multiplexer \<Rightarrow> ('p, 'c) Multiplexer \<Rightarrow> bool" where
  "mux_run env \<equiv> (mux_step env)\<^sup>*\<^sup>*"

lemma step_safe: "mux_step env m m' \<Longrightarrow> safe m m'"
  by (induction rule: mux_step.induct)
    (simp_all add: mempool_safe InitChain_safe ProcessProposal_safe FinalizeBlock_safe Commit_safe
      PrepareProposal_def)

lemma run_safe: "mux_run env m m' \<Longrightarrow> safe m m'"
  by (induction rule: rtranclp_induct) (auto intro: safe_trans step_safe)

text \<open>C6: along every sequence of ABCI calls, with every schedule of the goroutines and every
  behaviour of the applications, a multiplexer where the provider's id is not the id of a consumer and
  only configured chains are initialised or rejected stays one, the set of handlers, their configuration and the halt
  configuration never change, and an initialised chain stays initialised.\<close>

theorem mux_run_invariant:
  assumes "mux_run env m m'" and "mux_ok m"
  shows "mux_ok m' \<and> kept m m'"
  using run_safe [OF assms(1)] assms(2) by (simp add: safe_def)

theorem mux_run_invariant_witness:
  "flag (initializedConsumerChains
      (fst (Commit (demo_env '''') [] (fst (FinalizeBlock (demo_env '''') [] [] demo_mux Background
        (demo_block 1 demo_txs)))))) ''a''"
proof -
  have "mux_ok demo_mux"
    by (simp add: mux_ok_def demo_mux_def)
  moreover have "mux_run (demo_env '''') demo_mux (fst (Commit (demo_env '''') []
      (fst (FinalizeBlock (demo_env '''') [] [] demo_mux Background (demo_block 1 demo_txs)))))"
    by (rule rtranclp.rtrancl_into_rtrancl [rotated], rule commit, rule r_into_rtranclp, rule finalize)
  ultimately have "kept demo_mux (fst (Commit (demo_env '''') []
      (fst (FinalizeBlock (demo_env '''') [] [] demo_mux Background (demo_block 1 demo_txs)))))"
    using mux_run_invariant by blast
  then show ?thesis
    by (simp add: kept_def demo_mux_def)
qed

section \<open>Rejected chains\<close>

lemma rejected_untouched:
  assumes "flag (rejectedConsumerChains m) a"
  shows "fmlookup (chainHandlers (fst (FinalizeBlock env ns ns' m ctx req))) a = fmlookup (chainHandlers m) a"
    and "rejectedConsumerChains (fst (FinalizeBlock env ns ns' m ctx req)) = rejectedConsumerChains m"
proof -
  obtain m1 r where start: "block_start env m ctx req = (m1, r)"
    by (cases "block_start env m ctx req")
  note fixed = block_start_fixed [OF start]
  have not_worker: "a \<notin> set (workers env req m1)"
    using workers_routable [of a env req m1] assms by (auto simp: routable_def fixed)
  have "chain_start env req m1 a = fmlookup (chainHandlers m1) a"
    using assms by (simp add: chain_start_def take_part_def fixed)
  then have "fmlookup (chainHandlers (finished env req rt m1)) a = fmlookup (chainHandlers m) a" for rt
    using not_worker by (simp add: finished_lookup fixed)
  moreover have "\<exists>rt. fst (FinalizeBlock env ns ns' m ctx req) = finished env req rt m1"
    if r: "r = Inr rp" for rp
  proof -
    obtain rt pr where rp: "rp = (rt, pr)"
      by (cases rp)
    have "route_block m no_txs 0 (rf_Txs req) = Inr rt"
      by (rule fixed(6)) (simp add: r rp)
    then show ?thesis
      by (auto simp: FinalizeBlock_halves start r rp finalize_consumers_reference(1) routed_disjoint)
  qed
  ultimately show "fmlookup (chainHandlers (fst (FinalizeBlock env ns ns' m ctx req))) a =
      fmlookup (chainHandlers m) a"
    and "rejectedConsumerChains (fst (FinalizeBlock env ns ns' m ctx req)) = rejectedConsumerChains m"
    by (cases r; force simp: FinalizeBlock_halves start fixed finished_fixed)+
qed

lemma rejected_not_committed:
  "flag (rejectedConsumerChains m) a \<Longrightarrow>
     fmlookup (chainHandlers (fst (Commit env ns m))) a = fmlookup (chainHandlers m) a"
proof -
  assume rej: "flag (rejectedConsumerChains m) a"
  have "fmlookup (chainHandlers (fst (commit_chains env (pick ns (keys (activeChains m)))
      (m\<lparr>providerChain := p\<rparr>) r))) a = fmlookup (chainHandlers m) a" for p r
    using rej by (simp add: commit_pick commit_fold_lookup)
  then show ?thesis
    by (simp add: Commit_def Let_def split: sum.split prod.split) (metis fst_conv)
qed

text \<open>C8: the block of an accepted proposal never fails because of a transaction without a valid
  header, and a consumer chain that rejected the proposal is left out of it: every transaction of that
  chain gets the result \<open>transaction skipped\<close>, and its application sees neither the block nor the
  commit.\<close>

theorem rejecting_chain_left_out:
  assumes proposal: "snd (ProcessProposal env ns m preq) = Inr \<lparr>pr_Status = ACCEPT\<rparr>"
    and same: "rf_Txs req = rr_Txs preq" and ok: "mux_ok m"
  defines "m2 \<equiv> fst (ProcessProposal env ns m preq)"
  shows "(\<forall>i e. snd (FinalizeBlock env n1 n2 m2 ctx req) \<noteq> Inl (InvalidTx i e)) \<and>
    (\<forall>a. participates m (rr_Txs preq) a \<and> a \<noteq> providerChainID m \<and>
        proposal_answer env preq m a \<noteq> Inr \<lparr>pr_Status = ACCEPT\<rparr> \<longrightarrow>
      (let m3 = fst (FinalizeBlock env n1 n2 m2 ctx req)
       in fmlookup (chainHandlers m3) a = fmlookup (chainHandlers m2) a \<and>
          fmlookup (chainHandlers (fst (Commit env n3 m3))) a = fmlookup (chainHandlers m2) a) \<and>
      (\<forall>resp i p. snd (FinalizeBlock env n1 n2 m2 ctx req) = Inr resp \<and> i < length (rf_Txs req) \<and>
          ParseHeader (rf_Txs req ! i) = Inr (a, p) \<longrightarrow> pf_TxResults resp ! i = skipped_result))"
proof -
  let ?fb = "FinalizeBlock env n1 n2 m2 ctx req"
  have valid: "\<forall>tx \<in> set (rf_Txs req). \<not> isl (ParseHeader tx)"
    using proposal unfolding ProcessProposal_accepts same by blast
  then obtain rt where rt: "route_block m2 no_txs 0 (rf_Txs req) = Inr rt"
    using route_block_total [of m2 no_txs 0 "rf_Txs req"] headers_valid by blast
  then have "snd ?fb \<noteq> Inl (InvalidTx i e)" for i e
    by (auto simp: FinalizeBlock_def Let_def split: sum.splits prod.splits)
  moreover have "(let m3 = fst ?fb in fmlookup (chainHandlers m3) a = fmlookup (chainHandlers m2) a \<and>
          fmlookup (chainHandlers (fst (Commit env n3 m3))) a = fmlookup (chainHandlers m2) a) \<and>
      (\<forall>resp i p. snd ?fb = Inr resp \<and> i < length (rf_Txs req) \<and>
          ParseHeader (rf_Txs req ! i) = Inr (a, p) \<longrightarrow> pf_TxResults resp ! i = skipped_result)"
    if a: "participates m (rr_Txs preq) a \<and> a \<noteq> providerChainID m \<and>
        proposal_answer env preq m a \<noteq> Inr \<lparr>pr_Status = ACCEPT\<rparr>" for a
  proof -
    have rej: "flag (rejectedConsumerChains m2) a"
      unfolding m2_def using ProcessProposal_rejects [OF proposal, of a] a by simp
    have "mux_ok m2"
      using ProcessProposal_safe [of m env ns preq] ok by (simp add: m2_def safe_def)
    then have prov: "fmlookup (chainHandlers m2) (providerChainID m2) = None"
      by (simp add: mux_ok_def)
    have "pf_TxResults resp ! i = skipped_result"
      if resp: "snd ?fb = Inr resp" "i < length (rf_Txs req)" "ParseHeader (rf_Txs req ! i) = Inr (a, p)"
      for resp i p
    proof -
      obtain m1 rp where start: "block_start env m2 ctx req = (m1, Inr rp)"
        using resp(1) by (cases "block_start env m2 ctx req"; cases "snd (block_start env m2 ctx req)")
          (simp_all add: FinalizeBlock_halves)
      obtain rt pr where rp: "rp = (rt, pr)"
        by (cases rp)
      have "pf_TxResults resp ! i = tx_result env req pr m1 i"
        using FinalizeBlock_resp [OF start [unfolded rp] prov, of n1 n2] resp by auto
      then show ?thesis
        using rej resp(3) by (simp add: tx_result_def routable_def block_start_fixed [OF start])
    qed
    with rej show ?thesis
      by (simp add: Let_def rejected_untouched rejected_not_committed)
  qed
  ultimately show ?thesis
    by blast
qed

definition demo_proposal :: "bytes list \<Rightarrow> RequestProcessProposal" where
  "demo_proposal txs = \<lparr>rr_Txs = txs, rr_rest = ''''\<rparr>"

definition demo_bad :: "bytes list" where
  "demo_bad = [CreateTransactionHeader ''a'' @ ''bad'', CreateTransactionHeader ''p'' @ ''w'']"

theorem rejecting_chain_left_out_witness:
  "let m2 = fst (ProcessProposal (demo_env '''') [] demo_mux (demo_proposal demo_bad));
       m3 = fst (FinalizeBlock (demo_env '''') [] [] m2 Background (demo_block 1 demo_bad))
   in map_option ch_app (fmlookup (chainHandlers m3) ''a'') = Some (''a'', 0) \<and>
      map_option ch_app (fmlookup (chainHandlers m3) ''b'') = Some (''b'', 1)"
proof -
  let ?env = "demo_env ''''"
  let ?m2 = "fst (ProcessProposal ?env [] demo_mux (demo_proposal demo_bad))"
  have accept: "snd (ProcessProposal ?env [] demo_mux (demo_proposal demo_bad)) = Inr \<lparr>pr_Status = ACCEPT\<rparr>"
    by code_simp
  have ok: "mux_ok demo_mux"
    by (simp add: mux_ok_def demo_mux_def)
  have same: "rf_Txs (demo_block 1 demo_bad) = rr_Txs (demo_proposal demo_bad)"
    by (simp add: demo_block_def demo_proposal_def)
  have part: "participates demo_mux (rr_Txs (demo_proposal demo_bad)) ''a'' \<and> ''a'' \<noteq> providerChainID demo_mux \<and>
      proposal_answer ?env (demo_proposal demo_bad) demo_mux ''a'' \<noteq> Inr \<lparr>pr_Status = ACCEPT\<rparr>"
    by code_simp
  have a: "map_option ch_app (fmlookup (chainHandlers ?m2) ''a'') = Some (''a'', 0)"
    and b: "map_option ch_app (fmlookup (chainHandlers (fst (FinalizeBlock ?env [] [] ?m2 Background
      (demo_block 1 demo_bad)))) ''b'') = Some (''b'', 1)"
    by code_simp+
  show ?thesis
    using rejecting_chain_left_out [OF accept same ok, of "[]" "[]" Background "[]"] part a b
    unfolding Let_def by metis
qed

text \<open>The app hash of a block depends on the rejected chains a node remembers, which only
  ProcessProposal sets: a node that has processed the accepted proposal and a node that gets the same
  block from the same state without its proposal, as one that is catching up does, compute different
  app hashes.\<close>

theorem app_hash_depends_on_proposal:
  "map_sum id pf_AppHash (snd (FinalizeBlock (demo_env '''') [] []
      (fst (ProcessProposal (demo_env '''') [] demo_mux (demo_proposal demo_bad))) Background
      (demo_block 1 demo_bad))) = Inr ''bp'' \<and>
   map_sum id pf_AppHash (snd (FinalizeBlock (demo_env '''') [] [] demo_mux Background
      (demo_block 1 demo_bad))) = Inr ''abp''"
  by code_simp

end
