(* ===== verification/Restart.thy ===== *)
theory Restart
  imports MuxMachine
begin

text \<open>
  The multiplexer across the end of a process: what \<open>Info\<close> reports to the consensus engine when a
  node comes up again, what a node does not know after a restart, and what happens when a consumer
  chain is configured with the id of the provider.

  The consensus engine stores the app hash a node answered in \<open>FinalizeBlock\<close>. When the node
  starts again the engine asks \<open>Info\<close> for the app hash of the last block and stops with an error when it
  is another one. The maps of the multiplexer are not stored anywhere: a node that starts again has
  the applications in their last state, but no chain is initialised, rejected or active.
\<close>

section \<open>The hash that Info reports\<close>

definition chain_hash ::
    "('p, 'c) mux_env \<Rightarrow> RequestFinalizeBlock \<Rightarrow> ('p, 'c) Multiplexer \<Rightarrow> string \<Rightarrow> bytes" where
  "chain_hash env req m a =
     (case chain_response env req m a of Inl _ \<Rightarrow> '''' | Inr r \<Rightarrow> pf_AppHash r)"

lemma length_insort_concat:
  "length (concat (map f (insort x xs))) = length (f x) + length (concat (map f xs))"
  by (induction xs) simp_all

lemma concat_insort_alone:
  assumes "x \<notin> set xs"
  shows "concat (map (\<lambda>a. if a = x then h else g a) (insort x xs)) = h \<longleftrightarrow> (\<forall>a \<in> set xs. g a = [])"
proof
  let ?f = "\<lambda>a. if a = x then h else g a"
  assume "concat (map ?f (insort x xs)) = h"
  then have "length (concat (map ?f xs)) = 0"
    using length_insort_concat [of ?f x xs] by simp
  then have "\<forall>a \<in> set xs. ?f a = []"
    by (simp only: length_0_conv concat_eq_Nil_conv) simp
  then show "\<forall>a \<in> set xs. g a = []"
    using assms by metis
next
  assume "\<forall>a \<in> set xs. g a = []"
  then show "concat (map (\<lambda>a. if a = x then h else g a) (insort x xs)) = h"
    using assms by (induction xs) auto
qed

lemma answering_workers: "a \<in> set (answering env req m) \<Longrightarrow> a \<in> set (workers env req m)"
  by (simp add: answering_def)

lemma block_hash_alone:
  assumes "fmlookup (chainHandlers m) (providerChainID m) = None"
  shows "block_hash env req pr m = pf_AppHash pr \<longleftrightarrow>
    (\<forall>a \<in> set (answering env req m). chain_hash env req m a = '''')"
proof -
  have "providerChainID m \<notin> set (answering env req m)"
    using provider_not_active [OF assms] answering_workers by metis
  from concat_insort_alone [OF this, of "pf_AppHash pr" "chain_hash env req m"] show ?thesis
    unfolding block_hash_def chain_hash_def .
qed

text \<open>C18: after a block and its commit, Info reports the app hash of the provider's application
  alone. It is the app hash the block was answered with exactly when no consumer chain contributed
  to it: as soon as one consumer that took part has a hash, Info reports another app hash than
  FinalizeBlock.\<close>

theorem Info_reports_another_hash:
  fixes n1 n2 n3 :: "nat list"
  assumes start: "block_start env m ctx req = (m1, Inr (rt, pr))"
    and prov: "fmlookup (chainHandlers m) (providerChainID m) = None"
  defines "m3 \<equiv> fst (Commit env n3 (fst (FinalizeBlock env n1 n2 m ctx req)))"
  assumes reported: "app_Info (provider env) (providerChain m3) ireq = (p, Inr i)"
    and own: "LastBlockAppHash i = pf_AppHash pr"
  shows "\<exists>resp. snd (FinalizeBlock env n1 n2 m ctx req) = Inr resp \<and> snd (Info env m3 ireq) = Inr i \<and>
    (LastBlockAppHash i = pf_AppHash resp \<longleftrightarrow>
      (\<forall>a \<in> set (answering env req m1). chain_hash env req m1 a = ''''))"
proof -
  have prov1: "fmlookup (chainHandlers m1) (providerChainID m1) = None"
    using prov by (simp add: block_start_fixed [OF start])
  obtain resp where "snd (FinalizeBlock env n1 n2 m ctx req) = Inr resp"
    and "pf_AppHash resp = block_hash env req pr m1"
    using FinalizeBlock_resp [OF start prov, of n1 n2] by blast
  then show ?thesis
    using block_hash_alone [OF prov1, of env req pr] own
    by (intro exI [of _ resp]) (auto simp: Info_def reported)
qed

section \<open>A restarted node\<close>

text \<open>The node \<open>m'\<close> has the applications and handlers of \<open>m\<close> and the maps of a new multiplexer.\<close>

definition restart_of :: "('p, 'c) Multiplexer \<Rightarrow> ('p, 'c) Multiplexer \<Rightarrow> bool" where
  "restart_of m m' \<longleftrightarrow>
     providerChain m' = providerChain m \<and> providerChainID m' = providerChainID m \<and>
     chainHandlers m' = chainHandlers m \<and> initializedConsumerChains m' = fmempty \<and>
     rejectedConsumerChains m' = fmempty \<and> activeChains m' = fmempty"

text \<open>An application that reports a block is marked as initialised without a new InitChain.\<close>

lemma initChainIfNeeded_resumes:
  assumes "fmlookup (chainHandlers m) a = Some h"
    and "app_Info (remote env) (ch_app h) \<lparr>ri_rest = ''''\<rparr> = (c, Inr i)" and "sint (LastBlockHeight i) > 0"
  shows "snd (initChainIfNeeded env m a height t) = Inr []"
    and "flag (initializedConsumerChains (fst (initChainIfNeeded env m a height t))) a"
  by (simp_all add: initChainIfNeeded_def assms Let_def)

lemma resumed_state:
  assumes "fmlookup (chainHandlers m) a = Some h" and "\<not> flag (initializedConsumerChains m) a"
    and "app_Info (remote env) (ch_app h) \<lparr>ri_rest = ''''\<rparr> = (c, Inr i)" and "sint (LastBlockHeight i) > 0"
  shows "fmlookup (chainHandlers (fst (initChainIfNeeded env m a height t))) a = Some (h\<lparr>ch_app := c\<rparr>)"
  by (simp add: initChainIfNeeded_def assms Let_def)

lemma restarted_participates:
  "restart_of m m' \<Longrightarrow> participates m' txs a \<longleftrightarrow> a = providerChainID m \<and> payloads a txs \<noteq> []"
  by (auto simp: restart_of_def participates_def proposable_def flag_def)

lemma restarted_accepts:
  assumes "restart_of m m'" and "snd (ProcessProposal env ns m preq) = Inr \<lparr>pr_Status = ACCEPT\<rparr>"
  shows "snd (ProcessProposal env ns' m' preq) = Inr \<lparr>pr_Status = ACCEPT\<rparr>"
    and "\<not> flag (rejectedConsumerChains (fst (ProcessProposal env ns' m' preq))) a"
proof -
  have same: "proposal_answer env preq m' (providerChainID m) = proposal_answer env preq m (providerChainID m)"
    using assms(1) by (simp add: restart_of_def proposal_answer_def)
  have "participates m (rr_Txs preq) (providerChainID m) \<longleftrightarrow> payloads (providerChainID m) (rr_Txs preq) \<noteq> []"
    by (simp add: participates_def proposable_def)
  then have ans: "payloads (providerChainID m) (rr_Txs preq) \<noteq> [] \<Longrightarrow>
      proposal_answer env preq m' (providerChainID m) = Inr \<lparr>pr_Status = ACCEPT\<rparr>"
    using assms(2) [unfolded ProcessProposal_accepts] same by simp
  have id: "providerChainID m' = providerChainID m"
    using assms(1) by (simp add: restart_of_def)
  show acc: "snd (ProcessProposal env ns' m' preq) = Inr \<lparr>pr_Status = ACCEPT\<rparr>"
    using assms(2) ans unfolding ProcessProposal_accepts restarted_participates [OF assms(1)] id by auto
  show "\<not> flag (rejectedConsumerChains (fst (ProcessProposal env ns' m' preq))) a"
    unfolding ProcessProposal_rejects [OF acc] restarted_participates [OF assms(1)] id by auto
qed

text \<open>A proposal in which only the provider takes part: the consumer applications are not called, so the
  result is the same whatever they would answer, and no handler changes.\<close>

lemma ProcessProposal_provider_only:
  assumes "\<And>a. participates m (rr_Txs req) a \<Longrightarrow> a = providerChainID m"
  shows "ProcessProposal (env\<lparr>remote := R\<rparr>) ns m req = ProcessProposal env ns m req"
    and "chainHandlers (fst (ProcessProposal env ns m req)) = chainHandlers m"
    and "initializedConsumerChains (fst (ProcessProposal env ns m req)) = initializedConsumerChains m"
proof -
  have "ProcessProposal (env\<lparr>remote := R\<rparr>) ns m req = ProcessProposal env ns m req \<and>
    chainHandlers (fst (ProcessProposal env ns m req)) = chainHandlers m \<and>
    initializedConsumerChains (fst (ProcessProposal env ns m req)) = initializedConsumerChains m"
  proof (cases "route_proposal m fmempty (rr_Txs req)")
    case (Some c)
    let ?p = "providerChainID m"
    have "set (keys c) \<subseteq> {?p}"
      using assms ProcessProposal_run(2) [OF Some] by blast
    then have "keys c = [] \<or> keys c = [?p]"
      using sorted_distinct_set_unique [of "keys c" "[?p]"] by (auto simp del: set_keys simp: subset_singleton_iff)
    then show ?thesis
    proof
      assume keys: "keys c = [?p]"
      have pick: "pick ns [?p] = [?p]"
        using mset_pick [of ns "[?p]"] by (simp del: mset_pick)
      obtain q r where "app_ProcessProposal (provider env) (providerChain m) (req\<lparr>rr_Txs := bucket c ?p\<rparr>) = (q, r)"
        by fastforce
      then have "process_chain env req c ?p m = (m\<lparr>providerChain := q\<rparr>, ?p, r)"
        "process_chain (env\<lparr>remote := R\<rparr>) req c ?p m = (m\<lparr>providerChain := q\<rparr>, ?p, r)"
        by (simp_all add: process_chain_def)
      then show ?thesis
        by (simp add: ProcessProposal_def Some keys pick proposal_results_fixed(1,2))
    qed (simp add: ProcessProposal_def Some)
  qed (simp add: ProcessProposal_def)
  then show "ProcessProposal (env\<lparr>remote := R\<rparr>) ns m req = ProcessProposal env ns m req"
    and "chainHandlers (fst (ProcessProposal env ns m req)) = chainHandlers m"
    and "initializedConsumerChains (fst (ProcessProposal env ns m req)) = initializedConsumerChains m"
    by simp_all
qed

text \<open>The length of the app hash of a block whose hashes all have the length \<open>n\<close>.\<close>

lemma length_block_hash:
  assumes "length (pf_AppHash pr) = n" and "\<forall>b \<in> set (answering env req m). length (chain_hash env req m b) = n"
  shows "length (block_hash env req pr m) = n * Suc (length (answering env req m))"
proof -
  have "length (concat (map f xs)) = n * length xs" if "\<forall>b \<in> set xs. length (f b) = n" for f :: "string \<Rightarrow> bytes" and xs
    using that by (induction xs) simp_all
  from this [of "insort (providerChainID m) (answering env req m)"] show ?thesis
    using assms unfolding block_hash_def chain_hash_def by (simp add: set_insort_key)
qed

lemma more_answers_other_hash:
  assumes "length (pf_AppHash pr) = n" "\<forall>b \<in> set (answering env req m). length (chain_hash env req m b) = n"
    and "length (pf_AppHash pr') = n" "\<forall>b \<in> set (answering env req m'). length (chain_hash env req m' b) = n"
    and "0 < n" and "set (answering env req m) \<subset> set (answering env req m')"
  shows "block_hash env req pr m \<noteq> block_hash env req pr' m'"
proof -
  have "distinct (answering env req m)" "distinct (answering env req m')"
    by (simp_all add: answering_def)
  then have "length (answering env req m) < length (answering env req m')"
    using psubset_card_mono [OF _ assms(6)] by (simp add: distinct_card)
  then have "length (block_hash env req pr m) \<noteq> length (block_hash env req pr' m')"
    using assms(5) by (simp add: length_block_hash [OF assms(1,2)] length_block_hash [OF assms(3,4)])
  then show ?thesis
    by metis
qed

text \<open>The rejected chain is left out by the running node, and executes the block on the restarted one.\<close>

lemma rejected_not_executed:
  assumes "block_start env m ctx req = (m1, Inr (rt, pr))"
    and "fmlookup (chainHandlers m) (providerChainID m) = None" and "flag (rejectedConsumerChains m) a"
  shows "fmlookup (chainHandlers (fst (FinalizeBlock env ns ns' m ctx req))) a = fmlookup (chainHandlers m) a"
    and "a \<notin> set (workers env req m1)"
proof -
  note fixed = block_start_fixed [OF assms(1)]
  show out: "a \<notin> set (workers env req m1)"
    using workers_routable [of a env req m1] assms(3) by (auto simp: routable_def fixed)
  show "fmlookup (chainHandlers (fst (FinalizeBlock env ns ns' m ctx req))) a = fmlookup (chainHandlers m) a"
    using FinalizeBlock_left [OF assms(1,2), of ns ns' a] out assms(3) by (simp add: Let_def)
qed

lemma resumed_executes:
  assumes start: "block_start env m ctx req = (m1, Inr (rt, pr))"
    and prov: "fmlookup (chainHandlers m) (providerChainID m) = None"
    and accepted: "\<not> flag (rejectedConsumerChains m) a" and new: "\<not> flag (initializedConsumerChains m) a"
    and active: "a |\<in>| fmdom (activeChains m1)"
    and h: "fmlookup (chainHandlers m) a = Some h"
    and resumes: "app_Info (remote env) (ch_app h) \<lparr>ri_rest = ''''\<rparr> = (c, Inr i)" "sint (LastBlockHeight i) > 0"
    and executes: "app_FinalizeBlock (remote env) c (req\<lparr>rf_Txs := payloads a (rf_Txs req)\<rparr>) = (c', Inr r)"
  shows "fmlookup (chainHandlers (fst (FinalizeBlock env ns ns' m ctx req))) a = Some (h\<lparr>ch_app := c'\<rparr>)"
    and "a \<in> set (answering env req m1)"
proof -
  note fixed = block_start_fixed [OF start]
  have h1: "fmlookup (chainHandlers m1) a = Some h"
    by (simp add: fixed h)
  note ok = initChainIfNeeded_resumes [OF h1 resumes, of "rf_Height req" "rf_Time req"]
  have part: "snd (take_part env req a m1)"
    using ok by (auto simp: take_part_def accepted fixed h split: prod.split sum.split)
  then have work: "a \<in> set (workers env req m1)"
    using active by (simp add: workers_def joins_def)
  have first: "chain_start env req m1 a = Some (h\<lparr>ch_app := c\<rparr>)"
    using ok resumed_state [OF h1 _ resumes, of "rf_Height req" "rf_Time req"] new
    by (auto simp: chain_start_def take_part_def accepted fixed h split: prod.split sum.split)
  show "a \<in> set (answering env req m1)"
    using work by (simp add: answering_def chain_response_def first executes)
  show "fmlookup (chainHandlers (fst (FinalizeBlock env ns ns' m ctx req))) a = Some (h\<lparr>ch_app := c'\<rparr>)"
    using FinalizeBlock_left [OF start prov, of ns ns' a] work first executes by (simp add: Let_def)
qed

text \<open>C19: a node that was restarted does not ask the consumer chains about a proposal until it has
  finalised a block: its answer is the same whatever their applications are. It accepts every proposal that a running node in the same state accepts. But
  where the running node marks a consumer as rejected and its FinalizeBlock leaves the application of this
  consumer alone, FinalizeBlock of the restarted node executes the block on it, when the chain is
  active and has executed a block before. The two nodes answer the same block with different app hashes, provided all app
  hashes have one length and the other chains that answer the running node answer the restarted one as
  well.\<close>

theorem restarted_node_disagrees:
  fixes ns ns' n1 n2 n3 n4 :: "nat list"
  assumes restart: "restart_of m m'" and prov: "fmlookup (chainHandlers m) (providerChainID m) = None"
    and proposal: "snd (ProcessProposal env ns m preq) = Inr \<lparr>pr_Status = ACCEPT\<rparr>"
    and rejecting: "participates m (rr_Txs preq) a" "a \<noteq> providerChainID m"
      "proposal_answer env preq m a \<noteq> Inr \<lparr>pr_Status = ACCEPT\<rparr>"
  defines "running \<equiv> fst (ProcessProposal env ns m preq)" and "restarted \<equiv> fst (ProcessProposal env ns' m' preq)"
  assumes run: "block_start env running ctx req = (m1, Inr (rt, pr))"
    and start: "block_start env restarted ctx req = (m2, Inr (rt', pr'))"
    and active: "a |\<in>| fmdom (activeChains m2)" and h: "fmlookup (chainHandlers m) a = Some h"
    and resumes: "app_Info (remote env) (ch_app h) \<lparr>ri_rest = ''''\<rparr> = (c, Inr i)" "sint (LastBlockHeight i) > 0"
    and executes: "app_FinalizeBlock (remote env) c (req\<lparr>rf_Txs := payloads a (rf_Txs req)\<rparr>) = (c', Inr r)"
    and hashes: "0 < n" "length (pf_AppHash pr) = n" "length (pf_AppHash pr') = n"
      "\<forall>b \<in> set (answering env req m1). length (chain_hash env req m1 b) = n"
      "\<forall>b \<in> set (answering env req m2). length (chain_hash env req m2 b) = n"
    and others: "set (answering env req m1) \<subseteq> set (answering env req m2)"
  shows "(\<forall>R. ProcessProposal (env\<lparr>remote := R\<rparr>) ns' m' preq = ProcessProposal env ns' m' preq) \<and>
    snd (ProcessProposal env ns' m' preq) = Inr \<lparr>pr_Status = ACCEPT\<rparr> \<and>
    fmlookup (chainHandlers (fst (FinalizeBlock env n1 n2 running ctx req))) a = fmlookup (chainHandlers running) a \<and>
    fmlookup (chainHandlers (fst (FinalizeBlock env n3 n4 restarted ctx req))) a = Some (h\<lparr>ch_app := c'\<rparr>) \<and>
    (\<exists>resp resp'. snd (FinalizeBlock env n1 n2 running ctx req) = Inr resp \<and>
       snd (FinalizeBlock env n3 n4 restarted ctx req) = Inr resp' \<and> pf_AppHash resp \<noteq> pf_AppHash resp')"
proof -
  have only: "\<And>b. participates m' (rr_Txs preq) b \<Longrightarrow> b = providerChainID m'"
    using restarted_participates [OF restart] restart by (simp add: restart_of_def)
  note alone = ProcessProposal_provider_only [OF only, where env = env and ns = ns']
  note accepts = restarted_accepts [OF restart proposal, where ns' = ns', folded restarted_def]
  have handlers: "chainHandlers restarted = chainHandlers m" and new: "\<not> flag (initializedConsumerChains restarted) a"
    using alone(2,3) restart by (simp_all add: restarted_def restart_of_def flag_def)
  have "kept m running" "kept m' restarted"
    using ProcessProposal_safe [of m env ns preq] ProcessProposal_safe [of m' env ns' preq]
    by (simp_all add: running_def restarted_def safe_def)
  then have prov': "fmlookup (chainHandlers running) (providerChainID running) = None"
    "fmlookup (chainHandlers restarted) (providerChainID restarted) = None"
    using prov restart by (auto simp: kept_def restart_of_def) (metis handler_id_None(1))+
  have "flag (rejectedConsumerChains running) a"
    using ProcessProposal_rejects [OF proposal, of a] rejecting by (simp add: running_def)
  note out = rejected_not_executed [OF run prov'(1) this]
  note into = resumed_executes [OF start prov'(2) accepts(2) new active _ resumes executes]
  have "set (answering env req m1) \<subset> set (answering env req m2)"
    using others out(2) into(2) h handlers(1) by (auto simp: answering_def)
  from more_answers_other_hash [OF hashes(2,4,3,5,1) this]
  have differ: "block_hash env req pr m1 \<noteq> block_hash env req pr' m2" .
  obtain resp resp' where "snd (FinalizeBlock env n1 n2 running ctx req) = Inr resp" "pf_AppHash resp = block_hash env req pr m1"
    "snd (FinalizeBlock env n3 n4 restarted ctx req) = Inr resp'" "pf_AppHash resp' = block_hash env req pr' m2"
    using FinalizeBlock_resp [OF run prov'(1), of n1 n2] FinalizeBlock_resp [OF start prov'(2), of n3 n4] by blast
  then show ?thesis
    using alone(1) accepts(1) out(1) into(1) h handlers(1) differ by auto
qed

section \<open>A chain with the provider's id\<close>

text \<open>The hashes and the results that were gathered, whichever ids the chains have.\<close>

lemma gathered_hash_lookup:
  assumes "route_block m0 no_txs 0 (rf_Txs req) = Inr rt" and "routable m = routable m0"
  shows "fmlookup (g_hashes (gathered_block env req rt pr m)) a =
    (if a \<in> set (answering env req m) then Some (chain_hash env req m a)
     else if a = providerChainID m then Some (pf_AppHash pr) else None)"
  unfolding gathered_results(2) fold_res_hash [OF answer_labelled]
  using workers_routable [of a env req m] assms(2)
  by (auto simp: answer_worker [OF assms(1)] answering_def chain_hash_def split: sum.split)

lemma FinalizeBlock_gathered:
  assumes start: "block_start env m ctx req = (m1, Inr (rt, pr))"
  shows "\<exists>resp. snd (FinalizeBlock env ns ns' m ctx req) = Inr resp \<and>
    same_block resp (block_response pr (gathered_block env req rt pr m1))"
proof -
  have "route_block m no_txs 0 (rf_Txs req) = Inr rt"
    by (rule block_start_fixed(6) [OF start]) simp
  then show ?thesis
    using finalize_consumers_reference(2) [OF routed_disjoint] by (simp add: FinalizeBlock_halves start)
qed

text \<open>C20: a consumer chain that is configured with the id of the provider replaces the provider in
  every block it answers: the app hash of the block is made of the hashes of the chains alone, and the
  hash of the provider's application does not occur in it.\<close>

theorem provider_id_hides_provider:
  assumes start: "block_start env m ctx req = (m1, Inr (rt, pr))"
    and answers: "providerChainID m \<in> set (answering env req m1)"
  shows "\<exists>resp. snd (FinalizeBlock env ns ns' m ctx req) = Inr resp \<and>
    pf_AppHash resp = concat (map (chain_hash env req m1) (answering env req m1))"
proof -
  note fixed = block_start_fixed [OF start]
  have route: "route_block m no_txs 0 (rf_Txs req) = Inr rt"
    by (rule fixed(6)) simp
  have same: "routable m1 = routable m"
    by (simp add: routable_def fun_eq_iff fixed)
  let ?h = "g_hashes (gathered_block env req rt pr m1)"
  note lookup = gathered_hash_lookup [OF route same, of env pr]
  have "set (keys ?h) = set (answering env req m1)"
    using answers by (auto simp: fmlookup_dom_iff lookup fixed split: if_splits)
  moreover have "sorted (answering env req m1)" "distinct (answering env req m1)"
    using sorted_filter [of "\<lambda>a. a", simplified, OF sorted_workers] by (simp_all add: answering_def)
  ultimately have keys: "keys ?h = answering env req m1"
    by (intro sorted_distinct_set_unique) simp_all
  have "combine_hashes ?h = concat (map (chain_hash env req m1) (answering env req m1))"
    unfolding combine_hashes_def keys by (intro arg_cong [where f = concat] map_cong) (auto simp: lookup)
  then show ?thesis
    using FinalizeBlock_gathered [OF start, of ns ns'] by (auto simp: same_block_def block_response_def)
qed

section \<open>Restarts in the demo world\<close>

text \<open>The applications report the block they have executed. The bytes are the answer of the provider
  that lists the chain \<open>a\<close>; the running node has one consumer chain, which has executed a block.\<close>

definition reporting_app :: "bytes \<Rightarrow> (string \<times> nat) ABCI" where
  "reporting_app active = (demo_app active)\<lparr>app_Info := \<lambda>s req.
     (s, Inr \<lparr>LastBlockHeight = word_of_nat (snd s), LastBlockAppHash = fst s, ri_resp_rest = ''''\<rparr>)\<rparr>"

definition reporting_env :: "(string \<times> nat, string \<times> nat) mux_env" where
  "reporting_env =
     (demo_env '''')\<lparr>provider := reporting_app [CHR 0x0A, CHR 0x03, CHR 0x0A, CHR 0x01, CHR ''a''],
        remote := reporting_app ''''\<rparr>"

definition running_mux :: "(string \<times> nat, string \<times> nat) Multiplexer" where
  "running_mux = demo_mux\<lparr>
     chainHandlers := fmupd ''a'' ((demo_handler ''a'')\<lparr>ch_app := (''a'', 1)\<rparr>) fmempty,
     activeChains := fmupd ''a'' True fmempty\<rparr>"

definition restarted_mux :: "(string \<times> nat, string \<times> nat) Multiplexer" where
  "restarted_mux = running_mux\<lparr>initializedConsumerChains := fmempty, activeChains := fmempty\<rparr>"

lemma reporting_start:
  "block_start reporting_env running_mux Background (demo_block 2 []) =
     (running_mux\<lparr>providerChain := (''p'', 1)\<rparr>, Inr (no_txs, demo_answer\<lparr>pf_TxResults := []\<rparr>))"
  by code_simp

theorem Info_reports_another_hash_witness:
  "\<exists>resp. snd (FinalizeBlock reporting_env [] [] running_mux Background (demo_block 2 [])) = Inr resp \<and>
     pf_AppHash resp \<noteq> ''p'' \<and>
     map_sum id LastBlockAppHash (snd (Info reporting_env (fst (Commit reporting_env []
       (fst (FinalizeBlock reporting_env [] [] running_mux Background (demo_block 2 []))))) \<lparr>ri_rest = ''''\<rparr>)) = Inr ''p''"
proof -
  let ?m3 = "fst (Commit reporting_env []
       (fst (FinalizeBlock reporting_env [] [] running_mux Background (demo_block 2 []))))"
    and ?m1 = "running_mux\<lparr>providerChain := (''p'', 1)\<rparr>"
  have prov: "fmlookup (chainHandlers running_mux) (providerChainID running_mux) = None"
    by code_simp
  have info: "app_Info (provider reporting_env) (providerChain ?m3) \<lparr>ri_rest = ''''\<rparr> =
      ((''p'', 1), Inr \<lparr>LastBlockHeight = 1, LastBlockAppHash = ''p'', ri_resp_rest = ''''\<rparr>)"
    by code_simp
  have hashes: "''a'' \<in> set (answering reporting_env (demo_block 2 []) ?m1)"
    "chain_hash reporting_env (demo_block 2 []) ?m1 ''a'' = ''a''"
    by code_simp+
  have own: "LastBlockAppHash \<lparr>LastBlockHeight = 1, LastBlockAppHash = ''p'', ri_resp_rest = ''''\<rparr> =
      pf_AppHash (demo_answer\<lparr>pf_TxResults := []\<rparr>)"
    by (simp add: demo_answer_def)
  obtain resp where resp: "snd (FinalizeBlock reporting_env [] [] running_mux Background (demo_block 2 [])) = Inr resp"
    and answer: "snd (Info reporting_env ?m3 \<lparr>ri_rest = ''''\<rparr>) =
       Inr \<lparr>LastBlockHeight = 1, LastBlockAppHash = ''p'', ri_resp_rest = ''''\<rparr>"
    and iff: "''p'' = pf_AppHash resp \<longleftrightarrow> (\<forall>a \<in> set (answering reporting_env (demo_block 2 []) ?m1).
       chain_hash reporting_env (demo_block 2 []) ?m1 a = '''')"
    using Info_reports_another_hash [OF reporting_start prov info own] by auto
  have "pf_AppHash resp \<noteq> ''p''"
    using iff hashes by (metis list.distinct(1))
  moreover have "map_sum id LastBlockAppHash (snd (Info reporting_env ?m3 \<lparr>ri_rest = ''''\<rparr>)) = Inr ''p''"
    by (simp only: answer map_sum.simps ResponseInfo.select_convs)
  ultimately show ?thesis
    using resp by blast
qed

theorem restarted_node_disagrees_witness:
  "\<exists>fb fb' resp resp'.
     FinalizeBlock reporting_env [] [] (fst (ProcessProposal reporting_env [] running_mux (demo_proposal demo_bad)))
       Background (demo_block 2 demo_bad) = (fb, Inr resp) \<and>
     FinalizeBlock reporting_env [] [] (fst (ProcessProposal reporting_env [] restarted_mux (demo_proposal demo_bad)))
       Background (demo_block 2 demo_bad) = (fb', Inr resp') \<and>
     map_option ch_app (fmlookup (chainHandlers fb) ''a'') = Some (''a'', 1) \<and>
     map_option ch_app (fmlookup (chainHandlers fb') ''a'') = Some (''a'', 2) \<and>
     pf_AppHash resp \<noteq> pf_AppHash resp'"
proof -
  let ?e = reporting_env and ?p = "demo_proposal demo_bad" and ?q = "demo_block 2 demo_bad"
  let ?r = "fst (ProcessProposal ?e [] running_mux ?p)" and ?n = "fst (ProcessProposal ?e [] restarted_mux ?p)"
  let ?h = "(demo_handler ''a'')\<lparr>ch_app := (''a'', 1)\<rparr>"
  have restart: "restart_of running_mux restarted_mux"
    by (simp add: restart_of_def restarted_mux_def running_mux_def demo_mux_def)
  have prov: "fmlookup (chainHandlers running_mux) (providerChainID running_mux) = None"
    by code_simp
  have proposal: "snd (ProcessProposal ?e [] running_mux ?p) = Inr \<lparr>pr_Status = ACCEPT\<rparr>"
    by code_simp
  have part: "participates running_mux (rr_Txs ?p) ''a''" "''a'' \<noteq> providerChainID running_mux"
    "proposal_answer ?e ?p running_mux ''a'' \<noteq> Inr \<lparr>pr_Status = ACCEPT\<rparr>"
    by code_simp+
  have info: "app_Info (remote ?e) (ch_app ?h) \<lparr>ri_rest = ''''\<rparr> =
      ((''a'', 1), Inr \<lparr>LastBlockHeight = 1, LastBlockAppHash = ''a'', ri_resp_rest = ''''\<rparr>)"
    by code_simp
  have h: "fmlookup (chainHandlers running_mux) ''a'' = Some ?h" "fmlookup (chainHandlers ?r) ''a'' = Some ?h"
    by code_simp+
  have exec: "app_FinalizeBlock (remote ?e) (''a'', 1) (?q\<lparr>rf_Txs := payloads ''a'' (rf_Txs ?q)\<rparr>) =
      ((''a'', 2), Inr \<lparr>pf_Events = [''a''], pf_TxResults = [demo_result ''bad''], pf_ValidatorUpdates = [],
         pf_ConsensusParamUpdates = None, pf_AppHash = ''a''\<rparr>)"
    by code_simp
  let ?b1 = "block_start ?e ?r Background ?q" and ?b2 = "block_start ?e ?n Background ?q"
  have ok: "\<not> isl (snd ?b1)" "\<not> isl (snd ?b2)"
    by code_simp+
  obtain m1 rt pr where b1: "?b1 = (m1, Inr (rt, pr))"
    using ok(1) by (cases ?b1; cases "snd ?b1") (auto simp: isl_def)
  obtain m2 rt' pr' where b2: "?b2 = (m2, Inr (rt', pr'))"
    using ok(2) by (cases ?b2; cases "snd ?b2") (auto simp: isl_def)
  have "''a'' |\<in>| fmdom (activeChains (fst ?b2))" "0 < (1::nat)"
    "length (pf_AppHash (snd (projr (snd ?b1)))) = 1" "length (pf_AppHash (snd (projr (snd ?b2)))) = 1"
    "\<forall>b \<in> set (answering ?e ?q (fst ?b1)). length (chain_hash ?e ?q (fst ?b1) b) = 1"
    "\<forall>b \<in> set (answering ?e ?q (fst ?b2)). length (chain_hash ?e ?q (fst ?b2) b) = 1"
    "set (answering ?e ?q (fst ?b1)) \<subseteq> set (answering ?e ?q (fst ?b2))"
    by code_simp+
  note facts = this [unfolded b1 b2 fst_conv snd_conv sum.sel]
  note both = restarted_node_disagrees [OF restart prov proposal part b1 b2 facts(1) h(1) info _ exec facts(2-7), of "[]" "[]" "[]" "[]"]
  show ?thesis
    using both h(2) by (auto simp: prod_eq_iff)
qed

text \<open>The node whose only consumer chain is configured with the provider's id and another
  application.\<close>

definition shadowed_mux :: "(string \<times> nat, string \<times> nat) Multiplexer" where
  "shadowed_mux = demo_mux\<lparr>
     chainHandlers := fmupd ''p'' ((demo_handler ''p'')\<lparr>ch_app := (''x'', 0)\<rparr>) fmempty,
     initializedConsumerChains := fmempty, activeChains := fmupd ''p'' True fmempty\<rparr>"

theorem provider_id_hides_provider_witness:
  "map_sum id pf_AppHash (snd (FinalizeBlock (demo_env '''') [] [] shadowed_mux Background (demo_block 1 []))) = Inr ''x''"
proof -
  let ?m1 = "shadowed_mux\<lparr>providerChain := (''p'', 1)\<rparr>"
  have start: "block_start (demo_env '''') shadowed_mux Background (demo_block 1 []) =
      (?m1, Inr (no_txs, demo_answer\<lparr>pf_TxResults := []\<rparr>))"
    by code_simp
  have "providerChainID ?m1 \<in> set (answering (demo_env '''') (demo_block 1 []) ?m1)"
    "concat (map (chain_hash (demo_env '''') (demo_block 1 []) ?m1) (answering (demo_env '''') (demo_block 1 []) ?m1)) = ''x''"
    by code_simp+
  then show ?thesis
    using provider_id_hides_provider [OF start, of "[]" "[]"] by auto
qed

end
