(* ===== verification/Node.thy ===== *)
theory Node
  imports AppCommands Restart
begin

text \<open>
  The provider node as a whole: from the start command of testapp/cmd/provider through the
  configuration (\<open>Config\<close>), the start of the multiplexer (\<open>Lifecycle\<close>), the ABCI calls it serves
  while the start command waits (\<open>MuxMachine\<close>) to the calls that shut it down.

  \<open>Lifecycle.Start\<close> ends with waiting for the group of servers; the ABCI calls are served
  meanwhile by CometBFT. They change the multiplexer only, so the state at the shutdown is the node with
  a multiplexer that a run of ABCI calls reaches.
\<close>

section \<open>What starting leaves alone\<close>

text \<open>The calls that shut a component down.\<close>

fun closing :: "ext_call \<Rightarrow> bool" where
  "closing StopNode = True"
| "closing WaitNode = True"
| "closing CloseProvider = True"
| "closing (CloseConn a) = True"
| "closing CloseTrace = True"
| "closing _ = False"

text \<open>Steps that only make calls of other packages, none of them a shutdown call.\<close>

definition opens :: "('p, 'c) node \<Rightarrow> ('p, 'c) node \<Rightarrow> bool" where
  "opens nd nd' \<longleftrightarrow> (\<exists>cs. calls nd' = calls nd @ cs \<and> (\<forall>c \<in> set cs. \<not> closing c))"

definition serves :: "('p, 'c) node \<Rightarrow> ('p, 'c) node \<Rightarrow> bool" where
  "serves nd nd' \<longleftrightarrow>
     opens nd nd' \<and> mux nd' = mux nd \<and> hasProvider nd' = hasProvider nd \<and> traceWriter nd' = traceWriter nd"

lemma opens_refl [simp]: "opens nd nd"
  by (simp add: opens_def)

lemma opens_trans: "opens nd nd' \<Longrightarrow> opens nd' nd'' \<Longrightarrow> opens nd nd''"
  by (auto simp: opens_def)

lemma serves_refl [simp]: "serves nd nd"
  by (simp add: serves_def)

lemma serves_trans: "serves nd nd' \<Longrightarrow> serves nd' nd'' \<Longrightarrow> serves nd nd''"
  by (auto simp: serves_def intro: opens_trans)

lemma opens_did [simp]: "\<not> closing c \<Longrightarrow> opens nd (did c nd)"
  by (simp add: opens_def did_def)

lemma serves_did [simp]: "serves nd nd' \<Longrightarrow> \<not> closing c \<Longrightarrow> serves nd (did c nd')"
  by (auto simp: serves_def intro: opens_trans)

lemma serves_basic [simp]: "serves nd (nd\<lparr>cmNode := b\<rparr>)" "serves nd (nd\<lparr>grpcEnable := b\<rparr>)"
  by (simp_all add: serves_def opens_def)

lemma serves_ask: "\<not> closing c \<Longrightarrow> serves nd (fst (ask c err f nd))"
  by (simp add: ask_def)

lemma serves_andThen:
  "serves nd (fst r) \<Longrightarrow> (\<And>s a. r = (s, Inr a) \<Longrightarrow> serves s (fst (k s a))) \<Longrightarrow> serves nd (fst (andThen r k))"
  by (rule fst_andThen_cases [where P = "serves nd"]) (auto intro: serves_trans)

lemma serves_wrap [simp]: "fst (wrap_fault w r) = fst r"
  by (auto simp: wrap_fault_def split: prod.split sum.split life_fault.split)

lemma wrap_fault_Inr: "wrap_fault w r = (s, Inr a) \<longleftrightarrow> r = (s, Inr a)"
  by (auto simp: wrap_fault_def split: prod.splits sum.splits life_fault.splits)

lemma startCmtNode_serves: "serves nd (fst (startCmtNode env nd))"
  by (auto simp: startCmtNode_def intro!: serves_andThen serves_ask)

lemma registerServices_serves: "serves nd (fst (registerServices env nd))"
  by (auto simp: registerServices_def split: sum.split)

lemma startGRPCServer_serves: "serves nd (fst (startGRPCServer env nd))"
  by (auto simp: startGRPCServer_def Let_def split: sum.split intro!: serves_andThen serves_ask)

lemma startApiServer_serves: "serves nd (fst (startApiServer env nd))"
  by (auto simp: startApiServer_def Let_def intro!: serves_andThen serves_ask)

lemma enable_serves: "serves nd (fst (enableGRPCAndAPIServers env nd))"
  by (auto simp: enableGRPCAndAPIServers_def
      intro!: serves_andThen registerServices_serves startGRPCServer_serves startApiServer_serves)

section \<open>A node that has started\<close>

definition new_node :: "Config \<Rightarrow> ServerConfig \<Rightarrow> 'p \<Rightarrow> bool \<times> bool \<Rightarrow> ('p, 'c) node" where
  "new_node config cfg p0 servers =
     \<lparr>mux = NewMultiplexer cfg p0 config, hasProvider = False, cmNode = False, traceWriter = False,
      grpcEnable = fst servers, apiEnable = snd servers, calls = []\<rparr>"

text \<open>The genesis values of the provider, as the genesis document of the node has them.\<close>

definition genesis_loaded :: "('p, 'c) mux_env \<Rightarrow> ('p, 'c) Multiplexer \<Rightarrow> bool" where
  "genesis_loaded menv m \<longleftrightarrow>
     (\<exists>doc. GenDocProvider menv = Inr doc \<and> providerGenesisConsensusParams m = Some (gd_ConsensusParams doc) \<and>
        map (\<lambda>v. (Inr (PubKey v), VU_Power v)) (providerGenesisValidators m) =
          map (\<lambda>(key, pw). (PubKeyToProto menv key, pw)) (gd_Validators doc))"

text \<open>What the start has set up: the provider with its id and genesis values, one handler per configured
  chain, and no chain that is initialised, rejected or active.\<close>

definition ready ::
    "'p node_env \<Rightarrow> ('p, 'c) mux_env \<Rightarrow> Config \<Rightarrow> ServerConfig \<Rightarrow> ('p, 'c) node \<Rightarrow> bool" where
  "ready nenv menv config cfg nd \<longleftrightarrow>
     hasProvider nd \<and> (traceWriter nd \<longleftrightarrow> v_trace_store nenv \<noteq> '''') \<and>
     getProviderChainID nenv = Inr (providerChainID (mux nd)) \<and> genesis_loaded menv (mux nd) \<and>
     svrCfg (mux nd) = cfg \<and> chainConfig (mux nd) = config \<and>
     initializedConsumerChains (mux nd) = fmempty \<and> rejectedConsumerChains (mux nd) = fmempty \<and>
     activeChains (mux nd) = fmempty \<and>
     (\<forall>c \<in> set (Chains config). configured_handler menv c \<noteq> None) \<and>
     (\<forall>a. fmlookup (chainHandlers (mux nd)) a =
        Option.bind (map_of (map (\<lambda>c. (CI_ChainID c, c)) (Chains config)) a) (configured_handler menv))"

lemma convert_validators_Inr:
  "convert_validators conv vals gvs = (vals', Inr ()) \<Longrightarrow>
     map (\<lambda>v. (Inr (PubKey v), VU_Power v)) vals' =
       map (\<lambda>v. (Inr (PubKey v), VU_Power v)) vals @ map (\<lambda>(key, pw). (conv key, pw)) gvs"
  by (induction conv vals gvs rule: convert_validators.induct) (auto split: sum.splits)

lemma loadGenesisValues_Inr:
  assumes "loadGenesisValues menv m = (m', Inr ())" and "providerGenesisConsensusParams m = None"
  shows "genesis_loaded menv m'"
    and "m' = m\<lparr>providerGenesisValidators := providerGenesisValidators m',
      providerGenesisConsensusParams := providerGenesisConsensusParams m'\<rparr>"
  using assms convert_validators_Inr [of "PubKeyToProto menv" "[]"]
  by (auto simp: loadGenesisValues_def genesis_loaded_def split: sum.splits prod.splits)

lemma startNativeProvider_Inr:
  assumes "startNativeProvider env menv nd = (nd', Inr ())"
  shows "opens nd nd' \<and> hasProvider nd' \<and> (traceWriter nd' \<longleftrightarrow> v_trace_store env \<noteq> '''') \<and>
    (\<exists>p chainID. getProviderChainID env = Inr chainID \<and>
       loadGenesisValues menv ((mux nd)\<lparr>providerChain := p, providerChainID := chainID\<rparr>) = (mux nd', Inr ()))"
proof -
  obtain nd1 w where w: "getTraceWriter env nd = (nd1, Inr w)"
    and rest: "andThen (openDB env (nd1\<lparr>traceWriter := w\<rparr>)) (\<lambda>nd _.
       let nd = (did CreateProvider nd)\<lparr>hasProvider := True,
                  mux := (mux nd)\<lparr>providerChain := providerCreator env (calls nd)\<rparr>\<rparr>
       in (case getProviderChainID env of
             Inl fault \<Rightarrow> (nd, Inl fault)
           | Inr chainID \<Rightarrow>
               (case loadGenesisValues menv ((mux nd)\<lparr>providerChainID := chainID\<rparr>) of
                  (m, Inl err) \<Rightarrow> (nd\<lparr>mux := m\<rparr>, Inl (Err (GenesisValuesFailed err)))
                | (m, Inr _) \<Rightarrow> (nd\<lparr>mux := m\<rparr>, Inr ())))) = (nd', Inr ())"
    using assms unfolding startNativeProvider_def andThen_Inr_iff by blast
  have trace: "serves nd nd1" "w \<longleftrightarrow> v_trace_store env \<noteq> ''''"
    using w by (auto simp: getTraceWriter_def Let_def ask_def andThen_Inr_iff split: if_splits)
  obtain nd2 where db: "openDB env (nd1\<lparr>traceWriter := w\<rparr>) = (nd2, Inr ())"
    using rest unfolding andThen_Inr_iff by auto
  have nd2: "nd2 = did (OpenDB (v_db_backend env) (Join [RootDir env, ''data''])) (nd1\<lparr>traceWriter := w\<rparr>)"
    using db by (simp add: openDB_def ask_def Let_def)
  obtain chainID where chainID: "getProviderChainID env = Inr chainID"
    using rest by (cases "getProviderChainID env") (simp_all add: db Let_def)
  let ?m = "(mux nd)\<lparr>providerChain := providerCreator env (calls nd2), providerChainID := chainID\<rparr>"
  have same: "mux nd2 = mux nd"
    using trace(1) by (simp add: nd2 serves_def)
  obtain m' where m': "loadGenesisValues menv ?m = (m', Inr ())"
    and nd': "nd' = (did CreateProvider nd2)\<lparr>hasProvider := True, mux := m'\<rparr>"
    using rest by (auto simp: db Let_def chainID did_def same split: prod.splits sum.splits)
  have "opens nd nd'" "traceWriter nd' = w" "hasProvider nd'" "mux nd' = m'"
    using trace(1) by (auto simp: nd' nd2 serves_def opens_def did_def)
  with trace(2) chainID m' show ?thesis
    by blast
qed

lemma init_handlers_fixed:
  "fst (init_handlers menv m cs) = m\<lparr>chainHandlers := chainHandlers (fst (init_handlers menv m cs))\<rparr>"
proof (induction cs arbitrary: m)
  case (Cons c cs)
  show ?case
    by (auto simp: Let_def split: sum.split) (subst Cons, simp)
qed simp

lemma startHandlers_Inr:
  assumes "startHandlers menv nd = (nd', Inr ())" and "chainHandlers (mux nd) = fmempty"
  defines "cs \<equiv> Chains (chainConfig (mux nd))"
  shows "nd' = nd\<lparr>mux := (mux nd)\<lparr>chainHandlers := chainHandlers (mux nd')\<rparr>\<rparr>"
    and "\<forall>c \<in> set cs. configured_handler menv c \<noteq> None" and "distinct (map CI_ChainID cs)"
    and "fmlookup (chainHandlers (mux nd')) a =
      Option.bind (map_of (map (\<lambda>c. (CI_ChainID c, c)) cs) a) (configured_handler menv)"
proof -
  have ok: "init_handlers menv (mux nd) cs = (mux nd', Inr ())" and nd': "nd' = nd\<lparr>mux := mux nd'\<rparr>"
    using assms(1) by (auto simp: startHandlers_def initChainHandlers_def cs_def split: prod.splits sum.splits)
  have "mux nd' = (mux nd)\<lparr>chainHandlers := chainHandlers (mux nd')\<rparr>"
    using init_handlers_fixed [of menv "mux nd" cs] by (simp add: ok)
  then show "nd' = nd\<lparr>mux := (mux nd)\<lparr>chainHandlers := chainHandlers (mux nd')\<rparr>\<rparr>"
    using nd' by metis
  have good: "snd (init_handlers menv (mux nd) cs) = Inr ()"
    by (simp add: ok)
  show "\<forall>c \<in> set cs. configured_handler menv c \<noteq> None" and "distinct (map CI_ChainID cs)"
    using good unfolding init_handlers_iff by blast+
  show "fmlookup (chainHandlers (mux nd')) a =
      Option.bind (map_of (map (\<lambda>c. (CI_ChainID c, c)) cs) a) (configured_handler menv)"
    using init_handlers_lookup [OF good, of a] by (simp add: ok assms(2) split: option.split)
qed

text \<open>A start that succeeds leaves a node that is ready.\<close>

lemma Start_ready:
  fixes nenv :: "'p node_env" and menv :: "('p, 'c) mux_env"
  assumes start: "Start nenv menv (new_node config cfg p0 servers) = (nd, Inr ())"
  shows "ready nenv menv config cfg nd \<and> distinct (map CI_ChainID (Chains config)) \<and>
    (\<forall>c \<in> set (calls nd). \<not> closing c)"
proof -
  let ?nd0 = "new_node config cfg p0 servers :: ('p, 'c) node"
  obtain nd1 where nd1: "startNativeProvider nenv menv ?nd0 = (nd1, Inr ())"
    and rest: "andThen (startHandlers menv nd1) (\<lambda>nd _.
     andThen (if v_grpc_only nenv then (nd\<lparr>grpcEnable := True\<rparr>, Inr ()) else startCmtNode nenv nd) (\<lambda>nd _.
     andThen (wrap_fault EnableServersFailed (enableGRPCAndAPIServers nenv nd)) (\<lambda>nd _.
       (nd, map_sum (\<lambda>e. Err (WaitFailed e)) id (g_Wait nenv (calls nd)))))) = (nd, Inr ())"
    using start unfolding Start_def andThen_Inr_iff wrap_fault_Inr by auto
  obtain nd2 where nd2: "startHandlers menv nd1 = (nd2, Inr ())"
    and last: "andThen (if v_grpc_only nenv then (nd2\<lparr>grpcEnable := True\<rparr>, Inr ()) else startCmtNode nenv nd2) (\<lambda>nd _.
     andThen (wrap_fault EnableServersFailed (enableGRPCAndAPIServers nenv nd)) (\<lambda>nd _.
       (nd, map_sum (\<lambda>e. Err (WaitFailed e)) id (g_Wait nenv (calls nd))))) = (nd, Inr ())"
    using rest unfolding andThen_Inr_iff by auto
  have "serves nd2 (fst (andThen (if v_grpc_only nenv then (nd2\<lparr>grpcEnable := True\<rparr>, Inr ()) else startCmtNode nenv nd2) (\<lambda>nd _.
     andThen (wrap_fault EnableServersFailed (enableGRPCAndAPIServers nenv nd)) (\<lambda>nd _.
       (nd, map_sum (\<lambda>e. Err (WaitFailed e)) id (g_Wait nenv (calls nd)))))))"
    by (intro serves_andThen) (auto simp: startCmtNode_serves enable_serves)
  then have served: "serves nd2 nd"
    unfolding last by simp
  obtain p chainID where id: "getProviderChainID nenv = Inr chainID"
    and gen: "loadGenesisValues menv ((mux ?nd0)\<lparr>providerChain := p, providerChainID := chainID\<rparr>) = (mux nd1, Inr ())"
    and up: "opens ?nd0 nd1" "hasProvider nd1" "traceWriter nd1 \<longleftrightarrow> v_trace_store nenv \<noteq> ''''"
    using startNativeProvider_Inr [OF nd1] by blast
  note loaded = loadGenesisValues_Inr [OF gen]
  have m1: "mux nd1 = (NewMultiplexer cfg p config)\<lparr>providerChainID := chainID,
      providerGenesisValidators := providerGenesisValidators (mux nd1),
      providerGenesisConsensusParams := providerGenesisConsensusParams (mux nd1)\<rparr>"
    "genesis_loaded menv (mux nd1)"
    using loaded by (simp_all add: new_node_def NewMultiplexer_def)
  have config1: "chainConfig (mux nd1) = config" "chainHandlers (mux nd1) = fmempty"
    "svrCfg (mux nd1) = cfg" "providerChainID (mux nd1) = chainID" "initializedConsumerChains (mux nd1) = fmempty"
    "rejectedConsumerChains (mux nd1) = fmempty" "activeChains (mux nd1) = fmempty"
    by (subst m1(1), simp add: NewMultiplexer_def)+
  note hs = startHandlers_Inr [OF nd2 config1(2), unfolded config1(1)]
  have mux: "mux nd = (mux nd1)\<lparr>chainHandlers := chainHandlers (mux nd2)\<rparr>"
    using served arg_cong [OF hs(1), of mux] by (simp only: serves_def node.select_convs node.update_convs) simp
  have "calls nd2 = calls nd1" "hasProvider nd2 = hasProvider nd1" "traceWriter nd2 = traceWriter nd1"
    using arg_cong [OF hs(1), of calls] arg_cong [OF hs(1), of hasProvider] arg_cong [OF hs(1), of traceWriter]
    by simp_all
  moreover from this(1) have "opens ?nd0 nd2"
    using up(1) by (simp add: opens_def)
  ultimately have "opens ?nd0 nd" "hasProvider nd" "traceWriter nd \<longleftrightarrow> v_trace_store nenv \<noteq> ''''"
    using served up(2,3) by (auto simp: serves_def intro: opens_trans)
  moreover have "genesis_loaded menv (mux nd)"
    using m1(2) by (simp add: mux genesis_loaded_def)
  moreover have "fmlookup (chainHandlers (mux nd)) a =
      Option.bind (map_of (map (\<lambda>c. (CI_ChainID c, c)) (Chains config)) a) (configured_handler menv)" for a
    using hs(4) [of a] by (simp add: mux)
  ultimately show ?thesis
    using id hs(2,3) by (simp add: ready_def mux config1 opens_def new_node_def)
qed

section \<open>The shutdown of a node that has served blocks\<close>

lemma kept_keys: "kept m m' \<Longrightarrow> keys (chainHandlers m') = keys (chainHandlers m)"
proof -
  assume "kept m m'"
  then have "fmlookup (chainHandlers m') a = None \<longleftrightarrow> fmlookup (chainHandlers m) a = None" for a
    unfolding kept_def by (metis handler_id_None(1))
  then have "fmdom (chainHandlers m') = fmdom (chainHandlers m)"
    by (intro fset_eqI) (metis fmlookup_dom_iff not_None_eq)
  then show ?thesis
    by (simp add: keys_def)
qed

lemma stop_calls_kept:
  "kept (mux nd) m' \<Longrightarrow> stop_calls env ns (nd\<lparr>mux := m'\<rparr>) = stop_calls env ns nd"
  by (simp add: stop_calls_def kept_keys)

lemma ready_handlers:
  assumes "ready nenv menv config cfg nd"
  shows "a |\<in>| fmdom (chainHandlers (mux nd)) \<longleftrightarrow> a \<in> CI_ChainID ` set (Chains config)"
proof (cases "map_of (map (\<lambda>c. (CI_ChainID c, c)) (Chains config)) a")
  case None
  then have "a \<notin> CI_ChainID ` set (Chains config)"
    by (simp add: map_of_eq_None_iff image_image)
  then show ?thesis
    using assms None by (simp add: ready_def fmlookup_dom_iff)
next
  case (Some c)
  then have "c \<in> set (Chains config)" "a = CI_ChainID c"
    by (auto dest!: map_of_SomeD)
  then show ?thesis
    using assms Some by (auto simp: ready_def fmlookup_dom_iff)
qed

lemma ready_mux_ok:
  assumes "ready nenv menv config cfg nd"
  shows "mux_ok (mux nd) \<longleftrightarrow> providerChainID (mux nd) \<notin> CI_ChainID ` set (Chains config)"
  using ready_handlers [OF assms, of "providerChainID (mux nd)"] assms
  by (auto simp: mux_ok_def ready_def flag_def fmlookup_dom_iff)

lemma not_closing_count: "\<forall>c \<in> set cs. \<not> closing c \<Longrightarrow> closing c \<Longrightarrow> count_list cs c = 0"
  by (induction cs) auto

lemma count_CloseProvider: "count_list (stop_calls env ns nd) CloseProvider = 1"
proof -
  have "count_list (map CloseConn xs) CloseProvider = 0" for xs
    by (induction xs) simp_all
  then show ?thesis
    by (simp add: stop_calls_def)
qed

text \<open>C11: the whole life of a provider node. When the start command ends without an error, the
  configuration of the consumer chains was read and is valid and names no chain twice; the node had come up
  with the provider's id and genesis values and with exactly one handler per configured chain, none
  of them initialised, rejected or active, and its maps satisfy the invariant of the multiplexer
  exactly when the provider's id is not configured. Whatever ABCI calls it then served, its handlers and
  configuration were still those, and the calls made in the end are those of the start followed by
  the shutdown of that state: the provider and the connection of every configured chain are closed
  exactly once.\<close>

theorem node_life:
  assumes "customStartHandler cenv nenv menv ns f cfg p0 True = (f', cs, Inr ())"
  shows "\<exists>config servers nd.
    LoadConfig cenv f (Join [RootDir nenv, ''config'', ''ics.toml'']) = (f', Inr config) \<and>
    list_all complete (Chains config) \<and> distinct (map CI_ChainID (Chains config)) \<and>
    Start nenv menv (new_node config cfg p0 servers) = (nd, Inr ()) \<and> ready nenv menv config cfg nd \<and>
    (mux_ok (mux nd) \<longleftrightarrow> providerChainID (mux nd) \<notin> CI_ChainID ` set (Chains config)) \<and>
    (\<forall>m'. mux_run menv (mux nd) m' \<longrightarrow>
       kept (mux nd) m' \<and> cs = calls nd @ stop_calls nenv ns (nd\<lparr>mux := m'\<rparr>)) \<and>
    count_list cs CloseProvider = 1 \<and>
    (\<forall>a. count_list cs (CloseConn a) = (if a \<in> CI_ChainID ` set (Chains config) then 1 else 0))"
proof -
  obtain config where config: "LoadConfig cenv f (Join [RootDir nenv, ''config'', ''ics.toml'']) = (f', Inr config)"
    "Config_Validate config = Inr ()"
    "(cs, Inr ()) = apsnd (map_sum NodeFault id) (NewProvider nenv menv ns config cfg p0 True)"
    using start_needs_valid_config [OF assms] by auto
  then have run: "start nenv menv ns config cfg p0 = (cs, Inr ())"
    by (cases "start nenv menv ns config cfg p0"; cases "snd (start nenv menv ns config cfg p0)")
      (auto simp: NewProvider_def)
  then obtain servers where servers: "getAndValidateConfig nenv = Inr servers"
    by (cases "getAndValidateConfig nenv") (simp_all add: start_def)
  obtain nd r where nd: "wrap_fault StartFailed (Start nenv menv (new_node config cfg p0 servers)) = (nd, r)"
    by (cases "wrap_fault StartFailed (Start nenv menv (new_node config cfg p0 servers))")
  have shut: "(case Stop nenv ns nd of (nd, Inl p) \<Rightarrow> (calls nd, Inl (PanicWith p)) | (nd, Inr _) \<Rightarrow> (calls nd, r)) =
      (cs, Inr ())"
    using run nd by (cases servers) (simp add: start_def servers new_node_def)
  then have "r = Inr ()"
    by (auto split: prod.splits sum.splits)
  then have start: "Start nenv menv (new_node config cfg p0 servers) = (nd, Inr ())"
    using nd by (simp add: wrap_fault_Inr)
  note up = Start_ready [OF start]
  then have prov: "hasProvider nd"
    by (simp add: ready_def)
  obtain errs where stop: "Stop nenv ns nd = (nd\<lparr>calls := calls nd @ stop_calls nenv ns nd\<rparr>, Inr errs)"
    using Stop_run [OF prov, of nenv ns] by blast
  have conns: "count_list (stop_calls nenv ns nd) (CloseConn a) =
      (if a |\<in>| fmdom (chainHandlers (mux nd)) then 1 else 0)" for a
    using Stop_run [OF prov, of nenv ns] by blast
  have cs: "cs = calls nd @ stop_calls nenv ns nd"
    using shut by (simp add: stop)
  have valid: "list_all complete (Chains config)"
    using config(2) by (simp add: Config_Validate_def Validate_from_Inr)
  have "kept (mux nd) m' \<and> cs = calls nd @ stop_calls nenv ns (nd\<lparr>mux := m'\<rparr>)"
    if "mux_run menv (mux nd) m'" for m'
    using run_safe [OF that] by (simp add: safe_def cs stop_calls_kept)
  moreover have "count_list cs CloseProvider = 1"
    using up by (simp add: cs count_CloseProvider not_closing_count)
  moreover have "count_list cs (CloseConn a) = (if a \<in> CI_ChainID ` set (Chains config) then 1 else 0)" for a
    using up conns [of a] ready_handlers [of nenv menv config cfg nd a] by (simp add: cs not_closing_count)
  ultimately show ?thesis
    using config(1) valid start up ready_mux_ok by blast
qed

section \<open>Nodes of the demo world\<close>

text \<open>A node whose configuration file lists the given chains and whose genesis document has one
  validator.\<close>

definition demo_config_env :: "ChainInfo list \<Rightarrow> unit config_env" where
  "demo_config_env cs = example_env\<lparr>viper_Unmarshal := \<lambda>_ _. Inr \<lparr>Chains = cs\<rparr>\<rparr>"

definition healthy_node_env :: "(string \<times> nat) node_env" where
  "healthy_node_env = demo_node_env\<lparr>db_NewDB := \<lambda>cs b d. Inr (), node_Stop := \<lambda>cs. Inr ()\<rparr>"

definition healthy_mux_env :: "(string \<times> nat, string \<times> nat) mux_env" where
  "healthy_mux_env =
     (demo_env '''')\<lparr>GenDocProvider := Inr \<lparr>gd_Validators = [(''k'', 1)], gd_ConsensusParams = ''cp''\<rparr>\<rparr>"

definition demo_life :: "ChainInfo list \<Rightarrow> unit \<times> calls \<times> (command_error + unit)" where
  "demo_life cs = customStartHandler (demo_config_env cs) healthy_node_env healthy_mux_env [1] ()
     \<lparr>HaltHeight = 0, HaltTime = 0\<rparr> (''nil'', 0) True"

theorem node_life_witness:
  "snd (snd (demo_life [demo_info ''a'', demo_info ''b''])) = Inr () \<and>
   count_list (fst (snd (demo_life [demo_info ''a'', demo_info ''b'']))) CloseProvider = 1 \<and>
   count_list (fst (snd (demo_life [demo_info ''a'', demo_info ''b'']))) (CloseConn ''b'') = 1"
proof -
  let ?life = "demo_life [demo_info ''a'', demo_info ''b'']"
    and ?cenv = "demo_config_env [demo_info ''a'', demo_info ''b'']"
  have ok: "snd (snd ?life) = Inr ()"
    by code_simp
  obtain f' cs where life: "?life = (f', cs, Inr ())"
    using ok by (metis prod.collapse)
  obtain config where config: "LoadConfig ?cenv () (Join [RootDir healthy_node_env, ''config'', ''ics.toml'']) = (f', Inr config)"
    and counts: "count_list cs CloseProvider = 1"
      "\<forall>a. count_list cs (CloseConn a) = (if a \<in> CI_ChainID ` set (Chains config) then 1 else 0)"
    using node_life [OF life [unfolded demo_life_def]] by blast
  have "LoadConfig ?cenv () (Join [RootDir healthy_node_env, ''config'', ''ics.toml'']) =
      ((), Inr \<lparr>Chains = [demo_info ''a'', demo_info ''b'']\<rparr>)"
    by code_simp
  then have "config = \<lparr>Chains = [demo_info ''a'', demo_info ''b'']\<rparr>"
    using config by simp
  then have "''b'' \<in> CI_ChainID ` set (Chains config)"
    by (simp add: demo_info_def)
  with ok counts life show ?thesis
    by simp
qed

text \<open>Nothing refuses a consumer chain that is configured with the id of the provider: the node
  starts, serves and stops, without the invariant of its maps.\<close>

lemma provider_id_accepted:
  "snd (snd (demo_life [demo_info ''p''])) = Inr ()" "getProviderChainID healthy_node_env = Inr ''p''"
  by code_simp+

end
