(* ===== verification/Alone.thy ===== *)
theory Alone
  imports MuxMachine
begin

text \<open>
  A multiplexer without consumer chains against the provider application called directly.
  \<open>direct_do\<close> hands every ABCI call to the application as it is; \<open>mux_do\<close> runs the handlers of the
  multiplexer on the same calls, their transactions addressed to the provider by a header. The
  application is an argument; \<open>abci_contract\<close> is what ABCI asks of it, one result per transaction and
  queries that change nothing. Two calls the multiplexer answers itself, without asking the application: it proposes
  the transactions it was given, and it accepts an empty proposal. \<open>transparent\<close> states that
  the application would answer these the same, as the SDK's no-op handlers of proposals do, and that the node is
  not asked to halt. Along every sequence of such calls both give the same responses and leave the
  provider in the same state: the multiplexer adds nothing until the first consumer is configured.
\<close>

section \<open>Simulation of sequences of calls\<close>

locale replay =
  fixes f :: "'j \<Rightarrow> 'a \<Rightarrow> 'a \<times> 'r" and g :: "'j \<Rightarrow> 'b \<Rightarrow> 'b \<times> 'r" and R :: "'a \<Rightarrow> 'b \<Rightarrow> bool"
    and ok :: "'j \<Rightarrow> bool"
  assumes step: "R a b \<Longrightarrow> ok j \<Longrightarrow> R (fst (f j a)) (fst (g j b)) \<and> snd (f j a) = snd (g j b)"
begin

lemma replay_run:
  "R a b \<Longrightarrow> list_all ok js \<Longrightarrow> R (fst (run_jobs f js a)) (fst (run_jobs g js b)) \<and>
     snd (run_jobs f js a) = snd (run_jobs g js b)"
proof (induction js arbitrary: a b)
  case (Cons j js)
  note one = step [OF Cons.prems(1), of j]
  show ?case
    using Cons.IH [OF one [THEN conjunct1]] one Cons.prems(2) by (simp add: split_beta)
qed simp

end

section \<open>The calls and the specification\<close>

datatype call =
    CInfo RequestInfo
  | CQuery GoContext RequestQuery
  | CCheck RequestCheckTx
  | CInit "nat list" RequestInitChain
  | CPrepare RequestPrepareProposal
  | CProcess "nat list" RequestProcessProposal
  | CFinalize "nat list" "nat list" GoContext RequestFinalizeBlock
  | CCommit "nat list"

datatype response =
    RInfo "string + ResponseInfo"
  | RQuery "string + ResponseQuery"
  | RCheck "string + ResponseCheckTx"
  | RInit "string + ResponseInitChain"
  | RPrepare "string + ResponsePrepareProposal"
  | RProcess "string + ResponseProcessProposal"
  | RFinalize "mux_error + ResponseFinalizeBlock"
  | RCommit "string + ResponseCommit"

text \<open>The query for the active chains, with which the multiplexer looks at the provider after a block.\<close>

definition active_query :: RequestQuery where
  "active_query =
     \<lparr>rq_ChainId = '''', Data = ActiveRequest_MarshalToSizedBuffer \<lparr>QAC_Pagination = None\<rparr> [],
      Path = ''/ics.provider.v1.Query/ActiveConsumerChains'', rq_Height = 0, Prove = False\<rparr>"

text \<open>The application called directly; only the error of a failing FinalizeBlock is marked as the multiplexer
  marks it.\<close>

fun direct_do :: "'p ABCI \<Rightarrow> call \<Rightarrow> 'p \<Rightarrow> 'p \<times> response" where
  "direct_do P (CInfo req) p = apsnd RInfo (app_Info P p req)"
| "direct_do P (CQuery ctx req) p = apsnd RQuery (app_Query P p ctx req)"
| "direct_do P (CCheck req) p = apsnd RCheck (app_CheckTx P p req)"
| "direct_do P (CInit ns req) p = apsnd RInit (app_InitChain P p req)"
| "direct_do P (CPrepare req) p = apsnd RPrepare (app_PrepareProposal P p req)"
| "direct_do P (CProcess ns req) p = apsnd RProcess (app_ProcessProposal P p req)"
| "direct_do P (CFinalize ns ns' ctx req) p =
     apsnd (RFinalize \<circ> map_sum ProviderFinalizeFailed id) (app_FinalizeBlock P p req)"
| "direct_do P (CCommit ns) p = apsnd RCommit (app_Commit P p)"

text \<open>What ABCI asks of an application: a query does not change it, and a block that is finalised has one
  result per transaction.\<close>

definition abci_contract :: "'p ABCI \<Rightarrow> bool" where
  "abci_contract P \<longleftrightarrow>
     (\<forall>p ctx req. fst (app_Query P p ctx req) = p) \<and>
     (\<forall>p req q pr. app_FinalizeBlock P p req = (q, Inr pr) \<longrightarrow> length (pf_TxResults pr) = length (rf_Txs req))"

text \<open>The calls that reach the application: queries name its chain, the node does not halt, and on
  the two calls the multiplexer answers itself the application agrees with it in every state.\<close>

fun transparent :: "'p ABCI \<Rightarrow> ('p, 'c) Multiplexer \<Rightarrow> call \<Rightarrow> bool" where
  "transparent P m (CQuery ctx req) \<longleftrightarrow> rq_ChainId req = providerChainID m"
| "transparent P m (CPrepare req) \<longleftrightarrow> (\<forall>p. app_PrepareProposal P p req = (p, Inr \<lparr>pp_Txs = rp_Txs req\<rparr>))"
| "transparent P m (CProcess ns req) \<longleftrightarrow>
     (rr_Txs req = [] \<longrightarrow> (\<forall>p. app_ProcessProposal P p req = (p, Inr \<lparr>pr_Status = ACCEPT\<rparr>)))"
| "transparent P m (CFinalize ns ns' ctx req) \<longleftrightarrow> \<not> isl (checkHaltConditions m req)"
| "transparent P m c \<longleftrightarrow> True"

text \<open>The multiplexer on the same calls; the mempool holds transactions with their header.\<close>

definition to_chain :: "string \<Rightarrow> bytes \<Rightarrow> bytes" where
  "to_chain a tx = CreateTransactionHeader a @ tx"

fun mux_do :: "('p, 'c) mux_env \<Rightarrow> call \<Rightarrow> ('p, 'c) Multiplexer \<Rightarrow> ('p, 'c) Multiplexer \<times> response" where
  "mux_do env (CInfo req) m = apsnd RInfo (Info env m req)"
| "mux_do env (CQuery ctx req) m = apsnd RQuery (Query env m ctx req)"
| "mux_do env (CCheck req) m =
     apsnd RCheck (CheckTx env m (req\<lparr>rc_Tx := to_chain (providerChainID m) (rc_Tx req)\<rparr>))"
| "mux_do env (CInit ns req) m = apsnd RInit (InitChain env ns m req)"
| "mux_do env (CPrepare req) m = apsnd RPrepare (PrepareProposal m req)"
| "mux_do env (CProcess ns req) m =
     apsnd RProcess (ProcessProposal env ns m (req\<lparr>rr_Txs := map (to_chain (providerChainID m)) (rr_Txs req)\<rparr>))"
| "mux_do env (CFinalize ns ns' ctx req) m =
     apsnd RFinalize (FinalizeBlock env ns ns' m ctx
       (req\<lparr>rf_Txs := map (to_chain (providerChainID m)) (rf_Txs req)\<rparr>))"
| "mux_do env (CCommit ns) m = apsnd RCommit (Commit env ns m)"

section \<open>The transactions of the provider\<close>

lemma addressed_to_chain:
  assumes "CHR '':'' \<notin> set a"
  shows "addressed b i (map (to_chain a) ps) = (if b = a then zip [i..<i + length ps] ps else [])"
proof (induction ps arbitrary: i)
  case (Cons p ps)
  then show ?case
    by (simp add: to_chain_def ParseHeader_header [OF assms] upt_conv_Cons del: upt_Suc)
qed simp

lemma to_chain_sorted:
  assumes "CHR '':'' \<notin> set a"
  shows "payloads b (map (to_chain a) ps) = (if b = a then ps else [])"
    and "positions b (map (to_chain a) ps) = (if b = a then [0..<length ps] else [])"
  by (simp_all add: payloads_def positions_def addressed_to_chain [OF assms])

lemma to_chain_valid:
  "CHR '':'' \<notin> set a \<Longrightarrow> list_all (\<lambda>tx. \<exists>b p. ParseHeader tx = Inr (b, p)) (map (to_chain a) ps)"
  by (simp add: list_all_iff to_chain_def ParseHeader_header)

lemma place_all:
  assumes "length rs = n"
  shows "place [0..<n] rs (replicate n None) = rs"
proof (rule nth_equalityI)
  fix i
  assume "i < length (place [0..<n] rs (replicate n None))"
  then have i: "i < n"
    by simp
  have "map_of (zip [0..<n] rs) i = Some (rs ! i)"
  proof (rule map_of_is_SomeI)
    show "distinct (map fst (zip [0..<n] rs))"
      by (simp add: map_fst_zip_take)
    show "(i, rs ! i) \<in> set (zip [0..<n] rs)"
      using i assms by (auto simp: in_set_zip intro!: exI [of _ i])
  qed
  then show "place [0..<n] rs (replicate n None) ! i = rs ! i"
    using i by (simp add: slot_nth nth_result_def)
qed (simp add: assms)

section \<open>The handlers without consumers\<close>

text \<open>The relation between the multiplexer and the provider alone; \<open>m0\<close> is the multiplexer at the
  beginning, which fixes the id and the halt configuration.\<close>

definition alone :: "('p, 'c) Multiplexer \<Rightarrow> ('p, 'c) Multiplexer \<Rightarrow> 'p \<Rightarrow> bool" where
  "alone m0 m p \<longleftrightarrow>
     providerChain m = p \<and> providerChainID m = providerChainID m0 \<and> svrCfg m = svrCfg m0 \<and>
     chainHandlers m = fmempty \<and> (\<forall>a. \<not> flag (rejectedConsumerChains m) a)"

lemma alone_provider [simp]: "alone m0 m p \<Longrightarrow> alone m0 (m\<lparr>providerChain := q\<rparr>) q"
  by (simp add: alone_def)

lemma alone_routable: "alone m0 m p \<Longrightarrow> routable m a \<longleftrightarrow> a = providerChainID m0"
  by (simp add: alone_def routable_def)

lemma launch_alone: "chainHandlers m = fmempty \<Longrightarrow> launch env req ids m = (m, [])"
  by (induction ids) simp_all

lemma commit_chains_alone: "chainHandlers m = fmempty \<Longrightarrow> commit_chains env ids m r = (m, r)"
  by (induction ids) simp_all

lemma combine_single [simp]: "combine_hashes (fmupd a v fmempty) = v"
  by (simp add: combine_hashes_def)

lemma alone_step_simple:
  assumes "alone m0 m p"
  shows "alone m0 (fst (Info env m ireq)) (fst (app_Info (provider env) p ireq))"
    and "snd (Info env m ireq) = snd (app_Info (provider env) p ireq)"
    and "alone m0 (fst (InitChain env ns m inreq)) (fst (app_InitChain (provider env) p inreq))"
    and "snd (InitChain env ns m inreq) = snd (app_InitChain (provider env) p inreq)"
    and "alone m0 (fst (Commit env ns m)) (fst (app_Commit (provider env) p))"
    and "snd (Commit env ns m) = snd (app_Commit (provider env) p)"
  using assms
  by (auto simp: Info_def InitChain_def Commit_def Let_def alone_def commit_chains_alone
      split: prod.split sum.split)

lemma alone_step_query:
  assumes "alone m0 m p" and "rq_ChainId req = providerChainID m0"
  shows "alone m0 (fst (Query env m ctx req)) (fst (app_Query (provider env) p ctx req))"
    and "snd (Query env m ctx req) = snd (app_Query (provider env) p ctx req)"
  using assms by (auto simp: Query_def alone_def split: prod.split)

lemma alone_step_check:
  assumes "alone m0 m p" and "CHR '':'' \<notin> set (providerChainID m0)"
  shows "alone m0 (fst (CheckTx env m (req\<lparr>rc_Tx := to_chain (providerChainID m) (rc_Tx req)\<rparr>)))
      (fst (app_CheckTx (provider env) p req))"
    and "snd (CheckTx env m (req\<lparr>rc_Tx := to_chain (providerChainID m) (rc_Tx req)\<rparr>)) =
      snd (app_CheckTx (provider env) p req)"
  using assms by (auto simp: CheckTx_def alone_def to_chain_def ParseHeader_header split: prod.split)

lemma updateActiveChains_alone:
  assumes "alone m0 m p" and "abci_contract (provider env)"
  shows "alone m0 (fst (updateActiveChains env m ctx)) p"
proof -
  have "alone m0 (fst (updateActiveChains env m ctx)) (fst (app_Query (provider env) p ctx active_query))"
    using assms(1) by (auto simp: updateActiveChains_def getActiveChainIDsFromProvider_def ActiveRequest_Marshal_ok alone_def
      active_query_def split: prod.split sum.split)
  then show ?thesis
    using assms(2) by (simp add: abci_contract_def)
qed

lemma alone_step_finalize:
  fixes req :: RequestFinalizeBlock
  assumes alone: "alone m0 m p" and colon: "CHR '':'' \<notin> set (providerChainID m0)"
    and contract: "abci_contract (provider env)" and runs: "\<not> isl (checkHaltConditions m0 req)"
  defines "wreq \<equiv> req\<lparr>rf_Txs := map (to_chain (providerChainID m)) (rf_Txs req)\<rparr>"
  shows "alone m0 (fst (mux_do env (CFinalize ns ns' ctx req) m))
      (fst (direct_do (provider env) (CFinalize ns ns' ctx req) p))"
    and "snd (mux_do env (CFinalize ns ns' ctx req) m) =
      snd (direct_do (provider env) (CFinalize ns ns' ctx req) p)"
proof -
  have id: "providerChainID m = providerChainID m0" and p: "providerChain m = p"
    using alone by (simp_all add: alone_def)
  obtain rt where rt: "route_block m no_txs 0 (rf_Txs wreq) = Inr rt"
    using route_block_total [of m no_txs 0 "rf_Txs wreq"] to_chain_valid [OF colon] by (auto simp: wreq_def id)
  have sorted: "bucket (chainTxs rt) (providerChainID m) = rf_Txs req"
    "bucket (txPositions rt) (providerChainID m) = [0..<length (rf_Txs req)]"
    using routed_block(1,2) [OF rt, of "providerChainID m"]
    by (simp_all add: alone_routable [OF alone] id to_chain_sorted [OF colon] wreq_def)
  have "j \<notin> set (unroutable_indices m 0 (rf_Txs wreq))" for j
    unfolding unroutable_iff
    by (auto simp: wreq_def id to_chain_def ParseHeader_header [OF colon] alone_routable [OF alone])
  then have "unroutable_indices m 0 (rf_Txs wreq) = []"
    by (meson last_in_set)
  then have skipped: "skippedIndices rt = []"
    using routed_block(3) [OF rt] by simp
  have "checkHaltConditions m wreq = checkHaltConditions m0 req"
    using alone by (simp add: checkHaltConditions_def alone_def wreq_def)
  then obtain u where halt: "checkHaltConditions m wreq = Inr u"
    using runs by (cases "checkHaltConditions m0 req") simp_all
  have consumers: "finalize_consumers env ns ns' wreq rt pr m' =
      (m', \<lparr>g_TxResults = pf_TxResults pr,
        g_hashes = fmupd (providerChainID m) (pf_AppHash pr) fmempty, g_events = pf_Events pr\<rparr>)"
    if "alone m0 m' q" "length (pf_TxResults pr) = length (rf_Txs req)" for pr m' q
  proof -
    have "chainHandlers m' = fmempty" "providerChainID m' = providerChainID m"
      using that id by (simp_all add: alone_def)
    then show ?thesis
      using that(2)
      by (simp add: finalize_consumers_def launch_alone gathered_provider_def Let_def sorted skipped place_all wreq_def)
  qed
  have req: "wreq\<lparr>rf_Txs := bucket (chainTxs rt) (providerChainID m)\<rparr> = req"
    by (simp add: sorted(1) wreq_def)
  have height: "rf_Height wreq = rf_Height req"
    by (simp add: wreq_def)
  have mux: "mux_do env (CFinalize ns ns' ctx req) m = apsnd RFinalize (FinalizeBlock env ns ns' m ctx wreq)"
    by (simp add: wreq_def)
  have "alone m0 (fst (mux_do env (CFinalize ns ns' ctx req) m))
      (fst (direct_do (provider env) (CFinalize ns ns' ctx req) p)) \<and>
    snd (mux_do env (CFinalize ns ns' ctx req) m) =
      snd (direct_do (provider env) (CFinalize ns ns' ctx req) p)"
  proof -
    obtain q r where app: "app_FinalizeBlock (provider env) p req = (q, r)"
      by (cases "app_FinalizeBlock (provider env) p req")
    let ?m1 = "m\<lparr>providerChain := q\<rparr>"
    let ?m2 = "if sint (rf_Height req) > 1 then fst (updateActiveChains env ?m1 ctx) else ?m1"
    have m2: "alone m0 ?m2 q"
      using updateActiveChains_alone [OF alone_provider [OF alone] contract, of q ctx] alone by simp
    show ?thesis
    proof (cases r)
      case (Inl e)
      then show ?thesis
        unfolding mux using alone by (simp add: FinalizeBlock_def halt rt req p app Let_def)
    next
      case r: (Inr pr)
      then have "length (pf_TxResults pr) = length (rf_Txs req)"
        using contract app by (auto simp: abci_contract_def)
      then have "FinalizeBlock env ns ns' m ctx wreq = (?m2, Inr pr)"
        using consumers [OF m2, of pr]
        by (cases pr) (simp add: FinalizeBlock_def halt rt req p app r Let_def height)
      then show ?thesis
        unfolding mux using m2 by (simp add: app r)
    qed
  qed
  then show "alone m0 (fst (mux_do env (CFinalize ns ns' ctx req) m))
      (fst (direct_do (provider env) (CFinalize ns ns' ctx req) p))"
    and "snd (mux_do env (CFinalize ns ns' ctx req) m) =
      snd (direct_do (provider env) (CFinalize ns ns' ctx req) p)"
    by blast+
qed

lemma alone_step_process:
  fixes req :: RequestProcessProposal
  assumes alone: "alone m0 m p" and colon: "CHR '':'' \<notin> set (providerChainID m0)"
    and empty: "rr_Txs req = [] \<Longrightarrow> app_ProcessProposal (provider env) p req = (p, Inr \<lparr>pr_Status = ACCEPT\<rparr>)"
  shows "alone m0 (fst (mux_do env (CProcess ns req) m)) (fst (direct_do (provider env) (CProcess ns req) p)) \<and>
    snd (mux_do env (CProcess ns req) m) = snd (direct_do (provider env) (CProcess ns req) p)"
proof -
  let ?id = "providerChainID m"
  define wreq where "wreq = req\<lparr>rr_Txs := map (to_chain ?id) (rr_Txs req)\<rparr>"
  have id: "?id = providerChainID m0" and p: "providerChain m = p"
    using alone by (simp_all add: alone_def)
  obtain c where c: "route_proposal m fmempty (rr_Txs wreq) = Some c"
    using route_proposal_total [of m fmempty "rr_Txs wreq"] to_chain_valid [OF colon] by (auto simp: wreq_def id)
  have bucket: "bucket c ?id = rr_Txs req"
    using route_proposal_Some [OF c, of ?id 0] to_chain_sorted(1) [OF colon, of ?id "rr_Txs req"]
    by (simp add: proposable_def wreq_def payloads_def id)
  have "a \<in> set (keys c) \<longleftrightarrow> a = ?id \<and> rr_Txs req \<noteq> []" for a
    using ProcessProposal_run(2) [OF c, of a] alone
    by (auto simp: participates_def proposable_def wreq_def to_chain_sorted [OF colon] id alone_def simp del: set_keys)
  then have "set (keys c) = (if rr_Txs req = [] then {} else {?id})"
    by (intro set_eqI) (simp del: set_keys)
  then have keys: "keys c = (if rr_Txs req = [] then [] else [?id])"
    using sorted_distinct_set_unique [of "keys c" "if rr_Txs req = [] then [] else [?id]"] by simp
  have pick: "pick ns [?id] = [?id]"
    using mset_pick [of ns "[?id]"] by (simp del: mset_pick)
  have req: "wreq\<lparr>rr_Txs := rr_Txs req\<rparr> = req"
    by (simp add: wreq_def)
  have mux: "mux_do env (CProcess ns req) m = apsnd RProcess (ProcessProposal env ns m wreq)"
    by (simp add: wreq_def)
  have other: "proposal_results m' [(providerChainID m', r)] = (m', r)" for m' :: "('a, 'b) Multiplexer" and r
  proof (cases r)
    case (Inr x)
    then show ?thesis
      by (cases x) simp
  qed simp
  have clear: "alone m0 (m\<lparr>providerChain := q, rejectedConsumerChains := fmempty\<rparr>) q"
    "alone m0 (m\<lparr>rejectedConsumerChains := fmempty\<rparr>) p" for q
    using alone by (simp_all add: alone_def flag_def)
  show ?thesis
  proof (cases "rr_Txs req = []")
    case True
    then show ?thesis
      unfolding mux using clear empty by (simp add: ProcessProposal_def c keys)
  next
    case False
    obtain q r where app: "app_ProcessProposal (provider env) p req = (q, r)"
      by (cases "app_ProcessProposal (provider env) p req")
    have "process_chain env wreq c ?id m = (m\<lparr>providerChain := q\<rparr>, ?id, r)"
      by (simp add: process_chain_def bucket req p app)
    then have "ProcessProposal env ns m wreq =
        (m\<lparr>providerChain := q, rejectedConsumerChains := fmempty\<rparr>, r)"
      using other [of "m\<lparr>providerChain := q, rejectedConsumerChains := fmempty\<rparr>" r] False
      by (simp add: ProcessProposal_def c keys pick)
    then show ?thesis
      unfolding mux using clear False by (simp add: app)
  qed
qed

section \<open>The multiplexer without consumers is the provider\<close>

lemma alone_step:
  assumes "alone m0 m p" and "CHR '':'' \<notin> set (providerChainID m0)" and "abci_contract (provider env)"
    and "transparent (provider env) m0 j"
  shows "alone m0 (fst (mux_do env j m)) (fst (direct_do (provider env) j p)) \<and>
    snd (mux_do env j m) = snd (direct_do (provider env) j p)"
  using assms
  by (cases j)
    (simp_all add: alone_step_simple alone_step_query alone_step_check PrepareProposal_def alone_step_process
      alone_step_finalize del: mux_do.simps(6,7) direct_do.simps(6,7))

interpretation direct_app: replay "mux_do env" "direct_do (provider env)"
    "\<lambda>m p. alone m0 m p \<and> CHR '':'' \<notin> set (providerChainID m0) \<and> abci_contract (provider env)"
    "transparent (provider env) m0"
  for env :: "('p, 'c) mux_env" and m0 :: "('p, 'c) Multiplexer"
proof
  fix m p j
  assume "alone m0 m p \<and> CHR '':'' \<notin> set (providerChainID m0) \<and> abci_contract (provider env)"
    and "transparent (provider env) m0 j"
  then show "(alone m0 (fst (mux_do env j m)) (fst (direct_do (provider env) j p)) \<and>
      CHR '':'' \<notin> set (providerChainID m0) \<and> abci_contract (provider env)) \<and>
    snd (mux_do env j m) = snd (direct_do (provider env) j p)"
    using alone_step [of m0 m p env j] by blast
qed

text \<open>C7: a multiplexer for which no consumer chain is configured is the provider application: for an application
  that keeps the ABCI contract (one result per transaction, queries change nothing), along every
  sequence of ABCI calls, with every schedule, it gives the responses the application gives
  when it is called directly, transaction results, app hashes, events and errors included, and leaves
  it in the same state. The sequence contains no block at which the node is to halt, queries name the provider's chain, and the
  application itself proposes the transactions as they are and accepts an empty proposal: these two calls the
  multiplexer answers without asking it.\<close>

theorem no_consumers_is_provider:
  assumes "chainHandlers m = fmempty" and "mux_ok m" and "CHR '':'' \<notin> set (providerChainID m)"
    and "abci_contract (provider env)" and "list_all (transparent (provider env) m) js"
  shows "snd (run_jobs (mux_do env) js m) = snd (run_jobs (direct_do (provider env)) js (providerChain m)) \<and>
    providerChain (fst (run_jobs (mux_do env) js m)) = fst (run_jobs (direct_do (provider env)) js (providerChain m))"
proof -
  have "alone m m (providerChain m)"
    using assms(1,2) by (auto simp: alone_def mux_ok_def)
  then show ?thesis
    using direct_app.replay_run [of m m "providerChain m" env js] assms(3-5) by (simp add: alone_def)
qed

text \<open>A life of the demo world without consumers: a transaction for the mempool, a proposal, its block and
  the commit.\<close>

definition demo_calls :: "call list" where
  "demo_calls =
     [CCheck \<lparr>rc_Tx = ''t'', rc_rest = ''''\<rparr>, CPrepare \<lparr>rp_Txs = [''t'', ''u''], rp_rest = ''''\<rparr>, CProcess [] (demo_proposal [''t'', ''u'']),
      CFinalize [] [] Background (demo_block 2 [''t'', ''u'']), CCommit []]"

lemma demo_contract: "abci_contract (provider (demo_env ''''))"
  by (auto simp: abci_contract_def demo_env_def demo_app_def)

theorem no_consumers_is_provider_witness:
  "snd (run_jobs (mux_do (demo_env '''')) demo_calls (demo_mux\<lparr>chainHandlers := fmempty, initializedConsumerChains := fmempty\<rparr>)) =
     [RCheck (Inr \<lparr>pc_Code = 0, pc_Log = ''t'', pc_rest = ''''\<rparr>), RPrepare (Inr \<lparr>pp_Txs = [''t'', ''u'']\<rparr>),
      RProcess (Inr \<lparr>pr_Status = ACCEPT\<rparr>),
      RFinalize (Inr \<lparr>pf_Events = [''p''], pf_TxResults = [demo_result ''t'', demo_result ''u''],
        pf_ValidatorUpdates = [], pf_ConsensusParamUpdates = None, pf_AppHash = ''p''\<rparr>),
      RCommit (Inr \<lparr>RetainHeight = 1\<rparr>)]"
proof -
  let ?m = "demo_mux\<lparr>chainHandlers := fmempty, initializedConsumerChains := fmempty\<rparr>"
  have "chainHandlers ?m = fmempty" "mux_ok ?m" "CHR '':'' \<notin> set (providerChainID ?m)"
    by (simp_all add: mux_ok_def demo_mux_def)
  moreover have "list_all (transparent (provider (demo_env '''')) ?m) demo_calls"
    by (simp add: demo_calls_def demo_mux_def checkHaltConditions_def demo_proposal_def demo_env_def demo_app_def)
  ultimately have "snd (run_jobs (mux_do (demo_env '''')) demo_calls ?m) =
      snd (run_jobs (direct_do (provider (demo_env ''''))) demo_calls (providerChain ?m))"
    using no_consumers_is_provider [OF _ _ _ demo_contract] by blast
  moreover have "snd (run_jobs (direct_do (provider (demo_env ''''))) demo_calls (providerChain ?m)) =
     [RCheck (Inr \<lparr>pc_Code = 0, pc_Log = ''t'', pc_rest = ''''\<rparr>), RPrepare (Inr \<lparr>pp_Txs = [''t'', ''u'']\<rparr>),
      RProcess (Inr \<lparr>pr_Status = ACCEPT\<rparr>),
      RFinalize (Inr \<lparr>pf_Events = [''p''], pf_TxResults = [demo_result ''t'', demo_result ''u''],
        pf_ValidatorUpdates = [], pf_ConsensusParamUpdates = None, pf_AppHash = ''p''\<rparr>),
      RCommit (Inr \<lparr>RetainHeight = 1\<rparr>)]"
    by code_simp
  ultimately show ?thesis
    by simp
qed

end
