(* ===== verification/AppConfig.thy ===== *)
theory AppConfig
  imports Config
begin

text \<open>
  What a test application does to its process before it is assembled: the address prefixes
  (testapp/provider/params/config.go), the home directory (the \<open>init\<close> of testapp/provider/app.go) and
  the directory of the temporary application (\<open>tempDir\<close> of testapp/cmd/provider/cmd/root.go), with
  their twins of the consumer.

  The SDK's global configuration and the file system are arguments: the records \<open>config_api\<close> and
  \<open>temp_env\<close> hold the operations the code calls, the locales \<open>sealable_config\<close> and \<open>temp_files\<close> what their
  documentation promises. A panic is \<open>Inl\<close> with its text.
\<close>

section \<open>The SDK's configuration\<close>

record 'c config_api =
  SetBech32PrefixForAccount :: "string \<Rightarrow> string \<Rightarrow> 'c \<Rightarrow> string + 'c"
  SetBech32PrefixForValidator :: "string \<Rightarrow> string \<Rightarrow> 'c \<Rightarrow> string + 'c"
  SetBech32PrefixForConsensusNode :: "string \<Rightarrow> string \<Rightarrow> 'c \<Rightarrow> string + 'c"
  Seal :: "'c \<Rightarrow> 'c"
  GetBech32AccountAddrPrefix :: "'c \<Rightarrow> string"
  GetBech32ValidatorAddrPrefix :: "'c \<Rightarrow> string"
  GetBech32ConsensusAddrPrefix :: "'c \<Rightarrow> string"

fun or_stop :: "string + 'a \<Rightarrow> ('a \<Rightarrow> string + 'b) \<Rightarrow> string + 'b" where
  "or_stop (Inl e) k = Inl e"
| "or_stop (Inr a) k = k a"

definition SetAddressPrefixes :: "'c config_api \<Rightarrow> string \<Rightarrow> 'c \<Rightarrow> string + 'c" where
  "SetAddressPrefixes A bech32Prefix cfg =
     (let bech32PrefixAccAddr = bech32Prefix;
          bech32PrefixAccPub = bech32Prefix @ ''pub'';
          bech32PrefixValAddr = bech32Prefix @ ''val'' @ ''oper'';
          bech32PrefixValPub = bech32Prefix @ ''val'' @ ''oper'' @ ''pub'';
          bech32PrefixConsAddr = bech32Prefix @ ''val'' @ ''cons'';
          bech32PrefixConsPub = bech32Prefix @ ''val'' @ ''cons'' @ ''pub''
      in or_stop (SetBech32PrefixForAccount A bech32PrefixAccAddr bech32PrefixAccPub cfg) (\<lambda>cfg.
         or_stop (SetBech32PrefixForValidator A bech32PrefixValAddr bech32PrefixValPub cfg) (\<lambda>cfg.
         or_stop (SetBech32PrefixForConsensusNode A bech32PrefixConsAddr bech32PrefixConsPub cfg) (\<lambda>cfg.
         Inr (Seal A cfg)))))"

definition consumer_SetAddressPrefixes :: "'c config_api \<Rightarrow> string \<Rightarrow> 'c \<Rightarrow> string + 'c" where
  "consumer_SetAddressPrefixes A bech32Prefix cfg = SetAddressPrefixes A bech32Prefix cfg"

text \<open>The prefixes of a configuration: address and public key of accounts, validators and consensus
  nodes. They can be set until the configuration is sealed.\<close>

locale sealable_config =
  fixes A :: "'c config_api"
    and sealed :: "'c \<Rightarrow> bool"
    and account :: "'c \<Rightarrow> string \<times> string"
    and validator :: "'c \<Rightarrow> string \<times> string"
    and consensus :: "'c \<Rightarrow> string \<times> string"
  assumes set_sealed: "sealed c \<Longrightarrow> \<exists>e. SetBech32PrefixForAccount A p q c = Inl e"
    and set_account: "\<not> sealed c \<Longrightarrow> \<exists>c'. SetBech32PrefixForAccount A p q c = Inr c' \<and> \<not> sealed c' \<and>
      account c' = (p, q) \<and> validator c' = validator c \<and> consensus c' = consensus c"
    and set_validator: "\<not> sealed c \<Longrightarrow> \<exists>c'. SetBech32PrefixForValidator A p q c = Inr c' \<and> \<not> sealed c' \<and>
      account c' = account c \<and> validator c' = (p, q) \<and> consensus c' = consensus c"
    and set_consensus: "\<not> sealed c \<Longrightarrow> \<exists>c'. SetBech32PrefixForConsensusNode A p q c = Inr c' \<and> \<not> sealed c' \<and>
      account c' = account c \<and> validator c' = validator c \<and> consensus c' = (p, q)"
    and Seal_sealed: "sealed (Seal A c)"
    and Seal_keeps: "account (Seal A c) = account c" "validator (Seal A c) = validator c"
      "consensus (Seal A c) = consensus c"
    and getters: "GetBech32AccountAddrPrefix A c = fst (account c)"
      "GetBech32ValidatorAddrPrefix A c = fst (validator c)"
      "GetBech32ConsensusAddrPrefix A c = fst (consensus c)"
begin

text \<open>The prefixes can be set once: the function seals the configuration itself, and the six prefixes
  are different from each other.\<close>

lemma SetAddressPrefixes_once:
  assumes "\<not> sealed c"
  shows "\<exists>c'. SetAddressPrefixes A b c = Inr c' \<and> sealed c' \<and>
    account c' = (b, b @ ''pub'') \<and> validator c' = (b @ ''valoper'', b @ ''valoperpub'') \<and>
    consensus c' = (b @ ''valcons'', b @ ''valconspub'')"
proof -
  obtain c1 where 1: "SetBech32PrefixForAccount A b (b @ ''pub'') c = Inr c1" "\<not> sealed c1"
      "account c1 = (b, b @ ''pub'')"
    using set_account [OF assms] by blast
  obtain c2 where 2: "SetBech32PrefixForValidator A (b @ ''valoper'') (b @ ''valoperpub'') c1 = Inr c2" "\<not> sealed c2"
      "account c2 = account c1" "validator c2 = (b @ ''valoper'', b @ ''valoperpub'')"
    using set_validator [OF 1(2)] by blast
  obtain c3 where 3: "SetBech32PrefixForConsensusNode A (b @ ''valcons'') (b @ ''valconspub'') c2 = Inr c3"
      "account c3 = account c2" "validator c3 = validator c2" "consensus c3 = (b @ ''valcons'', b @ ''valconspub'')"
    using set_consensus [OF 2(2)] by blast
  show ?thesis
    by (simp add: SetAddressPrefixes_def 1 2 3 Seal_sealed Seal_keeps)
qed

lemma SetAddressPrefixes_sealed: "sealed c \<Longrightarrow> \<exists>e. SetAddressPrefixes A b c = Inl e"
  using set_sealed [of c b "b @ ''pub''"] by (auto simp: SetAddressPrefixes_def Let_def)

end

text \<open>A reference configuration.\<close>

record ref_config =
  rc_sealed :: bool
  rc_account :: "string \<times> string"
  rc_validator :: "string \<times> string"
  rc_consensus :: "string \<times> string"

definition unless_sealed :: "(ref_config \<Rightarrow> ref_config) \<Rightarrow> ref_config \<Rightarrow> string + ref_config" where
  "unless_sealed f c = (if rc_sealed c then Inl ''Config is sealed'' else Inr (f c))"

definition ref_config_api :: "ref_config config_api" where
  "ref_config_api =
     \<lparr>SetBech32PrefixForAccount = (\<lambda>p q. unless_sealed (rc_account_update (\<lambda>_. (p, q)))),
      SetBech32PrefixForValidator = (\<lambda>p q. unless_sealed (rc_validator_update (\<lambda>_. (p, q)))),
      SetBech32PrefixForConsensusNode = (\<lambda>p q. unless_sealed (rc_consensus_update (\<lambda>_. (p, q)))),
      Seal = rc_sealed_update (\<lambda>_. True),
      GetBech32AccountAddrPrefix = (\<lambda>c. fst (rc_account c)),
      GetBech32ValidatorAddrPrefix = (\<lambda>c. fst (rc_validator c)),
      GetBech32ConsensusAddrPrefix = (\<lambda>c. fst (rc_consensus c))\<rparr>"

interpretation ref_cfg: sealable_config ref_config_api rc_sealed rc_account rc_validator rc_consensus
  by unfold_locales (simp_all add: ref_config_api_def unless_sealed_def)

section \<open>The home directory\<close>

definition AppName :: string where
  "AppName = ''ics-provider''"

definition consumer_AppName :: string where
  "consumer_AppName = ''ics-consumer''"

text \<open>\<open>os.UserHomeDir\<close> returns the empty string with an error. The second result is what is printed to
  the log.\<close>

definition init_DefaultNodeHome :: "string \<Rightarrow> string + string \<Rightarrow> string \<times> string list" where
  "init_DefaultNodeHome name UserHomeDir =
     (let (userHomeDir, log) = (case UserHomeDir of
            Inl err \<Rightarrow> ('''', [''Failed to get home dir %2 '' @ err])
          | Inr d \<Rightarrow> (d, []))
      in (Join [userHomeDir, ''.'' @ name], log))"

definition provider_init :: "string + string \<Rightarrow> string \<times> string list" where
  "provider_init UserHomeDir = init_DefaultNodeHome AppName UserHomeDir"

definition consumer_init :: "string + string \<Rightarrow> string \<times> string list" where
  "consumer_init UserHomeDir = init_DefaultNodeHome consumer_AppName UserHomeDir"

text \<open>Without a home directory of the user the default is relative to the working directory.\<close>

lemma home_without_user: "fst (provider_init (Inl err)) = ''.ics-provider''"
  "fst (consumer_init (Inl err)) = ''.ics-consumer''"
  by (simp_all add: provider_init_def consumer_init_def init_DefaultNodeHome_def AppName_def consumer_AppName_def
      Join_def Clean_def Let_def)

lemma home_of_user: "fst (provider_init (Inr ''/root'')) = ''/root/.ics-provider''"
  by (simp add: provider_init_def init_DefaultNodeHome_def AppName_def Join_def Clean_def Let_def)

section \<open>The directory of the temporary application\<close>

record 'f temp_env =
  MkdirTemp :: "'f \<Rightarrow> string \<Rightarrow> 'f \<times> (string + string)"
  RemoveAll :: "'f \<Rightarrow> string \<Rightarrow> 'f"

text \<open>The deferred \<open>RemoveAll\<close> runs when the function returns, on the value of \<open>dir\<close> at the time of the
  \<open>defer\<close>.\<close>

definition temp_dir :: "string \<Rightarrow> 'f temp_env \<Rightarrow> string \<Rightarrow> 'f \<Rightarrow> 'f \<times> string" where
  "temp_dir name T home f =
     (case MkdirTemp T f (''.'' @ name) of
        (f, r) \<Rightarrow>
          let dir = (case r of Inl err \<Rightarrow> home | Inr dir \<Rightarrow> dir)
          in (RemoveAll T f dir, dir))"

definition tempDir :: "'f temp_env \<Rightarrow> string \<Rightarrow> 'f \<Rightarrow> 'f \<times> string" where
  "tempDir T DefaultNodeHome f = temp_dir AppName T DefaultNodeHome f"

definition consumer_tempDir :: "'f temp_env \<Rightarrow> string \<Rightarrow> 'f \<Rightarrow> 'f \<times> string" where
  "consumer_tempDir T DefaultNodeHome f = temp_dir consumer_AppName T DefaultNodeHome f"

text \<open>\<open>below p q\<close>: the path \<open>q\<close> is \<open>p\<close> or in the directory \<open>p\<close>.\<close>

definition below :: "string \<Rightarrow> string \<Rightarrow> bool" where
  "below p q \<longleftrightarrow> q = p \<or> (\<exists>r. q = p @ ''/'' @ r)"

text \<open>The paths that exist, and those the process may delete. A fresh directory is empty and may be
  deleted; \<open>RemoveAll\<close> deletes the path and everything in it.\<close>

locale temp_files =
  fixes T :: "'f temp_env" and paths :: "'f \<Rightarrow> string set" and deletable :: "'f \<Rightarrow> string \<Rightarrow> bool"
  assumes MkdirTemp_fails: "MkdirTemp T f pat = (f', Inl e) \<Longrightarrow> paths f' = paths f"
    and MkdirTemp_fresh: "MkdirTemp T f pat = (f', Inr d) \<Longrightarrow>
      (\<forall>q \<in> paths f. \<not> below d q) \<and> paths f' = insert d (paths f) \<and> deletable f' d"
    and RemoveAll_deletes: "deletable f p \<Longrightarrow> paths (RemoveAll T f p) = {q \<in> paths f. \<not> below p q}"
begin

lemma temp_dir_fails:
  assumes "MkdirTemp T f (''.'' @ name) = (f', Inl e)" and "deletable f' home"
  shows "snd (temp_dir name T home f) = home \<and>
    paths (fst (temp_dir name T home f)) = {q \<in> paths f. \<not> below home q}"
  using assms RemoveAll_deletes MkdirTemp_fails by (simp add: temp_dir_def)

lemma temp_dir_gone:
  assumes "MkdirTemp T f (''.'' @ name) = (f', Inr d)"
  shows "snd (temp_dir name T home f) = d \<and> d \<notin> paths (fst (temp_dir name T home f)) \<and>
    paths (fst (temp_dir name T home f)) = paths f"
proof -
  note fresh = MkdirTemp_fresh [OF assms]
  have "below d d"
    by (simp add: below_def)
  moreover have "{q \<in> insert d (paths f). \<not> below d q} = paths f"
    using fresh \<open>below d d\<close> by auto
  ultimately show ?thesis
    using fresh assms by (auto simp: temp_dir_def RemoveAll_deletes)
qed

end

text \<open>A reference file system: a list of paths and whether directories can be made in the place for
  temporary files. A fresh name is longer than all others.\<close>

definition fresh_name :: "string \<Rightarrow> string list \<Rightarrow> string" where
  "fresh_name pat ps = ''/tmp/'' @ pat @ replicate (Suc (sum_list (map length ps))) CHR ''0''"

definition ref_temp :: "(bool \<times> string list) temp_env" where
  "ref_temp =
     \<lparr>MkdirTemp = (\<lambda>(ok, ps) pat.
        if ok then ((ok, fresh_name pat ps # ps), Inr (fresh_name pat ps)) else ((ok, ps), Inl ''permission denied'')),
      RemoveAll = (\<lambda>(ok, ps) p. (ok, filter (\<lambda>q. \<not> (q = p \<or> take (Suc (length p)) q = p @ ''/'')) ps))\<rparr>"

lemma below_take: "below p q \<longleftrightarrow> q = p \<or> take (Suc (length p)) q = p @ ''/''"
proof -
  have "take (Suc (length p)) q = p @ ''/'' \<Longrightarrow> q = p @ ''/'' @ drop (Suc (length p)) q"
    by (metis append_assoc append_take_drop_id)
  then show ?thesis
    by (auto simp: below_def)
qed

lemma fresh_not_below: "q \<in> set ps \<Longrightarrow> \<not> below (fresh_name pat ps) q"
proof
  assume q: "q \<in> set ps" and "below (fresh_name pat ps) q"
  then have "length (fresh_name pat ps) \<le> length q"
    by (auto simp: below_def)
  moreover have "length q \<le> sum_list (map length ps)"
    using q by (simp add: member_le_sum_list)
  ultimately show False
    by (simp add: fresh_name_def)
qed

interpretation ref_tmp: temp_files ref_temp "\<lambda>f. set (snd f)" "\<lambda>_ _. True"
proof
  show "MkdirTemp ref_temp f pat = (f', Inl e) \<Longrightarrow> set (snd f') = set (snd f)" for f pat f' e
    by (auto simp: ref_temp_def split: prod.splits if_splits)
  show "MkdirTemp ref_temp f pat = (f', Inr d) \<Longrightarrow>
      (\<forall>q \<in> set (snd f). \<not> below d q) \<and> set (snd f') = insert d (set (snd f)) \<and> True" for f pat f' d
    using fresh_not_below by (auto simp: ref_temp_def split: prod.splits if_splits)
  show "set (snd (RemoveAll ref_temp f p)) = {q \<in> set (snd f). \<not> below p q}" for f p
    by (auto simp: ref_temp_def below_take split: prod.splits)
qed

end
