(* ===== verification/AppServices.thy ===== *)
theory AppServices
  imports Assembly AppConfig
begin

text \<open>
  The rest of testapp/provider/app.go, encoding/encoding.go and genesis.go, and of their twins of the
  consumer: codecs, the basic modules, the application's getters and services.

  \<^item> Registries of interfaces and amino codecs are shared by reference. They live in a heap; what a
    reference leads to is the list of those who have registered there: \<open>''std''\<close> or a module.
  \<^item> \<open>ModuleBasics\<close> is a variable of the package; \<open>New\<close> overwrites it. It is part of the state
    \<open>globals\<close>.
  \<^item> The SDK's basic manager is an argument, the record \<open>basics_api\<close>; the locale \<open>basic_managers\<close> holds what
    its documentation says: which modules a manager has, and of which it knows the default genesis.
\<close>

section \<open>Codecs (encoding.go)\<close>

text \<open>The prefixes of the address codecs of a registry, and who registered interfaces there.\<close>

record registry =
  reg_account :: string
  reg_validator :: string
  reg_interfaces :: "string list"

record heap =
  registries :: "registry list"
  aminos :: "string list list"

type_synonym ref = nat

datatype proto_codec = NewProtoCodec ref

text \<open>Where a transaction configuration finds the metadata of coins for textual signatures: nowhere, in
  the bank keeper, or over a connection.\<close>

datatype 'r coin_query = NoCoinQuery | BankKeeperCoinQuery keeper | GRPCCoinQuery 'r

record 'r TxConfig =
  tx_codec :: proto_codec
  tx_signModes :: "string list"
  tx_coinQuery :: "'r coin_query"

record 'r EncodingConfig =
  enc_InterfaceRegistry :: ref
  enc_Codec :: proto_codec
  enc_TxConfig :: "'r TxConfig"
  enc_Amino :: ref

text \<open>The SDK's operations on the heap.\<close>

definition NewLegacyAmino :: "heap \<Rightarrow> heap \<times> ref" where
  "NewLegacyAmino h = (h\<lparr>aminos := aminos h @ [[]]\<rparr>, length (aminos h))"

definition NewInterfaceRegistry :: "string \<Rightarrow> string \<Rightarrow> heap \<Rightarrow> heap \<times> ref" where
  "NewInterfaceRegistry acc val h =
     (h\<lparr>registries := registries h @ [\<lparr>reg_account = acc, reg_validator = val, reg_interfaces = []\<rparr>]\<rparr>,
      length (registries h))"

definition register_amino :: "string list \<Rightarrow> ref \<Rightarrow> heap \<Rightarrow> heap" where
  "register_amino ms r h = h\<lparr>aminos := (aminos h)[r := aminos h ! r @ ms]\<rparr>"

definition register_interfaces :: "string list \<Rightarrow> ref \<Rightarrow> heap \<Rightarrow> heap" where
  "register_interfaces ms r h =
     h\<lparr>registries := (registries h)[r := reg_interfaces_update (\<lambda>xs. xs @ ms) (registries h ! r)]\<rparr>"

text \<open>\<open>modes\<close> are the SDK's default sign modes.\<close>

definition encoding_MakeTestEncodingConfig ::
    "'c config_api \<Rightarrow> 'c \<Rightarrow> string list \<Rightarrow> heap \<Rightarrow> heap \<times> 'r EncodingConfig" where
  "encoding_MakeTestEncodingConfig A cfg modes h =
     (let (h, amino) = NewLegacyAmino h;
          (h, interfaceRegistry) =
            NewInterfaceRegistry (GetBech32AccountAddrPrefix A cfg) (GetBech32ValidatorAddrPrefix A cfg) h;
          chainCodec = NewProtoCodec interfaceRegistry;
          txCfg = \<lparr>tx_codec = chainCodec, tx_signModes = modes, tx_coinQuery = NoCoinQuery\<rparr>
      in (h, \<lparr>enc_InterfaceRegistry = interfaceRegistry, enc_Codec = chainCodec, enc_TxConfig = txCfg,
              enc_Amino = amino\<rparr>))"

definition consumer_encoding_MakeTestEncodingConfig ::
    "'c config_api \<Rightarrow> 'c \<Rightarrow> string list \<Rightarrow> heap \<Rightarrow> heap \<times> 'r EncodingConfig" where
  "consumer_encoding_MakeTestEncodingConfig A cfg modes h = encoding_MakeTestEncodingConfig A cfg modes h"

section \<open>Basic modules\<close>

datatype basic_module =
    AppModuleBasic string
  | GenutilAppModuleBasic
  | GovAppModuleBasic "string list"

fun basic_name :: "basic_module \<Rightarrow> string" where
  "basic_name (AppModuleBasic n) = n"
| "basic_name GenutilAppModuleBasic = ''genutil''"
| "basic_name (GovAppModuleBasic _) = ''gov''"

record basics_api =
  NewBasicManager :: "basic_module list \<Rightarrow> basic_module gomap"
  NewBasicManagerFromManager :: "string list \<Rightarrow> basic_module gomap \<Rightarrow> basic_module gomap"
  BasicManager_DefaultGenesis :: "basic_module gomap \<Rightarrow> bytes gomap"

text \<open>\<open>HasGenesis\<close>: the modules that have a genesis state.\<close>

locale basic_managers =
  fixes B :: basics_api and HasGenesis :: "string \<Rightarrow> bool"
  assumes NewBasicManager_dom:
      "distinct (map basic_name bs) \<Longrightarrow> fmdom (NewBasicManager B bs) = fset_of_list (map basic_name bs)"
    and FromManager_dom: "fmdom (NewBasicManagerFromManager B mods custom) = fset_of_list mods"
    and FromManager_custom: "n \<in> set mods \<Longrightarrow> fmlookup custom n = Some b \<Longrightarrow>
      fmlookup (NewBasicManagerFromManager B mods custom) n = Some b"
    and DefaultGenesis_dom: "fmdom (BasicManager_DefaultGenesis B bm) = ffilter HasGenesis (fmdom bm)"

text \<open>The variable of the package before \<open>New\<close> has run.\<close>

definition initial_basics :: "basic_module list" where
  "initial_basics =
     [GenutilAppModuleBasic, AppModuleBasic ''auth'', AppModuleBasic ''vesting'', AppModuleBasic ''bank'',
      AppModuleBasic ''consensus'', GovAppModuleBasic [''params''], AppModuleBasic ''mint'',
      AppModuleBasic ''slashing'', AppModuleBasic ''distribution'', AppModuleBasic ''staking'',
      AppModuleBasic ''params'', AppModuleBasic ModuleName]"

definition consumer_initial_basics :: "basic_module list" where
  "consumer_initial_basics =
     [GenutilAppModuleBasic, AppModuleBasic ''auth'', AppModuleBasic ''vesting'', AppModuleBasic ''bank'',
      GovAppModuleBasic [''params''], AppModuleBasic ''mint'',
      AppModuleBasic ''slashing'', AppModuleBasic ''distribution'', AppModuleBasic ''staking'',
      AppModuleBasic ''params'']"

record globals =
  g_heap :: heap
  ModuleBasics :: "basic_module gomap"

definition startup :: "basics_api \<Rightarrow> basic_module list \<Rightarrow> globals" where
  "startup B bs = \<lparr>g_heap = \<lparr>registries = [], aminos = []\<rparr>, ModuleBasics = NewBasicManager B bs\<rparr>"

definition register_basics :: "'r EncodingConfig \<Rightarrow> globals \<Rightarrow> globals" where
  "register_basics enc g =
     g\<lparr>g_heap := register_interfaces (keys (ModuleBasics g)) (enc_InterfaceRegistry enc)
         (register_amino (keys (ModuleBasics g)) (enc_Amino enc) (g_heap g))\<rparr>"

definition register_std :: "'r EncodingConfig \<Rightarrow> globals \<Rightarrow> globals" where
  "register_std enc g =
     g\<lparr>g_heap := register_interfaces [''std''] (enc_InterfaceRegistry enc)
         (register_amino [''std''] (enc_Amino enc) (g_heap g))\<rparr>"

definition app_MakeTestEncodingConfig ::
    "'c config_api \<Rightarrow> 'c \<Rightarrow> string list \<Rightarrow> globals \<Rightarrow> globals \<times> 'r EncodingConfig" where
  "app_MakeTestEncodingConfig A cfg modes g =
     (case encoding_MakeTestEncodingConfig A cfg modes (g_heap g) of
        (h, encodingConfig) \<Rightarrow>
          (register_basics encodingConfig (register_std encodingConfig (g\<lparr>g_heap := h\<rparr>)), encodingConfig))"

definition consumer_app_MakeTestEncodingConfig ::
    "'c config_api \<Rightarrow> 'c \<Rightarrow> string list \<Rightarrow> globals \<Rightarrow> globals \<times> 'r EncodingConfig" where
  "consumer_app_MakeTestEncodingConfig A cfg modes g = app_MakeTestEncodingConfig A cfg modes g"

definition NewDefaultGenesisState :: "basics_api \<Rightarrow> globals \<Rightarrow> bytes gomap" where
  "NewDefaultGenesisState B g = BasicManager_DefaultGenesis B (ModuleBasics g)"

definition consumer_NewDefaultGenesisState :: "basics_api \<Rightarrow> globals \<Rightarrow> bytes gomap" where
  "consumer_NewDefaultGenesisState B g = BasicManager_DefaultGenesis B (ModuleBasics g)"

section \<open>The application (app.go)\<close>

text \<open>The fields of the application that \<open>Assembly\<close> leaves out. No code sets \<open>memKeys\<close>.\<close>

record 'r AppValue =
  av_app :: App
  legacyAmino :: ref
  appCodec :: proto_codec
  interfaceRegistry :: ref
  txConfig :: "'r TxConfig"
  memKeys :: "string list"

text \<open>The beginning of \<open>New\<close>.\<close>

definition new_codecs :: "'c config_api \<Rightarrow> 'c \<Rightarrow> string list \<Rightarrow> globals \<Rightarrow> globals \<times> 'r EncodingConfig" where
  "new_codecs A cfg modes g =
     (let (h, interfaceRegistry) = NewInterfaceRegistry (GetBech32AccountAddrPrefix A cfg)
            (GetBech32ValidatorAddrPrefix A cfg) (g_heap g);
          appCodec = NewProtoCodec interfaceRegistry;
          (h, legacyAmino) = NewLegacyAmino h;
          txConfig = \<lparr>tx_codec = appCodec, tx_signModes = modes, tx_coinQuery = NoCoinQuery\<rparr>;
          enc = \<lparr>enc_InterfaceRegistry = interfaceRegistry, enc_Codec = appCodec, enc_TxConfig = txConfig,
                 enc_Amino = legacyAmino\<rparr>
      in (register_std enc (g\<lparr>g_heap := h\<rparr>), enc))"

text \<open>The basic modules are made again from the manager, and register their types.\<close>

definition override_basics :: "basics_api \<Rightarrow> string list \<Rightarrow> 'r EncodingConfig \<Rightarrow> globals \<Rightarrow> globals" where
  "override_basics B mods enc g =
     register_basics enc
       (g\<lparr>ModuleBasics := NewBasicManagerFromManager B mods
            (fmap_of_list [(''genutil'', GenutilAppModuleBasic), (''gov'', GovAppModuleBasic [''params''])])\<rparr>)"

definition textual_TxConfig :: "string list \<Rightarrow> proto_codec \<Rightarrow> 'r coin_query \<Rightarrow> 'r TxConfig" where
  "textual_TxConfig modes cdc q =
     \<lparr>tx_codec = cdc, tx_signModes = modes @ [''SIGN_MODE_TEXTUAL''], tx_coinQuery = q\<rparr>"

definition build_app ::
    "'c config_api \<Rightarrow> basics_api \<Rightarrow> 'c \<Rightarrow> string list \<Rightarrow> app_fault + App \<Rightarrow> globals \<Rightarrow>
     globals \<times> (app_fault + 'r AppValue)" where
  "build_app A B cfg modes new g =
     (case new_codecs A cfg modes g :: globals \<times> 'r EncodingConfig of
        (g, enc) \<Rightarrow>
          (case new of
             Inl fault \<Rightarrow> (g, Inl fault)
           | Inr app \<Rightarrow>
               (override_basics B (map fst (MM app)) enc g,
                Inr \<lparr>av_app = app, legacyAmino = enc_Amino enc, appCodec = enc_Codec enc,
                     interfaceRegistry = enc_InterfaceRegistry enc,
                     txConfig = textual_TxConfig modes (enc_Codec enc) (BankKeeperCoinQuery (k_bank (keepers app))),
                     memKeys = []\<rparr>)))"

definition App_New ::
    "'c config_api \<Rightarrow> basics_api \<Rightarrow> app_env \<Rightarrow> 'c \<Rightarrow> string list \<Rightarrow> nat list \<Rightarrow> bool \<Rightarrow> globals \<Rightarrow>
     globals \<times> (app_fault + 'r AppValue)" where
  "App_New A B E cfg modes ns loadLatest g = build_app A B cfg modes (New E ns loadLatest) g"

definition consumer_App_New ::
    "'c config_api \<Rightarrow> basics_api \<Rightarrow> app_env \<Rightarrow> 'c \<Rightarrow> string list \<Rightarrow> nat list \<Rightarrow> bool \<Rightarrow> globals \<Rightarrow>
     globals \<times> (app_fault + 'r AppValue)" where
  "consumer_App_New A B E cfg modes ns loadLatest g = build_app A B cfg modes (consumer_New E ns loadLatest) g"

subsection \<open>Getters\<close>

definition GetKey :: "'r AppValue \<Rightarrow> string \<Rightarrow> string option" where
  "GetKey app storeKey = store_key (app_keys (av_app app)) storeKey"

definition GetTKey :: "'r AppValue \<Rightarrow> string \<Rightarrow> string option" where
  "GetTKey app storeKey = store_key (app_tkeys (av_app app)) storeKey"

definition GetMemKey :: "'r AppValue \<Rightarrow> string \<Rightarrow> string option" where
  "GetMemKey app storeKey = store_key (memKeys app) storeKey"

text \<open>\<open>None\<close> is the zero value of a subspace, which the code returns for an unknown name.\<close>

fun subspaces :: "keeper \<Rightarrow> string list" where
  "subspaces (NewParamsKeeper _ _ names) = names"
| "subspaces _ = []"

definition GetSubspace :: "'r AppValue \<Rightarrow> string \<Rightarrow> string option" where
  "GetSubspace app moduleName =
     (if moduleName \<in> set (subspaces (k_params (keepers (av_app app)))) then Some moduleName else None)"

definition GetTxConfig :: "'r AppValue \<Rightarrow> 'r TxConfig" where
  "GetTxConfig app = txConfig app"

definition GetTestGovKeeper :: "'r AppValue \<Rightarrow> keeper" where
  "GetTestGovKeeper app = k_gov (keepers (av_app app))"

definition consumer_GetKey :: "'r AppValue \<Rightarrow> string \<Rightarrow> string option" where
  "consumer_GetKey app storeKey = store_key (app_keys (av_app app)) storeKey"

definition consumer_GetTKey :: "'r AppValue \<Rightarrow> string \<Rightarrow> string option" where
  "consumer_GetTKey app storeKey = store_key (app_tkeys (av_app app)) storeKey"

definition consumer_GetMemKey :: "'r AppValue \<Rightarrow> string \<Rightarrow> string option" where
  "consumer_GetMemKey app storeKey = store_key (memKeys app) storeKey"

definition consumer_GetSubspace :: "'r AppValue \<Rightarrow> string \<Rightarrow> string option" where
  "consumer_GetSubspace app moduleName =
     (if moduleName \<in> set (subspaces (k_params (keepers (av_app app)))) then Some moduleName else None)"

subsection \<open>Command line options and services\<close>

text \<open>The two type assertions on a module: its name when it has one, and whether it is a module of the
  core API. \<open>ExtractAutoCLIOptions\<close> is of the SDK.\<close>

record 'o module_ifaces =
  HasName :: "string \<times> keeper list \<Rightarrow> string option"
  IsAppModule :: "string \<times> keeper list \<Rightarrow> bool"
  ExtractAutoCLIOptions :: "(string \<times> keeper list) list \<Rightarrow> 'o"

text \<open>Address codecs by their prefixes.\<close>

record ('o, 'x) AutoCLI =
  ac_Modules :: "(string \<times> keeper list) gomap"
  ac_ModuleOptions :: 'o
  ac_AddressCodec :: string
  ac_ValidatorAddressCodec :: string
  ac_ConsensusAddressCodec :: string
  ac_ClientCtx :: "'x option"

definition add_module ::
    "'o module_ifaces \<Rightarrow> string \<times> keeper list \<Rightarrow> (string \<times> keeper list) gomap \<Rightarrow> (string \<times> keeper list) gomap" where
  "add_module I m modules =
     (case HasName I m of
        None \<Rightarrow> modules
      | Some moduleName \<Rightarrow> if IsAppModule I m then fmupd moduleName m modules else modules)"

text \<open>\<open>ns\<close> is the order in which Go visits the map of the manager.\<close>

definition AutoCliOpts ::
    "'c config_api \<Rightarrow> 'c \<Rightarrow> 'o module_ifaces \<Rightarrow> nat list \<Rightarrow> 'r AppValue \<Rightarrow> ('o, 'x) AutoCLI" where
  "AutoCliOpts A cfg I ns app =
     (let modules = fold (add_module I) (pick ns (MM (av_app app))) fmempty
      in \<lparr>ac_Modules = modules,
          ac_ModuleOptions = ExtractAutoCLIOptions I (MM (av_app app)),
          ac_AddressCodec = GetBech32AccountAddrPrefix A cfg,
          ac_ValidatorAddressCodec = GetBech32ValidatorAddrPrefix A cfg,
          ac_ConsensusAddressCodec = GetBech32ConsensusAddrPrefix A cfg,
          ac_ClientCtx = None\<rparr>)"

definition consumer_AutoCliOpts ::
    "'c config_api \<Rightarrow> 'c \<Rightarrow> 'o module_ifaces \<Rightarrow> nat list \<Rightarrow> 'r AppValue \<Rightarrow> ('o, 'x) AutoCLI" where
  "consumer_AutoCliOpts A cfg I ns app = AutoCliOpts A cfg I ns app"

text \<open>What is registered with the API server, in order; the swagger pages come last and their failure
  is a panic.\<close>

datatype api_routes =
    AuthTxRoutes
  | CometRoutes
  | NodeRoutes
  | ModuleRoutes "string list"
  | SwaggerPages

definition app_RegisterAPIRoutes ::
    "(bool \<Rightarrow> string + unit) \<Rightarrow> bool \<Rightarrow> globals \<Rightarrow> api_routes list \<Rightarrow> api_routes list \<times> (app_fault + unit)" where
  "app_RegisterAPIRoutes RegisterSwaggerAPI swagger g routes =
     (let routes = routes @ [AuthTxRoutes];
          routes = routes @ [CometRoutes];
          routes = routes @ [NodeRoutes];
          routes = routes @ [ModuleRoutes (keys (ModuleBasics g))]
      in (case RegisterSwaggerAPI swagger of
            Inl err \<Rightarrow> (routes, Inl (Panicking err))
          | Inr _ \<Rightarrow> (routes @ [SwaggerPages], Inr ())))"

definition consumer_app_RegisterAPIRoutes ::
    "(bool \<Rightarrow> string + unit) \<Rightarrow> bool \<Rightarrow> globals \<Rightarrow> api_routes list \<Rightarrow> api_routes list \<times> (app_fault + unit)" where
  "consumer_app_RegisterAPIRoutes RegisterSwaggerAPI swagger g routes =
     app_RegisterAPIRoutes RegisterSwaggerAPI swagger g routes"

text \<open>The gRPC query services beside those of the modules: what \<open>router\<close> holds after the call. The service
  of transactions simulates with the application and unpacks with its registry.\<close>

datatype query_service =
    TxQueryService ref
  | NodeQueryService
  | CometQueryService ref

definition app_RegisterTxService :: "'r AppValue \<Rightarrow> query_service list \<Rightarrow> query_service list" where
  "app_RegisterTxService app router = router @ [TxQueryService (interfaceRegistry app)]"

definition app_RegisterNodeService :: "'r AppValue \<Rightarrow> query_service list \<Rightarrow> query_service list" where
  "app_RegisterNodeService app router = router @ [NodeQueryService]"

definition app_RegisterTendermintService :: "'r AppValue \<Rightarrow> query_service list \<Rightarrow> query_service list" where
  "app_RegisterTendermintService app router = router @ [CometQueryService (interfaceRegistry app)]"

definition consumer_app_RegisterTxService :: "'r AppValue \<Rightarrow> query_service list \<Rightarrow> query_service list" where
  "consumer_app_RegisterTxService app router = router @ [TxQueryService (interfaceRegistry app)]"

definition consumer_app_RegisterNodeService :: "'r AppValue \<Rightarrow> query_service list \<Rightarrow> query_service list" where
  "consumer_app_RegisterNodeService app router = router @ [NodeQueryService]"

definition consumer_app_RegisterTendermintService :: "'r AppValue \<Rightarrow> query_service list \<Rightarrow> query_service list" where
  "consumer_app_RegisterTendermintService app router = router @ [CometQueryService (interfaceRegistry app)]"

text \<open>The hooks that the base application calls in a block, and the loading of a height: they hand over to
  the manager of modules and to the base application, of the SDK. \<open>'c\<close> is the context.\<close>

record ('c, 'p, 'b, 'e) manager_api =
  MM_PreBlock :: "'c \<Rightarrow> 'c \<times> (string + 'p)"
  MM_BeginBlock :: "'c \<Rightarrow> 'c \<times> (string + 'b)"
  MM_EndBlock :: "'c \<Rightarrow> 'c \<times> (string + 'e)"

definition app_PreBlocker :: "('c, 'p, 'b, 'e) manager_api \<Rightarrow> 'c \<Rightarrow> 'f \<Rightarrow> 'c \<times> (string + 'p)" where
  "app_PreBlocker M ctx req = MM_PreBlock M ctx"

definition app_BeginBlocker :: "('c, 'p, 'b, 'e) manager_api \<Rightarrow> 'c \<Rightarrow> 'c \<times> (string + 'b)" where
  "app_BeginBlocker M ctx = MM_BeginBlock M ctx"

definition app_EndBlocker :: "('c, 'p, 'b, 'e) manager_api \<Rightarrow> 'c \<Rightarrow> 'c \<times> (string + 'e)" where
  "app_EndBlocker M ctx = MM_EndBlock M ctx"

definition consumer_app_PreBlocker :: "('c, 'p, 'b, 'e) manager_api \<Rightarrow> 'c \<Rightarrow> 'f \<Rightarrow> 'c \<times> (string + 'p)" where
  "consumer_app_PreBlocker M ctx req = MM_PreBlock M ctx"

definition consumer_app_BeginBlocker :: "('c, 'p, 'b, 'e) manager_api \<Rightarrow> 'c \<Rightarrow> 'c \<times> (string + 'b)" where
  "consumer_app_BeginBlocker M ctx = MM_BeginBlock M ctx"

definition consumer_app_EndBlocker :: "('c, 'p, 'b, 'e) manager_api \<Rightarrow> 'c \<Rightarrow> 'c \<times> (string + 'e)" where
  "consumer_app_EndBlocker M ctx = MM_EndBlock M ctx"

section \<open>What the application registers\<close>

lemma length_heap [simp]:
  "length (registries (register_interfaces ms r h)) = length (registries h)"
  "length (aminos (register_interfaces ms r h)) = length (aminos h)"
  "length (registries (register_amino ms r h)) = length (registries h)"
  "length (aminos (register_amino ms r h)) = length (aminos h)"
  by (simp_all add: register_interfaces_def register_amino_def)

lemma registered_interfaces:
  "r < length (registries h) \<Longrightarrow>
   registries (register_interfaces ms r h) ! r = reg_interfaces_update (\<lambda>xs. xs @ ms) (registries h ! r)"
  "registries (register_amino ms r' h) = registries h"
  by (simp_all add: register_interfaces_def register_amino_def)

lemmas register_defs = register_std_def register_basics_def registered_interfaces

text \<open>The codec is made before anybody registers, but it holds the registry by reference: when \<open>New\<close>
  returns, it knows the interfaces of the SDK and of every module of the manager.\<close>

lemma build_app_registry:
  assumes "basic_managers B HasGenesis" and "build_app A B cfg modes new g = (g', Inr app)"
  shows "appCodec app = NewProtoCodec (interfaceRegistry app) \<and>
    new = Inr (av_app app) \<and> memKeys app = [] \<and> txConfig app = textual_TxConfig modes (appCodec app)
      (BankKeeperCoinQuery (k_bank (keepers (av_app app)))) \<and>
    fmdom (ModuleBasics g') = fset_of_list (map fst (MM (av_app app))) \<and>
    (\<exists>reg. registries (g_heap g') ! interfaceRegistry app = reg \<and>
       set (reg_interfaces reg) = insert ''std'' (fst ` set (MM (av_app app))) \<and>
       reg_account reg = GetBech32AccountAddrPrefix A cfg \<and> reg_validator reg = GetBech32ValidatorAddrPrefix A cfg)"
proof -
  obtain a where a: "new = Inr a"
    using assms(2) by (cases new) (auto simp: build_app_def split: prod.splits)
  from assms(2) show ?thesis
    by (clarsimp simp: a build_app_def new_codecs_def NewInterfaceRegistry_def NewLegacyAmino_def Let_def register_defs
        override_basics_def basic_managers.FromManager_dom [OF assms(1)] fset_of_list.rep_eq)
qed

text \<open>The parameters of every module that asks for a subspace are found, and memory stores never.\<close>

lemma getters:
  assumes "App_New A B E cfg modes ns loadLatest g = (g', Inr app)"
  shows "GetMemKey app k = None"
    and "\<forall>m \<in> {''auth'', ''bank'', ''gov'', ''mint'', ''slashing'', ''distribution'', ''staking''}. GetSubspace app m = Some m"
    and "GetKey app k \<noteq> None \<longleftrightarrow> k \<in> set (mountedStores (av_app app))"
proof -
  have new: "New E ns loadLatest = Inr (av_app app)" "memKeys app = []"
    using assms by (auto simp: App_New_def build_app_def split: prod.splits sum.splits)
  then have keys: "app_keys (av_app app) = StoreKeys"
    by (auto simp: New_def or_panic_Inr finish_app_Inr Let_def)
  note facts = New_Inr [OF new(1)]
  show "GetMemKey app k = None" "GetKey app k \<noteq> None \<longleftrightarrow> k \<in> set (mountedStores (av_app app))"
    using new(2) facts keys by (simp_all add: GetMemKey_def GetKey_def store_key_def)
  show "\<forall>m \<in> {''auth'', ''bank'', ''gov'', ''mint'', ''slashing'', ''distribution'', ''staking''}. GetSubspace app m = Some m"
    using facts by (simp add: GetSubspace_def new_keepers_def initParamsKeeper_def Let_def)
qed

section \<open>Modules on the command line and in the default genesis\<close>

lemma lookup_add_modules:
  assumes "distinct (map fst ms)" and "\<forall>m \<in> set ms. HasName I m = Some (fst m)"
  shows "fmlookup (fold (add_module I) ms m0) n =
    (case map_of ms n of
       Some ks \<Rightarrow> if IsAppModule I (n, ks) then Some (n, ks) else fmlookup m0 n
     | None \<Rightarrow> fmlookup m0 n)"
  using assms
proof (induction ms arbitrary: m0)
  case (Cons m ms)
  have "map_of ms (fst m) = None"
    using Cons.prems(1) by (simp add: map_of_eq_None_iff)
  with Cons show ?case
    by (cases m) (auto simp: add_module_def split: option.split)
qed simp

lemma map_of_pick: "distinct (map fst xs) \<Longrightarrow> map_of (pick ns xs) = map_of xs"
  by (rule map_of_inject_set [THEN iffD2]) simp_all

lemma modules_distinct: "distinct (map fst (new_modules ks))" "distinct (map fst (consumer_new_modules ks))"
  by (simp_all add: new_modules_def consumer_new_modules_def ModuleName_def Let_def)

lemma initial_names:
  "distinct (map basic_name initial_basics)" "distinct (map basic_name consumer_initial_basics)"
  "set (map basic_name initial_basics) = set (map fst (new_modules ks))"
  "set (map basic_name consumer_initial_basics) = insert ''slashing'' (set (map fst (consumer_new_modules ks)))"
  "''slashing'' \<notin> set (map fst (consumer_new_modules ks))"
  by (auto simp: initial_basics_def consumer_initial_basics_def new_modules_def consumer_new_modules_def
      ModuleName_def Let_def)

lemma App_New_modules:
  "App_New A B E cfg modes ns loadLatest g = (g', Inr app) \<Longrightarrow> MM (av_app app) = new_modules (keepers (av_app app))"
  "consumer_App_New A B E cfg modes ns loadLatest g = (g', Inr app) \<Longrightarrow>
   MM (av_app app) = consumer_new_modules (keepers (av_app app))"
  using New_Inr [of E ns loadLatest "av_app app"] consumer_New_Inr [of E ns loadLatest "av_app app"]
  by (auto simp: App_New_def consumer_App_New_def build_app_def split: prod.splits sum.splits)

text \<open>The command line offers exactly the modules of the manager that implement the core interface, each under
  its own name, whatever the order in which Go visits the manager's map.\<close>

theorem cli_modules_exact:
  assumes "App_New A B E cfg modes ms loadLatest g = (g', Inr app) \<or>
      consumer_App_New A B E cfg modes ms loadLatest g = (g', Inr app)"
    and "\<forall>m \<in> set (MM (av_app app)). HasName I m = Some (fst m)"
  shows "fmlookup (ac_Modules (AutoCliOpts A cfg I ns app)) n =
    (case map_of (MM (av_app app)) n of
       Some ks \<Rightarrow> if IsAppModule I (n, ks) then Some (n, ks) else None
     | None \<Rightarrow> None)"
proof -
  have d: "distinct (map fst (MM (av_app app)))"
    using assms(1) modules_distinct App_New_modules by metis
  show ?thesis
    using lookup_add_modules [of "pick ns (MM (av_app app))" I fmempty n] assms(2)
    by (simp add: AutoCliOpts_def d map_of_pick [OF d] Let_def split: option.split)
qed

text \<open>After New the default genesis state has a section for exactly those modules of the manager that have a
  genesis. In the provider this was so before; in the consumer the variable ModuleBasics lists the slashing
  module until New runs, so that a default genesis made before has a section no module of the application
  will read.\<close>

theorem default_genesis_modules:
  assumes "basic_managers B HasGenesis"
    and "App_New A B E cfg modes ms loadLatest (startup B initial_basics) = (g, Inr app)"
    and "consumer_App_New A B E' cfg modes ms' loadLatest' (startup B consumer_initial_basics) = (g', Inr app')"
  shows "fmdom (NewDefaultGenesisState B g) = ffilter HasGenesis (fset_of_list (map fst (MM (av_app app)))) \<and>
    fmdom (NewDefaultGenesisState B (startup B initial_basics)) = fmdom (NewDefaultGenesisState B g) \<and>
    fmdom (consumer_NewDefaultGenesisState B g') =
      ffilter HasGenesis (fset_of_list (map fst (MM (av_app app')))) \<and>
    (HasGenesis ''slashing'' \<longrightarrow>
       fmdom (consumer_NewDefaultGenesisState B (startup B consumer_initial_basics)) =
         finsert ''slashing'' (fmdom (consumer_NewDefaultGenesisState B g')) \<and>
       ''slashing'' |\<notin>| fmdom (consumer_NewDefaultGenesisState B g'))"
proof -
  note dom = basic_managers.DefaultGenesis_dom [OF assms(1)] basic_managers.NewBasicManager_dom [OF assms(1)]
  have dp: "fmdom (ModuleBasics g) = fset_of_list (map fst (MM (av_app app)))"
    using build_app_registry [OF assms(1) assms(2) [unfolded App_New_def]] by blast
  have dc: "fmdom (ModuleBasics g') = fset_of_list (map fst (MM (av_app app')))"
    using build_app_registry [OF assms(1) assms(3) [unfolded consumer_App_New_def]] by blast
  have "fset_of_list (map basic_name initial_basics) = fset_of_list (map fst (MM (av_app app)))"
    using initial_names(3) App_New_modules(1) [OF assms(2)] by (metis fset_of_list.rep_eq fset_inject)
  moreover have "fset_of_list (map basic_name consumer_initial_basics) =
      finsert ''slashing'' (fset_of_list (map fst (MM (av_app app'))))"
    using initial_names(4) App_New_modules(2) [OF assms(3)] by (metis fset_of_list.rep_eq fset_inject finsert.rep_eq)
  moreover have "''slashing'' |\<notin>| fset_of_list (map fst (MM (av_app app')))"
    using initial_names(5) App_New_modules(2) [OF assms(3)] by (simp add: fset_of_list.rep_eq)
  ultimately show ?thesis
    by (auto simp: NewDefaultGenesisState_def consumer_NewDefaultGenesisState_def startup_def dom dp dc initial_names(1,2))
qed

section \<open>A reference manager and concrete applications\<close>

definition ref_basics :: "string list \<Rightarrow> basics_api" where
  "ref_basics withGenesis =
     \<lparr>NewBasicManager = (\<lambda>bs. fmap_of_list (map (\<lambda>b. (basic_name b, b)) bs)),
      NewBasicManagerFromManager = (\<lambda>mods custom. fmap_of_list (map (\<lambda>n.
        (n, case fmlookup custom n of Some b \<Rightarrow> b | None \<Rightarrow> AppModuleBasic n)) mods)),
      BasicManager_DefaultGenesis = (\<lambda>bm. fmap_of_list (map (\<lambda>n. (n, ''{}''))
        (filter (\<lambda>n. n \<in> set withGenesis) (keys bm))))\<rparr>"

lemma map_of_keyed: "map_of (map (\<lambda>n. (n, f n)) ns) n = (if n \<in> set ns then Some (f n) else None)"
  by (induction ns) auto

interpretation ref_basic: basic_managers "ref_basics withGenesis" "\<lambda>n. n \<in> set withGenesis"
proof
  show "fmdom (NewBasicManager (ref_basics withGenesis) bs) = fset_of_list (map basic_name bs)" for bs
    by (simp add: ref_basics_def fmdom_fmap_of_list comp_def)
  show "fmdom (NewBasicManagerFromManager (ref_basics withGenesis) mods custom) = fset_of_list mods" for mods custom
    by (simp add: ref_basics_def fmdom_fmap_of_list comp_def)
  show "fmlookup (NewBasicManagerFromManager (ref_basics withGenesis) mods custom) n = Some b"
    if "n \<in> set mods" "fmlookup custom n = Some b" for n mods custom b
    using that by (simp add: ref_basics_def fmlookup_of_list map_of_keyed)
  show "fmdom (BasicManager_DefaultGenesis (ref_basics withGenesis) bm) =
      ffilter (\<lambda>n. n \<in> set withGenesis) (fmdom bm)" for bm
    by (rule fset_eqI) (auto simp: ref_basics_def fmdom_fmap_of_list comp_def fset_of_list_elem keys_def)
qed

definition demo_cfg :: ref_config where
  "demo_cfg = \<lparr>rc_sealed = True, rc_account = (''cosmos'', ''cosmospub''),
     rc_validator = (''cosmosvaloper'', ''cosmosvaloperpub''), rc_consensus = (''cosmosvalcons'', ''cosmosvalconspub'')\<rparr>"

lemma demo_new: "\<exists>app. New demo_app_env [] True = Inr app" "\<exists>app. consumer_New demo_app_env [] True = Inr app"
  by (auto simp: New_def consumer_New_def consumer_finish_app_def or_panic_Inr finish_app_Inr Let_def
      demo_app_env_def NewAnteHandler_def consumer_ante)

lemma demo_App_New:
  "\<exists>g' app. App_New A B demo_app_env cfg modes [] True g = (g', Inr (app :: 'r AppValue))"
  "\<exists>g' app. consumer_App_New A B demo_app_env cfg modes [] True g = (g', Inr (app :: 'r AppValue))"
  using demo_new by (auto simp: App_New_def consumer_App_New_def build_app_def split: prod.split)

definition demo_ifaces :: "unit module_ifaces" where
  "demo_ifaces = \<lparr>HasName = (\<lambda>m. Some (fst m)), IsAppModule = (\<lambda>m. fst m \<noteq> ''genutil''),
     ExtractAutoCLIOptions = (\<lambda>_. ())\<rparr>"

theorem cli_modules_exact_witness:
  "\<exists>app :: unit AppValue. fmlookup (ac_Modules (AutoCliOpts ref_config_api demo_cfg demo_ifaces [3, 1]  app)) ModuleName =
     Some (ModuleName, [the (k_provider (keepers (av_app app))), k_account (keepers (av_app app)),
       k_bank (keepers (av_app app)), k_staking (keepers (av_app app))])"
proof -
  obtain g app where app: "App_New ref_config_api (ref_basics []) demo_app_env demo_cfg [''SIGN_MODE_DIRECT''] [] True
      (startup (ref_basics []) initial_basics) = (g, Inr (app :: unit AppValue))"
    by (metis demo_App_New)
  have "\<forall>m \<in> set (MM (av_app app)). HasName demo_ifaces m = Some (fst m)"
    by (simp add: demo_ifaces_def)
  note lookup = cli_modules_exact [OF disjI1 [OF app] this, where n = ModuleName and ns = "[3, 1]"]
  show ?thesis
    by (intro exI [of _ app] trans [OF lookup])
      (simp add: App_New_modules(1) [OF app] new_modules_def demo_ifaces_def ModuleName_def Let_def)
qed

theorem default_genesis_modules_witness:
  "\<exists>g app. consumer_App_New ref_config_api (ref_basics [''slashing'', ''bank'']) demo_app_env demo_cfg
      [''SIGN_MODE_DIRECT''] [] True (startup (ref_basics [''slashing'', ''bank'']) consumer_initial_basics) =
      (g, Inr (app :: unit AppValue)) \<and>
    fmdom (consumer_NewDefaultGenesisState (ref_basics [''slashing'', ''bank'']) g) = {|''bank''|}"
proof -
  let ?B = "ref_basics [''slashing'', ''bank'']"
  obtain g app where app: "App_New ref_config_api ?B demo_app_env demo_cfg [''SIGN_MODE_DIRECT''] [] True
      (startup ?B initial_basics) = (g, Inr (app :: unit AppValue))"
    by (metis demo_App_New)
  obtain g' app' where app': "consumer_App_New ref_config_api ?B demo_app_env demo_cfg [''SIGN_MODE_DIRECT''] [] True
      (startup ?B consumer_initial_basics) = (g', Inr (app' :: unit AppValue))"
    by (metis demo_App_New)
  have "ffilter (\<lambda>n. n \<in> set [''slashing'', ''bank'']) (fset_of_list (map fst (MM (av_app app')))) = {|''bank''|}"
    by (auto simp: App_New_modules(2) [OF app'] consumer_new_modules_def Let_def)
  with default_genesis_modules [OF ref_basic.basic_managers_axioms app app'] app' show ?thesis
    by auto
qed

end
