(* ===== verification/RootCommand.thy ===== *)
theory RootCommand
  imports AppCommands AppServices
begin

text \<open>
  testapp/cmd/provider/cmd/root.go and main.go, and their twins of the consumer: the root command, the
  client context its commands get, the configuration files it starts from, and main.

  \<^item> A command of the SDK is a constructor of \<open>sdk_command\<close> with the arguments the code passes, less the
    functions newApp and appExport (\<open>AppCommands\<close>).
  \<^item> The state of the process is the record \<open>process\<close>: the SDK's configuration, the files, the variables of
    the packages.
  \<^item> The calls of cobra and of the SDK's client are the record \<open>client_env\<close>, an argument.
\<close>

section \<open>Configuration files\<close>

record WASMConfig =
  QueryGasLimit :: uint64
  LruSize :: uint64

text \<open>The SDK's server configuration with the field the code sets; \<open>'d\<close> is the rest.\<close>

record 'd SrvConfig =
  MinGasPrices :: string
  srv_rest :: 'd

record 'd CustomAppConfig =
  ca_Config :: "'d SrvConfig"
  WASM :: WASMConfig

definition wasm_template :: "string list" where
  "wasm_template =
     [''[wasm]'',
      ''# This is the maximum sdk gas (wasm and storage) that we allow for any x/wasm '' @
        [CHR 0x22] @ ''smart'' @ [CHR 0x22] @ '' queries'',
      ''query_gas_limit = 300000'',
      ''# This is the number of wasm vm instances we keep cached in memory for speed-up'',
      ''# Warning: this is currently unstable and may lead to crashes, best to keep for 0 unless testing locally'',
      ''lru_size = 0'']"

definition app_config :: "string \<Rightarrow> 'd SrvConfig \<Rightarrow> string \<Rightarrow> string \<times> 'd CustomAppConfig" where
  "app_config minGasPrices defaults template =
     (let srvCfg = defaults\<lparr>MinGasPrices := minGasPrices\<rparr>;
          customAppConfig = \<lparr>ca_Config = srvCfg, WASM = \<lparr>QueryGasLimit = 300000, LruSize = 1\<rparr>\<rparr>;
          customAppTemplate = template @ concat (map (\<lambda>l. CHR 0x0A # l) wasm_template)
      in (customAppTemplate, customAppConfig))"

definition initAppConfig :: "'d SrvConfig \<Rightarrow> string \<Rightarrow> string \<times> 'd CustomAppConfig" where
  "initAppConfig defaults template = app_config ''0uatone'' defaults template"

definition consumer_initAppConfig :: "'d SrvConfig \<Rightarrow> string \<Rightarrow> string \<times> 'd CustomAppConfig" where
  "consumer_initAppConfig defaults template =
     app_config ''0stake'' defaults template"

text \<open>The default of \<open>lru_size\<close> in the value and in the text of the file are not the same.\<close>

lemma lru_size_differs:
  "LruSize (WASM (snd (initAppConfig D t))) = 1 \<and>
   (\<exists>t'. fst (initAppConfig D t) = t' @ CHR 0x0A # ''lru_size = 0'')"
  by (simp add: initAppConfig_def app_config_def wasm_template_def Let_def)

definition initCometBFTConfig :: "'m \<Rightarrow> 'm" where
  "initCometBFTConfig defaults = defaults"

definition consumer_initCometBFTConfig :: "'m \<Rightarrow> 'm" where
  "consumer_initCometBFTConfig defaults = defaults"

section \<open>The tree of commands\<close>

datatype start_handler = CustomStart | DefaultStart

datatype 'r sdk_command =
    InitCmd "basic_module gomap" string
  | DebugCmd
  | PruningCmd string
  | ConfixCmd
  | QueryBlockResultsCmd
  | ServerCommands string start_handler
  | StatusCommand
  | GenesisCoreCommand "'r TxConfig" "basic_module gomap" string
  | KeysCommands
  | ValidatorCommand
  | QueryBlockCmd
  | QueryTxsByEventsCmd
  | QueryBlocksCmd
  | QueryTxCmd
  | GetSimulateCmd
  | GetSignCommand
  | GetSignBatchCommand
  | GetMultiSignCommand
  | GetMultiSignBatchCmd
  | GetValidateSignaturesCommand
  | GetBroadcastCommand
  | GetEncodeCommand
  | GetDecodeCommand
  | ModuleTxCommands "basic_module gomap"

text \<open>A command of the SDK with the commands added to it, or one made here: its use, aliases, short text
  and children.\<close>

datatype 'r command =
    SdkCommand "'r sdk_command" "'r command list"
  | Command string "string list" string "'r command list"

fun AddCommand :: "'r command list \<Rightarrow> 'r command \<Rightarrow> 'r command" where
  "AddCommand cs (SdkCommand c subs) = SdkCommand c (subs @ cs)"
| "AddCommand cs (Command use aliases short subs) = Command use aliases short (subs @ cs)"

definition sdk :: "'r sdk_command \<Rightarrow> 'r command" where
  "sdk c = SdkCommand c []"

definition queryCommand :: "'r command" where
  "queryCommand =
     AddCommand
       [sdk ValidatorCommand, sdk QueryBlockCmd, sdk QueryTxsByEventsCmd, sdk QueryBlocksCmd, sdk QueryTxCmd,
        sdk GetSimulateCmd]
       (Command ''query'' [''q''] ''Querying subcommands'' [])"

definition consumer_queryCommand :: "'r command" where
  "consumer_queryCommand = queryCommand"

definition txCommand :: "basic_module gomap \<Rightarrow> 'r command" where
  "txCommand basics =
     AddCommand [sdk (ModuleTxCommands basics)]
       (AddCommand
          [sdk GetSignCommand, sdk GetSignBatchCommand, sdk GetMultiSignCommand, sdk GetMultiSignBatchCmd,
           sdk GetValidateSignaturesCommand, sdk GetBroadcastCommand, sdk GetEncodeCommand, sdk GetDecodeCommand,
           sdk GetSimulateCmd]
          (Command ''tx'' [] ''Transactions subcommands'' []))"

definition consumer_txCommand :: "basic_module gomap \<Rightarrow> 'r command" where
  "consumer_txCommand basics = txCommand basics"

definition genesisCommand ::
    "'r EncodingConfig \<Rightarrow> basic_module gomap \<Rightarrow> string \<Rightarrow> 'r command list \<Rightarrow> 'r command" where
  "genesisCommand encodingConfig basics DefaultNodeHome cmds =
     fold (\<lambda>sub_cmd cmd. AddCommand [sub_cmd] cmd) cmds
       (sdk (GenesisCoreCommand (enc_TxConfig encodingConfig) basics DefaultNodeHome))"

definition consumer_genesisCommand ::
    "'r EncodingConfig \<Rightarrow> basic_module gomap \<Rightarrow> string \<Rightarrow> 'r command list \<Rightarrow> 'r command" where
  "consumer_genesisCommand encodingConfig basics DefaultNodeHome cmds =
     genesisCommand encodingConfig basics DefaultNodeHome cmds"

text \<open>Sealing the configuration, and the commands of the root.\<close>

definition root_commands ::
    "start_handler \<Rightarrow> 'c config_api \<Rightarrow> 'r EncodingConfig \<Rightarrow> basic_module gomap \<Rightarrow> string \<Rightarrow> 'c \<Rightarrow>
     'r command \<Rightarrow> 'c \<times> 'r command" where
  "root_commands handler A encodingConfig basics DefaultNodeHome cfg rootCmd =
     (let cfg = Seal A cfg;
          rootCmd = AddCommand
            [sdk (InitCmd basics DefaultNodeHome), sdk DebugCmd, sdk (PruningCmd DefaultNodeHome),
             sdk ConfixCmd, sdk QueryBlockResultsCmd] rootCmd;
          rootCmd = AddCommand [sdk (ServerCommands DefaultNodeHome handler)] rootCmd;
          rootCmd = AddCommand
            [sdk StatusCommand, genesisCommand encodingConfig basics DefaultNodeHome [],
             txCommand basics, queryCommand, sdk KeysCommands] rootCmd
      in (cfg, rootCmd))"

definition initRootCmd ::
    "'c config_api \<Rightarrow> 'r EncodingConfig \<Rightarrow> basic_module gomap \<Rightarrow> string \<Rightarrow> 'c \<Rightarrow> 'r command \<Rightarrow> 'c \<times> 'r command" where
  "initRootCmd A encodingConfig basics DefaultNodeHome cfg rootCmd =
     root_commands CustomStart A encodingConfig basics DefaultNodeHome cfg rootCmd"

definition consumer_initRootCmd ::
    "'c config_api \<Rightarrow> 'r EncodingConfig \<Rightarrow> basic_module gomap \<Rightarrow> string \<Rightarrow> 'c \<Rightarrow> 'r command \<Rightarrow> 'c \<times> 'r command" where
  "consumer_initRootCmd A encodingConfig basics DefaultNodeHome cfg rootCmd =
     root_commands DefaultStart A encodingConfig basics DefaultNodeHome cfg rootCmd"

section \<open>The client context\<close>

text \<open>\<open>'k\<close> is the context of the command and \<open>'r\<close> what the flags and the client's configuration add: the
  node, the chain, the connection.\<close>

record ('k, 'r) ClientContext =
  cc_Codec :: "proto_codec option"
  cc_InterfaceRegistry :: "ref option"
  cc_LegacyAmino :: "ref option"
  cc_TxConfig :: "'r TxConfig option"
  cc_stdin :: bool
  cc_AccountRetriever :: bool
  cc_HomeDir :: string
  cc_ViperPrefix :: string
  cc_CmdContext :: "'k option"
  cc_Offline :: bool
  cc_connection :: 'r

definition empty_ClientContext :: "'r \<Rightarrow> ('k, 'r) ClientContext" where
  "empty_ClientContext r =
     \<lparr>cc_Codec = None, cc_InterfaceRegistry = None, cc_LegacyAmino = None, cc_TxConfig = None, cc_stdin = False,
      cc_AccountRetriever = False, cc_HomeDir = '''', cc_ViperPrefix = '''', cc_CmdContext = None,
      cc_Offline = False, cc_connection = r\<rparr>"

definition initial_ClientContext :: "'r EncodingConfig \<Rightarrow> string \<Rightarrow> 'r \<Rightarrow> ('k, 'r) ClientContext" where
  "initial_ClientContext encodingConfig DefaultNodeHome r =
     (empty_ClientContext r)
       \<lparr>cc_Codec := Some (enc_Codec encodingConfig),
        cc_InterfaceRegistry := Some (enc_InterfaceRegistry encodingConfig),
        cc_LegacyAmino := Some (enc_Amino encodingConfig),
        cc_stdin := True,
        cc_AccountRetriever := True,
        cc_HomeDir := DefaultNodeHome,
        cc_ViperPrefix := ''''\<rparr>"

text \<open>\<open>'w\<close> is the command that runs, \<open>'m\<close> CometBFT's configuration.\<close>

record ('k, 'r, 'w, 'd, 'm) client_env =
  SetOutputs :: "'w \<Rightarrow> 'w"
  cmd_Context :: "'w \<Rightarrow> 'k"
  ReadPersistentCommandFlags :: "('k, 'r) ClientContext \<Rightarrow> 'w \<Rightarrow> string + ('k, 'r) ClientContext"
  ReadFromClientConfig :: "('k, 'r) ClientContext \<Rightarrow> string + ('k, 'r) ClientContext"
  TxConfigWithOptions :: "'r TxConfig \<Rightarrow> string + unit"
  SetCmdClientContextHandler :: "('k, 'r) ClientContext \<Rightarrow> 'w \<Rightarrow> 'w \<times> (string + unit)"
  InterceptConfigsPreRunHandler :: "'w \<Rightarrow> string \<Rightarrow> 'd CustomAppConfig \<Rightarrow> 'm \<Rightarrow> 'w \<times> (string + unit)"
  DefaultSrvConfig :: "'d SrvConfig"
  DefaultSrvTemplate :: string
  DefaultCMTConfig :: 'm
  DefaultSignModes :: "string list"

text \<open>The handler that runs before every command. \<open>initClientCtx\<close> is the variable it captures; after the
  first assignment the name is that of a variable of the handler.\<close>

definition pre_run ::
    "('d SrvConfig \<Rightarrow> string \<Rightarrow> string \<times> 'd CustomAppConfig) \<Rightarrow> ('k, 'r, 'w, 'd, 'm) client_env \<Rightarrow> 'r EncodingConfig \<Rightarrow>
     ('k, 'r) ClientContext \<Rightarrow> 'w \<Rightarrow> ('k, 'r) ClientContext \<times> 'w \<times> (string + unit)" where
  "pre_run init_config E encodingConfig initClientCtx cmd =
     (let cmd = SetOutputs E cmd;
          captured = initClientCtx\<lparr>cc_CmdContext := Some (cmd_Context E cmd)\<rparr>
      in (case ReadPersistentCommandFlags E captured cmd of
            Inl err \<Rightarrow> (captured, cmd, Inl err)
          | Inr initClientCtx \<Rightarrow>
         (case ReadFromClientConfig E initClientCtx of
            Inl err \<Rightarrow> (captured, cmd, Inl err)
          | Inr initClientCtx \<Rightarrow>
              let txConfigWithTextual = textual_TxConfig (DefaultSignModes E)
                    (NewProtoCodec (enc_InterfaceRegistry encodingConfig))
                    (GRPCCoinQuery (cc_connection initClientCtx));
                  online = (if \<not> cc_Offline initClientCtx
                    then (case TxConfigWithOptions E txConfigWithTextual of
                            Inl err \<Rightarrow> Inl err
                          | Inr _ \<Rightarrow> Inr (initClientCtx\<lparr>cc_TxConfig := Some txConfigWithTextual\<rparr>))
                    else Inr initClientCtx)
              in (case online of
                    Inl err \<Rightarrow> (captured, cmd, Inl err)
                  | Inr initClientCtx \<Rightarrow>
                 (case SetCmdClientContextHandler E initClientCtx cmd of
                    (cmd, Inl err) \<Rightarrow> (captured, cmd, Inl err)
                  | (cmd, Inr _) \<Rightarrow>
                      let (customAppTemplate, customAppConfig) = init_config (DefaultSrvConfig E) (DefaultSrvTemplate E);
                          customCMTConfig = initCometBFTConfig (DefaultCMTConfig E)
                      in (captured, InterceptConfigsPreRunHandler E cmd customAppTemplate customAppConfig customCMTConfig))))))"

definition PersistentPreRunE ::
    "('k, 'r, 'w, 'd, 'm) client_env \<Rightarrow> 'r EncodingConfig \<Rightarrow> ('k, 'r) ClientContext \<Rightarrow> 'w \<Rightarrow>
     ('k, 'r) ClientContext \<times> 'w \<times> (string + unit)" where
  "PersistentPreRunE E encodingConfig initClientCtx cmd = pre_run initAppConfig E encodingConfig initClientCtx cmd"

definition consumer_PersistentPreRunE ::
    "('k, 'r, 'w, 'd, 'm) client_env \<Rightarrow> 'r EncodingConfig \<Rightarrow> ('k, 'r) ClientContext \<Rightarrow> 'w \<Rightarrow>
     ('k, 'r) ClientContext \<times> 'w \<times> (string + unit)" where
  "consumer_PersistentPreRunE E encodingConfig initClientCtx cmd =
     pre_run consumer_initAppConfig E encodingConfig initClientCtx cmd"

section \<open>The root command\<close>

record ('c, 'f) process =
  p_config :: 'c
  p_files :: 'f
  p_globals :: globals
  p_home :: string

record ('k, 'r, 'o) RootCmd =
  root_command :: "'r command"
  root_encoding :: "'r EncodingConfig"
  root_ClientCtx :: "('k, 'r) ClientContext"
  root_AutoCLI :: "('o, ('k, 'r) ClientContext) AutoCLI"

text \<open>What of other packages the function uses: the outside of the applications by their options, the
  type assertions on modules, and the extension of the root command with the modules' commands.\<close>

record ('k, 'r, 'o) root_env =
  outside :: "app_options \<Rightarrow> app_env"
  ifaces :: "'o module_ifaces"
  EnhanceRootCommand :: "('o, ('k, 'r) ClientContext) AutoCLI \<Rightarrow> 'r command \<Rightarrow> string + 'r command"
  no_connection :: 'r
  txSignModes :: "string list"

definition enrichAutoCliOpts ::
    "'c config_api \<Rightarrow> 'c \<Rightarrow> ('o, 'x) AutoCLI \<Rightarrow> 'x \<Rightarrow> string + ('o, 'x) AutoCLI" where
  "enrichAutoCliOpts A cfg autoCliOpts clientCtx =
     (let autoCliOpts = autoCliOpts
            \<lparr>ac_AddressCodec := GetBech32AccountAddrPrefix A cfg,
             ac_ValidatorAddressCodec := GetBech32ValidatorAddrPrefix A cfg,
             ac_ConsensusAddressCodec := GetBech32ConsensusAddrPrefix A cfg\<rparr>;
          autoCliOpts = autoCliOpts\<lparr>ac_ClientCtx := Some clientCtx\<rparr>
      in Inr autoCliOpts)"

definition consumer_enrichAutoCliOpts ::
    "'c config_api \<Rightarrow> 'c \<Rightarrow> ('o, 'x) AutoCLI \<Rightarrow> 'x \<Rightarrow> string + ('o, 'x) AutoCLI" where
  "consumer_enrichAutoCliOpts A cfg autoCliOpts clientCtx = enrichAutoCliOpts A cfg autoCliOpts clientCtx"

text \<open>\<open>ns\<close> are the orders in which Go visits maps. The state is what the steps left behind when one of
  them panics.\<close>

definition new_root_cmd ::
    "('f temp_env \<Rightarrow> string \<Rightarrow> 'f \<Rightarrow> 'f \<times> string) \<Rightarrow>
     ('c config_api \<Rightarrow> basics_api \<Rightarrow> app_env \<Rightarrow> 'c \<Rightarrow> string list \<Rightarrow> nat list \<Rightarrow> bool \<Rightarrow> globals \<Rightarrow>
       globals \<times> (app_fault + 'r AppValue)) \<Rightarrow>
     ('c config_api \<Rightarrow> 'r EncodingConfig \<Rightarrow> basic_module gomap \<Rightarrow> string \<Rightarrow> 'c \<Rightarrow> 'r command \<Rightarrow> 'c \<times> 'r command) \<Rightarrow>
     'c config_api \<Rightarrow> basics_api \<Rightarrow> 'f temp_env \<Rightarrow> ('k, 'r, 'o) root_env \<Rightarrow> nat list \<Rightarrow> nat list \<Rightarrow>
     ('c, 'f) process \<Rightarrow> ('c, 'f) process \<times> (app_fault + ('k, 'r, 'o) RootCmd)" where
  "new_root_cmd temp new init_root A B T R ns ms p =
     (let (f, dir) = temp T (p_home p) (p_files p);
          p = p\<lparr>p_files := f\<rparr>;
          appOpts = \<lparr>flag_home = Some dir, is_viper = False, inv_check_period = 0\<rparr>
      in (case new A B (outside R appOpts) (p_config p) (txSignModes R) ns True (p_globals p) of
            (g, Inl fault) \<Rightarrow> (p\<lparr>p_globals := g\<rparr>, Inl fault)
          | (g, Inr tempApp) \<Rightarrow>
              let p = p\<lparr>p_globals := g\<rparr>;
                  encodingConfig = \<lparr>enc_InterfaceRegistry = interfaceRegistry tempApp, enc_Codec = appCodec tempApp,
                    enc_TxConfig = txConfig tempApp, enc_Amino = legacyAmino tempApp\<rparr>;
                  initClientCtx = initial_ClientContext encodingConfig (p_home p) (no_connection R);
                  rootCmd = Command ''simd'' [] ''simulation app'' [];
                  (cfg, rootCmd) = init_root A encodingConfig (ModuleBasics (p_globals p)) (p_home p)
                    (p_config p) rootCmd;
                  p = p\<lparr>p_config := cfg\<rparr>
              in (case enrichAutoCliOpts A (p_config p) (AutoCliOpts A (p_config p) (ifaces R) ms tempApp) initClientCtx of
                    Inl err \<Rightarrow> (p, Inl (Panicking err))
                  | Inr autoCliOpts \<Rightarrow>
                 (case EnhanceRootCommand R autoCliOpts rootCmd of
                    Inl err \<Rightarrow> (p, Inl (Panicking err))
                  | Inr rootCmd \<Rightarrow>
                      (p, Inr \<lparr>root_command = rootCmd, root_encoding = encodingConfig,
                               root_ClientCtx = initClientCtx, root_AutoCLI = autoCliOpts\<rparr>)))))"

definition NewRootCmd ::
    "'c config_api \<Rightarrow> basics_api \<Rightarrow> 'f temp_env \<Rightarrow> ('k, 'r, 'o) root_env \<Rightarrow> nat list \<Rightarrow> nat list \<Rightarrow>
     ('c, 'f) process \<Rightarrow> ('c, 'f) process \<times> (app_fault + ('k, 'r, 'o) RootCmd)" where
  "NewRootCmd A B T R ns ms p = new_root_cmd tempDir App_New initRootCmd A B T R ns ms p"

definition consumer_NewRootCmd ::
    "'c config_api \<Rightarrow> basics_api \<Rightarrow> 'f temp_env \<Rightarrow> ('k, 'r, 'o) root_env \<Rightarrow> nat list \<Rightarrow> nat list \<Rightarrow>
     ('c, 'f) process \<Rightarrow> ('c, 'f) process \<times> (app_fault + ('k, 'r, 'o) RootCmd)" where
  "consumer_NewRootCmd A B T R ns ms p = 
     new_root_cmd consumer_tempDir consumer_App_New consumer_initRootCmd A B T R ns ms p"

text \<open>How the process ends: a crash with a panic, or an exit code and what is printed to the standard error.
  \<open>Execute\<close> is of the SDK; it runs a command of the root.\<close>

datatype outcome = Crashed app_fault | Exited nat "string list"

definition run_main ::
    "('c config_api \<Rightarrow> string \<Rightarrow> 'c \<Rightarrow> string + 'c) \<Rightarrow>
     (('c, 'f) process \<Rightarrow> ('c, 'f) process \<times> (app_fault + ('k, 'r, 'o) RootCmd)) \<Rightarrow> 'c config_api \<Rightarrow>
     (('k, 'r, 'o) RootCmd \<Rightarrow> ('c, 'f) process \<Rightarrow> ('c, 'f) process \<times> (string + unit)) \<Rightarrow>
     ('c, 'f) process \<Rightarrow> ('c, 'f) process \<times> outcome" where
  "run_main set_prefixes new_root A Execute p =
     (case set_prefixes A ''cosmos'' (p_config p) of
        Inl e \<Rightarrow> (p, Crashed (Panicking e))
      | Inr cfg \<Rightarrow>
          (case new_root (p\<lparr>p_config := cfg\<rparr>) of
             (p, Inl fault) \<Rightarrow> (p, Crashed fault)
           | (p, Inr rootCmd) \<Rightarrow>
               (case Execute rootCmd p of
                  (p, Inl err) \<Rightarrow> (p, Exited 1 [err])
                | (p, Inr _) \<Rightarrow> (p, Exited 0 []))))"

definition provider_main ::
    "'c config_api \<Rightarrow> basics_api \<Rightarrow> 'f temp_env \<Rightarrow> ('k, 'r, 'o) root_env \<Rightarrow> nat list \<Rightarrow> nat list \<Rightarrow>
     (('k, 'r, 'o) RootCmd \<Rightarrow> ('c, 'f) process \<Rightarrow> ('c, 'f) process \<times> (string + unit)) \<Rightarrow>
     ('c, 'f) process \<Rightarrow> ('c, 'f) process \<times> outcome" where
  "provider_main A B T R ns ms Execute p = run_main SetAddressPrefixes (NewRootCmd A B T R ns ms) A Execute p"

definition consumer_main ::
    "'c config_api \<Rightarrow> basics_api \<Rightarrow> 'f temp_env \<Rightarrow> ('k, 'r, 'o) root_env \<Rightarrow> nat list \<Rightarrow> nat list \<Rightarrow>
     (('k, 'r, 'o) RootCmd \<Rightarrow> ('c, 'f) process \<Rightarrow> ('c, 'f) process \<times> (string + unit)) \<Rightarrow>
     ('c, 'f) process \<Rightarrow> ('c, 'f) process \<times> outcome" where
  "consumer_main A B T R ns ms Execute p =
     run_main consumer_SetAddressPrefixes (consumer_NewRootCmd A B T R ns ms) A Execute p"

section \<open>What the binaries do before their command runs\<close>

text \<open>The files after the root command is made are those the making of the temporary directory leaves,
  whatever fails later.\<close>

lemma new_root_cmd_files:
  "p_files (fst (new_root_cmd temp new init_root A B T R ns ms p)) = fst (temp T (p_home p) (p_files p))"
  by (simp add: new_root_cmd_def enrichAutoCliOpts_def Let_def split: prod.split sum.split)

lemma new_root_cmd_Inr:
  "new_root_cmd temp new init_root A B T R ns ms p = (p', Inr root) \<Longrightarrow>
   \<exists>env g app. new A B env (p_config p) (txSignModes R) ns True (p_globals p) = (g, Inr app) \<and>
     p_globals p' = g \<and> p_home p' = p_home p \<and>
     enc_InterfaceRegistry (root_encoding root) = interfaceRegistry app \<and>
     root_ClientCtx root = initial_ClientContext (root_encoding root) (p_home p) (no_connection R) \<and>
     p_config p' = fst (init_root A (root_encoding root) (ModuleBasics g) (p_home p) (p_config p)
       (Command ''simd'' [] ''simulation app'' [])) \<and>
     ac_AddressCodec (root_AutoCLI root) = GetBech32AccountAddrPrefix A (p_config p') \<and>
     ac_ValidatorAddressCodec (root_AutoCLI root) = GetBech32ValidatorAddrPrefix A (p_config p') \<and>
     ac_ConsensusAddressCodec (root_AutoCLI root) = GetBech32ConsensusAddrPrefix A (p_config p')"
  by (auto simp: new_root_cmd_def enrichAutoCliOpts_def Let_def split: prod.splits sum.splits) blast

lemma pre_run_Inr:
  assumes "pre_run init_config E enc c w = (captured, w', Inr ())"
  shows "\<exists>ctx1 ctx2 ctx w1. ReadPersistentCommandFlags E captured (SetOutputs E w) = Inr ctx1 \<and>
    captured = c\<lparr>cc_CmdContext := Some (cmd_Context E (SetOutputs E w))\<rparr> \<and>
    ReadFromClientConfig E ctx1 = Inr ctx2 \<and>
    ctx = (if cc_Offline ctx2 then ctx2
      else ctx2\<lparr>cc_TxConfig := Some (textual_TxConfig (DefaultSignModes E) (NewProtoCodec (enc_InterfaceRegistry enc))
        (GRPCCoinQuery (cc_connection ctx2)))\<rparr>) \<and>
    SetCmdClientContextHandler E ctx (SetOutputs E w) = (w1, Inr ()) \<and>
    InterceptConfigsPreRunHandler E w1 (fst (init_config (DefaultSrvConfig E) (DefaultSrvTemplate E)))
      (snd (init_config (DefaultSrvConfig E) (DefaultSrvTemplate E))) (DefaultCMTConfig E) = (w', Inr ())"
  using assms
  by (auto simp: pre_run_def initCometBFTConfig_def Let_def split: sum.splits prod.splits if_splits)

lemma pre_run_offline:
  assumes "init_config (DefaultSrvConfig E) (DefaultSrvTemplate E) = (template, config)"
    and "ReadPersistentCommandFlags E (c\<lparr>cc_CmdContext := Some (cmd_Context E (SetOutputs E w))\<rparr>) (SetOutputs E w) = Inr c1"
    and "ReadFromClientConfig E c1 = Inr c2" and "cc_Offline c2"
    and "SetCmdClientContextHandler E c2 (SetOutputs E w) = (w1, Inr ())"
  shows "pre_run init_config E enc c w = (c\<lparr>cc_CmdContext := Some (cmd_Context E (SetOutputs E w))\<rparr>,
    InterceptConfigsPreRunHandler E w1 template config (DefaultCMTConfig E))"
  using assms by (simp add: pre_run_def initCometBFTConfig_def)

section \<open>Properties\<close>

text \<open>C34: Making the root command leaves the files as they were when a temporary directory can be made, and
  the directory it names is gone again. When none can be made, it deletes the node's home directory with
  everything in it, before any command has run: the fallback of tempDir is the argument of its RemoveAll.\<close>

theorem NewRootCmd_files:
  assumes "temp_files T paths deletable"
    and "\<And>f' e. MkdirTemp T (p_files p) ''.ics-provider'' = (f', Inl e) \<Longrightarrow> deletable f' (p_home p)"
  shows "paths (p_files (fst (NewRootCmd A B T R ns ms p))) =
    (case MkdirTemp T (p_files p) ''.ics-provider'' of
       (f', Inr d) \<Rightarrow> paths (p_files p)
     | (f', Inl e) \<Rightarrow> {q \<in> paths (p_files p). \<not> below (p_home p) q})"
  using assms(2) temp_files.temp_dir_fails [OF assms(1), of "p_files p" AppName]
    temp_files.temp_dir_gone [OF assms(1), of "p_files p" AppName]
  by (auto simp: NewRootCmd_def new_root_cmd_files tempDir_def AppName_def split: prod.split sum.split)

text \<open>C40: The client context that a command gets has a configuration for transactions exactly when it is online,
  and then one with textual signatures over the connection that the client's configuration names; offline
  it has none, since the context that the root command starts from has none. The server's configuration has
  the minimum gas price of the chain.\<close>

theorem commands_client_context:
  assumes "NewRootCmd A B T R ns ms p = (p', Inr root)"
    and "\<And>c w c'. ReadPersistentCommandFlags E c w = Inr c' \<Longrightarrow> cc_TxConfig c' = cc_TxConfig c"
    and "\<And>c c'. ReadFromClientConfig E c = Inr c' \<Longrightarrow> cc_TxConfig c' = cc_TxConfig c"
    and "PersistentPreRunE E (root_encoding root) (root_ClientCtx root) w = (captured, w', Inr ())"
  shows "\<exists>ctx w1 template config.
    SetCmdClientContextHandler E ctx (SetOutputs E w) = (w1, Inr ()) \<and>
    cc_TxConfig ctx = (if cc_Offline ctx then None
      else Some (textual_TxConfig (DefaultSignModes E) (NewProtoCodec (enc_InterfaceRegistry (root_encoding root)))
        (GRPCCoinQuery (cc_connection ctx)))) \<and>
    InterceptConfigsPreRunHandler E w1 template config (DefaultCMTConfig E) = (w', Inr ()) \<and>
    MinGasPrices (ca_Config config) = ''0uatone''"
proof -
  have none: "cc_TxConfig (root_ClientCtx root) = None"
    using new_root_cmd_Inr [OF assms(1) [unfolded NewRootCmd_def]]
    by (auto simp: initial_ClientContext_def empty_ClientContext_def)
  obtain ctx1 ctx2 ctx w1 where run: "ReadPersistentCommandFlags E captured (SetOutputs E w) = Inr ctx1"
      "captured = (root_ClientCtx root)\<lparr>cc_CmdContext := Some (cmd_Context E (SetOutputs E w))\<rparr>"
      "ReadFromClientConfig E ctx1 = Inr ctx2"
      "ctx = (if cc_Offline ctx2 then ctx2
        else ctx2\<lparr>cc_TxConfig := Some (textual_TxConfig (DefaultSignModes E)
          (NewProtoCodec (enc_InterfaceRegistry (root_encoding root))) (GRPCCoinQuery (cc_connection ctx2)))\<rparr>)"
      "SetCmdClientContextHandler E ctx (SetOutputs E w) = (w1, Inr ())"
      "InterceptConfigsPreRunHandler E w1 (fst (initAppConfig (DefaultSrvConfig E) (DefaultSrvTemplate E)))
        (snd (initAppConfig (DefaultSrvConfig E) (DefaultSrvTemplate E))) (DefaultCMTConfig E) = (w', Inr ())"
    using pre_run_Inr [OF assms(4) [unfolded PersistentPreRunE_def]] by blast
  have "cc_TxConfig ctx2 = None"
    using assms(2) [OF run(1)] assms(3) [OF run(3)] none run(2) by simp
  with run(4) have "cc_TxConfig ctx = (if cc_Offline ctx then None
      else Some (textual_TxConfig (DefaultSignModes E) (NewProtoCodec (enc_InterfaceRegistry (root_encoding root)))
        (GRPCCoinQuery (cc_connection ctx))))"
    by simp
  moreover have "MinGasPrices (ca_Config (snd (initAppConfig (DefaultSrvConfig E) (DefaultSrvTemplate E)))) = ''0uatone''"
    by (simp add: initAppConfig_def app_config_def Let_def)
  ultimately show ?thesis
    using run(5,6) by blast
qed

text \<open>Whenever the binary of the provider ends with an exit code, its command ran in a process whose
  configuration is sealed with the prefixes of cosmos, the command line decodes addresses by these, the
  basic modules are those of the application, and the registry of the commands' codec knows the interfaces
  of the SDK and of every one of these modules, the provider module among them.\<close>

theorem provider_main_setup:
  fixes R :: "('k, 'r, 'o) root_env"
  assumes "sealable_config A sealed account validator consensus"
    and "basic_managers B HasGenesis"
    and "\<not> sealed (p_config p)"
    and "provider_main A B T R ns ms Execute p = (p', Exited code out)"
  shows "\<exists>root q. fst (Execute root q) = p' \<and> (code = 0 \<longleftrightarrow> snd (Execute root q) = Inr ()) \<and>
    sealed (p_config q) \<and> account (p_config q) = (''cosmos'', ''cosmospub'') \<and>
    ac_AddressCodec (root_AutoCLI root) = ''cosmos'' \<and>
    ac_ValidatorAddressCodec (root_AutoCLI root) = ''cosmosvaloper'' \<and>
    ac_ConsensusAddressCodec (root_AutoCLI root) = ''cosmosvalcons'' \<and>
    fmdom (ModuleBasics (p_globals q)) = fset_of_list (map basic_name initial_basics) \<and>
    set (reg_interfaces (registries (g_heap (p_globals q)) ! enc_InterfaceRegistry (root_encoding root))) =
      insert ''std'' (set (map basic_name initial_basics))"
proof -
  obtain cfg where cfg: "SetAddressPrefixes A ''cosmos'' (p_config p) = Inr cfg" "sealed cfg"
      "account cfg = (''cosmos'', ''cosmospub'')" "validator cfg = (''cosmosvaloper'', ''cosmosvaloperpub'')"
      "consensus cfg = (''cosmosvalcons'', ''cosmosvalconspub'')"
    using sealable_config.SetAddressPrefixes_once [OF assms(1,3), of "''cosmos''"] by auto
  define p1 where "p1 = p\<lparr>p_config := cfg\<rparr>"
  have p1: "p_config p1 = cfg"
    by (simp add: p1_def)
  obtain q root where root: "NewRootCmd A B T R ns ms p1 = (q, Inr root)"
      "fst (Execute root q) = p'" "code = 0 \<longleftrightarrow> snd (Execute root q) = Inr ()"
    using assms(4) by (auto simp: provider_main_def run_main_def cfg(1) p1_def split: prod.splits sum.splits)
  obtain env g and app :: "'r AppValue" where new: "App_New A B env cfg (txSignModes R) ns True (p_globals p1) = (g, Inr app)"
      "p_globals q = g" "enc_InterfaceRegistry (root_encoding root) = interfaceRegistry app"
      "p_config q = fst (initRootCmd A (root_encoding root) (ModuleBasics g) (p_home p1) cfg
        (Command ''simd'' [] ''simulation app'' []))"
      "ac_AddressCodec (root_AutoCLI root) = GetBech32AccountAddrPrefix A (p_config q)"
      "ac_ValidatorAddressCodec (root_AutoCLI root) = GetBech32ValidatorAddrPrefix A (p_config q)"
      "ac_ConsensusAddressCodec (root_AutoCLI root) = GetBech32ConsensusAddrPrefix A (p_config q)"
    using new_root_cmd_Inr [OF root(1) [unfolded NewRootCmd_def]] unfolding p1 by blast
  have q: "p_config q = Seal A cfg"
    using new(4) by (simp add: initRootCmd_def root_commands_def Let_def)
  have "set (map fst (MM (av_app app))) = set (map basic_name initial_basics)"
    using App_New_modules(1) [OF new(1)] initial_names(3) by metis
  then have "fst ` set (MM (av_app app)) = set (map basic_name initial_basics)"
    "fset_of_list (map fst (MM (av_app app))) = fset_of_list (map basic_name initial_basics)"
    by (simp, metis fset_of_list.rep_eq fset_inject)
  with build_app_registry [OF assms(2) new(1) [unfolded App_New_def]]
  show ?thesis
    using root(2,3) new(2,3,5-7) cfg(3-5)
    by (intro exI [of _ root] exI [of _ q])
      (auto simp: q sealable_config.Seal_sealed [OF assms(1)] sealable_config.Seal_keeps [OF assms(1)]
        sealable_config.getters [OF assms(1)])
qed

section \<open>A concrete process\<close>

definition demo_root_env :: "(unit, unit, unit) root_env" where
  "demo_root_env =
     \<lparr>outside = (\<lambda>_. demo_app_env), ifaces = demo_ifaces, EnhanceRootCommand = (\<lambda>_ c. Inr c), no_connection = (),
      txSignModes = [''SIGN_MODE_DIRECT'']\<rparr>"

definition demo_process :: "bool \<Rightarrow> (ref_config, bool \<times> string list) process" where
  "demo_process tmp =
     \<lparr>p_config = demo_cfg\<lparr>rc_sealed := False\<rparr>,
      p_files = (tmp, [''/root/.ics-provider/config/ics.toml'', ''/etc/hosts'']),
      p_globals = startup (ref_basics []) initial_basics, p_home = ''/root/.ics-provider''\<rparr>"

definition demo_client :: "bool \<Rightarrow> (unit, unit, (unit, unit) ClientContext option, unit, unit) client_env" where
  "demo_client offline =
     \<lparr>SetOutputs = id, cmd_Context = (\<lambda>_. ()),
      ReadPersistentCommandFlags = (\<lambda>c w. Inr (c\<lparr>cc_Offline := offline\<rparr>)),
      ReadFromClientConfig = Inr, TxConfigWithOptions = (\<lambda>_. Inr ()),
      SetCmdClientContextHandler = (\<lambda>c w. (Some c, Inr ())),
      InterceptConfigsPreRunHandler = (\<lambda>w _ _ _. (w, Inr ())),
      DefaultSrvConfig = \<lparr>MinGasPrices = '''', srv_rest = ()\<rparr>, DefaultSrvTemplate = '''', DefaultCMTConfig = (),
      DefaultSignModes = [''SIGN_MODE_DIRECT'']\<rparr>"

lemma demo_client_simps [simp]:
  "SetOutputs (demo_client b) w = w" "cmd_Context (demo_client b) w = ()"
  "ReadPersistentCommandFlags (demo_client b) c w = Inr (c\<lparr>cc_Offline := b\<rparr>)"
  "ReadFromClientConfig (demo_client b) c = Inr c"
  "SetCmdClientContextHandler (demo_client b) c w = (Some c, Inr ())"
  "InterceptConfigsPreRunHandler (demo_client b) w t d m = (w, Inr ())"
  by (simp_all add: demo_client_def)

theorem NewRootCmd_files_witness:
  "set (snd (p_files (fst (NewRootCmd ref_config_api (ref_basics []) ref_temp demo_root_env [] [] (demo_process False))))) =
     {''/etc/hosts''}"
proof -
  have "MkdirTemp ref_temp (p_files (demo_process False)) ''.ics-provider'' =
      (p_files (demo_process False), Inl ''permission denied'')"
    by (simp add: ref_temp_def demo_process_def)
  with NewRootCmd_files [OF ref_tmp.temp_files_axioms, of "demo_process False" ref_config_api "ref_basics []"
      demo_root_env "[]" "[]"]
  have "set (snd (p_files (fst (NewRootCmd ref_config_api (ref_basics []) ref_temp demo_root_env [] [] (demo_process False))))) =
      {q \<in> set (snd (p_files (demo_process False))). \<not> below (p_home (demo_process False)) q}"
    by simp
  also have "\<dots> = {''/etc/hosts''}"
    by (auto simp: demo_process_def below_take)
  finally show ?thesis .
qed

lemma demo_root: "\<exists>q root. NewRootCmd A (ref_basics []) T demo_root_env [] [] p = (q, Inr root)"
proof -
  obtain f dir where "tempDir T (p_home p) (p_files p) = (f, dir)"
    by force
  moreover obtain g and app :: "unit AppValue" where
    "App_New A (ref_basics []) demo_app_env (p_config p) [''SIGN_MODE_DIRECT''] [] True (p_globals p) = (g, Inr app)"
    by (metis demo_App_New)
  moreover obtain cfg and cmd :: "unit command" where "initRootCmd A \<lparr>enc_InterfaceRegistry = interfaceRegistry app,
      enc_Codec = appCodec app, enc_TxConfig = txConfig app, enc_Amino = legacyAmino app\<rparr> (ModuleBasics g) (p_home p)
      (p_config p) (Command ''simd'' [] ''simulation app'' []) = (cfg, cmd)"
    by force
  ultimately show ?thesis
    by (simp add: NewRootCmd_def new_root_cmd_def demo_root_env_def enrichAutoCliOpts_def Let_def)
qed

theorem commands_client_context_witness:
  "\<exists>(root :: (unit, unit, unit) RootCmd) captured ctx. PersistentPreRunE (demo_client True) (root_encoding root) (root_ClientCtx root) None =
     (captured, Some ctx, Inr ()) \<and> cc_TxConfig ctx = None"
proof -
  obtain q root where root: "NewRootCmd ref_config_api (ref_basics []) ref_temp demo_root_env [] [] (demo_process True) =
      (q, Inr root)"
    using demo_root by blast
  define ctx where "ctx = (root_ClientCtx root)\<lparr>cc_CmdContext := Some (), cc_Offline := True\<rparr>"
  have run: "PersistentPreRunE (demo_client True) (root_encoding root) (root_ClientCtx root) None =
      ((root_ClientCtx root)\<lparr>cc_CmdContext := Some ()\<rparr>, Some ctx, Inr ())" "cc_Offline ctx"
    unfolding PersistentPreRunE_def ctx_def
    by (subst pre_run_offline [OF surjective_pairing], simp_all)
  have keeps: "cc_TxConfig c' = cc_TxConfig c" if "ReadPersistentCommandFlags (demo_client True) c w = Inr c'" for c w c'
    using that by auto
  have "cc_TxConfig c' = cc_TxConfig c" if "ReadFromClientConfig (demo_client True) c = Inr c'" for c c'
    using that by simp
  from commands_client_context [OF root keeps this run(1)] have "cc_TxConfig ctx = None"
    using run(2) by auto
  with run show ?thesis
    by blast
qed

theorem provider_main_setup_witness:
  "\<exists>q. provider_main ref_config_api (ref_basics []) ref_temp demo_root_env [] [] (\<lambda>root q. (q, Inr ())) (demo_process True) =
     (q, Exited 0 []) \<and> fmdom (ModuleBasics (p_globals q)) = fset_of_list (map basic_name initial_basics)"
proof -
  obtain q root where "NewRootCmd ref_config_api (ref_basics []) ref_temp demo_root_env [] []
      ((demo_process True)\<lparr>p_config := demo_cfg\<rparr>) = (q, Inr root)"
    using demo_root by blast
  moreover have "SetAddressPrefixes ref_config_api ''cosmos'' (p_config (demo_process True)) = Inr demo_cfg"
    by (simp add: SetAddressPrefixes_def ref_config_api_def unless_sealed_def demo_process_def demo_cfg_def Let_def)
  ultimately have main: "provider_main ref_config_api (ref_basics []) ref_temp demo_root_env [] [] (\<lambda>root q. (q, Inr ()))
      (demo_process True) = (q, Exited 0 [])"
    by (simp add: provider_main_def run_main_def)
  have "\<not> rc_sealed (p_config (demo_process True))"
    by (simp add: demo_process_def)
  from provider_main_setup [OF ref_cfg.sealable_config_axioms ref_basic.basic_managers_axioms this main] main
  show ?thesis
    by auto
qed

end
