(* ===== verification/WireBounds.thy ===== *)
theory WireBounds
  imports ProviderCodec
begin

text \<open>
  The loops of the generated \<open>Unmarshal\<close> methods on arbitrary bytes, which come from another
  process: how many turns they take, where they can stop, and how much they can build.

  \<^item> \<open>turn\<close> is one turn of a loop that goes on. Every turn advances and stays within the bytes
    (\<open>read_entry_bounds\<close>), so a loop over \<open>n\<close> bytes takes at most \<open>n\<close> turns; the test
    for an index behind the end, which the code makes after the loop, never succeeds.
  \<^item> The locale \<open>weighed_message\<close>: a message whose weight grows with every field by at most the
    bytes of the field. Its interpretations are the two decoders of \<open>ProviderCodec\<close>.
\<close>

section \<open>Turns\<close>

lemma skip_bounds: "skip d = Inr n \<Longrightarrow> 0 < n"
  unfolding skip_def by (drule skip_from_progress) simp

lemma read_field_bounds: "read_field f w d i m = Inr (j, m') \<Longrightarrow> i < j \<and> j \<le> length d"
  by (auto simp: read_field_def split: field.splits sum.splits prod.splits if_splits
      dest!: read_varint_progress read_length_progress)

lemma read_entry_bounds: "read_entry flds d i m = Inr (j, m') \<Longrightarrow> i < j \<and> j \<le> length d"
  by (auto simp: read_entry_def Let_def split: sum.splits prod.splits if_splits option.splits
      dest!: read_varint_progress read_field_bounds skip_bounds)

inductive turn :: "(nat \<Rightarrow> 'm field option) \<Rightarrow> bytes \<Rightarrow> nat \<times> 'm \<Rightarrow> nat \<times> 'm \<Rightarrow> bool"
  for flds d where
  turn_entry: "i < length d \<Longrightarrow> read_entry flds d i m = Inr (j, m') \<Longrightarrow> turn flds d (i, m) (j, m')"

inductive_cases turnE [elim!]: "turn flds d (i, m) (j, m')"

inductive_simps turn_simp: "turn flds d (i, m) (j, m')"


text \<open>A loop that starts within the bytes ends after at most as many turns as bytes are left, with a
  failing entry or exactly at the end of the bytes.\<close>

lemma unmarshal_from_turns:
  assumes "i \<le> length d"
  shows "\<exists>n j m'. n + i \<le> length d \<and> j \<le> length d \<and> (turn flds d ^^ n) (i, m) (j, m') \<and>
     (case unmarshal_from flds d i m of
        Inr r \<Rightarrow> j = length d \<and> r = m'
      | Inl e \<Rightarrow> j < length d \<and> read_entry flds d j m' = Inl e)"
  using assms
proof (induction flds d i m rule: unmarshal_from.induct)
  case (1 flds d i m)
  show ?case
  proof (cases "i < length d")
    case False
    with 1(2) show ?thesis
      by (intro exI [of _ 0] exI [of _ i] exI [of _ m]) (simp add: unmarshal_from.simps)
  next
    case True
    show ?thesis
    proof (cases "read_entry flds d i m")
      case (Inl e)
      with True show ?thesis
        by (intro exI [of _ 0] exI [of _ i] exI [of _ m]) (simp add: unmarshal_from.simps [of flds d i])
    next
      case (Inr p)
      obtain j m1 where p: "read_entry flds d i m = Inr (j, m1)"
        using Inr by (cases p) auto
      note j = read_entry_bounds [OF p]
      obtain n j' m' where IH: "n + j \<le> length d" "j' \<le> length d" "(turn flds d ^^ n) (j, m1) (j', m')"
        "case unmarshal_from flds d j m1 of
           Inr r \<Rightarrow> j' = length d \<and> r = m'
         | Inl e \<Rightarrow> j' < length d \<and> read_entry flds d j' m' = Inl e"
        using 1(1) [OF True p refl] j by auto
      have "(turn flds d ^^ Suc n) (i, m) (j', m')"
        using turn_entry [of i d flds m j m1, OF True p] IH(3) by (rule relpowp_Suc_I2)
      moreover have "unmarshal_from flds d i m = unmarshal_from flds d j m1"
        using True p by (subst unmarshal_from.simps) simp
      ultimately show ?thesis
        using IH(1,2,4) j by (intro exI [of _ "Suc n"] exI [of _ j'] exI [of _ m']) simp
    qed
  qed
qed

lemma turn_deterministic: "turn flds d s t \<Longrightarrow> turn flds d s u \<Longrightarrow> t = u"
  by (auto elim!: turn.cases)

section \<open>What a message can weigh\<close>

locale weighed_message =
  fixes flds :: "nat \<Rightarrow> 'm field option" and weight :: "'m \<Rightarrow> nat"
  assumes string_weight: "flds n = Some (StringField name put) \<Longrightarrow> weight (put s m) \<le> weight m + length s"
    and int32_weight: "flds n = Some (Int32Field name put32) \<Longrightarrow> weight (put32 v m) \<le> weight m"
    and int64_weight: "flds n = Some (Int64Field name put64) \<Longrightarrow> weight (put64 w m) \<le> weight m"
    and message_weight:
      "flds n = Some (MessageField name add) \<Longrightarrow> add bs m = Inr m' \<Longrightarrow> weight m' \<le> weight m + Suc (length bs)"
begin

lemma length_slice: "j \<le> k \<Longrightarrow> k \<le> length d \<Longrightarrow> length (slice d j k) = k - j"
  by (simp add: slice_def)

lemma field_weight:
  assumes "flds n = Some f" and "read_field f w d i m = Inr (k, m')"
  shows "weight m' + i \<le> weight m + k"
proof (cases f)
  case (StringField name put)
  with assms(2) obtain j where j: "read_length d i = Inr (j, k)" "m' = put (slice d j k) m"
    by (auto simp: read_field_def split: sum.splits prod.splits if_splits)
  have "weight m' \<le> weight m + length (slice d j k)"
    unfolding j(2) using assms(1) StringField by (intro string_weight) simp
  then show ?thesis
    using read_length_progress [OF j(1)] length_slice [of j k d] by linarith
next
  case (Int32Field name put)
  with assms(2) obtain v where v: "varint d i = Inr (v, k)" "m' = put v m"
    by (auto simp: read_field_def split: sum.splits prod.splits if_splits)
  have "weight m' \<le> weight m"
    unfolding v(2) using assms(1) Int32Field by (intro int32_weight) simp
  then show ?thesis
    using read_varint_progress [OF v(1)] by simp
next
  case (Int64Field name put)
  with assms(2) obtain v where v: "varint d i = Inr (v, k)" "m' = put v m"
    by (auto simp: read_field_def split: sum.splits prod.splits if_splits)
  have "weight m' \<le> weight m"
    unfolding v(2) using assms(1) Int64Field by (intro int64_weight) simp
  then show ?thesis
    using read_varint_progress [OF v(1)] by simp
next
  case (MessageField name add)
  with assms(2) obtain j where j: "read_length d i = Inr (j, k)" "add (slice d j k) m = Inr m'"
    by (auto simp: read_field_def split: sum.splits prod.splits if_splits)
  have "weight m' \<le> weight m + Suc (length (slice d j k))"
    using message_weight [where add = add, OF _ j(2)] assms(1) MessageField by simp
  then show ?thesis
    using read_length_progress [OF j(1)] length_slice [of j k d] by linarith
qed

lemma entry_weight:
  assumes "read_entry flds d i m = Inr (j, m')"
  shows "weight m' + i \<le> weight m + j"
proof -
  consider n f w k where "flds n = Some f" "read_field f w d k m = Inr (j, m')" "i \<le> k"
    | "m' = m" "i \<le> j"
    using assms
    by (auto simp: read_entry_def Let_def split: sum.splits prod.splits if_splits option.splits
        dest!: read_varint_progress intro: less_imp_le)
  then show ?thesis
  proof cases
    case 1
    with field_weight [OF 1(1,2)] show ?thesis by simp
  qed simp
qed

lemma turns_weight: "(turn flds d ^^ n) (i, m) (j, m') \<Longrightarrow> weight m' + i \<le> weight m + j"
proof (induction n arbitrary: j m')
  case (Suc n)
  then obtain k m1 where "(turn flds d ^^ n) (i, m) (k, m1)" "turn flds d (k, m1) (j, m')"
    by (elim relpowp_Suc_E) (metis surj_pair)
  with Suc.IH [of k m1] entry_weight [of d k m1 j m'] show ?case
    by auto
qed auto

lemma unmarshal_weight:
  assumes "unmarshal flds d m = Inr r"
  shows "weight r \<le> weight m + length d"
proof -
  from unmarshal_from_turns [of 0 d flds m] obtain n where "(turn flds d ^^ n) (0, m) (length d, r)"
    using assms by (auto simp: unmarshal_def)
  from turns_weight [OF this] show ?thesis by simp
qed

end

definition chain_weight :: "ConsumerChain \<Rightarrow> nat" where
  "chain_weight c =
     length (ChainId c) + length (Name c) + length (Version c) + length (ModuleAccountAddress c)"

definition response_weight :: "QueryActiveConsumerChainsResponse \<Rightarrow> nat" where
  "response_weight r = (\<Sum>c\<leftarrow>QAC_ConsumerChains r. Suc (chain_weight c))"

interpretation chain_message: weighed_message ConsumerChain_fields chain_weight
  by unfold_locales (auto simp: ConsumerChain_fields_def chain_weight_def split: if_splits)

lemma chain_weight_bound: "ConsumerChain_Unmarshal bs zero_ConsumerChain = Inr c \<Longrightarrow> chain_weight c \<le> length bs"
  using chain_message.unmarshal_weight [of bs zero_ConsumerChain c]
  by (simp add: ConsumerChain_Unmarshal_def chain_weight_def zero_ConsumerChain_def)

interpretation response_message: weighed_message "ActiveResponse_fields pu" response_weight
proof unfold_locales
  fix n name add bs m m'
  assume "ActiveResponse_fields pu n = Some (MessageField name add)" and "add bs m = Inr m'"
  then show "response_weight m' \<le> response_weight m + Suc (length bs)"
    by (auto simp: ActiveResponse_fields_def add_chain_def response_weight_def dest!: chain_weight_bound
        split: if_splits sum.splits)
qed (auto simp: ActiveResponse_fields_def split: if_splits)

section \<open>Properties\<close>

text \<open>C30: Reading a consumer chain from any bytes ends after at most as many turns of the loop as there are
  bytes, without leaving them: either the loop stops at an entry that can not be read, whose error is the
  result, or it ends exactly at the end of the bytes.\<close>

theorem ConsumerChain_Unmarshal_terminates:
  "\<exists>n i c. n \<le> length d \<and> i \<le> length d \<and> (turn ConsumerChain_fields d ^^ n) (0, m) (i, c) \<and>
     (case ConsumerChain_Unmarshal d m of
        Inr r \<Rightarrow> i = length d \<and> r = c
      | Inl e \<Rightarrow> i < length d \<and> read_entry ConsumerChain_fields d i c = Inl e)"
  using unmarshal_from_turns [of 0 d ConsumerChain_fields m]
  by (simp add: ConsumerChain_Unmarshal_def unmarshal_def)

text \<open>C31: Whatever bytes the provider sends, the response that the multiplexer reads from them is not larger
  than they are: the number of its chains and the lengths of all their strings together are at most the
  number of bytes.\<close>

theorem ActiveResponse_bounded:
  assumes "ActiveResponse_Unmarshal pu d zero_ActiveResponse = Inr r"
  shows "(\<Sum>c\<leftarrow>QAC_ConsumerChains r. Suc (length (ChainId c) + length (Name c) + length (Version c) +
     length (ModuleAccountAddress c))) \<le> length d"
  using response_message.unmarshal_weight [OF assms [unfolded ActiveResponse_Unmarshal_def]]
  by (simp add: response_weight_def chain_weight_def zero_ActiveResponse_def)

theorem ActiveResponse_bounded_witness:
  "\<exists>d r. ActiveResponse_Unmarshal (\<lambda>_ p. Inr p) d zero_ActiveResponse = Inr r \<and>
     length (QAC_ConsumerChains r) = 1 \<and> 1 \<le> length d"
proof -
  define a :: QueryActiveConsumerChainsResponse
    where "a = \<lparr>QAC_ConsumerChains = [demo_chain ''b'' 1], QAC_PageResponse = None\<rparr>"
  have "ActiveResponse_Size a < 2 ^ 63"
    using sov_le_10 [of 1] sov_le_10 [of 2] sov_le_10 [of 20] sov_le_10 [of 5]
      sov_le_10 [of "word_of_nat (ConsumerChain_Size (demo_chain ''b'' 1))"]
    by (simp add: a_def ActiveResponse_Size_def ConsumerChain_Size_def demo_chain_def Let_def)
  then have r: "ActiveResponse_Unmarshal (\<lambda>_ p. Inr p) (ActiveResponse_MarshalToSizedBuffer a [])
      zero_ActiveResponse = Inr a"
    unfolding a_def by (rule ActiveResponse_roundtrip)
  from ActiveResponse_bounded [OF r] show ?thesis
    by (intro exI [of _ "ActiveResponse_MarshalToSizedBuffer a []"] exI [of _ a])
      (use r in \<open>simp add: a_def\<close>)
qed

end
