(* ===== verification/Schema.thy ===== *)
theory Schema
  imports ProviderCodec
begin

text \<open>
  The generated methods of one message, from a description of its fields.

  protoc repeats one pattern for every message: \<open>Size\<close> adds up the fields, \<open>MarshalToSizedBuffer\<close>
  writes them from the last to the first, \<open>Unmarshal\<close> has one case for each. A message is therefore
  described once, as the list of its \<open>wire_field\<close>s in the order of \<open>Size\<close>, and the three methods are
  functions of the description. An embedded message comes with its own \<open>Size\<close> and bytes: one pair when
  it is not nullable, none or one for a pointer, one for every element of a slice.

  Main result: \<open>schema_roundtrip\<close>, what is read back from a marshalled message is what \<open>read_back\<close> of its
  fields gives, so that the round trip of a message is an evaluation of its description.
\<close>

datatype 'm wire_field =
    WString nat string "'m \<Rightarrow> string" "string \<Rightarrow> 'm \<Rightarrow> 'm"
  | WInt32 nat string "'m \<Rightarrow> int32" "int32 \<Rightarrow> 'm \<Rightarrow> 'm"
  | WInt64 nat string "'m \<Rightarrow> int64" "int64 \<Rightarrow> 'm \<Rightarrow> 'm"
  | WMessages nat string "'m \<Rightarrow> (nat \<times> bytes) list" "bytes \<Rightarrow> 'm \<Rightarrow> pb_error + 'm"

fun number :: "'m wire_field \<Rightarrow> nat" where
  "number (WString n _ _ _) = n"
| "number (WInt32 n _ _ _) = n"
| "number (WInt64 n _ _ _) = n"
| "number (WMessages n _ _ _) = n"

section \<open>The generated methods\<close>

fun size_field :: "'m \<Rightarrow> 'm wire_field \<Rightarrow> nat" where
  "size_field m (WString _ _ get _) =
     (let l = length (get m) in if l > 0 then 1 + l + sov (word_of_nat l) else 0)"
| "size_field m (WInt32 _ _ get _) =
     (let v = scast (get m) :: uint64 in if v \<noteq> 0 then 1 + sov v else 0)"
| "size_field m (WInt64 _ _ get _) = (let v = get m in if v \<noteq> 0 then 1 + sov v else 0)"
| "size_field m (WMessages _ _ get _) = (\<Sum>(l, _)\<leftarrow>get m. 1 + l + sov (word_of_nat l))"

fun put_field :: "'m \<Rightarrow> 'm wire_field \<Rightarrow> bytes \<Rightarrow> bytes" where
  "put_field m (WString n _ get _) written = put_string (tag_byte n 2) (get m) written"
| "put_field m (WInt32 n _ get _) written = put_int (tag_byte n 0) (scast (get m)) written"
| "put_field m (WInt64 n _ get _) written = put_int (tag_byte n 0) (get m) written"
| "put_field m (WMessages n _ get _) written =
     foldr (put_message (tag_byte n 2)) (map snd (get m)) written"

fun read_case :: "'m wire_field \<Rightarrow> 'm field" where
  "read_case (WString _ name _ put) = StringField name put"
| "read_case (WInt32 _ name _ put) = Int32Field name put"
| "read_case (WInt64 _ name _ put) = Int64Field name put"
| "read_case (WMessages _ name _ add) = MessageField name add"

definition message_Size :: "'m wire_field list \<Rightarrow> 'm \<Rightarrow> nat" where
  "message_Size fs m = sum_list (map (size_field m) fs)"

definition message_MarshalToSizedBuffer :: "'m wire_field list \<Rightarrow> 'm \<Rightarrow> bytes \<Rightarrow> bytes" where
  "message_MarshalToSizedBuffer fs m written = foldr (put_field m) fs written"

definition message_Marshal :: "'m wire_field list \<Rightarrow> 'm \<Rightarrow> fault + bytes" where
  "message_Marshal fs m = marshal_sized (message_Size fs m) (message_MarshalToSizedBuffer fs m [])"

definition message_Unmarshal :: "'m wire_field list \<Rightarrow> bytes \<Rightarrow> 'm \<Rightarrow> pb_error + 'm" where
  "message_Unmarshal fs dAtA m = unmarshal (map_of (map (\<lambda>f. (number f, read_case f)) fs)) dAtA m"

text \<open>Reading an embedded message that is not nullable goes into the present value.\<close>

definition into :: "('m \<Rightarrow> 'a) \<Rightarrow> ('a \<Rightarrow> 'm \<Rightarrow> 'm) \<Rightarrow> (bytes \<Rightarrow> 'a \<Rightarrow> pb_error + 'a) \<Rightarrow> bytes \<Rightarrow> 'm \<Rightarrow> pb_error + 'm"
  where
  "into get put sub bs m = (case sub bs (get m) of Inl e \<Rightarrow> Inl e | Inr a \<Rightarrow> Inr (put a m))"

section \<open>Sizes\<close>

fun sized :: "'m \<Rightarrow> 'm wire_field \<Rightarrow> bool" where
  "sized m (WMessages _ _ get _) \<longleftrightarrow> list_all (\<lambda>(l, bs). l = length bs) (get m)"
| "sized m _ \<longleftrightarrow> True"

lemma length_put_messages:
  "length (foldr (put_message t) bss w) = (\<Sum>bs\<leftarrow>bss. 1 + length bs + sov (word_of_nat (length bs))) + length w"
  by (induction bss) simp_all

lemma sum_sized:
  "list_all (\<lambda>(l, bs). l = length bs) xs \<Longrightarrow>
     (\<Sum>bs\<leftarrow>map snd xs. 1 + length bs + sov (word_of_nat (length bs))) =
     (\<Sum>(l, _)\<leftarrow>xs. 1 + l + sov (word_of_nat l))"
  by (induction xs) auto

lemma length_put_field: "sized m f \<Longrightarrow> length (put_field m f w) = size_field m f + length w"
proof (cases f)
  case (WMessages n name get add)
  then show "sized m f \<Longrightarrow> length (put_field m f w) = size_field m f + length w"
    using sum_sized [of "get m"] by (simp only: put_field.simps size_field.simps sized.simps length_put_messages)
qed (auto simp: Let_def)

lemma length_message:
  "list_all (sized m) fs \<Longrightarrow> length (message_MarshalToSizedBuffer fs m w) = message_Size fs m + length w"
  unfolding message_MarshalToSizedBuffer_def message_Size_def
  by (induction fs) (simp_all add: length_put_field)

lemma message_Marshal_ok:
  "list_all (sized m) fs \<Longrightarrow> message_Marshal fs m = Inr (message_MarshalToSizedBuffer fs m [])"
  unfolding message_Marshal_def by (rule marshal_sized_exact) (simp add: length_message)

section \<open>Reading back\<close>

fun add_all :: "(bytes \<Rightarrow> 'm \<Rightarrow> pb_error + 'm) \<Rightarrow> bytes list \<Rightarrow> 'm \<Rightarrow> pb_error + 'm" where
  "add_all add [] acc = Inr acc"
| "add_all add (bs # bss) acc = (case add bs acc of Inl e \<Rightarrow> Inl e | Inr acc \<Rightarrow> add_all add bss acc)"

fun read_back :: "'m \<Rightarrow> 'm wire_field \<Rightarrow> 'm \<Rightarrow> pb_error + 'm" where
  "read_back m (WString _ _ get put) acc = Inr (if get m = '''' then acc else put (get m) acc)"
| "read_back m (WInt32 _ _ get put) acc = Inr (if get m = 0 then acc else put (get m) acc)"
| "read_back m (WInt64 _ _ get put) acc = Inr (if get m = 0 then acc else put (get m) acc)"
| "read_back m (WMessages _ _ get add) acc = add_all add (map snd (get m)) acc"

fun read_all :: "'m \<Rightarrow> 'm wire_field list \<Rightarrow> 'm \<Rightarrow> pb_error + 'm" where
  "read_all m [] acc = Inr acc"
| "read_all m (f # fs) acc = (case read_back m f acc of Inl e \<Rightarrow> Inl e | Inr acc \<Rightarrow> read_all m fs acc)"

definition schema_ok :: "'m wire_field list \<Rightarrow> bool" where
  "schema_ok fs \<longleftrightarrow> distinct (map number fs) \<and> list_all (\<lambda>f. 0 < number f \<and> number f < 16) fs"

lemma unmarshal_messages:
  assumes "fs n = Some (MessageField name add)" and "n < 16" and "n \<noteq> 0"
    and "add_all add bss m = Inr m'" and "fits pre (foldr (put_message (tag_byte n 2)) bss rest)"
  shows "\<exists>pre'. unmarshal_at fs pre (foldr (put_message (tag_byte n 2)) bss rest) m = unmarshal_at fs pre' rest m' \<and>
     fits pre' rest"
  using assms(4,5)
proof (induction bss arbitrary: pre m)
  case (Cons bs bss)
  obtain m1 where m1: "add bs m = Inr m1" "add_all add bss m1 = Inr m'"
    using Cons.prems(1) by (auto split: sum.splits)
  have fit: "fits pre (put_message (tag_byte n 2) bs (foldr (put_message (tag_byte n 2)) bss rest))"
    using Cons.prems(2) by simp
  note step = unmarshal_message [where fields = fs, OF assms(1-3) m1(1) fit]
  show ?case
    using Cons.IH [OF m1(2) step(2)] step(1) by simp
qed auto

lemma unmarshal_field:
  assumes "fs (number f) = Some (read_case f)" and "number f < 16" and "number f \<noteq> 0"
    and "read_back m f acc = Inr acc'" and "fits pre (put_field m f rest)"
  shows "\<exists>pre'. unmarshal_at fs pre (put_field m f rest) acc = unmarshal_at fs pre' rest acc' \<and> fits pre' rest"
proof (cases f)
  case (WString n name get put)
  have fit: "fits pre (put_string (tag_byte n 2) (get m) rest)"
    using assms(5) WString by simp
  have f: "fs n = Some (StringField name put)" "n < 16" "n \<noteq> 0"
    using assms(1-3) WString by simp_all
  show ?thesis
    using unmarshal_string [where fields = fs, OF f fit] assms(4) WString by auto
next
  case (WInt32 n name get put)
  have fit: "fits pre (put_int (tag_byte n 0) (scast (get m)) rest)"
    using assms(5) WInt32 by simp
  have f: "fs n = Some (Int32Field name put)" "n < 16" "n \<noteq> 0"
    using assms(1-3) WInt32 by simp_all
  show ?thesis
    using unmarshal_int [where fields = fs and m = acc, OF f(2,3) fit disjI2 [OF conjI [OF f(1) refl]]] assms(4) WInt32
    by (auto simp: ucast_scast_32 scast_zero_iff)
next
  case (WInt64 n name get put)
  have fit: "fits pre (put_int (tag_byte n 0) (get m) rest)"
    using assms(5) WInt64 by simp
  have f: "fs n = Some (Int64Field name put)" "n < 16" "n \<noteq> 0"
    using assms(1-3) WInt64 by simp_all
  show ?thesis
    using unmarshal_int [where fields = fs and m = acc, OF f(2,3) fit disjI1 [OF conjI [OF f(1) refl]]] assms(4) WInt64
    by auto
next
  case (WMessages n name get add)
  have f: "fs n = Some (MessageField name add)" "n < 16" "n \<noteq> 0"
    using assms(1-3) WMessages by simp_all
  have fit: "fits pre (foldr (put_message (tag_byte n 2)) (map snd (get m)) rest)"
    using assms(5) WMessages by simp
  have r: "add_all add (map snd (get m)) acc = Inr acc'"
    using assms(4) WMessages by simp
  show ?thesis
    using unmarshal_messages [where fs = fs, OF f r fit] WMessages by simp
qed

lemma unmarshal_fields:
  assumes "\<And>f. f \<in> set gs \<Longrightarrow> fs (number f) = Some (read_case f) \<and> number f < 16 \<and> number f \<noteq> 0"
    and "read_all m gs acc = Inr r" and "fits pre (foldr (put_field m) gs [])"
  shows "unmarshal_at fs pre (foldr (put_field m) gs []) acc = Inr r"
  using assms
proof (induction gs arbitrary: pre acc)
  case (Cons f gs)
  obtain acc' where r: "read_back m f acc = Inr acc'" "read_all m gs acc' = Inr r"
    using Cons.prems(2) by (auto split: sum.splits)
  have f: "fs (number f) = Some (read_case f)" "number f < 16" "number f \<noteq> 0"
    using Cons.prems(1) [of f] by simp_all
  have fit: "fits pre (put_field m f (foldr (put_field m) gs []))"
    using Cons.prems(3) by simp
  obtain pre' where "unmarshal_at fs pre (put_field m f (foldr (put_field m) gs [])) acc =
      unmarshal_at fs pre' (foldr (put_field m) gs []) acc'" "fits pre' (foldr (put_field m) gs [])"
    using unmarshal_field [where fs = fs, OF f r(1) fit] by blast
  then show ?case
    using Cons.IH [OF _ r(2)] Cons.prems(1) by simp
qed (simp add: unmarshal_end)

theorem schema_roundtrip:
  assumes "schema_ok fs" and "list_all (sized m) fs" and "message_Size fs m < 2 ^ 63"
    and "read_all m fs zero = Inr r"
  shows "message_Unmarshal fs (message_MarshalToSizedBuffer fs m []) zero = Inr r"
proof -
  let ?t = "map_of (map (\<lambda>f. (number f, read_case f)) fs)"
  have "fits [] (foldr (put_field m) fs [])"
    using length_message [OF assms(2), of "[]"] assms(3) by (simp add: fits_def message_MarshalToSizedBuffer_def)
  moreover have "?t (number f) = Some (read_case f) \<and> number f < 16 \<and> number f \<noteq> 0" if "f \<in> set fs" for f
    using assms(1) that
    by (auto simp: schema_ok_def list_all_iff comp_def intro!: map_of_is_SomeI)
  ultimately have "unmarshal_at ?t [] (foldr (put_field m) fs []) zero = Inr r"
    using unmarshal_fields [where fs = ?t and gs = fs, OF _ assms(4)] by blast
  then show ?thesis
    by (simp add: message_Unmarshal_def unmarshal_start message_MarshalToSizedBuffer_def)
qed

end
