(* ===== verification/Messages.thy ===== *)
theory Messages
  imports Schema
begin

text \<open>
  The messages of params.pb.go, genesis.pb.go, query.pb.go and tx.pb.go of modules/provider/types, each
  by the description of its fields. The SDK's \<open>Coin\<close> and page requests and responses are embedded
  messages of other packages: \<open>coin_codec\<close> has their three methods for coins, a page is its
  canonical encoding, which \<open>page_Unmarshal\<close> reads; \<open>coin_wire\<close> and \<open>page_wire\<close> say that reading
  inverts writing, and have instances.

  Main results: the round trip of every message.
\<close>

section \<open>Coins and pages of the SDK\<close>

record coin_codec =
  coin_Size :: "Coin \<Rightarrow> nat"
  coin_Marshal :: "Coin \<Rightarrow> bytes"
  coin_Unmarshal :: "bytes \<Rightarrow> Coin \<Rightarrow> pb_error + Coin"

definition zero_Coin :: Coin where
  "zero_Coin = \<lparr>Denom = '''', Amount = NilInt\<rparr>"

text \<open>A coin without an amount is written as one of amount zero, so it is not read back.\<close>

locale coin_wire =
  fixes cc :: coin_codec
  assumes coin_size: "coin_Size cc c = length (coin_Marshal cc c)"
    and coin_roundtrip:
      "Amount c \<noteq> NilInt \<Longrightarrow> length (coin_Marshal cc c) < 2 ^ 63 \<Longrightarrow> coin_Unmarshal cc (coin_Marshal cc c) zero_Coin = Inr c"

locale page_wire =
  fixes page_Unmarshal :: "bytes \<Rightarrow> page \<Rightarrow> pb_error + page" and canonical :: "bytes \<Rightarrow> bool"
  assumes page_roundtrip: "canonical p \<Longrightarrow> page_Unmarshal p '''' = Inr p"

section \<open>Embedded messages\<close>

definition page_bytes :: "page option \<Rightarrow> (nat \<times> bytes) list" where
  "page_bytes po = (case po of None \<Rightarrow> [] | Some p \<Rightarrow> [(length p, p)])"

text \<open>A pointer that is nil gets an empty page before it is read into.\<close>

definition page_into ::
    "(bytes \<Rightarrow> page \<Rightarrow> pb_error + page) \<Rightarrow> ('m \<Rightarrow> page option) \<Rightarrow> (page option \<Rightarrow> 'm \<Rightarrow> 'm) \<Rightarrow>
     bytes \<Rightarrow> 'm \<Rightarrow> pb_error + 'm" where
  "page_into pu get put bs m =
     (case pu bs (case get m of None \<Rightarrow> '''' | Some p \<Rightarrow> p) of
        Inl e \<Rightarrow> Inl e
      | Inr p \<Rightarrow> Inr (put (Some p) m))"

definition chain_bytes :: "ConsumerChain list \<Rightarrow> (nat \<times> bytes) list" where
  "chain_bytes cs = map (\<lambda>c. (ConsumerChain_Size c, ConsumerChain_MarshalToSizedBuffer c [])) cs"

definition chain_append ::
    "('m \<Rightarrow> ConsumerChain list) \<Rightarrow> (ConsumerChain list \<Rightarrow> 'm \<Rightarrow> 'm) \<Rightarrow> bytes \<Rightarrow> 'm \<Rightarrow> pb_error + 'm" where
  "chain_append get put bs m =
     (case ConsumerChain_Unmarshal bs zero_ConsumerChain of
        Inl e \<Rightarrow> Inl e
      | Inr c \<Rightarrow> Inr (put (get m @ [c]) m))"

section \<open>params.pb.go and genesis.pb.go\<close>

definition Params_schema :: "coin_codec \<Rightarrow> Params wire_field list" where
  "Params_schema cc =
     [WMessages 1 ''FeesPerBlock'' (\<lambda>m. [(coin_Size cc (FeesPerBlock m), coin_Marshal cc (FeesPerBlock m))])
        (into FeesPerBlock (\<lambda>c m. m\<lparr>FeesPerBlock := c\<rparr>) (coin_Unmarshal cc)),
      WInt64 2 ''DowntimeSlashingWindow'' DowntimeSlashingWindow (\<lambda>v m. m\<lparr>DowntimeSlashingWindow := v\<rparr>)]"

definition zero_Params :: Params where
  "zero_Params = \<lparr>FeesPerBlock = zero_Coin, DowntimeSlashingWindow = 0\<rparr>"

definition params_bytes :: "coin_codec \<Rightarrow> Params \<Rightarrow> (nat \<times> bytes) list" where
  "params_bytes cc p =
     [(message_Size (Params_schema cc) p, message_MarshalToSizedBuffer (Params_schema cc) p [])]"

definition GenesisState_schema :: "coin_codec \<Rightarrow> GenesisState wire_field list" where
  "GenesisState_schema cc =
     [WMessages 1 ''Params'' (\<lambda>m. params_bytes cc (GS_Params m))
        (into GS_Params (\<lambda>p m. m\<lparr>GS_Params := p\<rparr>) (message_Unmarshal (Params_schema cc))),
      WMessages 2 ''ConsumerChains'' (\<lambda>m. chain_bytes (GS_ConsumerChains m))
        (chain_append GS_ConsumerChains (\<lambda>cs m. m\<lparr>GS_ConsumerChains := cs\<rparr>))]"

definition zero_GenesisState :: GenesisState where
  "zero_GenesisState = \<lparr>GS_Params = zero_Params, GS_ConsumerChains = []\<rparr>"

section \<open>query.pb.go\<close>

definition QueryParamsRequest_schema :: "QueryParamsRequest wire_field list" where
  "QueryParamsRequest_schema = []"

definition QueryParamsResponse_schema :: "coin_codec \<Rightarrow> QueryParamsResponse wire_field list" where
  "QueryParamsResponse_schema cc =
     [WMessages 1 ''Params'' (\<lambda>m. params_bytes cc (QPR_Params m))
        (into QPR_Params (\<lambda>p m. m\<lparr>QPR_Params := p\<rparr>) (message_Unmarshal (Params_schema cc)))]"

definition QueryConsumerChainsRequest_schema ::
    "(bytes \<Rightarrow> page \<Rightarrow> pb_error + page) \<Rightarrow> QueryConsumerChainsRequest wire_field list" where
  "QueryConsumerChainsRequest_schema pu =
     [WMessages 1 ''Pagination'' (\<lambda>m. page_bytes (QCS_Pagination m))
        (page_into pu QCS_Pagination (\<lambda>p m. m\<lparr>QCS_Pagination := p\<rparr>))]"

definition QueryConsumerChainsResponse_schema ::
    "(bytes \<Rightarrow> page \<Rightarrow> pb_error + page) \<Rightarrow> QueryConsumerChainsResponse wire_field list" where
  "QueryConsumerChainsResponse_schema pu =
     [WMessages 1 ''ConsumerChains'' (\<lambda>m. chain_bytes (QCS_ConsumerChains m))
        (chain_append QCS_ConsumerChains (\<lambda>cs m. m\<lparr>QCS_ConsumerChains := cs\<rparr>)),
      WMessages 2 ''Pagination'' (\<lambda>m. page_bytes (QCS_PageResponse m))
        (page_into pu QCS_PageResponse (\<lambda>p m. m\<lparr>QCS_PageResponse := p\<rparr>))]"

definition QueryConsumerChainRequest_schema :: "QueryConsumerChainRequest wire_field list" where
  "QueryConsumerChainRequest_schema = [WString 1 ''ChainId'' QCR_ChainId (\<lambda>s m. m\<lparr>QCR_ChainId := s\<rparr>)]"

definition QueryConsumerChainResponse_schema :: "QueryConsumerChainResponse wire_field list" where
  "QueryConsumerChainResponse_schema =
     [WMessages 1 ''ConsumerChain'' (\<lambda>m. chain_bytes [QCR_ConsumerChain m])
        (into QCR_ConsumerChain (\<lambda>c m. m\<lparr>QCR_ConsumerChain := c\<rparr>) ConsumerChain_Unmarshal)]"

definition QueryActiveConsumerChainsRequest_schema ::
    "(bytes \<Rightarrow> page \<Rightarrow> pb_error + page) \<Rightarrow> QueryActiveConsumerChainsRequest wire_field list" where
  "QueryActiveConsumerChainsRequest_schema pu =
     [WMessages 1 ''Pagination'' (\<lambda>m. page_bytes (QAC_Pagination m))
        (page_into pu QAC_Pagination (\<lambda>p m. m\<lparr>QAC_Pagination := p\<rparr>))]"

definition QueryActiveConsumerChainsResponse_schema ::
    "(bytes \<Rightarrow> page \<Rightarrow> pb_error + page) \<Rightarrow> QueryActiveConsumerChainsResponse wire_field list" where
  "QueryActiveConsumerChainsResponse_schema pu =
     [WMessages 1 ''ConsumerChains'' (\<lambda>m. chain_bytes (QAC_ConsumerChains m))
        (chain_append QAC_ConsumerChains (\<lambda>cs m. m\<lparr>QAC_ConsumerChains := cs\<rparr>)),
      WMessages 2 ''Pagination'' (\<lambda>m. page_bytes (QAC_PageResponse m))
        (page_into pu QAC_PageResponse (\<lambda>p m. m\<lparr>QAC_PageResponse := p\<rparr>))]"

section \<open>tx.pb.go\<close>

definition MsgUpdateParams_schema :: "coin_codec \<Rightarrow> MsgUpdateParams wire_field list" where
  "MsgUpdateParams_schema cc =
     [WString 1 ''Authority'' UP_Authority (\<lambda>s m. m\<lparr>UP_Authority := s\<rparr>),
      WMessages 2 ''Params'' (\<lambda>m. params_bytes cc (UP_Params m))
        (into UP_Params (\<lambda>p m. m\<lparr>UP_Params := p\<rparr>) (message_Unmarshal (Params_schema cc)))]"

definition MsgAddConsumer_schema :: "MsgAddConsumer wire_field list" where
  "MsgAddConsumer_schema =
     [WString 1 ''Authority'' AC_Authority (\<lambda>s m. m\<lparr>AC_Authority := s\<rparr>),
      WString 2 ''Name'' AC_Name (\<lambda>s m. m\<lparr>AC_Name := s\<rparr>),
      WString 3 ''ChainId'' AC_ChainId (\<lambda>s m. m\<lparr>AC_ChainId := s\<rparr>),
      WString 4 ''Version'' AC_Version (\<lambda>s m. m\<lparr>AC_Version := s\<rparr>),
      WInt64 5 ''BlockHeight'' AC_BlockHeight (\<lambda>v m. m\<lparr>AC_BlockHeight := v\<rparr>)]"

definition MsgAddConsumerResponse_schema :: "MsgAddConsumerResponse wire_field list" where
  "MsgAddConsumerResponse_schema =
     [WString 1 ''ModuleAccountAddress'' AR_ModuleAccountAddress (\<lambda>s m. m\<lparr>AR_ModuleAccountAddress := s\<rparr>)]"

definition MsgSunsetConsumer_schema :: "MsgSunsetConsumer wire_field list" where
  "MsgSunsetConsumer_schema =
     [WString 1 ''Authority'' SC_Authority (\<lambda>s m. m\<lparr>SC_Authority := s\<rparr>),
      WString 2 ''ChainId'' SC_ChainId (\<lambda>s m. m\<lparr>SC_ChainId := s\<rparr>),
      WInt64 3 ''BlockHeight'' SC_BlockHeight (\<lambda>v m. m\<lparr>SC_BlockHeight := v\<rparr>)]"

definition MsgUpgradeConsumer_schema :: "MsgUpgradeConsumer wire_field list" where
  "MsgUpgradeConsumer_schema =
     [WString 1 ''Authority'' UC_Authority (\<lambda>s m. m\<lparr>UC_Authority := s\<rparr>),
      WString 2 ''ChainId'' UC_ChainId (\<lambda>s m. m\<lparr>UC_ChainId := s\<rparr>),
      WString 3 ''Version'' UC_Version (\<lambda>s m. m\<lparr>UC_Version := s\<rparr>),
      WInt64 4 ''BlockHeight'' UC_BlockHeight (\<lambda>v m. m\<lparr>UC_BlockHeight := v\<rparr>)]"

text \<open>\<open>MsgUpdateParamsResponse\<close>, \<open>MsgSunsetConsumerResponse\<close> and \<open>MsgUpgradeConsumerResponse\<close>
  have no fields.\<close>

definition empty_schema :: "unit wire_field list" where
  "empty_schema = []"

definition zero_MsgUpdateParams :: MsgUpdateParams where
  "zero_MsgUpdateParams = \<lparr>UP_Authority = '''', UP_Params = zero_Params\<rparr>"

definition zero_MsgAddConsumer :: MsgAddConsumer where
  "zero_MsgAddConsumer =
     \<lparr>AC_Authority = '''', AC_ChainId = '''', AC_Name = '''', AC_Version = '''', AC_BlockHeight = 0\<rparr>"

definition zero_MsgSunsetConsumer :: MsgSunsetConsumer where
  "zero_MsgSunsetConsumer = \<lparr>SC_Authority = '''', SC_ChainId = '''', SC_BlockHeight = 0\<rparr>"

definition zero_MsgUpgradeConsumer :: MsgUpgradeConsumer where
  "zero_MsgUpgradeConsumer = \<lparr>UC_Authority = '''', UC_ChainId = '''', UC_Version = '''', UC_BlockHeight = 0\<rparr>"

section \<open>Round trips\<close>

text \<open>\<open>encodes fs zero m\<close>: marshalling \<open>m\<close> succeeds with as many bytes as \<open>Size\<close> says, and reading them into
  \<open>zero\<close> gives \<open>m\<close> back.\<close>

definition encodes :: "'m wire_field list \<Rightarrow> 'm \<Rightarrow> 'm \<Rightarrow> bool" where
  "encodes fs zero m \<longleftrightarrow>
     (\<exists>bs. message_Marshal fs m = Inr bs \<and> bs = message_MarshalToSizedBuffer fs m [] \<and>
        length bs = message_Size fs m \<and> message_Unmarshal fs bs zero = Inr m)"

lemma encodesI:
  assumes "schema_ok fs" and "list_all (sized m) fs" and "message_Size fs m < 2 ^ 63"
    and "read_all m fs zero = Inr m"
  shows "encodes fs zero m"
  unfolding encodes_def using message_Marshal_ok [OF assms(2)] length_message [OF assms(2), of "[]"]
    schema_roundtrip [OF assms] by simp

lemma encodes_Unmarshal:
  "encodes fs zero m \<Longrightarrow> message_Unmarshal fs (message_MarshalToSizedBuffer fs m []) zero = Inr m"
  by (auto simp: encodes_def)

lemma encodes_length: "encodes fs zero m \<Longrightarrow> length (message_MarshalToSizedBuffer fs m []) = message_Size fs m"
  by (auto simp: encodes_def)

lemma sized_chain_bytes: "list_all (\<lambda>(l, bs). l = length bs) (chain_bytes cs)"
  by (simp add: chain_bytes_def list_all_iff length_ConsumerChain)

lemma sized_page_bytes: "list_all (\<lambda>(l, bs). l = length bs) (page_bytes p)"
  by (simp add: page_bytes_def split: option.split)

lemma add_chains:
  assumes "\<And>m cs. get (put cs m) = cs"
    and "\<And>m cs ds. put cs (put ds m) = put cs m" and "\<And>m. put (get m) m = m"
    and "list_all (\<lambda>c. ConsumerChain_Size c < 2 ^ 63) cs"
  shows "add_all (chain_append get put) (map snd (chain_bytes cs)) m = Inr (put (get m @ cs) m)"
  using assms(4)
proof (induction cs arbitrary: m)
  case (Cons c cs)
  then have "ConsumerChain_Unmarshal (ConsumerChain_MarshalToSizedBuffer c []) zero_ConsumerChain = Inr c"
    by (simp add: ConsumerChain_roundtrip)
  with Cons show ?case
    using assms(1-3) by (simp add: chain_bytes_def chain_append_def)
qed (simp add: chain_bytes_def assms(3))


lemma chain_sizes: "list_all (\<lambda>c. ConsumerChain_Size c \<le> (\<Sum>(l, _)\<leftarrow>chain_bytes cs. 1 + l + sov (word_of_nat l))) cs"
  by (induction cs) (auto simp: chain_bytes_def list_all_iff intro: le_trans)

lemma chains_below:
  "(\<Sum>(l, _)\<leftarrow>chain_bytes cs. 1 + l + sov (word_of_nat l)) < n \<Longrightarrow> list_all (\<lambda>c. ConsumerChain_Size c < n) cs"
  using chain_sizes [of cs] by (auto simp: list_all_iff intro: le_less_trans)

lemma add_chain_one:
  assumes "ConsumerChain_Size c < 2 ^ 63" and "get m = zero_ConsumerChain"
  shows "add_all (into get put ConsumerChain_Unmarshal) (map snd (chain_bytes [c])) m = Inr (put c m)"
  using ConsumerChain_roundtrip [OF assms(1)] by (simp add: chain_bytes_def into_def assms(2))

lemma AddConsumer_encodes:
  "message_Size MsgAddConsumer_schema m < 2 ^ 63 \<Longrightarrow> encodes MsgAddConsumer_schema zero_MsgAddConsumer m"
  by (rule encodesI) (simp_all add: MsgAddConsumer_schema_def schema_ok_def zero_MsgAddConsumer_def)

lemma AddConsumerResponse_encodes:
  "message_Size MsgAddConsumerResponse_schema m < 2 ^ 63 \<Longrightarrow>
     encodes MsgAddConsumerResponse_schema \<lparr>AR_ModuleAccountAddress = ''''\<rparr> m"
  by (rule encodesI) (simp_all add: MsgAddConsumerResponse_schema_def schema_ok_def)

lemma SunsetConsumer_encodes:
  "message_Size MsgSunsetConsumer_schema m < 2 ^ 63 \<Longrightarrow> encodes MsgSunsetConsumer_schema zero_MsgSunsetConsumer m"
  by (rule encodesI) (simp_all add: MsgSunsetConsumer_schema_def schema_ok_def zero_MsgSunsetConsumer_def)

lemma UpgradeConsumer_encodes:
  "message_Size MsgUpgradeConsumer_schema m < 2 ^ 63 \<Longrightarrow> encodes MsgUpgradeConsumer_schema zero_MsgUpgradeConsumer m"
  by (rule encodesI) (simp_all add: MsgUpgradeConsumer_schema_def schema_ok_def zero_MsgUpgradeConsumer_def)

lemma empty_encodes: "encodes empty_schema () ()"
  by (rule encodesI) (simp_all add: empty_schema_def schema_ok_def message_Size_def)

lemma QueryParamsRequest_encodes: "encodes QueryParamsRequest_schema QueryParamsRequest QueryParamsRequest"
  by (rule encodesI) (simp_all add: QueryParamsRequest_schema_def schema_ok_def message_Size_def)

lemma QueryConsumerChainRequest_encodes:
  "message_Size QueryConsumerChainRequest_schema m < 2 ^ 63 \<Longrightarrow>
     encodes QueryConsumerChainRequest_schema \<lparr>QCR_ChainId = ''''\<rparr> m"
  by (rule encodesI) (simp_all add: QueryConsumerChainRequest_schema_def schema_ok_def)

lemma QueryConsumerChainResponse_encodes:
  assumes "message_Size QueryConsumerChainResponse_schema m < 2 ^ 63"
  shows "encodes QueryConsumerChainResponse_schema \<lparr>QCR_ConsumerChain = zero_ConsumerChain\<rparr> m"
proof (rule encodesI [OF _ _ assms])
  have "ConsumerChain_Size (QCR_ConsumerChain m) < 2 ^ 63"
    using assms by (simp add: message_Size_def QueryConsumerChainResponse_schema_def chain_bytes_def)
  then show "read_all m QueryConsumerChainResponse_schema \<lparr>QCR_ConsumerChain = zero_ConsumerChain\<rparr> = Inr m"
    by (simp add: QueryConsumerChainResponse_schema_def add_chain_one [simplified])
qed (simp_all add: QueryConsumerChainResponse_schema_def schema_ok_def sized_chain_bytes)

lemma QueryConsumerChainsResponse_encodes:
  assumes "message_Size (QueryConsumerChainsResponse_schema pu) m < 2 ^ 63" and "QCS_PageResponse m = None"
  shows "encodes (QueryConsumerChainsResponse_schema pu) \<lparr>QCS_ConsumerChains = [], QCS_PageResponse = None\<rparr> m"
proof (rule encodesI [OF _ _ assms(1)])
  have "list_all (\<lambda>c. ConsumerChain_Size c < 2 ^ 63) (QCS_ConsumerChains m)"
    using assms(1) by (intro chains_below) (simp add: message_Size_def QueryConsumerChainsResponse_schema_def)
  then show "read_all m (QueryConsumerChainsResponse_schema pu) \<lparr>QCS_ConsumerChains = [], QCS_PageResponse = None\<rparr> = Inr m"
    using assms(2) by (simp add: QueryConsumerChainsResponse_schema_def add_chains page_bytes_def)
qed (simp_all add: QueryConsumerChainsResponse_schema_def schema_ok_def sized_chain_bytes sized_page_bytes)

lemma QueryActiveConsumerChainsResponse_encodes:
  assumes "message_Size (QueryActiveConsumerChainsResponse_schema pu) m < 2 ^ 63" and "QAC_PageResponse m = None"
  shows "encodes (QueryActiveConsumerChainsResponse_schema pu) zero_ActiveResponse m"
proof (rule encodesI [OF _ _ assms(1)])
  have "list_all (\<lambda>c. ConsumerChain_Size c < 2 ^ 63) (QAC_ConsumerChains m)"
    using assms(1) by (intro chains_below) (simp add: message_Size_def QueryActiveConsumerChainsResponse_schema_def)
  then show "read_all m (QueryActiveConsumerChainsResponse_schema pu) zero_ActiveResponse = Inr m"
    using assms(2)
    by (simp add: QueryActiveConsumerChainsResponse_schema_def add_chains page_bytes_def zero_ActiveResponse_def)
qed (simp_all add: QueryActiveConsumerChainsResponse_schema_def schema_ok_def sized_chain_bytes sized_page_bytes)

context page_wire
begin

lemma QueryConsumerChainsRequest_encodes:
  assumes "message_Size (QueryConsumerChainsRequest_schema page_Unmarshal) m < 2 ^ 63"
    and "pred_option canonical (QCS_Pagination m)"
  shows "encodes (QueryConsumerChainsRequest_schema page_Unmarshal) \<lparr>QCS_Pagination = None\<rparr> m"
proof (rule encodesI [OF _ _ assms(1)])
  show "read_all m (QueryConsumerChainsRequest_schema page_Unmarshal) \<lparr>QCS_Pagination = None\<rparr> = Inr m"
    using assms(2) page_roundtrip
    by (cases "QCS_Pagination m") (simp_all add: QueryConsumerChainsRequest_schema_def page_bytes_def page_into_def)
qed (simp_all add: QueryConsumerChainsRequest_schema_def schema_ok_def sized_page_bytes)

lemma QueryActiveConsumerChainsRequest_encodes:
  assumes "message_Size (QueryActiveConsumerChainsRequest_schema page_Unmarshal) m < 2 ^ 63"
    and "pred_option canonical (QAC_Pagination m)"
  shows "encodes (QueryActiveConsumerChainsRequest_schema page_Unmarshal) \<lparr>QAC_Pagination = None\<rparr> m"
proof (rule encodesI [OF _ _ assms(1)])
  show "read_all m (QueryActiveConsumerChainsRequest_schema page_Unmarshal) \<lparr>QAC_Pagination = None\<rparr> = Inr m"
    using assms(2) page_roundtrip
    by (cases "QAC_Pagination m")
      (simp_all add: QueryActiveConsumerChainsRequest_schema_def page_bytes_def page_into_def)
qed (simp_all add: QueryActiveConsumerChainsRequest_schema_def schema_ok_def sized_page_bytes)

end

context coin_wire
begin

lemma Params_encodes:
  assumes "message_Size (Params_schema cc) p < 2 ^ 63" and "Amount (FeesPerBlock p) \<noteq> NilInt"
  shows "encodes (Params_schema cc) zero_Params p"
proof (rule encodesI [OF _ _ assms(1)])
  have "length (coin_Marshal cc (FeesPerBlock p)) < 2 ^ 63"
    using assms(1) by (simp add: message_Size_def Params_schema_def coin_size)
  then show "read_all p (Params_schema cc) zero_Params = Inr p"
    using coin_roundtrip [OF assms(2)] by (simp add: Params_schema_def zero_Params_def into_def)
qed (simp_all add: Params_schema_def schema_ok_def coin_size)

lemma sized_params_bytes: "list_all (\<lambda>(l, bs). l = length bs) (params_bytes cc p)"
  by (simp add: params_bytes_def) (rule length_message [of p "Params_schema cc" "[]", simplified, symmetric],
    simp add: Params_schema_def coin_size)

lemma into_params:
  assumes "(\<Sum>(l, _)\<leftarrow>params_bytes cc p. 1 + l + sov (word_of_nat l)) < 2 ^ 63"
    and "Amount (FeesPerBlock p) \<noteq> NilInt" and "get m = zero_Params"
  shows "add_all (into get put (message_Unmarshal (Params_schema cc))) (map snd (params_bytes cc p)) m = Inr (put p m)"
proof -
  have "message_Size (Params_schema cc) p < 2 ^ 63"
    using assms(1) by (simp add: params_bytes_def)
  then have "encodes (Params_schema cc) zero_Params p"
    using assms(2) by (rule Params_encodes)
  then show ?thesis
    by (simp add: params_bytes_def into_def assms(3) encodes_Unmarshal)
qed

lemma UpdateParams_encodes:
  assumes "message_Size (MsgUpdateParams_schema cc) m < 2 ^ 63" and "Amount (FeesPerBlock (UP_Params m)) \<noteq> NilInt"
  shows "encodes (MsgUpdateParams_schema cc) zero_MsgUpdateParams m"
proof (rule encodesI [OF _ _ assms(1)])
  have "(\<Sum>(l, _)\<leftarrow>params_bytes cc (UP_Params m). 1 + l + sov (word_of_nat l)) < 2 ^ 63"
    using assms(1) by (simp add: message_Size_def MsgUpdateParams_schema_def)
  note p = into_params [OF this assms(2)]
  show "read_all m (MsgUpdateParams_schema cc) zero_MsgUpdateParams = Inr m"
    by (simp add: MsgUpdateParams_schema_def zero_MsgUpdateParams_def p)
qed (simp_all add: MsgUpdateParams_schema_def schema_ok_def sized_params_bytes)

lemma QueryParamsResponse_encodes:
  assumes "message_Size (QueryParamsResponse_schema cc) m < 2 ^ 63" and "Amount (FeesPerBlock (QPR_Params m)) \<noteq> NilInt"
  shows "encodes (QueryParamsResponse_schema cc) \<lparr>QPR_Params = zero_Params\<rparr> m"
proof (rule encodesI [OF _ _ assms(1)])
  have "(\<Sum>(l, _)\<leftarrow>params_bytes cc (QPR_Params m). 1 + l + sov (word_of_nat l)) < 2 ^ 63"
    using assms(1) by (simp add: message_Size_def QueryParamsResponse_schema_def)
  note p = into_params [OF this assms(2)]
  show "read_all m (QueryParamsResponse_schema cc) \<lparr>QPR_Params = zero_Params\<rparr> = Inr m"
    by (simp add: QueryParamsResponse_schema_def p)
qed (simp_all add: QueryParamsResponse_schema_def schema_ok_def sized_params_bytes)

lemma GenesisState_encodes:
  assumes "message_Size (GenesisState_schema cc) m < 2 ^ 63" and "Amount (FeesPerBlock (GS_Params m)) \<noteq> NilInt"
  shows "encodes (GenesisState_schema cc) zero_GenesisState m"
proof (rule encodesI [OF _ _ assms(1)])
  have "(\<Sum>(l, _)\<leftarrow>params_bytes cc (GS_Params m). 1 + l + sov (word_of_nat l)) < 2 ^ 63"
    using assms(1) by (simp add: message_Size_def GenesisState_schema_def)
  note p = into_params [OF this assms(2)]
  have "list_all (\<lambda>c. ConsumerChain_Size c < 2 ^ 63) (GS_ConsumerChains m)"
    using assms(1) by (intro chains_below) (simp add: message_Size_def GenesisState_schema_def)
  then show "read_all m (GenesisState_schema cc) zero_GenesisState = Inr m"
    by (simp add: GenesisState_schema_def zero_GenesisState_def add_chains p)
qed (simp_all add: GenesisState_schema_def schema_ok_def sized_params_bytes sized_chain_bytes)

end

section \<open>A reference codec for coins\<close>

text \<open>The amount is a text of its sign and its value in unary.\<close>

definition ref_text :: "math_int \<Rightarrow> string" where
  "ref_text x =
     (case x of
        NilInt \<Rightarrow> ''''
      | MkInt a \<Rightarrow> (if a < 0 then CHR ''-'' else CHR ''+'') # replicate (nat \<bar>a\<bar>) (CHR ''1''))"

fun ref_parse :: "string \<Rightarrow> math_int" where
  "ref_parse [] = NilInt"
| "ref_parse (c # s) = MkInt (if c = CHR ''-'' then - int (length s) else int (length s))"

lemma ref_parse_text: "ref_parse (ref_text x) = x"
  by (cases x) (auto simp: ref_text_def)

definition ref_coin_schema :: "Coin wire_field list" where
  "ref_coin_schema =
     [WString 1 ''Denom'' Denom (\<lambda>s m. m\<lparr>Denom := s\<rparr>),
      WString 2 ''Amount'' (\<lambda>m. ref_text (Amount m)) (\<lambda>s m. m\<lparr>Amount := ref_parse s\<rparr>)]"

definition ref_coin_codec :: coin_codec where
  "ref_coin_codec =
     \<lparr>coin_Size = message_Size ref_coin_schema,
      coin_Marshal = (\<lambda>c. message_MarshalToSizedBuffer ref_coin_schema c []),
      coin_Unmarshal = message_Unmarshal ref_coin_schema\<rparr>"

lemma ref_coin_length:
  "length (message_MarshalToSizedBuffer ref_coin_schema c []) = message_Size ref_coin_schema c"
  using length_message [of c ref_coin_schema "[]"] by (simp add: ref_coin_schema_def)

lemma ref_text_empty: "ref_text x = '''' \<longleftrightarrow> x = NilInt"
  by (cases x) (simp_all add: ref_text_def)

lemma ref_coin_roundtrip:
  assumes "message_Size ref_coin_schema c < 2 ^ 63"
  shows "message_Unmarshal ref_coin_schema (message_MarshalToSizedBuffer ref_coin_schema c []) zero_Coin = Inr c"
  by (rule schema_roundtrip [OF _ _ assms])
    (simp_all add: ref_coin_schema_def schema_ok_def zero_Coin_def ref_text_empty ref_parse_text)

interpretation ref_coin_wire: coin_wire ref_coin_codec
  by unfold_locales (simp_all add: ref_coin_codec_def ref_coin_length ref_coin_roundtrip)

interpretation ref_page_wire: page_wire "\<lambda>bs p. Inr (p @ bs)" "\<lambda>_. True"
  by unfold_locales simp

end
