(* ===== verification/Services.thy ===== *)
theory Services
  imports Messages ProviderMachine
begin

text \<open>
  The gRPC services of query.pb.go and tx.pb.go: the service descriptors and handlers that decode a
  request and call the server, and the client of the query service. keeper/query.go and
  keeper/msg_server.go provide the servers (\<open>NewQueryServerImpl\<close>, \<open>NewMsgServerImpl\<close>).

  \<^item> \<open>proto_message\<close> is Go's \<open>interface\<close> over the messages of the two services; \<open>proto_Marshal\<close> and
    \<open>proto_Unmarshal\<close> call the method of the message behind it, as a gRPC codec does.
  \<^item> The response of a query carries the header and trailer the server sets (\<open>ServerMetadata\<close>); a
    message handler returns the context it leaves.
  \<^item> \<open>grpc_connection\<close> is what the client relies on of \<open>grpc.ClientConn\<close>: the request goes to the
    handler of the method's name as bytes, and the answer comes back as bytes, unless the call is cut
    off. Nothing is assumed of the metadata that comes with the answer: a transport and a server
    add entries of their own, such as the content type or the height of the block.

  Main results: a message that arrives as bytes is the message that was sent
  (\<open>deliver_wire_correct\<close>), and the client over a connection answers as the server does
  (\<open>query_client_is_server\<close>).
\<close>

section \<open>Messages behind an interface\<close>

datatype proto_message =
    M_QueryParamsRequest QueryParamsRequest
  | M_QueryParamsResponse QueryParamsResponse
  | M_QueryConsumerChainsRequest QueryConsumerChainsRequest
  | M_QueryConsumerChainsResponse QueryConsumerChainsResponse
  | M_QueryConsumerChainRequest QueryConsumerChainRequest
  | M_QueryConsumerChainResponse QueryConsumerChainResponse
  | M_QueryActiveConsumerChainsRequest QueryActiveConsumerChainsRequest
  | M_QueryActiveConsumerChainsResponse QueryActiveConsumerChainsResponse
  | M_MsgUpdateParams MsgUpdateParams
  | M_MsgUpdateParamsResponse
  | M_MsgAddConsumer MsgAddConsumer
  | M_MsgAddConsumerResponse MsgAddConsumerResponse
  | M_MsgSunsetConsumer MsgSunsetConsumer
  | M_MsgSunsetConsumerResponse
  | M_MsgUpgradeConsumer MsgUpgradeConsumer
  | M_MsgUpgradeConsumerResponse

text \<open>The codecs of the embedded messages of the SDK.\<close>

record sdk_codec =
  coins :: coin_codec
  pages :: "bytes \<Rightarrow> page \<Rightarrow> pb_error + page"

fun proto_Marshal :: "sdk_codec \<Rightarrow> proto_message \<Rightarrow> fault + bytes" where
  "proto_Marshal S (M_QueryParamsRequest m) = message_Marshal QueryParamsRequest_schema m"
| "proto_Marshal S (M_QueryParamsResponse m) = message_Marshal (QueryParamsResponse_schema (coins S)) m"
| "proto_Marshal S (M_QueryConsumerChainsRequest m) = message_Marshal (QueryConsumerChainsRequest_schema (pages S)) m"
| "proto_Marshal S (M_QueryConsumerChainsResponse m) = message_Marshal (QueryConsumerChainsResponse_schema (pages S)) m"
| "proto_Marshal S (M_QueryConsumerChainRequest m) = message_Marshal QueryConsumerChainRequest_schema m"
| "proto_Marshal S (M_QueryConsumerChainResponse m) = message_Marshal QueryConsumerChainResponse_schema m"
| "proto_Marshal S (M_QueryActiveConsumerChainsRequest m) =
     message_Marshal (QueryActiveConsumerChainsRequest_schema (pages S)) m"
| "proto_Marshal S (M_QueryActiveConsumerChainsResponse m) =
     message_Marshal (QueryActiveConsumerChainsResponse_schema (pages S)) m"
| "proto_Marshal S (M_MsgUpdateParams m) = message_Marshal (MsgUpdateParams_schema (coins S)) m"
| "proto_Marshal S M_MsgUpdateParamsResponse = message_Marshal empty_schema ()"
| "proto_Marshal S (M_MsgAddConsumer m) = message_Marshal MsgAddConsumer_schema m"
| "proto_Marshal S (M_MsgAddConsumerResponse m) = message_Marshal MsgAddConsumerResponse_schema m"
| "proto_Marshal S (M_MsgSunsetConsumer m) = message_Marshal MsgSunsetConsumer_schema m"
| "proto_Marshal S M_MsgSunsetConsumerResponse = message_Marshal empty_schema ()"
| "proto_Marshal S (M_MsgUpgradeConsumer m) = message_Marshal MsgUpgradeConsumer_schema m"
| "proto_Marshal S M_MsgUpgradeConsumerResponse = message_Marshal empty_schema ()"

fun proto_Unmarshal :: "sdk_codec \<Rightarrow> bytes \<Rightarrow> proto_message \<Rightarrow> pb_error + proto_message" where
  "proto_Unmarshal S bs (M_QueryParamsRequest m) =
     map_sum id M_QueryParamsRequest (message_Unmarshal QueryParamsRequest_schema bs m)"
| "proto_Unmarshal S bs (M_QueryParamsResponse m) =
     map_sum id M_QueryParamsResponse (message_Unmarshal (QueryParamsResponse_schema (coins S)) bs m)"
| "proto_Unmarshal S bs (M_QueryConsumerChainsRequest m) =
     map_sum id M_QueryConsumerChainsRequest (message_Unmarshal (QueryConsumerChainsRequest_schema (pages S)) bs m)"
| "proto_Unmarshal S bs (M_QueryConsumerChainsResponse m) =
     map_sum id M_QueryConsumerChainsResponse (message_Unmarshal (QueryConsumerChainsResponse_schema (pages S)) bs m)"
| "proto_Unmarshal S bs (M_QueryConsumerChainRequest m) =
     map_sum id M_QueryConsumerChainRequest (message_Unmarshal QueryConsumerChainRequest_schema bs m)"
| "proto_Unmarshal S bs (M_QueryConsumerChainResponse m) =
     map_sum id M_QueryConsumerChainResponse (message_Unmarshal QueryConsumerChainResponse_schema bs m)"
| "proto_Unmarshal S bs (M_QueryActiveConsumerChainsRequest m) =
     map_sum id M_QueryActiveConsumerChainsRequest
       (message_Unmarshal (QueryActiveConsumerChainsRequest_schema (pages S)) bs m)"
| "proto_Unmarshal S bs (M_QueryActiveConsumerChainsResponse m) =
     map_sum id M_QueryActiveConsumerChainsResponse
       (message_Unmarshal (QueryActiveConsumerChainsResponse_schema (pages S)) bs m)"
| "proto_Unmarshal S bs (M_MsgUpdateParams m) =
     map_sum id M_MsgUpdateParams (message_Unmarshal (MsgUpdateParams_schema (coins S)) bs m)"
| "proto_Unmarshal S bs M_MsgUpdateParamsResponse =
     map_sum id (\<lambda>_. M_MsgUpdateParamsResponse) (message_Unmarshal empty_schema bs ())"
| "proto_Unmarshal S bs (M_MsgAddConsumer m) =
     map_sum id M_MsgAddConsumer (message_Unmarshal MsgAddConsumer_schema bs m)"
| "proto_Unmarshal S bs (M_MsgAddConsumerResponse m) =
     map_sum id M_MsgAddConsumerResponse (message_Unmarshal MsgAddConsumerResponse_schema bs m)"
| "proto_Unmarshal S bs (M_MsgSunsetConsumer m) =
     map_sum id M_MsgSunsetConsumer (message_Unmarshal MsgSunsetConsumer_schema bs m)"
| "proto_Unmarshal S bs M_MsgSunsetConsumerResponse =
     map_sum id (\<lambda>_. M_MsgSunsetConsumerResponse) (message_Unmarshal empty_schema bs ())"
| "proto_Unmarshal S bs (M_MsgUpgradeConsumer m) =
     map_sum id M_MsgUpgradeConsumer (message_Unmarshal MsgUpgradeConsumer_schema bs m)"
| "proto_Unmarshal S bs M_MsgUpgradeConsumerResponse =
     map_sum id (\<lambda>_. M_MsgUpgradeConsumerResponse) (message_Unmarshal empty_schema bs ())"

section \<open>Handlers of the generated services\<close>

type_synonym ('c, 'r) unary_handler = "'c \<Rightarrow> proto_message \<Rightarrow> 'r"
type_synonym ('c, 'r) interceptor = "'c \<Rightarrow> proto_message \<Rightarrow> string \<Rightarrow> ('c, 'r) unary_handler \<Rightarrow> 'r"
type_synonym ('c, 'r) method_handler =
  "'c \<Rightarrow> (proto_message \<Rightarrow> go_error + proto_message) \<Rightarrow> ('c, 'r) interceptor option \<Rightarrow> 'r"

text \<open>The body of every handler: a new request is decoded into, and the server is called directly or
  through the interceptor. \<open>fail\<close> returns an error.\<close>

definition unary ::
    "('c \<Rightarrow> go_error \<Rightarrow> 'r) \<Rightarrow> ('c, 'r) unary_handler \<Rightarrow> proto_message \<Rightarrow> string \<Rightarrow> ('c, 'r) method_handler" where
  "unary fail call new FullMethod ctx dec interceptor =
     (case dec new of
        Inl err \<Rightarrow> fail ctx err
      | Inr req \<Rightarrow>
          (case interceptor of
             None \<Rightarrow> call ctx req
           | Some icept \<Rightarrow> icept ctx req FullMethod call))"

type_synonym md = "string list gomap"

record ServerMetadata =
  HeaderMD :: md
  TrailerMD :: md

definition no_metadata :: ServerMetadata where
  "no_metadata = \<lparr>HeaderMD = fmempty, TrailerMD = fmempty\<rparr>"

type_synonym 'a answer = "ServerMetadata \<times> (fault + 'a)"

record 'c QueryService =
  svc_Params :: "'c \<Rightarrow> QueryParamsRequest \<Rightarrow> QueryParamsResponse answer"
  svc_ConsumerChains :: "'c \<Rightarrow> QueryConsumerChainsRequest \<Rightarrow> QueryConsumerChainsResponse answer"
  svc_ConsumerChain :: "'c \<Rightarrow> QueryConsumerChainRequest \<Rightarrow> QueryConsumerChainResponse answer"
  svc_ActiveConsumerChains ::
    "'c \<Rightarrow> QueryActiveConsumerChainsRequest \<Rightarrow> QueryActiveConsumerChainsResponse answer"

definition answer_error :: "'c \<Rightarrow> go_error \<Rightarrow> 'a answer" where
  "answer_error ctx err = (no_metadata, Inl (Fail err))"

text \<open>A failing type assertion.\<close>

definition wrong_type :: fault where
  "wrong_type = Panic ''interface conversion''"

definition pack :: "('a \<Rightarrow> proto_message) \<Rightarrow> 'a answer \<Rightarrow> proto_message answer" where
  "pack wrap r = (case r of (md, a) \<Rightarrow> (md, map_sum id wrap a))"

definition Query_Params_Handler :: "'c QueryService \<Rightarrow> ('c, proto_message answer) method_handler" where
  "Query_Params_Handler srv =
     unary answer_error
       (\<lambda>ctx req. case req of
            M_QueryParamsRequest r \<Rightarrow> pack M_QueryParamsResponse (svc_Params srv ctx r)
          | _ \<Rightarrow> (no_metadata, Inl wrong_type))
       (M_QueryParamsRequest QueryParamsRequest) ''/ics.provider.v1.Query/Params''"

definition Query_ConsumerChains_Handler :: "'c QueryService \<Rightarrow> ('c, proto_message answer) method_handler" where
  "Query_ConsumerChains_Handler srv =
     unary answer_error
       (\<lambda>ctx req. case req of
            M_QueryConsumerChainsRequest r \<Rightarrow> pack M_QueryConsumerChainsResponse (svc_ConsumerChains srv ctx r)
          | _ \<Rightarrow> (no_metadata, Inl wrong_type))
       (M_QueryConsumerChainsRequest \<lparr>QCS_Pagination = None\<rparr>) ''/ics.provider.v1.Query/ConsumerChains''"

definition Query_ConsumerChain_Handler :: "'c QueryService \<Rightarrow> ('c, proto_message answer) method_handler" where
  "Query_ConsumerChain_Handler srv =
     unary answer_error
       (\<lambda>ctx req. case req of
            M_QueryConsumerChainRequest r \<Rightarrow> pack M_QueryConsumerChainResponse (svc_ConsumerChain srv ctx r)
          | _ \<Rightarrow> (no_metadata, Inl wrong_type))
       (M_QueryConsumerChainRequest \<lparr>QCR_ChainId = ''''\<rparr>) ''/ics.provider.v1.Query/ConsumerChain''"

definition Query_ActiveConsumerChains_Handler :: "'c QueryService \<Rightarrow> ('c, proto_message answer) method_handler" where
  "Query_ActiveConsumerChains_Handler srv =
     unary answer_error
       (\<lambda>ctx req. case req of
            M_QueryActiveConsumerChainsRequest r \<Rightarrow>
              pack M_QueryActiveConsumerChainsResponse (svc_ActiveConsumerChains srv ctx r)
          | _ \<Rightarrow> (no_metadata, Inl wrong_type))
       (M_QueryActiveConsumerChainsRequest \<lparr>QAC_Pagination = None\<rparr>) ''/ics.provider.v1.Query/ActiveConsumerChains''"

record ('c, 'r) ServiceDesc =
  ServiceName :: string
  Methods :: "(string \<times> ('c, 'r) method_handler) list"

definition Query_serviceDesc :: "'c QueryService \<Rightarrow> ('c, proto_message answer) ServiceDesc" where
  "Query_serviceDesc srv =
     \<lparr>ServiceName = ''ics.provider.v1.Query'',
      Methods =
        [(''Params'', Query_Params_Handler srv),
         (''ConsumerChains'', Query_ConsumerChains_Handler srv),
         (''ConsumerChain'', Query_ConsumerChain_Handler srv),
         (''ActiveConsumerChains'', Query_ActiveConsumerChains_Handler srv)]\<rparr>"

text \<open>The server of keeper/query.go; its methods set no header and no trailer.\<close>

definition NewQueryServerImpl :: "sdk_lib \<Rightarrow> ('s, 'x, 'acc) Keeper \<Rightarrow> ('s, 'x) Context QueryService" where
  "NewQueryServerImpl L k =
     \<lparr>svc_Params = (\<lambda>ctx req. (no_metadata, Query_Params L k ctx (Some req))),
      svc_ConsumerChains = (\<lambda>ctx req. (no_metadata, Query_ConsumerChains k ctx (Some req))),
      svc_ConsumerChain = (\<lambda>ctx req. (no_metadata, Query_ConsumerChain k ctx (Some req))),
      svc_ActiveConsumerChains = (\<lambda>ctx req. (no_metadata, Query_ActiveConsumerChains k ctx (Some req)))\<rparr>"

section \<open>The message service\<close>

record 'c MsgService =
  svc_UpdateParams :: "'c \<Rightarrow> MsgUpdateParams \<Rightarrow> 'c \<times> (fault + unit)"
  svc_AddConsumer :: "'c \<Rightarrow> MsgAddConsumer \<Rightarrow> 'c \<times> (fault + MsgAddConsumerResponse)"
  svc_SunsetConsumer :: "'c \<Rightarrow> MsgSunsetConsumer \<Rightarrow> 'c \<times> (fault + unit)"
  svc_UpgradeConsumer :: "'c \<Rightarrow> MsgUpgradeConsumer \<Rightarrow> 'c \<times> (fault + unit)"

type_synonym 'c outcome = "'c \<times> (fault + proto_message)"

definition outcome_error :: "'c \<Rightarrow> go_error \<Rightarrow> 'c outcome" where
  "outcome_error ctx err = (ctx, Inl (Fail err))"

definition Msg_UpdateParams_Handler :: "'c MsgService \<Rightarrow> ('c, 'c outcome) method_handler" where
  "Msg_UpdateParams_Handler srv =
     unary outcome_error
       (\<lambda>ctx req. case req of
            M_MsgUpdateParams r \<Rightarrow> apsnd (map_sum id (\<lambda>_. M_MsgUpdateParamsResponse)) (svc_UpdateParams srv ctx r)
          | _ \<Rightarrow> (ctx, Inl wrong_type))
       (M_MsgUpdateParams zero_MsgUpdateParams) ''/ics.provider.v1.Msg/UpdateParams''"

definition Msg_AddConsumer_Handler :: "'c MsgService \<Rightarrow> ('c, 'c outcome) method_handler" where
  "Msg_AddConsumer_Handler srv =
     unary outcome_error
       (\<lambda>ctx req. case req of
            M_MsgAddConsumer r \<Rightarrow> apsnd (map_sum id M_MsgAddConsumerResponse) (svc_AddConsumer srv ctx r)
          | _ \<Rightarrow> (ctx, Inl wrong_type))
       (M_MsgAddConsumer zero_MsgAddConsumer) ''/ics.provider.v1.Msg/AddConsumer''"

definition Msg_SunsetConsumer_Handler :: "'c MsgService \<Rightarrow> ('c, 'c outcome) method_handler" where
  "Msg_SunsetConsumer_Handler srv =
     unary outcome_error
       (\<lambda>ctx req. case req of
            M_MsgSunsetConsumer r \<Rightarrow>
              apsnd (map_sum id (\<lambda>_. M_MsgSunsetConsumerResponse)) (svc_SunsetConsumer srv ctx r)
          | _ \<Rightarrow> (ctx, Inl wrong_type))
       (M_MsgSunsetConsumer zero_MsgSunsetConsumer) ''/ics.provider.v1.Msg/SunsetConsumer''"

definition Msg_UpgradeConsumer_Handler :: "'c MsgService \<Rightarrow> ('c, 'c outcome) method_handler" where
  "Msg_UpgradeConsumer_Handler srv =
     unary outcome_error
       (\<lambda>ctx req. case req of
            M_MsgUpgradeConsumer r \<Rightarrow>
              apsnd (map_sum id (\<lambda>_. M_MsgUpgradeConsumerResponse)) (svc_UpgradeConsumer srv ctx r)
          | _ \<Rightarrow> (ctx, Inl wrong_type))
       (M_MsgUpgradeConsumer zero_MsgUpgradeConsumer) ''/ics.provider.v1.Msg/UpgradeConsumer''"

definition Msg_serviceDesc :: "'c MsgService \<Rightarrow> ('c, 'c outcome) ServiceDesc" where
  "Msg_serviceDesc srv =
     \<lparr>ServiceName = ''ics.provider.v1.Msg'',
      Methods =
        [(''UpdateParams'', Msg_UpdateParams_Handler srv),
         (''AddConsumer'', Msg_AddConsumer_Handler srv),
         (''SunsetConsumer'', Msg_SunsetConsumer_Handler srv),
         (''UpgradeConsumer'', Msg_UpgradeConsumer_Handler srv)]\<rparr>"

definition NewMsgServerImpl :: "sdk_lib \<Rightarrow> ('s, 'x, 'acc) Keeper \<Rightarrow> ('s, 'x) Context MsgService" where
  "NewMsgServerImpl L k =
     \<lparr>svc_UpdateParams = UpdateParams L k,
      svc_AddConsumer = (\<lambda>ctx req. apsnd (map_sum Fail id) (AddConsumer L k ctx req)),
      svc_SunsetConsumer = (\<lambda>ctx req. apsnd (map_sum Fail id) (SunsetConsumer k ctx req)),
      svc_UpgradeConsumer = (\<lambda>ctx req. apsnd (map_sum Fail id) (UpgradeConsumer k ctx req))\<rparr>"

text \<open>\<open>RegisterServices\<close> of module/module.go gives the registrar the two descriptors.\<close>

definition RegisterServices ::
    "sdk_lib \<Rightarrow> ('s, 'x, 'acc) Keeper \<Rightarrow>
     (('s, 'x) Context, ('s, 'x) Context outcome) ServiceDesc \<times>
     (('s, 'x) Context, proto_message answer) ServiceDesc" where
  "RegisterServices L k = (Msg_serviceDesc (NewMsgServerImpl L k), Query_serviceDesc (NewQueryServerImpl L k))"

section \<open>Messages as bytes\<close>

text \<open>The \<open>dec\<close> argument of a handler: it reads the bytes of the request into the new message. A message
  whose handler fails leaves no trace.\<close>

definition decoder :: "sdk_codec \<Rightarrow> bytes \<Rightarrow> proto_message \<Rightarrow> go_error + proto_message" where
  "decoder S bs new =
     (case proto_Unmarshal S bs new of Inl _ \<Rightarrow> Inl (External ''unmarshal'') | Inr m \<Rightarrow> Inr m)"

definition deliver_wire ::
    "sdk_codec \<Rightarrow> ('c, 'c outcome) ServiceDesc \<Rightarrow> ('c, 'c outcome) interceptor option \<Rightarrow> 'c \<Rightarrow> string \<Rightarrow> bytes \<Rightarrow> 'c"
  where
  "deliver_wire S desc interceptor ctx method bs =
     (case map_of (Methods desc) method of
        None \<Rightarrow> ctx
      | Some h \<Rightarrow>
          (case h ctx (decoder S bs) interceptor of
             (_, Inl _) \<Rightarrow> ctx
           | (ctx', Inr _) \<Rightarrow> ctx'))"

fun method_of :: "provider_msg \<Rightarrow> string" where
  "method_of (Update _) = ''UpdateParams''"
| "method_of (Add _) = ''AddConsumer''"
| "method_of (Sunset _) = ''SunsetConsumer''"
| "method_of (Upgrade _) = ''UpgradeConsumer''"

fun message_of :: "provider_msg \<Rightarrow> proto_message" where
  "message_of (Update r) = M_MsgUpdateParams r"
| "message_of (Add r) = M_MsgAddConsumer r"
| "message_of (Sunset r) = M_MsgSunsetConsumer r"
| "message_of (Upgrade r) = M_MsgUpgradeConsumer r"

text \<open>A message that fits into a Go slice, whose fee has an amount and whose page is an encoding; the
  responses with chains have no page, as the servers send them.\<close>

fun fits_wire :: "sdk_codec \<Rightarrow> (bytes \<Rightarrow> bool) \<Rightarrow> proto_message \<Rightarrow> bool" where
  "fits_wire S canonical (M_QueryParamsResponse m) \<longleftrightarrow>
     message_Size (QueryParamsResponse_schema (coins S)) m < 2 ^ 63 \<and> Amount (FeesPerBlock (QPR_Params m)) \<noteq> NilInt"
| "fits_wire S canonical (M_QueryConsumerChainsRequest m) \<longleftrightarrow>
     message_Size (QueryConsumerChainsRequest_schema (pages S)) m < 2 ^ 63 \<and> pred_option canonical (QCS_Pagination m)"
| "fits_wire S canonical (M_QueryConsumerChainsResponse m) \<longleftrightarrow>
     message_Size (QueryConsumerChainsResponse_schema (pages S)) m < 2 ^ 63 \<and> QCS_PageResponse m = None"
| "fits_wire S canonical (M_QueryConsumerChainRequest m) \<longleftrightarrow> message_Size QueryConsumerChainRequest_schema m < 2 ^ 63"
| "fits_wire S canonical (M_QueryConsumerChainResponse m) \<longleftrightarrow> message_Size QueryConsumerChainResponse_schema m < 2 ^ 63"
| "fits_wire S canonical (M_QueryActiveConsumerChainsRequest m) \<longleftrightarrow>
     message_Size (QueryActiveConsumerChainsRequest_schema (pages S)) m < 2 ^ 63 \<and>
     pred_option canonical (QAC_Pagination m)"
| "fits_wire S canonical (M_QueryActiveConsumerChainsResponse m) \<longleftrightarrow>
     message_Size (QueryActiveConsumerChainsResponse_schema (pages S)) m < 2 ^ 63 \<and> QAC_PageResponse m = None"
| "fits_wire S canonical (M_MsgUpdateParams m) \<longleftrightarrow>
     message_Size (MsgUpdateParams_schema (coins S)) m < 2 ^ 63 \<and> Amount (FeesPerBlock (UP_Params m)) \<noteq> NilInt"
| "fits_wire S canonical (M_MsgAddConsumer m) \<longleftrightarrow> message_Size MsgAddConsumer_schema m < 2 ^ 63"
| "fits_wire S canonical (M_MsgAddConsumerResponse m) \<longleftrightarrow> message_Size MsgAddConsumerResponse_schema m < 2 ^ 63"
| "fits_wire S canonical (M_MsgSunsetConsumer m) \<longleftrightarrow> message_Size MsgSunsetConsumer_schema m < 2 ^ 63"
| "fits_wire S canonical (M_MsgUpgradeConsumer m) \<longleftrightarrow> message_Size MsgUpgradeConsumer_schema m < 2 ^ 63"
| "fits_wire S canonical _ \<longleftrightarrow> True"

text \<open>The new message of the type of a message.\<close>

fun new_of :: "proto_message \<Rightarrow> proto_message" where
  "new_of (M_QueryParamsRequest _) = M_QueryParamsRequest QueryParamsRequest"
| "new_of (M_QueryParamsResponse _) = M_QueryParamsResponse \<lparr>QPR_Params = zero_Params\<rparr>"
| "new_of (M_QueryConsumerChainsRequest _) = M_QueryConsumerChainsRequest \<lparr>QCS_Pagination = None\<rparr>"
| "new_of (M_QueryConsumerChainsResponse _) =
     M_QueryConsumerChainsResponse \<lparr>QCS_ConsumerChains = [], QCS_PageResponse = None\<rparr>"
| "new_of (M_QueryConsumerChainRequest _) = M_QueryConsumerChainRequest \<lparr>QCR_ChainId = ''''\<rparr>"
| "new_of (M_QueryConsumerChainResponse _) =
     M_QueryConsumerChainResponse \<lparr>QCR_ConsumerChain = zero_ConsumerChain\<rparr>"
| "new_of (M_QueryActiveConsumerChainsRequest _) = M_QueryActiveConsumerChainsRequest \<lparr>QAC_Pagination = None\<rparr>"
| "new_of (M_QueryActiveConsumerChainsResponse _) = M_QueryActiveConsumerChainsResponse zero_ActiveResponse"
| "new_of (M_MsgUpdateParams _) = M_MsgUpdateParams zero_MsgUpdateParams"
| "new_of (M_MsgAddConsumer _) = M_MsgAddConsumer zero_MsgAddConsumer"
| "new_of (M_MsgAddConsumerResponse _) = M_MsgAddConsumerResponse \<lparr>AR_ModuleAccountAddress = ''''\<rparr>"
| "new_of (M_MsgSunsetConsumer _) = M_MsgSunsetConsumer zero_MsgSunsetConsumer"
| "new_of (M_MsgUpgradeConsumer _) = M_MsgUpgradeConsumer zero_MsgUpgradeConsumer"
| "new_of m = m"

definition transmits :: "sdk_codec \<Rightarrow> proto_message \<Rightarrow> proto_message \<Rightarrow> bool" where
  "transmits S new m \<longleftrightarrow> (\<exists>bs. proto_Marshal S m = Inr bs \<and> proto_Unmarshal S bs new = Inr m)"

lemma decoder_Inr: "proto_Unmarshal S bs new = Inr m \<Longrightarrow> decoder S bs new = Inr m"
  by (simp add: decoder_def)

lemma transmitsI:
  assumes "encodes fs zero r" and "proto_Marshal S (wrap r) = message_Marshal fs r"
    and "\<And>bs. proto_Unmarshal S bs new = map_sum id wrap (message_Unmarshal fs bs zero)"
  shows "transmits S new (wrap r)"
  using assms by (auto simp: transmits_def encodes_def)

lemma empty_transmits:
  "transmits S M_MsgUpdateParamsResponse M_MsgUpdateParamsResponse"
  "transmits S M_MsgSunsetConsumerResponse M_MsgSunsetConsumerResponse"
  "transmits S M_MsgUpgradeConsumerResponse M_MsgUpgradeConsumerResponse"
  using empty_encodes by (auto simp: transmits_def encodes_def)

lemma fits_transmits:
  assumes "coin_wire (coins S)" and "page_wire (pages S) canonical" and "fits_wire S canonical m"
  shows "transmits S (new_of m) m"
proof (cases m)
  case (M_QueryParamsRequest r)
  then show ?thesis
    using transmitsI [where wrap = M_QueryParamsRequest, OF QueryParamsRequest_encodes] by (cases r) simp
next
  case (M_QueryParamsResponse r)
  then show ?thesis
    using transmitsI [where wrap = M_QueryParamsResponse, OF coin_wire.QueryParamsResponse_encodes [OF assms(1)]] assms(3) by simp
next
  case (M_QueryConsumerChainsRequest r)
  then show ?thesis
    using transmitsI [where wrap = M_QueryConsumerChainsRequest, OF page_wire.QueryConsumerChainsRequest_encodes [OF assms(2)]] assms(3) by simp
next
  case (M_QueryConsumerChainsResponse r)
  then show ?thesis
    using transmitsI [where wrap = M_QueryConsumerChainsResponse, OF QueryConsumerChainsResponse_encodes [where pu = "pages S"]] assms(3) by simp
next
  case (M_QueryConsumerChainRequest r)
  then show ?thesis
    using transmitsI [where wrap = M_QueryConsumerChainRequest, OF QueryConsumerChainRequest_encodes] assms(3) by simp
next
  case (M_QueryConsumerChainResponse r)
  then show ?thesis
    using transmitsI [where wrap = M_QueryConsumerChainResponse, OF QueryConsumerChainResponse_encodes] assms(3) by simp
next
  case (M_QueryActiveConsumerChainsRequest r)
  then show ?thesis
    using transmitsI [where wrap = M_QueryActiveConsumerChainsRequest, OF page_wire.QueryActiveConsumerChainsRequest_encodes [OF assms(2)]] assms(3) by simp
next
  case (M_QueryActiveConsumerChainsResponse r)
  then show ?thesis
    using transmitsI [where wrap = M_QueryActiveConsumerChainsResponse, OF QueryActiveConsumerChainsResponse_encodes [where pu = "pages S"]] assms(3) by simp
next
  case (M_MsgUpdateParams r)
  then show ?thesis
    using transmitsI [where wrap = M_MsgUpdateParams, OF coin_wire.UpdateParams_encodes [OF assms(1)]] assms(3) by simp
next
  case (M_MsgAddConsumer r)
  then show ?thesis
    using transmitsI [where wrap = M_MsgAddConsumer, OF AddConsumer_encodes] assms(3) by simp
next
  case (M_MsgAddConsumerResponse r)
  then show ?thesis
    using transmitsI [where wrap = M_MsgAddConsumerResponse, OF AddConsumerResponse_encodes] assms(3) by simp
next
  case (M_MsgSunsetConsumer r)
  then show ?thesis
    using transmitsI [where wrap = M_MsgSunsetConsumer, OF SunsetConsumer_encodes] assms(3) by simp
next
  case (M_MsgUpgradeConsumer r)
  then show ?thesis
    using transmitsI [where wrap = M_MsgUpgradeConsumer, OF UpgradeConsumer_encodes] assms(3) by simp
qed (simp_all add: empty_transmits)

text \<open>An interceptor that passes the request on.\<close>

definition passing :: "('c, 'r) interceptor option \<Rightarrow> bool" where
  "passing interceptor \<longleftrightarrow> interceptor \<in> {None, Some (\<lambda>ctx req full handler. handler ctx req)}"

lemma unary_passing:
  "passing interceptor \<Longrightarrow> dec new = Inr req \<Longrightarrow> unary fail call new full ctx dec interceptor = call ctx req"
  by (auto simp: unary_def passing_def)

text \<open>What \<open>deliver\<close> does in terms of the message server.\<close>

lemma outcome_kept:
  "(case apsnd (map_sum f id) r of (_, Inl _) \<Rightarrow> c | (c', Inr _) \<Rightarrow> c') = (case r of (_, Inl _) \<Rightarrow> c | (c', Inr _) \<Rightarrow> c')"
  "(case apsnd (map_sum f g) r of (_, Inl _) \<Rightarrow> c | (c', Inr _) \<Rightarrow> c') = (case r of (_, Inl _) \<Rightarrow> c | (c', Inr _) \<Rightarrow> c')"
  by (cases r; cases "snd r"; simp)+

lemma routed:
  assumes "map_of (Methods desc) method = Some (unary outcome_error call new full)"
    and "proto_Unmarshal S bs new = Inr req" and "passing interceptor"
  shows "deliver_wire S desc interceptor ctx method bs =
     (case call ctx req of (_, Inl _) \<Rightarrow> ctx | (ctx', Inr _) \<Rightarrow> ctx')"
  using assms(1) unary_passing [where dec = "decoder S bs", OF assms(3) decoder_Inr [OF assms(2)]]
  by (simp add: deliver_wire_def)

lemma msg_methods:
  "map_of (Methods (Msg_serviceDesc srv)) ''UpdateParams'' = Some (Msg_UpdateParams_Handler srv)"
  "map_of (Methods (Msg_serviceDesc srv)) ''AddConsumer'' = Some (Msg_AddConsumer_Handler srv)"
  "map_of (Methods (Msg_serviceDesc srv)) ''SunsetConsumer'' = Some (Msg_SunsetConsumer_Handler srv)"
  "map_of (Methods (Msg_serviceDesc srv)) ''UpgradeConsumer'' = Some (Msg_UpgradeConsumer_Handler srv)"
  by (simp_all add: Msg_serviceDesc_def)

lemmas routed_msgs =
  routed [OF msg_methods(1) [unfolded Msg_UpdateParams_Handler_def]]
  routed [OF msg_methods(2) [unfolded Msg_AddConsumer_Handler_def]]
  routed [OF msg_methods(3) [unfolded Msg_SunsetConsumer_Handler_def]]
  routed [OF msg_methods(4) [unfolded Msg_UpgradeConsumer_Handler_def]]

lemmas msg_server_evals = NewMsgServerImpl_def outcome_kept deliver_def

text \<open>A delivered message has the effect of \<open>deliver\<close>, whether its bytes are decoded by the handler or an
  interceptor passes it on.\<close>

lemma message_delivered:
  assumes "coin_wire (coins S)" and "page_wire (pages S) canonical" and "fits_wire S canonical (message_of m)"
  shows "\<exists>bs. proto_Marshal S (message_of m) = Inr bs \<and>
     (\<forall>interceptor. passing interceptor \<longrightarrow>
        deliver_wire S (Msg_serviceDesc (NewMsgServerImpl L k)) interceptor ctx (method_of m) bs = deliver L k ctx m)"
proof -
  obtain bs where bs: "proto_Marshal S (message_of m) = Inr bs"
    "proto_Unmarshal S bs (new_of (message_of m)) = Inr (message_of m)"
    using fits_transmits [OF assms] by (auto simp: transmits_def)
  have "deliver_wire S (Msg_serviceDesc (NewMsgServerImpl L k)) interceptor ctx (method_of m) bs = deliver L k ctx m"
    if "passing interceptor" for interceptor
    using bs(2) that by (cases m) (simp_all add: routed_msgs msg_server_evals)
  with bs(1) show ?thesis by blast
qed

section \<open>The client of the query service\<close>

text \<open>\<open>Invoke ctx method req out\<close> is \<open>grpc.ClientConn.Invoke\<close>: the metadata of the call and the message
  that \<open>out\<close> has become.\<close>

type_synonym 'c invoke = "'c \<Rightarrow> string \<Rightarrow> proto_message \<Rightarrow> proto_message \<Rightarrow> proto_message answer"

definition queryClient_Params :: "'c invoke \<Rightarrow> 'c \<Rightarrow> QueryParamsRequest \<Rightarrow> QueryParamsResponse answer" where
  "queryClient_Params Invoke ctx req =
     (case Invoke ctx ''/ics.provider.v1.Query/Params'' (M_QueryParamsRequest req)
             (M_QueryParamsResponse \<lparr>QPR_Params = zero_Params\<rparr>) of
        (md, Inl err) \<Rightarrow> (md, Inl err)
      | (md, Inr (M_QueryParamsResponse out)) \<Rightarrow> (md, Inr out)
      | (md, Inr _) \<Rightarrow> (md, Inl wrong_type))"

definition queryClient_ConsumerChains ::
    "'c invoke \<Rightarrow> 'c \<Rightarrow> QueryConsumerChainsRequest \<Rightarrow> QueryConsumerChainsResponse answer" where
  "queryClient_ConsumerChains Invoke ctx req =
     (case Invoke ctx ''/ics.provider.v1.Query/ConsumerChains'' (M_QueryConsumerChainsRequest req)
             (M_QueryConsumerChainsResponse \<lparr>QCS_ConsumerChains = [], QCS_PageResponse = None\<rparr>) of
        (md, Inl err) \<Rightarrow> (md, Inl err)
      | (md, Inr (M_QueryConsumerChainsResponse out)) \<Rightarrow> (md, Inr out)
      | (md, Inr _) \<Rightarrow> (md, Inl wrong_type))"

definition queryClient_ConsumerChain ::
    "'c invoke \<Rightarrow> 'c \<Rightarrow> QueryConsumerChainRequest \<Rightarrow> QueryConsumerChainResponse answer" where
  "queryClient_ConsumerChain Invoke ctx req =
     (case Invoke ctx ''/ics.provider.v1.Query/ConsumerChain'' (M_QueryConsumerChainRequest req)
             (M_QueryConsumerChainResponse \<lparr>QCR_ConsumerChain = zero_ConsumerChain\<rparr>) of
        (md, Inl err) \<Rightarrow> (md, Inl err)
      | (md, Inr (M_QueryConsumerChainResponse out)) \<Rightarrow> (md, Inr out)
      | (md, Inr _) \<Rightarrow> (md, Inl wrong_type))"

definition queryClient_ActiveConsumerChains ::
    "'c invoke \<Rightarrow> 'c \<Rightarrow> QueryActiveConsumerChainsRequest \<Rightarrow> QueryActiveConsumerChainsResponse answer" where
  "queryClient_ActiveConsumerChains Invoke ctx req =
     (case Invoke ctx ''/ics.provider.v1.Query/ActiveConsumerChains'' (M_QueryActiveConsumerChainsRequest req)
             (M_QueryActiveConsumerChainsResponse zero_ActiveResponse) of
        (md, Inl err) \<Rightarrow> (md, Inl err)
      | (md, Inr (M_QueryActiveConsumerChainsResponse out)) \<Rightarrow> (md, Inr out)
      | (md, Inr _) \<Rightarrow> (md, Inl wrong_type))"

definition NewQueryClient :: "'c invoke \<Rightarrow> 'c QueryService" where
  "NewQueryClient Invoke =
     \<lparr>svc_Params = queryClient_Params Invoke,
      svc_ConsumerChains = queryClient_ConsumerChains Invoke,
      svc_ConsumerChain = queryClient_ConsumerChain Invoke,
      svc_ActiveConsumerChains = queryClient_ActiveConsumerChains Invoke\<rparr>"

section \<open>Calls over a connection\<close>

text \<open>An error that gRPC hands to the client as it is.\<close>

fun grpc_status :: "fault \<Rightarrow> bool" where
  "grpc_status (Fail (GrpcStatus _ _ _)) = True"
| "grpc_status (Fail (GrpcStatusOf _ _)) = True"
| "grpc_status _ = False"

text \<open>A connection to a server of the service \<open>desc\<close>: the handler of the method gets the context of the
  call as it arrives and the request's bytes, the client gets the bytes of the answer or the status.
  \<open>delivered\<close> are the exchanges of a request and an answer that the transport does not cut off, by a cancellation, a
  broken connection or a limit of the size; what the client gets of another one is left open, and so is
  the metadata of every answer.\<close>

locale grpc_connection =
  fixes S :: sdk_codec and Invoke :: "'c invoke"
    and desc :: "('d, proto_message answer) ServiceDesc" and incoming :: "'c \<Rightarrow> 'd"
    and delivered :: "'c \<Rightarrow> proto_message \<Rightarrow> fault + proto_message \<Rightarrow> bool"
  assumes invoke_answer:
    "map_of (Methods desc) method = Some h \<Longrightarrow> proto_Marshal S req = Inr bs \<Longrightarrow>
     h (incoming ctx) (decoder S bs) None = (md, Inr resp) \<Longrightarrow> transmits S out resp \<Longrightarrow>
     delivered ctx req (Inr resp) \<Longrightarrow>
     snd (Invoke ctx (''/'' @ ServiceName desc @ ''/'' @ method) req out) = Inr resp"
    and invoke_status:
    "map_of (Methods desc) method = Some h \<Longrightarrow> proto_Marshal S req = Inr bs \<Longrightarrow>
     h (incoming ctx) (decoder S bs) None = (md, Inl err) \<Longrightarrow> grpc_status err \<Longrightarrow>
     delivered ctx req (Inl err) \<Longrightarrow>
     snd (Invoke ctx (''/'' @ ServiceName desc @ ''/'' @ method) req out) = Inl err"
begin

definition conveyed :: "proto_message \<Rightarrow> proto_message answer \<Rightarrow> bool" where
  "conveyed out r \<longleftrightarrow> (case snd r of Inl err \<Rightarrow> grpc_status err | Inr resp \<Rightarrow> transmits S out resp)"

lemma invoke_call:
  assumes "map_of (Methods desc) method = Some (unary answer_error call new full)"
    and "transmits S new req" and "conveyed out (call (incoming ctx) req)"
    and "delivered ctx req (snd (call (incoming ctx) req))"
  shows "snd (Invoke ctx (''/'' @ ServiceName desc @ ''/'' @ method) req out) = snd (call (incoming ctx) req)"
proof -
  obtain bs where bs: "proto_Marshal S req = Inr bs" "proto_Unmarshal S bs new = Inr req"
    using assms(2) by (auto simp: transmits_def)
  have h: "unary answer_error call new full (incoming ctx) (decoder S bs) None = call (incoming ctx) req"
    using decoder_Inr [OF bs(2)] by (simp add: unary_def)
  obtain md r where r: "call (incoming ctx) req = (md, r)"
    by fastforce
  show ?thesis
  proof (cases r)
    case (Inl err)
    with r h assms(3,4) show ?thesis
      using invoke_status [OF assms(1) bs(1)] by (simp add: conveyed_def)
  next
    case (Inr resp)
    with r h assms(3,4) show ?thesis
      using invoke_answer [OF assms(1) bs(1)] by (simp add: conveyed_def)
  qed
qed

end

text \<open>A connection whose server adds \<open>headers\<close> to those of the handler, and which is cut off in the contexts with
  an error \<open>lost\<close>, behaves as a connection should.\<close>

definition direct_invoke ::
    "sdk_codec \<Rightarrow> ('d, proto_message answer) ServiceDesc \<Rightarrow> ('c \<Rightarrow> 'd) \<Rightarrow> ('d \<Rightarrow> md) \<Rightarrow> ('c \<Rightarrow> go_error option) \<Rightarrow>
     'c invoke" where
  "direct_invoke S desc incoming headers lost ctx full req out =
     (case (lost ctx, find (\<lambda>(m, h). full = ''/'' @ ServiceName desc @ ''/'' @ m) (Methods desc)) of
        (Some e, _) \<Rightarrow> (no_metadata, Inl (Fail e))
      | (None, None) \<Rightarrow> (no_metadata, Inl (Fail (External ''unknown method'')))
      | (None, Some (_, h)) \<Rightarrow>
          (case proto_Marshal S req of
             Inl e \<Rightarrow> (no_metadata, Inl e)
           | Inr bs \<Rightarrow>
               (case h (incoming ctx) (decoder S bs) None of
                  (md, r) \<Rightarrow>
                    let md = md\<lparr>HeaderMD := HeaderMD md ++\<^sub>f headers (incoming ctx)\<rparr>
                    in (case r of
                          Inl e \<Rightarrow> (md, Inl e)
                        | Inr resp \<Rightarrow>
                            (case proto_Marshal S resp of
                               Inl e \<Rightarrow> (md, Inl e)
                             | Inr rbs \<Rightarrow> (md, map_sum Fail id (decoder S rbs out)))))))"

lemma find_method:
  "map_of ms method = Some h \<Longrightarrow> find (\<lambda>(m, h). pre @ method = pre @ m) ms = Some (method, h)"
  by (induction ms) (auto split: if_splits)

interpretation direct: grpc_connection S "direct_invoke S desc incoming headers lost" desc incoming
    "\<lambda>ctx req r. lost ctx = None"
proof
  fix meth h req bs ctx md resp out
  assume h: "map_of (Methods desc) meth = Some h" "proto_Marshal S req = Inr bs"
  note f = find_method [OF h(1), of "''/'' @ ServiceName desc @ ''/''", simplified]
  show "snd (direct_invoke S desc incoming headers lost ctx (''/'' @ ServiceName desc @ ''/'' @ meth) req out) = Inr resp"
    if "h (incoming ctx) (decoder S bs) None = (md, Inr resp)" "transmits S out resp" "lost ctx = None"
    using that h(2) f by (auto simp: direct_invoke_def transmits_def decoder_Inr Let_def)
  show "snd (direct_invoke S desc incoming headers lost ctx (''/'' @ ServiceName desc @ ''/'' @ meth) req out) = Inl err"
    if "h (incoming ctx) (decoder S bs) None = (md, Inl err)" "lost ctx = None" for err
    using that h(2) f by (simp add: direct_invoke_def Let_def)
qed

lemma query_methods:
  "map_of (Methods (Query_serviceDesc srv)) ''Params'' = Some (Query_Params_Handler srv)"
  "map_of (Methods (Query_serviceDesc srv)) ''ConsumerChains'' = Some (Query_ConsumerChains_Handler srv)"
  "map_of (Methods (Query_serviceDesc srv)) ''ConsumerChain'' = Some (Query_ConsumerChain_Handler srv)"
  "map_of (Methods (Query_serviceDesc srv)) ''ActiveConsumerChains'' = Some (Query_ActiveConsumerChains_Handler srv)"
  "ServiceName (Query_serviceDesc srv) = ''ics.provider.v1.Query''"
  by (simp_all add: Query_serviceDesc_def)

text \<open>An answer that gRPC can convey: a status or a message that fits.\<close>

definition answer_fits :: "sdk_codec \<Rightarrow> (bytes \<Rightarrow> bool) \<Rightarrow> ('a \<Rightarrow> proto_message) \<Rightarrow> 'a answer \<Rightarrow> bool" where
  "answer_fits S canonical wrap r \<longleftrightarrow>
     (case snd r of Inl err \<Rightarrow> grpc_status err | Inr a \<Rightarrow> fits_wire S canonical (wrap a))"

lemma conveyed_pack:
  assumes "grpc_connection S Invoke desc incoming delivered" and "coin_wire (coins S)" and "page_wire (pages S) canonical"
    and "answer_fits S canonical wrap r" and "\<And>a. new_of (wrap a) = out"
  shows "grpc_connection.conveyed S out (pack wrap r)"
  using assms(4) fits_transmits [OF assms(2,3)] assms(5)
  unfolding grpc_connection.conveyed_def [OF assms(1)] answer_fits_def pack_def
  by (cases r; cases "snd r") (auto, metis)

lemma query_calls:
  assumes "grpc_connection S Invoke (Query_serviceDesc srv) incoming delivered"
    and "coin_wire (coins S)" and "page_wire (pages S) canonical"
  shows "answer_fits S canonical M_QueryParamsResponse (svc_Params srv (incoming ctx) p) \<Longrightarrow>
      delivered ctx (M_QueryParamsRequest p) (snd (pack M_QueryParamsResponse (svc_Params srv (incoming ctx) p))) \<Longrightarrow>
      snd (Invoke ctx ''/ics.provider.v1.Query/Params'' (M_QueryParamsRequest p)
        (M_QueryParamsResponse \<lparr>QPR_Params = zero_Params\<rparr>)) =
      snd (pack M_QueryParamsResponse (svc_Params srv (incoming ctx) p))"
    and "fits_wire S canonical (M_QueryConsumerChainsRequest cs) \<Longrightarrow>
      answer_fits S canonical M_QueryConsumerChainsResponse (svc_ConsumerChains srv (incoming ctx) cs) \<Longrightarrow>
      delivered ctx (M_QueryConsumerChainsRequest cs) (snd (pack M_QueryConsumerChainsResponse (svc_ConsumerChains srv (incoming ctx) cs))) \<Longrightarrow>
      snd (Invoke ctx ''/ics.provider.v1.Query/ConsumerChains'' (M_QueryConsumerChainsRequest cs)
        (M_QueryConsumerChainsResponse \<lparr>QCS_ConsumerChains = [], QCS_PageResponse = None\<rparr>)) =
      snd (pack M_QueryConsumerChainsResponse (svc_ConsumerChains srv (incoming ctx) cs))"
    and "fits_wire S canonical (M_QueryConsumerChainRequest c) \<Longrightarrow>
      answer_fits S canonical M_QueryConsumerChainResponse (svc_ConsumerChain srv (incoming ctx) c) \<Longrightarrow>
      delivered ctx (M_QueryConsumerChainRequest c) (snd (pack M_QueryConsumerChainResponse (svc_ConsumerChain srv (incoming ctx) c))) \<Longrightarrow>
      snd (Invoke ctx ''/ics.provider.v1.Query/ConsumerChain'' (M_QueryConsumerChainRequest c)
        (M_QueryConsumerChainResponse \<lparr>QCR_ConsumerChain = zero_ConsumerChain\<rparr>)) =
      snd (pack M_QueryConsumerChainResponse (svc_ConsumerChain srv (incoming ctx) c))"
    and "fits_wire S canonical (M_QueryActiveConsumerChainsRequest a) \<Longrightarrow>
      answer_fits S canonical M_QueryActiveConsumerChainsResponse (svc_ActiveConsumerChains srv (incoming ctx) a) \<Longrightarrow>
      delivered ctx (M_QueryActiveConsumerChainsRequest a) (snd (pack M_QueryActiveConsumerChainsResponse (svc_ActiveConsumerChains srv (incoming ctx) a))) \<Longrightarrow>
      snd (Invoke ctx ''/ics.provider.v1.Query/ActiveConsumerChains'' (M_QueryActiveConsumerChainsRequest a)
        (M_QueryActiveConsumerChainsResponse zero_ActiveResponse)) =
      snd (pack M_QueryActiveConsumerChainsResponse (svc_ActiveConsumerChains srv (incoming ctx) a))"
proof -
  note call = grpc_connection.invoke_call [OF assms(1), unfolded query_methods(5)]
  note conveyed = conveyed_pack [OF assms]
  note sent = fits_transmits [OF assms(2,3)]
  show "snd (Invoke ctx ''/ics.provider.v1.Query/Params'' (M_QueryParamsRequest p)
        (M_QueryParamsResponse \<lparr>QPR_Params = zero_Params\<rparr>)) =
      snd (pack M_QueryParamsResponse (svc_Params srv (incoming ctx) p))"
    if "answer_fits S canonical M_QueryParamsResponse (svc_Params srv (incoming ctx) p)"
      "delivered ctx (M_QueryParamsRequest p) (snd (pack M_QueryParamsResponse (svc_Params srv (incoming ctx) p)))"
    using call [OF query_methods(1) [unfolded Query_Params_Handler_def] sent [of "M_QueryParamsRequest p", simplified],
        of "M_QueryParamsResponse \<lparr>QPR_Params = zero_Params\<rparr>" ctx]
      conveyed [OF that(1), of "M_QueryParamsResponse \<lparr>QPR_Params = zero_Params\<rparr>"] that by simp
  show "snd (Invoke ctx ''/ics.provider.v1.Query/ConsumerChains'' (M_QueryConsumerChainsRequest cs)
        (M_QueryConsumerChainsResponse \<lparr>QCS_ConsumerChains = [], QCS_PageResponse = None\<rparr>)) =
      snd (pack M_QueryConsumerChainsResponse (svc_ConsumerChains srv (incoming ctx) cs))"
    if "fits_wire S canonical (M_QueryConsumerChainsRequest cs)"
      "answer_fits S canonical M_QueryConsumerChainsResponse (svc_ConsumerChains srv (incoming ctx) cs)"
      "delivered ctx (M_QueryConsumerChainsRequest cs) (snd (pack M_QueryConsumerChainsResponse (svc_ConsumerChains srv (incoming ctx) cs)))"
    using call [OF query_methods(2) [unfolded Query_ConsumerChains_Handler_def] sent [OF that(1), simplified],
        of "M_QueryConsumerChainsResponse \<lparr>QCS_ConsumerChains = [], QCS_PageResponse = None\<rparr>" ctx]
      conveyed [OF that(2), of "M_QueryConsumerChainsResponse \<lparr>QCS_ConsumerChains = [], QCS_PageResponse = None\<rparr>"] that
    by simp
  show "snd (Invoke ctx ''/ics.provider.v1.Query/ConsumerChain'' (M_QueryConsumerChainRequest c)
        (M_QueryConsumerChainResponse \<lparr>QCR_ConsumerChain = zero_ConsumerChain\<rparr>)) =
      snd (pack M_QueryConsumerChainResponse (svc_ConsumerChain srv (incoming ctx) c))"
    if "fits_wire S canonical (M_QueryConsumerChainRequest c)"
      "answer_fits S canonical M_QueryConsumerChainResponse (svc_ConsumerChain srv (incoming ctx) c)"
      "delivered ctx (M_QueryConsumerChainRequest c) (snd (pack M_QueryConsumerChainResponse (svc_ConsumerChain srv (incoming ctx) c)))"
    using call [OF query_methods(3) [unfolded Query_ConsumerChain_Handler_def] sent [OF that(1), simplified],
        of "M_QueryConsumerChainResponse \<lparr>QCR_ConsumerChain = zero_ConsumerChain\<rparr>" ctx]
      conveyed [OF that(2), of "M_QueryConsumerChainResponse \<lparr>QCR_ConsumerChain = zero_ConsumerChain\<rparr>"] that
    by simp
  show "snd (Invoke ctx ''/ics.provider.v1.Query/ActiveConsumerChains'' (M_QueryActiveConsumerChainsRequest a)
        (M_QueryActiveConsumerChainsResponse zero_ActiveResponse)) =
      snd (pack M_QueryActiveConsumerChainsResponse (svc_ActiveConsumerChains srv (incoming ctx) a))"
    if "fits_wire S canonical (M_QueryActiveConsumerChainsRequest a)"
      "answer_fits S canonical M_QueryActiveConsumerChainsResponse (svc_ActiveConsumerChains srv (incoming ctx) a)"
      "delivered ctx (M_QueryActiveConsumerChainsRequest a) (snd (pack M_QueryActiveConsumerChainsResponse (svc_ActiveConsumerChains srv (incoming ctx) a)))"
    using call [OF query_methods(4) [unfolded Query_ActiveConsumerChains_Handler_def] sent [OF that(1), simplified],
        of "M_QueryActiveConsumerChainsResponse zero_ActiveResponse" ctx]
      conveyed [OF that(2), of "M_QueryActiveConsumerChainsResponse zero_ActiveResponse"] that
    by simp
qed

lemma unpack:
  "snd x = snd (pack M_QueryParamsResponse r) \<Longrightarrow>
     snd (case x of (md, Inl e) \<Rightarrow> (md, Inl e) | (md, Inr (M_QueryParamsResponse out)) \<Rightarrow> (md, Inr out)
      | (md, Inr _) \<Rightarrow> (md, Inl wrong_type)) = snd r"
  "snd x = snd (pack M_QueryConsumerChainsResponse r') \<Longrightarrow>
     snd (case x of (md, Inl e) \<Rightarrow> (md, Inl e) | (md, Inr (M_QueryConsumerChainsResponse out)) \<Rightarrow> (md, Inr out)
      | (md, Inr _) \<Rightarrow> (md, Inl wrong_type)) = snd r'"
  "snd x = snd (pack M_QueryConsumerChainResponse r'') \<Longrightarrow>
     snd (case x of (md, Inl e) \<Rightarrow> (md, Inl e) | (md, Inr (M_QueryConsumerChainResponse out)) \<Rightarrow> (md, Inr out)
      | (md, Inr _) \<Rightarrow> (md, Inl wrong_type)) = snd r''"
  "snd x = snd (pack M_QueryActiveConsumerChainsResponse r''') \<Longrightarrow>
     snd (case x of (md, Inl e) \<Rightarrow> (md, Inl e) | (md, Inr (M_QueryActiveConsumerChainsResponse out)) \<Rightarrow> (md, Inr out)
      | (md, Inr _) \<Rightarrow> (md, Inl wrong_type)) = snd r'''"
  by (cases x; simp add: pack_def map_sum_def split: prod.splits sum.splits)+

lemma client_calls:
  assumes "grpc_connection S Invoke (Query_serviceDesc srv) incoming delivered"
    and "coin_wire (coins S)" and "page_wire (pages S) canonical"
  shows "answer_fits S canonical M_QueryParamsResponse (svc_Params srv (incoming ctx) p) \<Longrightarrow>
      delivered ctx (M_QueryParamsRequest p) (snd (pack M_QueryParamsResponse (svc_Params srv (incoming ctx) p))) \<Longrightarrow>
      snd (svc_Params (NewQueryClient Invoke) ctx p) = snd (svc_Params srv (incoming ctx) p)"
    and "fits_wire S canonical (M_QueryConsumerChainsRequest cs) \<Longrightarrow>
      answer_fits S canonical M_QueryConsumerChainsResponse (svc_ConsumerChains srv (incoming ctx) cs) \<Longrightarrow>
      delivered ctx (M_QueryConsumerChainsRequest cs)
        (snd (pack M_QueryConsumerChainsResponse (svc_ConsumerChains srv (incoming ctx) cs))) \<Longrightarrow>
      snd (svc_ConsumerChains (NewQueryClient Invoke) ctx cs) = snd (svc_ConsumerChains srv (incoming ctx) cs)"
    and "fits_wire S canonical (M_QueryConsumerChainRequest c) \<Longrightarrow>
      answer_fits S canonical M_QueryConsumerChainResponse (svc_ConsumerChain srv (incoming ctx) c) \<Longrightarrow>
      delivered ctx (M_QueryConsumerChainRequest c)
        (snd (pack M_QueryConsumerChainResponse (svc_ConsumerChain srv (incoming ctx) c))) \<Longrightarrow>
      snd (svc_ConsumerChain (NewQueryClient Invoke) ctx c) = snd (svc_ConsumerChain srv (incoming ctx) c)"
    and "fits_wire S canonical (M_QueryActiveConsumerChainsRequest a) \<Longrightarrow>
      answer_fits S canonical M_QueryActiveConsumerChainsResponse (svc_ActiveConsumerChains srv (incoming ctx) a) \<Longrightarrow>
      delivered ctx (M_QueryActiveConsumerChainsRequest a)
        (snd (pack M_QueryActiveConsumerChainsResponse (svc_ActiveConsumerChains srv (incoming ctx) a))) \<Longrightarrow>
      snd (svc_ActiveConsumerChains (NewQueryClient Invoke) ctx a) = snd (svc_ActiveConsumerChains srv (incoming ctx) a)"
  unfolding NewQueryClient_def QueryService.select_convs queryClient_Params_def queryClient_ConsumerChains_def
    queryClient_ConsumerChain_def queryClient_ActiveConsumerChains_def
  by (rule unpack, rule query_calls [OF assms], assumption+)+

section \<open>Properties\<close>

text \<open>C27: A message of the provider module that travels as bytes has exactly the effect of the message: for
  every message that fits into a Go slice, marshalling succeeds, and the handler that the service
  descriptor has under the method's name, with the request decoded from these bytes, leaves the
  context that the message server leaves, whether it succeeds or fails.\<close>

theorem deliver_wire_correct:
  assumes "coin_wire (coins S)" and "page_wire (pages S) canonical" and "fits_wire S canonical (message_of m)"
  shows "\<exists>bs. proto_Marshal S (message_of m) = Inr bs \<and>
     deliver_wire S (fst (RegisterServices L k)) None ctx (method_of m) bs = deliver L k ctx m"
  using message_delivered [OF assms, where L = L and k = k and ctx = ctx]
  by (auto simp: RegisterServices_def passing_def)

text \<open>The query client over a gRPC connection answers exactly as the server at its other end, for an exchange
  that is not cut off and whatever metadata comes with it: the four
  methods find their handlers under their names, requests and answers survive the encoding, and the
  statuses of errors come back unchanged.\<close>

theorem query_client_is_server:
  assumes "grpc_connection S Invoke (snd (RegisterServices L k)) incoming delivered"
    and "coin_wire (coins S)" and "page_wire (pages S) canonical"
    and "fits_wire S canonical (M_QueryConsumerChainRequest c)"
    and "answer_fits S canonical M_QueryConsumerChainResponse
      (svc_ConsumerChain (NewQueryServerImpl L k) (incoming ctx) c)"
    and "delivered ctx (M_QueryConsumerChainRequest c)
      (snd (pack M_QueryConsumerChainResponse (svc_ConsumerChain (NewQueryServerImpl L k) (incoming ctx) c)))"
  shows "snd (svc_ConsumerChain (NewQueryClient Invoke) ctx c) = Query_ConsumerChain k (incoming ctx) (Some c)"
  using client_calls(3) [OF assms(1) [unfolded RegisterServices_def snd_conv] assms(2-6)]
  by (simp add: NewQueryServerImpl_def)

section \<open>Concrete calls\<close>

definition ref_codecs :: sdk_codec where
  "ref_codecs = \<lparr>coins = ref_coin_codec, pages = (\<lambda>bs p. Inr (p @ bs))\<rparr>"

lemma ref_codecs_laws: "coin_wire (coins ref_codecs)" "page_wire (pages ref_codecs) (\<lambda>_. True)"
  by (simp_all add: ref_codecs_def ref_coin_wire.coin_wire_axioms ref_page_wire.page_wire_axioms)

lemma demo_add_fits: "fits_wire ref_codecs (\<lambda>_. True) (message_of demo_add)"
proof -
  have "sov (word_of_nat (length s)) \<le> 10" for s :: string
    by (rule sov_le_10)
  then show ?thesis
    using sov_le_10 [of 1] sov_le_10 [of 2] sov_le_10 [of 8] sov_le_10 [of "word_of_nat (length demo_gov)"]
    by (simp add: demo_add_def MsgAddConsumer_schema_def message_Size_def)
qed

theorem deliver_wire_correct_witness:
  "\<exists>bs. proto_Marshal ref_codecs (message_of demo_add) = Inr bs \<and>
     (\<exists>c. map_of (ref_entries (kvStore (deliver_wire ref_codecs (fst (RegisterServices ref_sdk demo_keeper)) None
        demo_ctx ''AddConsumer'' bs))) ''d'' = Some c \<and> Status c = CONSUMER_STATUS_PENDING)"
proof -
  have "map_of (ref_entries (kvStore (deliver ref_sdk demo_keeper demo_ctx demo_add))) ''d'' =
      Some (added_chain \<lparr>AC_Authority = demo_gov, AC_ChainId = ''d'', AC_Name = ''D'', AC_Version = ''v1'',
        AC_BlockHeight = 8\<rparr> ''atoneaddr:consumer_d'')"
    by (simp_all add: map_of_ref_entries deliver_def demo_add_def AddConsumer_def
        check_authority_def GetAuthority_def CreateConsumerAccount_def set_chain_def
        EmitEvent_def added_chain_def NewConsumerChain_def demo_defs GovModuleName_def demo_ctx_def Let_def)
  moreover have "method_of demo_add = ''AddConsumer''"
    by (simp add: demo_add_def)
  ultimately show ?thesis
    using deliver_wire_correct [OF ref_codecs_laws demo_add_fits, of ref_sdk demo_keeper demo_ctx] by auto
qed

text \<open>A server in the process that adds the headers of an SDK node, and a connection that is not cut off.\<close>

definition node_headers :: "(ref_store, ref_world) Context \<Rightarrow> md" where
  "node_headers ctx = fmupd ''content-type'' [''application/grpc'']
     (fmupd ''x-cosmos-block-height'' [if BlockHeight ctx = 7 then ''7'' else ''0''] fmempty)"

definition demo_invoke :: "(ref_store, ref_world) Context invoke" where
  "demo_invoke = direct_invoke ref_codecs (snd (RegisterServices ref_sdk demo_keeper)) id node_headers (\<lambda>_. None)"

lemma demo_connection:
  "grpc_connection ref_codecs demo_invoke (snd (RegisterServices ref_sdk demo_keeper)) id (\<lambda>_ _ _. True)"
  using direct.grpc_connection_axioms [of ref_codecs "snd (RegisterServices ref_sdk demo_keeper)" id node_headers "\<lambda>_. None"]
  by (simp add: demo_invoke_def)

theorem query_client_is_server_witness:
  "snd (svc_ConsumerChain (NewQueryClient demo_invoke) demo_ctx \<lparr>QCR_ChainId = ''b''\<rparr>) =
     Inr \<lparr>QCR_ConsumerChain = demo_chain ''b'' CONSUMER_STATUS_ACTIVE\<rparr> \<and>
   fmlookup (HeaderMD (fst (svc_ConsumerChain (NewQueryClient demo_invoke) demo_ctx \<lparr>QCR_ChainId = ''b''\<rparr>)))
     ''x-cosmos-block-height'' = Some [''7'']"
proof -
  have coll: "collections_laws (collections demo_keeper) ref_entries rs_params"
    by (simp add: ref_keeper_def ref_coll.collections_laws_axioms)
  have chain: "Query_ConsumerChain demo_keeper demo_ctx (Some \<lparr>QCR_ChainId = ''b''\<rparr>) =
      Inr \<lparr>QCR_ConsumerChain = demo_chain ''b'' CONSUMER_STATUS_ACTIVE\<rparr>"
    by (simp add: Query_ConsumerChain_def collections_laws.Chains_Get [OF coll] demo_entries)
  have size: "ConsumerChain_Size (demo_chain ''b'' CONSUMER_STATUS_ACTIVE) < 2 ^ 62"
    using sov_le_10 [of 1] sov_le_10 [of 2] sov_le_10 [of 20] sov_le_10 [of 5] sov_le_10 [of "scast CONSUMER_STATUS_ACTIVE"]
    by (simp add: ConsumerChain_Size_def demo_chain_def)
  have fits: "fits_wire ref_codecs (\<lambda>_. True) (M_QueryConsumerChainRequest \<lparr>QCR_ChainId = ''b''\<rparr>)"
    using sov_le_10 [of 1] by (simp add: QueryConsumerChainRequest_schema_def message_Size_def)
  have answer: "answer_fits ref_codecs (\<lambda>_. True) M_QueryConsumerChainResponse
      (svc_ConsumerChain (NewQueryServerImpl ref_sdk demo_keeper) (id demo_ctx) \<lparr>QCR_ChainId = ''b''\<rparr>)"
    using size sov_le_10 [of "word_of_nat (ConsumerChain_Size (demo_chain ''b'' CONSUMER_STATUS_ACTIVE))"]
    by (simp add: answer_fits_def NewQueryServerImpl_def chain QueryConsumerChainResponse_schema_def
        message_Size_def chain_bytes_def)
  have "fmlookup (HeaderMD (fst (svc_ConsumerChain (NewQueryClient demo_invoke) demo_ctx \<lparr>QCR_ChainId = ''b''\<rparr>)))
     ''x-cosmos-block-height'' = Some [''7'']"
    by code_simp
  then show ?thesis
    using query_client_is_server [OF demo_connection ref_codecs_laws fits answer TrueI] chain by simp
qed

end
