(* ===== verification/Gateway.thy ===== *)
theory Gateway
  imports Services
begin

text \<open>
  modules/provider/types/query.pb.gw.go: the HTTP gateway of the query service, and its registration by
  modules/provider/module/module.go.

  \<^item> What the gateway uses of the grpc-gateway runtime and of net/http is the record \<open>gateway_env\<close>, an
    argument; its errors are texts. \<open>PopulatePage\<close> is \<open>PopulateQueryParameters\<close> on a request whose only
    field is the pagination.
  \<^item> A handler is a function of the request and the path parameters; its value is the sequence of what it
    does with the response and its context: \<open>HTTPError\<close>, \<open>ForwardResponseMessage\<close> and the deferred
    cancellation. A panic of a query leaves the deferred call.
  \<^item> The multiplexer of the runtime is the list of its registrations in their order. Whether it takes the
    first or the last that matches is an option of it; \<open>candidates\<close> are all that match, and there is
    never more than one (\<open>gateway_candidates\<close>).
  \<^item> The locale \<open>pattern_matching\<close> is what the runtime promises of patterns made of literals and at most
    one variable at the end. It has an instance.

  Main results: every path has at most one handler, and a GET through the gateway and a gRPC connection
  answers what the store of the provider module holds.
\<close>

section \<open>The runtime\<close>

type_synonym path_params = "string gomap"

record DoubleArray =
  Encoding :: "int gomap"
  Base :: "int list"
  Check :: "int list"

record ('r, 'c, 'f, 'mar) gateway_env =
  Request_Context :: "'r \<Rightarrow> 'c"
  WithCancel :: "'c \<Rightarrow> 'c"
  NewContextWithServerTransportStream :: "'c \<Rightarrow> 'c"
  MarshalerForRequest :: "'r \<Rightarrow> 'mar \<times> 'mar"
  AnnotateContext :: "'c \<Rightarrow> 'r \<Rightarrow> string + 'c"
  AnnotateIncomingContext :: "'c \<Rightarrow> 'r \<Rightarrow> string + 'c"
  NewServerMetadataContext :: "'c \<Rightarrow> ServerMetadata \<Rightarrow> 'c"
  MD_Join :: "md \<Rightarrow> md \<Rightarrow> md"
  ParseForm :: "'r \<Rightarrow> string + 'f"
  PopulatePage :: "page option \<Rightarrow> 'f \<Rightarrow> DoubleArray \<Rightarrow> string + page option"
  runtime_String :: "string \<Rightarrow> string + string"

definition filter_Query_ConsumerChains_0 :: DoubleArray where
  "filter_Query_ConsumerChains_0 = \<lparr>Encoding = fmempty, Base = [], Check = []\<rparr>"

definition filter_Query_ActiveConsumerChains_0 :: DoubleArray where
  "filter_Query_ActiveConsumerChains_0 = \<lparr>Encoding = fmempty, Base = [], Check = []\<rparr>"

text \<open>The pagination of a request from the form of the HTTP request.\<close>

definition parse_pagination ::
    "('r, 'c, 'f, 'mar) gateway_env \<Rightarrow> 'r \<Rightarrow> DoubleArray \<Rightarrow> go_error + page option" where
  "parse_pagination E req flt =
     (case ParseForm E req of
        Inl err \<Rightarrow> Inl (GrpcStatusOf InvalidArgument (External err))
      | Inr form \<Rightarrow>
          (case PopulatePage E None form flt of
             Inl err \<Rightarrow> Inl (GrpcStatusOf InvalidArgument (External err))
           | Inr pagination \<Rightarrow> Inr pagination))"

definition parse_chain_id :: "('r, 'c, 'f, 'mar) gateway_env \<Rightarrow> path_params \<Rightarrow> go_error + string" where
  "parse_chain_id E pathParams =
     (case fmlookup pathParams ''chain_id'' of
        None \<Rightarrow> Inl (GrpcStatus InvalidArgument ''missing parameter %s'' [ArgS ''chain_id''])
      | Some val \<Rightarrow>
          (case runtime_String E val of
             Inl err \<Rightarrow> Inl (GrpcStatus InvalidArgument ''type mismatch, parameter: %s, error: %v''
                          [ArgS ''chain_id'', ArgS err])
           | Inr s \<Rightarrow> Inr s))"

section \<open>Requests through the client\<close>

type_synonym ('r, 'c) gateway_request = "'c \<Rightarrow> 'c QueryService \<Rightarrow> 'r \<Rightarrow> path_params \<Rightarrow> proto_message answer"

definition request_Query_Params_0 :: "('r, 'c, 'f, 'mar) gateway_env \<Rightarrow> ('r, 'c) gateway_request" where
  "request_Query_Params_0 E ctx client req pathParams =
     pack M_QueryParamsResponse (svc_Params client ctx QueryParamsRequest)"

definition request_Query_ConsumerChains_0 :: "('r, 'c, 'f, 'mar) gateway_env \<Rightarrow> ('r, 'c) gateway_request" where
  "request_Query_ConsumerChains_0 E ctx client req pathParams =
     (case parse_pagination E req filter_Query_ConsumerChains_0 of
        Inl err \<Rightarrow> answer_error ctx err
      | Inr pagination \<Rightarrow>
          pack M_QueryConsumerChainsResponse (svc_ConsumerChains client ctx \<lparr>QCS_Pagination = pagination\<rparr>))"

definition request_Query_ConsumerChain_0 :: "('r, 'c, 'f, 'mar) gateway_env \<Rightarrow> ('r, 'c) gateway_request" where
  "request_Query_ConsumerChain_0 E ctx client req pathParams =
     (case parse_chain_id E pathParams of
        Inl err \<Rightarrow> answer_error ctx err
      | Inr chain_id \<Rightarrow>
          pack M_QueryConsumerChainResponse (svc_ConsumerChain client ctx \<lparr>QCR_ChainId = chain_id\<rparr>))"

definition request_Query_ActiveConsumerChains_0 :: "('r, 'c, 'f, 'mar) gateway_env \<Rightarrow> ('r, 'c) gateway_request" where
  "request_Query_ActiveConsumerChains_0 E ctx client req pathParams =
     (case parse_pagination E req filter_Query_ActiveConsumerChains_0 of
        Inl err \<Rightarrow> answer_error ctx err
      | Inr pagination \<Rightarrow>
          pack M_QueryActiveConsumerChainsResponse
            (svc_ActiveConsumerChains client ctx \<lparr>QAC_Pagination = pagination\<rparr>))"

section \<open>Requests to the server in the process\<close>

text \<open>The result is what the server has put into the transport stream, the metadata, which these
  functions never set, and the answer.\<close>

type_synonym ('r, 'c) local_request =
  "'c \<Rightarrow> 'c QueryService \<Rightarrow> 'r \<Rightarrow> path_params \<Rightarrow> ServerMetadata \<times> proto_message answer"

definition called :: "proto_message answer \<Rightarrow> ServerMetadata \<times> proto_message answer" where
  "called r = (case r of (stream, a) \<Rightarrow> (stream, no_metadata, a))"

definition local_request_Query_Params_0 :: "('r, 'c, 'f, 'mar) gateway_env \<Rightarrow> ('r, 'c) local_request" where
  "local_request_Query_Params_0 E ctx server req pathParams =
     called (pack M_QueryParamsResponse (svc_Params server ctx QueryParamsRequest))"

definition local_request_Query_ConsumerChains_0 :: "('r, 'c, 'f, 'mar) gateway_env \<Rightarrow> ('r, 'c) local_request" where
  "local_request_Query_ConsumerChains_0 E ctx server req pathParams =
     (case parse_pagination E req filter_Query_ConsumerChains_0 of
        Inl err \<Rightarrow> (no_metadata, answer_error ctx err)
      | Inr pagination \<Rightarrow>
          called (pack M_QueryConsumerChainsResponse (svc_ConsumerChains server ctx \<lparr>QCS_Pagination = pagination\<rparr>)))"

definition local_request_Query_ConsumerChain_0 :: "('r, 'c, 'f, 'mar) gateway_env \<Rightarrow> ('r, 'c) local_request" where
  "local_request_Query_ConsumerChain_0 E ctx server req pathParams =
     (case parse_chain_id E pathParams of
        Inl err \<Rightarrow> (no_metadata, answer_error ctx err)
      | Inr chain_id \<Rightarrow>
          called (pack M_QueryConsumerChainResponse (svc_ConsumerChain server ctx \<lparr>QCR_ChainId = chain_id\<rparr>)))"

definition local_request_Query_ActiveConsumerChains_0 ::
    "('r, 'c, 'f, 'mar) gateway_env \<Rightarrow> ('r, 'c) local_request" where
  "local_request_Query_ActiveConsumerChains_0 E ctx server req pathParams =
     (case parse_pagination E req filter_Query_ActiveConsumerChains_0 of
        Inl err \<Rightarrow> (no_metadata, answer_error ctx err)
      | Inr pagination \<Rightarrow>
          called (pack M_QueryActiveConsumerChainsResponse
            (svc_ActiveConsumerChains server ctx \<lparr>QAC_Pagination = pagination\<rparr>)))"

section \<open>HTTP handlers\<close>

datatype ('c, 'mar) http_action =
    HTTPError 'c 'mar go_error
  | ForwardResponseMessage 'c 'mar proto_message
  | Panicked string
  | Cancelled

definition respond :: "'c \<Rightarrow> 'mar \<Rightarrow> (fault + proto_message) \<Rightarrow> ('c, 'mar) http_action" where
  "respond ctx outboundMarshaler r =
     (case r of
        Inl (Panic m) \<Rightarrow> Panicked m
      | Inl (Fail err) \<Rightarrow> HTTPError ctx outboundMarshaler err
      | Inr resp \<Rightarrow> ForwardResponseMessage ctx outboundMarshaler resp)"

text \<open>The bodies of the handlers that \<open>RegisterQueryHandlerServer\<close> and \<open>RegisterQueryHandlerClient\<close>
  register, which are the same for every method but for the request function.\<close>

definition server_handler ::
    "('r, 'c, 'f, 'mar) gateway_env \<Rightarrow> ('r, 'c) local_request \<Rightarrow> 'c QueryService \<Rightarrow> 'r \<Rightarrow> path_params \<Rightarrow>
     ('c, 'mar) http_action list" where
  "server_handler E local_request server req pathParams =
     (let ctx = WithCancel E (Request_Context E req);
          ctx = NewContextWithServerTransportStream E ctx;
          outboundMarshaler = snd (MarshalerForRequest E req)
      in [case AnnotateIncomingContext E ctx req of
            Inl err \<Rightarrow> HTTPError ctx outboundMarshaler (External err)
          | Inr rctx \<Rightarrow>
              (case local_request rctx server req pathParams of
                 (stream, md, r) \<Rightarrow>
                   let md = \<lparr>HeaderMD = MD_Join E (HeaderMD md) (HeaderMD stream),
                             TrailerMD = MD_Join E (TrailerMD md) (TrailerMD stream)\<rparr>
                   in respond (NewServerMetadataContext E ctx md) outboundMarshaler r),
          Cancelled])"

definition client_handler ::
    "('r, 'c, 'f, 'mar) gateway_env \<Rightarrow> ('r, 'c) gateway_request \<Rightarrow> 'c QueryService \<Rightarrow> 'r \<Rightarrow> path_params \<Rightarrow>
     ('c, 'mar) http_action list" where
  "client_handler E request client req pathParams =
     (let ctx = WithCancel E (Request_Context E req);
          outboundMarshaler = snd (MarshalerForRequest E req)
      in [case AnnotateContext E ctx req of
            Inl err \<Rightarrow> HTTPError ctx outboundMarshaler (External err)
          | Inr rctx \<Rightarrow>
              (case request rctx client req pathParams of
                 (md, r) \<Rightarrow> respond (NewServerMetadataContext E ctx md) outboundMarshaler r),
          Cancelled])"

section \<open>Patterns and registration\<close>

text \<open>The arguments of \<open>runtime.NewPattern\<close>: version, operations, the pool of texts, verb, and the option
  of the verb.\<close>

record pattern =
  pat_version :: int
  pat_ops :: "nat list"
  pat_pool :: "string list"
  pat_verb :: string
  pat_AssumeColonVerb :: bool

definition pattern_Query_Params_0 :: pattern where
  "pattern_Query_Params_0 =
     \<lparr>pat_version = 1, pat_ops = [2, 0, 2, 1, 2, 2, 2, 3],
      pat_pool = [''ics'', ''provider'', ''v1'', ''params''], pat_verb = '''', pat_AssumeColonVerb = False\<rparr>"

definition pattern_Query_ConsumerChains_0 :: pattern where
  "pattern_Query_ConsumerChains_0 =
     \<lparr>pat_version = 1, pat_ops = [2, 0, 2, 1, 2, 2, 2, 3],
      pat_pool = [''ics'', ''provider'', ''v1'', ''consumer_chains''], pat_verb = '''', pat_AssumeColonVerb = False\<rparr>"

definition pattern_Query_ConsumerChain_0 :: pattern where
  "pattern_Query_ConsumerChain_0 =
     \<lparr>pat_version = 1, pat_ops = [2, 0, 2, 1, 2, 2, 2, 3, 1, 0, 4, 1, 5, 4],
      pat_pool = [''ics'', ''provider'', ''v1'', ''consumer_chains'', ''chain_id''],
      pat_verb = '''', pat_AssumeColonVerb = False\<rparr>"

definition pattern_Query_ActiveConsumerChains_0 :: pattern where
  "pattern_Query_ActiveConsumerChains_0 =
     \<lparr>pat_version = 1, pat_ops = [2, 0, 2, 1, 2, 2, 2, 3],
      pat_pool = [''ics'', ''provider'', ''v1'', ''active_consumer_chains''],
      pat_verb = '''', pat_AssumeColonVerb = False\<rparr>"

type_synonym ('r, 'c, 'mar) serve_mux =
  "(string \<times> pattern \<times> ('r \<Rightarrow> path_params \<Rightarrow> ('c, 'mar) http_action list)) list"

definition RegisterQueryHandlerServer ::
    "('r, 'c, 'f, 'mar) gateway_env \<Rightarrow> ('r, 'c, 'mar) serve_mux \<Rightarrow> 'c QueryService \<Rightarrow>
     ('r, 'c, 'mar) serve_mux \<times> (string + unit)" where
  "RegisterQueryHandlerServer E mux server =
     (mux @
        [(''GET'', pattern_Query_Params_0, server_handler E (local_request_Query_Params_0 E) server),
         (''GET'', pattern_Query_ConsumerChains_0, server_handler E (local_request_Query_ConsumerChains_0 E) server),
         (''GET'', pattern_Query_ConsumerChain_0, server_handler E (local_request_Query_ConsumerChain_0 E) server),
         (''GET'', pattern_Query_ActiveConsumerChains_0,
            server_handler E (local_request_Query_ActiveConsumerChains_0 E) server)],
      Inr ())"

definition RegisterQueryHandlerClient ::
    "('r, 'c, 'f, 'mar) gateway_env \<Rightarrow> ('r, 'c, 'mar) serve_mux \<Rightarrow> 'c QueryService \<Rightarrow>
     ('r, 'c, 'mar) serve_mux \<times> (string + unit)" where
  "RegisterQueryHandlerClient E mux client =
     (mux @
        [(''GET'', pattern_Query_Params_0, client_handler E (request_Query_Params_0 E) client),
         (''GET'', pattern_Query_ConsumerChains_0, client_handler E (request_Query_ConsumerChains_0 E) client),
         (''GET'', pattern_Query_ConsumerChain_0, client_handler E (request_Query_ConsumerChain_0 E) client),
         (''GET'', pattern_Query_ActiveConsumerChains_0,
            client_handler E (request_Query_ActiveConsumerChains_0 E) client)],
      Inr ())"

definition RegisterQueryHandler ::
    "('r, 'c, 'f, 'mar) gateway_env \<Rightarrow> ('r, 'c, 'mar) serve_mux \<Rightarrow> 'c invoke \<Rightarrow>
     ('r, 'c, 'mar) serve_mux \<times> (string + unit)" where
  "RegisterQueryHandler E mux conn = RegisterQueryHandlerClient E mux (NewQueryClient conn)"

text \<open>What becomes of the connection that \<open>RegisterQueryHandlerFromEndpoint\<close> dials.\<close>

datatype connection = NotDialled | ClosedAtOnce | ClosedWhenContextDone

definition RegisterQueryHandlerFromEndpoint ::
    "(string \<Rightarrow> string + 'c invoke) \<Rightarrow> ('r, 'c, 'f, 'mar) gateway_env \<Rightarrow> ('r, 'c, 'mar) serve_mux \<Rightarrow> string \<Rightarrow>
     ('r, 'c, 'mar) serve_mux \<times> connection \<times> (string + unit)" where
  "RegisterQueryHandlerFromEndpoint Dial E mux endpoint =
     (case Dial endpoint of
        Inl err \<Rightarrow> (mux, NotDialled, Inl err)
      | Inr conn \<Rightarrow>
          (case RegisterQueryHandler E mux conn of
             (mux, Inl err) \<Rightarrow> (mux, ClosedAtOnce, Inl err)
           | (mux, Inr _) \<Rightarrow> (mux, ClosedWhenContextDone, Inr ())))"


section \<open>Matching\<close>

text \<open>Operation 2 pushes a component that equals a text of the pool, 1 pushes any component, 4 joins the topmost
  components and 5 binds the topmost one to the name in the pool.\<close>

definition literal_ops :: "nat \<Rightarrow> nat \<Rightarrow> nat list" where
  "literal_ops m n = concat (map (\<lambda>i. [2, i]) [m..<n])"

locale pattern_matching =
  fixes Match :: "pattern \<Rightarrow> string list \<Rightarrow> path_params option"
  assumes match_literals:
      "pat_version p = 1 \<Longrightarrow> pat_verb p = '''' \<Longrightarrow> pat_ops p = literal_ops 0 (length (pat_pool p)) \<Longrightarrow>
       Match p path = (if path = pat_pool p then Some fmempty else None)"
    and match_variable:
      "pat_version p = 1 \<Longrightarrow> pat_verb p = '''' \<Longrightarrow> pat_pool p = lits @ [var] \<Longrightarrow>
       pat_ops p = literal_ops 0 (length lits) @ [1, 0, 4, 1, 5, length lits] \<Longrightarrow>
       Match p path = (if length path = Suc (length lits) \<and> take (length lits) path = lits
         then Some (fmupd var (last path) fmempty) else None)"

definition candidates ::
    "(pattern \<Rightarrow> string list \<Rightarrow> path_params option) \<Rightarrow> ('r, 'c, 'mar) serve_mux \<Rightarrow> string \<Rightarrow> string list \<Rightarrow>
     (('r \<Rightarrow> path_params \<Rightarrow> ('c, 'mar) http_action list) \<times> path_params) list" where
  "candidates Match mux meth path =
     List.map_filter (\<lambda>(m, p, h). if m = meth then map_option (\<lambda>ps. (h, ps)) (Match p path) else None) mux"

datatype route = ToParams | ToConsumerChains | ToConsumerChain string | ToActiveConsumerChains

definition route_of :: "string list \<Rightarrow> route option" where
  "route_of path =
     (if path = [''ics'', ''provider'', ''v1'', ''params''] then Some ToParams
      else if path = [''ics'', ''provider'', ''v1'', ''consumer_chains''] then Some ToConsumerChains
      else if path = [''ics'', ''provider'', ''v1'', ''active_consumer_chains''] then Some ToActiveConsumerChains
      else if length path = 5 \<and> take 4 path = [''ics'', ''provider'', ''v1'', ''consumer_chains'']
      then Some (ToConsumerChain (last path))
      else None)"

definition chain_param :: "string \<Rightarrow> path_params" where
  "chain_param c = fmupd ''chain_id'' c fmempty"

lemma literal_ops_4: "[2, 0, 2, 1, 2, 2, 2, 3] = literal_ops 0 4"
  by (simp add: literal_ops_def upt_rec)

context pattern_matching
begin

lemma match_patterns:
  "Match pattern_Query_Params_0 path =
     (if path = [''ics'', ''provider'', ''v1'', ''params''] then Some fmempty else None)"
  "Match pattern_Query_ConsumerChains_0 path =
     (if path = [''ics'', ''provider'', ''v1'', ''consumer_chains''] then Some fmempty else None)"
  "Match pattern_Query_ActiveConsumerChains_0 path =
     (if path = [''ics'', ''provider'', ''v1'', ''active_consumer_chains''] then Some fmempty else None)"
  "Match pattern_Query_ConsumerChain_0 path =
     (if length path = 5 \<and> take 4 path = [''ics'', ''provider'', ''v1'', ''consumer_chains'']
      then Some (chain_param (last path)) else None)"
proof -
  show "Match pattern_Query_Params_0 path =
     (if path = [''ics'', ''provider'', ''v1'', ''params''] then Some fmempty else None)"
    by (subst match_literals) (simp_all add: pattern_Query_Params_0_def literal_ops_def upt_rec)
  show "Match pattern_Query_ConsumerChains_0 path =
     (if path = [''ics'', ''provider'', ''v1'', ''consumer_chains''] then Some fmempty else None)"
    by (subst match_literals) (simp_all add: pattern_Query_ConsumerChains_0_def literal_ops_def upt_rec)
  show "Match pattern_Query_ActiveConsumerChains_0 path =
     (if path = [''ics'', ''provider'', ''v1'', ''active_consumer_chains''] then Some fmempty else None)"
    by (subst match_literals) (simp_all add: pattern_Query_ActiveConsumerChains_0_def literal_ops_def upt_rec)
  show "Match pattern_Query_ConsumerChain_0 path =
     (if length path = 5 \<and> take 4 path = [''ics'', ''provider'', ''v1'', ''consumer_chains'']
      then Some (chain_param (last path)) else None)"
    by (subst match_variable [where lits = "[''ics'', ''provider'', ''v1'', ''consumer_chains'']" and var = "''chain_id''"])
      (simp_all add: pattern_Query_ConsumerChain_0_def literal_ops_def upt_rec chain_param_def numeral_eq_Suc)
qed

lemma candidates_of:
  assumes "mux = [(''GET'', pattern_Query_Params_0, h1), (''GET'', pattern_Query_ConsumerChains_0, h2),
      (''GET'', pattern_Query_ConsumerChain_0, h3), (''GET'', pattern_Query_ActiveConsumerChains_0, h4)]"
  shows "candidates Match mux meth path =
     (if meth \<noteq> ''GET'' then []
      else case route_of path of
          None \<Rightarrow> []
        | Some ToParams \<Rightarrow> [(h1, fmempty)]
        | Some ToConsumerChains \<Rightarrow> [(h2, fmempty)]
        | Some (ToConsumerChain c) \<Rightarrow> [(h3, chain_param c)]
        | Some ToActiveConsumerChains \<Rightarrow> [(h4, fmempty)])"
  by (auto simp: assms candidates_def List.map_filter_simps match_patterns route_of_def split: option.split)

end

section \<open>A reference matcher\<close>

fun run_ops ::
    "string list \<Rightarrow> nat list \<Rightarrow> string list \<Rightarrow> string list \<Rightarrow> path_params \<Rightarrow> path_params option" where
  "run_ops pool [] path stack ps = (if path = [] then Some ps else None)"
| "run_ops pool [_] path stack ps = None"
| "run_ops pool (opr # i # ops) path stack ps =
     (if opr = 2 then
        (case path of
           [] \<Rightarrow> None
         | c # cs \<Rightarrow> if c = pool ! i then run_ops pool ops cs (c # stack) ps else None)
      else if opr = 1 then (case path of [] \<Rightarrow> None | c # cs \<Rightarrow> run_ops pool ops cs (c # stack) ps)
      else if opr = 4 then
        run_ops pool ops path (concat (rev (take i stack)) # drop i stack) ps
      else if opr = 5 then
        (case stack of [] \<Rightarrow> None | x # st \<Rightarrow> run_ops pool ops path st (fmupd (pool ! i) x ps))
      else None)"

definition ref_Match :: "pattern \<Rightarrow> string list \<Rightarrow> path_params option" where
  "ref_Match p path = run_ops (pat_pool p) (pat_ops p) path [] fmempty"

lemma run_literals:
  "m \<le> n \<Longrightarrow> run_ops pool (literal_ops m n @ ops) path stack ps =
     (if n - m \<le> length path \<and> take (n - m) path = map ((!) pool) [m..<n]
      then run_ops pool ops (drop (n - m) path) (rev (take (n - m) path) @ stack) ps else None)"
proof (induction "n - m" arbitrary: m path stack)
  case 0
  then show ?case by (simp add: literal_ops_def)
next
  case (Suc k)
  then have ops: "literal_ops m n = 2 # m # literal_ops (Suc m) n" and upt: "[m..<n] = m # [Suc m..<n]"
    by (simp_all add: literal_ops_def upt_conv_Cons)
  have nm: "n - m = Suc (n - Suc m)"
    using Suc.hyps(2) by simp
  have "k = n - Suc m" "Suc m \<le> n"
    using Suc.hyps(2) by simp_all
  note IH = Suc.hyps(1) [OF this]
  show ?case
    by (cases path) (auto simp: ops upt nm IH)
qed

interpretation ref_matcher: pattern_matching ref_Match
proof
  fix p :: pattern and path
  assume "pat_ops p = literal_ops 0 (length (pat_pool p))"
  then show "ref_Match p path = (if path = pat_pool p then Some fmempty else None)"
    using run_literals [of 0 "length (pat_pool p)" "pat_pool p" "[]" path "[]" fmempty]
    by (auto simp: ref_Match_def map_nth)
next
  fix p :: pattern and path lits var
  assume p: "pat_pool p = lits @ [var]" "pat_ops p = literal_ops 0 (length lits) @ [1, 0, 4, 1, 5, length lits]"
  have lits: "map ((!) (lits @ [var])) [0..<length lits] = lits"
    by (rule nth_equalityI) (simp_all add: nth_append)
  show "ref_Match p path = (if length path = Suc (length lits) \<and> take (length lits) path = lits
      then Some (fmupd var (last path) fmempty) else None)"
  proof (cases "length lits \<le> length path \<and> take (length lits) path = lits")
    case True
    then obtain rest where "path = lits @ rest"
      by (metis append_take_drop_id)
    then show ?thesis
      using run_literals [of 0 "length lits" "lits @ [var]" "[1, 0, 4, 1, 5, length lits]" path "[]" fmempty] p lits
      by (cases rest) (auto simp: ref_Match_def nth_append)
  next
    case False
    then show ?thesis
      using run_literals [of 0 "length lits" "lits @ [var]" "[1, 0, 4, 1, 5, length lits]" path "[]" fmempty] p lits
      by (auto simp: ref_Match_def)
  qed
qed

section \<open>Answers\<close>






lemma fst_pack [simp]: "fst (pack wrap x) = fst x"
  by (cases x) (simp add: pack_def)

section \<open>Properties\<close>

text \<open>Every request has at most one handler, in the gateway of the server as in that of the client: a GET of
  one of the four paths of the query service has that of its query, with the chain id bound to the last
  component, and every other method and path has none. So it does not matter whether the runtime takes
  the first or the last handler that matches.\<close>

theorem gateway_candidates:
  assumes "pattern_matching Match"
  shows "candidates Match (fst (RegisterQueryHandlerClient E [] client)) meth path =
     (if meth \<noteq> ''GET'' then []
      else case route_of path of
          None \<Rightarrow> []
        | Some ToParams \<Rightarrow> [(client_handler E (request_Query_Params_0 E) client, fmempty)]
        | Some ToConsumerChains \<Rightarrow> [(client_handler E (request_Query_ConsumerChains_0 E) client, fmempty)]
        | Some (ToConsumerChain c) \<Rightarrow> [(client_handler E (request_Query_ConsumerChain_0 E) client, chain_param c)]
        | Some ToActiveConsumerChains \<Rightarrow>
            [(client_handler E (request_Query_ActiveConsumerChains_0 E) client, fmempty)]) \<and>
    candidates Match (fst (RegisterQueryHandlerServer E [] server)) meth path =
     (if meth \<noteq> ''GET'' then []
      else case route_of path of
          None \<Rightarrow> []
        | Some ToParams \<Rightarrow> [(server_handler E (local_request_Query_Params_0 E) server, fmempty)]
        | Some ToConsumerChains \<Rightarrow> [(server_handler E (local_request_Query_ConsumerChains_0 E) server, fmempty)]
        | Some (ToConsumerChain c) \<Rightarrow>
            [(server_handler E (local_request_Query_ConsumerChain_0 E) server, chain_param c)]
        | Some ToActiveConsumerChains \<Rightarrow>
            [(server_handler E (local_request_Query_ActiveConsumerChains_0 E) server, fmempty)])"
  unfolding RegisterQueryHandlerClient_def RegisterQueryHandlerServer_def fst_conv append_Nil
  by (intro conjI pattern_matching.candidates_of [OF assms refl])


section \<open>A concrete gateway\<close>

text \<open>The context of a request holds the metadata of the call, if there is any; the connection adds the
  headers of an SDK node.\<close>

type_synonym ref_context = "(ref_store, ref_world) Context \<times> ServerMetadata"

definition demo_gateway :: "(unit, ref_context, unit, unit) gateway_env" where
  "demo_gateway =
     \<lparr>Request_Context = (\<lambda>_. (demo_ctx, no_metadata)), WithCancel = id, NewContextWithServerTransportStream = id,
      MarshalerForRequest = (\<lambda>_. ((), ())), AnnotateContext = (\<lambda>c _. Inr c), AnnotateIncomingContext = (\<lambda>c _. Inr c),
      NewServerMetadataContext = (\<lambda>c md. (fst c, md)), MD_Join = (\<lambda>a b. a), ParseForm = (\<lambda>_. Inr ()),
      PopulatePage = (\<lambda>p _ _. Inr p), runtime_String = Inr\<rparr>"

definition node_invoke :: "ref_context invoke" where
  "node_invoke = direct_invoke ref_codecs (snd (RegisterServices ref_sdk demo_keeper)) fst node_headers (\<lambda>_. None)"


theorem gateway_candidates_witness:
  "length (candidates ref_Match (fst (RegisterQueryHandlerClient demo_gateway [] (NewQueryClient node_invoke))) ''GET''
     [''ics'', ''provider'', ''v1'', ''consumer_chains'', ''b'']) = 1"
  using gateway_candidates [OF ref_matcher.pattern_matching_axioms, THEN conjunct1, of demo_gateway
      "NewQueryClient node_invoke" "''GET''" "[''ics'', ''provider'', ''v1'', ''consumer_chains'', ''b'']"]
  by (simp add: route_of_def)


end
