(* ===== verification/ModuleCli.thy ===== *)
theory ModuleCli
  imports Services
begin

text \<open>
  What the provider module tells the tools around it: the descriptions of its commands (module/autocli.go),
  the registration of its types (types/codec.go), and the simulation (module/simulation.go).

  The autocli library that makes commands from the descriptions and the SDK's registry of interfaces are
  arguments; the locales \<open>autocli\<close> and \<open>msg_registry\<close> hold what their documentation says.
\<close>

section \<open>Descriptions of the commands (autocli.go)\<close>

record RpcCommandOptions =
  RpcMethod :: string
  Use :: string
  Short :: string
  Skip :: bool
  PositionalArgs :: "string list"

record ServiceCommandDescriptor =
  Service :: string
  RpcOptions :: "RpcCommandOptions list"
  EnhanceCustomCommand :: bool

record ModuleOptions =
  QueryCommands :: ServiceCommandDescriptor
  TxCommands :: ServiceCommandDescriptor

definition command_for :: "string \<Rightarrow> string \<Rightarrow> string \<Rightarrow> string list \<Rightarrow> RpcCommandOptions" where
  "command_for rpc use short args = \<lparr>RpcMethod = rpc, Use = use, Short = short, Skip = False, PositionalArgs = args\<rparr>"

definition skipped :: "string \<Rightarrow> RpcCommandOptions" where
  "skipped rpc = \<lparr>RpcMethod = rpc, Use = '''', Short = '''', Skip = True, PositionalArgs = []\<rparr>"

text \<open>The arguments are the two service descriptors, of which the names are used.\<close>

definition AutoCLIOptions :: "('c, 'q) ServiceDesc \<Rightarrow> ('c, 'm) ServiceDesc \<Rightarrow> ModuleOptions" where
  "AutoCLIOptions query_desc msg_desc =
     \<lparr>QueryCommands =
        \<lparr>Service = ServiceName query_desc,
         RpcOptions =
           [command_for ''Params'' ''params'' ''Shows the parameters of the module'' [],
            command_for ''ConsumerChains'' ''list-consumers''
              ''List all consumer chains, regardless their statuses'' [],
            command_for ''ActiveConsumerChains'' ''list-active-consumers'' ''List active consumer chains'' [],
            command_for ''ConsumerChain'' ''consumer [chain_id]'' ''Get a consumer chain info'' [''chain_id'']],
         EnhanceCustomCommand = False\<rparr>,
      TxCommands =
        \<lparr>Service = ServiceName msg_desc,
         RpcOptions = [skipped ''UpdateParams'', skipped ''AddConsumer'', skipped ''SunsetConsumer'',
           skipped ''UpgradeConsumer''],
         EnhanceCustomCommand = True\<rparr>\<rparr>"

text \<open>The commands the library makes for a service with the given methods, as pairs of a name and a
  method. A method has a command unless its options say to skip it; the name is the first word of \<open>Use\<close>,
  or one made from the method's name when there are no options.\<close>

definition first_word :: "string \<Rightarrow> string" where
  "first_word use = takeWhile (\<lambda>c. c \<noteq> CHR '' '') use"

locale autocli =
  fixes build :: "ServiceCommandDescriptor \<Rightarrow> string list \<Rightarrow> (string \<times> string) list"
    and kebab :: "string \<Rightarrow> string"
  assumes build_commands: "(c, rpc) \<in> set (build d methods) \<longleftrightarrow> rpc \<in> set methods \<and>
      (case find (\<lambda>opt. RpcMethod opt = rpc) (RpcOptions d) of
         None \<Rightarrow> c = kebab rpc
       | Some opt \<Rightarrow> \<not> Skip opt \<and> c = first_word (Use opt))"
begin

lemma query_commands:
  "set (build (QueryCommands (AutoCLIOptions (Query_serviceDesc q) (Msg_serviceDesc srv)))
     (map fst (Methods (Query_serviceDesc q)))) =
   {(''params'', ''Params''), (''list-consumers'', ''ConsumerChains''),
    (''list-active-consumers'', ''ActiveConsumerChains''), (''consumer'', ''ConsumerChain'')}"
  by (rule set_eqI, clarify)
    (auto simp: build_commands AutoCLIOptions_def Query_serviceDesc_def command_for_def first_word_def)

lemma no_tx_commands:
  "build (TxCommands (AutoCLIOptions (Query_serviceDesc q) (Msg_serviceDesc srv)))
     (map fst (Methods (Msg_serviceDesc srv))) = []"
proof -
  have "(c, rpc) \<notin> set (build (TxCommands (AutoCLIOptions (Query_serviceDesc q) (Msg_serviceDesc srv)))
      (map fst (Methods (Msg_serviceDesc srv))))" for c rpc
    by (auto simp: build_commands AutoCLIOptions_def Msg_serviceDesc_def skipped_def)
  then show ?thesis
    by (metis list.set_intros(1) neq_Nil_conv prod.collapse)
qed

end

definition ref_build :: "ServiceCommandDescriptor \<Rightarrow> string list \<Rightarrow> (string \<times> string) list" where
  "ref_build d methods =
     concat (map (\<lambda>rpc. case find (\<lambda>opt. RpcMethod opt = rpc) (RpcOptions d) of
         None \<Rightarrow> [(rpc, rpc)]
       | Some opt \<Rightarrow> if Skip opt then [] else [(first_word (Use opt), rpc)]) methods)"

interpretation ref_cli: autocli ref_build "\<lambda>rpc. rpc"
proof
  have "(c, rpc) \<in> set (case r of None \<Rightarrow> [(m, m)] | Some opt \<Rightarrow> if Skip opt then [] else [(first_word (Use opt), m)]) \<longleftrightarrow>
      rpc = m \<and> (case r of None \<Rightarrow> c = m | Some opt \<Rightarrow> \<not> Skip opt \<and> c = first_word (Use opt))"
    for c rpc m and r :: "RpcCommandOptions option"
    by (auto split: option.split)
  then show "(c, rpc) \<in> set (ref_build d methods) \<longleftrightarrow> rpc \<in> set methods \<and>
      (case find (\<lambda>opt. RpcMethod opt = rpc) (RpcOptions d) of
         None \<Rightarrow> c = rpc
       | Some opt \<Rightarrow> \<not> Skip opt \<and> c = first_word (Use opt))" for c rpc d methods
    by (auto simp: ref_build_def)
qed

section \<open>Registration of types (codec.go)\<close>

text \<open>A registry of interfaces: registering a message by itself, and all requests of a service.\<close>

record 'g registrar =
  RegisterMsgImplementations :: "string list \<Rightarrow> 'g \<Rightarrow> 'g"
  RegisterMsgServiceDesc :: "string list \<Rightarrow> 'g \<Rightarrow> 'g"

definition RegisterInterfaces :: "'g registrar \<Rightarrow> ('c, 'm) ServiceDesc \<Rightarrow> 'g \<Rightarrow> 'g" where
  "RegisterInterfaces R msg_desc registry =
     (let registry = RegisterMsgImplementations R [''MsgUpdateParams''] registry
      in RegisterMsgServiceDesc R (map fst (Methods msg_desc)) registry)"

definition AppModule_RegisterInterfaces ::
    "('s, 'x, 'acc) AppModule \<Rightarrow> 'g registrar \<Rightarrow> ('c, 'm) ServiceDesc \<Rightarrow> 'g \<Rightarrow> 'g" where
  "AppModule_RegisterInterfaces am R msg_desc registry = RegisterInterfaces R msg_desc registry"

text \<open>\<open>known\<close> are the types a registry unpacks as messages, \<open>request_of\<close> is the type of the request of a
  method in the file descriptor.\<close>

locale msg_registry =
  fixes R :: "'g registrar" and known :: "'g \<Rightarrow> string set" and request_of :: "string \<Rightarrow> string"
  assumes known_implementations: "known (RegisterMsgImplementations R ts g) = known g \<union> set ts"
    and known_service: "known (RegisterMsgServiceDesc R methods g) = known g \<union> request_of ` set methods"
begin

lemma messages_known:
  assumes "\<forall>rpc. request_of rpc = ''Msg'' @ rpc"
  shows "known (RegisterInterfaces R (Msg_serviceDesc srv) g) =
    known g \<union> {''MsgUpdateParams'', ''MsgAddConsumer'', ''MsgSunsetConsumer'', ''MsgUpgradeConsumer''}"
  using assms
  by (auto simp: RegisterInterfaces_def Msg_serviceDesc_def known_implementations known_service Let_def)

end

definition ref_registrar :: "string list registrar" where
  "ref_registrar = \<lparr>RegisterMsgImplementations = (\<lambda>ts g. g @ ts), RegisterMsgServiceDesc = (\<lambda>ms g. g @ map ((@) ''Msg'') ms)\<rparr>"

interpretation ref_reg: msg_registry ref_registrar set "(@) ''Msg''"
  by unfold_locales (auto simp: ref_registrar_def)

section \<open>Simulation (simulation.go)\<close>

text \<open>\<open>accs\<close> is computed and not used.\<close>

definition GenerateGenesisState ::
    "sdk_lib \<Rightarrow> JSONCodec \<Rightarrow> ('acc \<Rightarrow> string) \<Rightarrow> 'acc list \<Rightarrow> bytes gomap \<Rightarrow> fault + bytes gomap" where
  "GenerateGenesisState L cdc address_text accounts GenState =
     (let accs = map address_text accounts
      in (case DefaultParams L of
            Inl e \<Rightarrow> Inl e
          | Inr p \<Rightarrow>
              (case MarshalJSON cdc \<lparr>GS_Params = p, GS_ConsumerChains = []\<rparr> of
                 Inl e \<Rightarrow> Inl (Panic ''MustMarshalJSON'')
               | Inr bz \<Rightarrow> Inr (fmupd ModuleName bz GenState))))"

definition RegisterStoreDecoder :: "('s, 'x, 'acc) AppModule \<Rightarrow> 'd \<Rightarrow> 'd" where
  "RegisterStoreDecoder am decoders = decoders"

definition WeightedOperations :: "('s, 'x, 'acc) AppModule \<Rightarrow> 'sim \<Rightarrow> 'op list" where
  "WeightedOperations am simState = (let operations = [] in operations)"

definition ProposalMsgs :: "('s, 'x, 'acc) AppModule \<Rightarrow> 'sim \<Rightarrow> 'msg list" where
  "ProposalMsgs am simState = []"

text \<open>The genesis of a simulation is the default one, for the same codec, and other modules' sections stay.\<close>

lemma GenerateGenesisState_default:
  "GenerateGenesisState L (am_cdc am) t accounts st =
     (case AppModule_DefaultGenesis L am of Inl e \<Rightarrow> Inl e | Inr bz \<Rightarrow> Inr (fmupd ModuleName bz st))"
  by (auto simp: GenerateGenesisState_def AppModule_DefaultGenesis_def DefaultGenesis_def Let_def split: sum.split)

section \<open>The commands of the module\<close>

text \<open>The command line of the provider module has one command for each query of the service and no other, and
  none for the messages, which only governance may send: no message of the service is without its entry
  in the list of those to skip.\<close>

theorem module_commands:
  assumes "autocli build kebab"
  shows "set (build (QueryCommands (AutoCLIOptions (Query_serviceDesc q) (Msg_serviceDesc srv)))
      (map fst (Methods (Query_serviceDesc q)))) =
     {(''params'', ''Params''), (''list-consumers'', ''ConsumerChains''),
      (''list-active-consumers'', ''ActiveConsumerChains''), (''consumer'', ''ConsumerChain'')} \<and>
    map fst (Methods (Query_serviceDesc q)) = [''Params'', ''ConsumerChains'', ''ConsumerChain'', ''ActiveConsumerChains''] \<and>
    build (TxCommands (AutoCLIOptions (Query_serviceDesc q) (Msg_serviceDesc srv)))
      (map fst (Methods (Msg_serviceDesc srv))) = []"
  using autocli.query_commands [OF assms, of q srv] autocli.no_tx_commands [OF assms, of q srv]
  by (simp add: Query_serviceDesc_def)

theorem module_commands_witness:
  "ref_build (TxCommands (AutoCLIOptions (Query_serviceDesc (NewQueryServerImpl ref_sdk demo_keeper))
      (Msg_serviceDesc (NewMsgServerImpl ref_sdk demo_keeper))))
    (map fst (Methods (Msg_serviceDesc (NewMsgServerImpl ref_sdk demo_keeper)))) = []"
  by (rule module_commands [OF ref_cli.autocli_axioms, THEN conjunct2, THEN conjunct2])

end
