(* ===== verification/Spec2Isabelle.thy ===== *)
theory Spec2Isabelle
  imports ChainTypes Mocks Node Alone RootCommand WireBounds Gateway ModuleCli
begin

text \<open>
  Verification of the ICS proof of concept: a provider chain that runs consumer chains behind one
  CometBFT node.

  \<^bold>\<open>The program.\<close> The provider application is a Cosmos SDK chain with the module
  modules/provider: governance adds and sunsets consumer chains, every block the chains pay a fee that
  is shared among the validators. The multiplexer (abci/) is the ABCI application CometBFT sees. It
  routes every transaction by its header to the provider, which runs in the same process, or to a
  consumer application behind a gRPC connection, calls all of them for a block, and combines their
  answers. Which consumers take part it learns from the provider module by the query
  \<open>ActiveConsumerChains\<close>. A consumer application replaces the SDK's staking module by
  modules/consumer/staking. cmd/ starts and stops the node, config/ reads the list of consumers.

  \<^bold>\<open>The theories,\<close> in the order of the code's layers:

  \<^item> \<open>Prelude\<close>: Go values, maps and results; schedules; loops whose order does not matter.
  \<^item> \<open>Header\<close> (abci/header.go): the header of a transaction; parsing is the exact inverse of creating.
  \<^item> \<open>Config\<close> (config/config.go): the configuration, its validation and its loading, path cleaning.
  \<^item> \<open>Sdk\<close>, \<open>ProviderTypes\<close> (modules/provider/types): coins and integers with the laws of the SDK,
    chains, parameters, genesis states and their validation.
  \<^item> \<open>Keeper\<close> (keeper/keeper.go), \<open>ProviderEnv\<close>, \<open>Fees\<close>: the keeper over the collections library and
    the bank, auth and staking keepers; the contracts of these are locales, interpreted on a reference
    world; the fee loops refine a bill and an exact proportional distribution, which ends at the first
    validator whose operator string the account codec does not parse, as it does for every validator
    with the codec of the SDK.
  \<^item> \<open>Mocks\<close> (testutil/): the mocks of these keepers over the controller of gomock; a controller that plays
    keepers makes the mocks behave as these.
  \<^item> \<open>MsgServer\<close>, \<open>QueryServer\<close>, \<open>Genesis\<close> (keeper/): what every message, query and genesis operation
    does on every branch.
  \<^item> \<open>ProviderModule\<close>, \<open>ProviderMachine\<close> (module/): begin and end blocker; runs of messages and blocks as
    a step relation, its invariant and what never happens. \<open>ChainTypes\<close>: every stored chain has the type
    its fields promise, along every run.
  \<^item> \<open>Wire\<close>, \<open>ProviderCodec\<close>, \<open>WireBounds\<close> (types/provider.pb.go, types/query.pb.go): the protobuf format of
    chains and of the query, with the sizes, the round trips, the number of turns of the generated loops
    and the bounds of what they read.
  \<^item> \<open>Schema\<close>, \<open>Messages\<close> (types/params.pb.go, genesis.pb.go, query.pb.go, tx.pb.go): the generated code
    follows one scheme per kind of field; the scheme is modelled and proved once, and every message is a
    list of fields.
  \<^item> \<open>Services\<close> (types/query.pb.go, types/tx.pb.go, module.go): service descriptors, handlers, the
    registration of the two servers and the query client; what a transaction does from its bytes on. The
    contract of a connection leaves open which metadata comes with an answer and what becomes of a call that is cut off.
  \<^item> \<open>Gateway\<close> (types/query.pb.gw.go): the HTTP gateway of the queries, in front of the server or of a client.
  \<^item> \<open>AbciTypes\<close>, \<open>Multiplexer\<close> (abci/remote.go, abci/multiplexer.go): ABCI messages and applications,
    the state of the multiplexer, its construction, the active chains, the initialisation of a chain.
  \<^item> \<open>Handlers\<close> (abci/abci.go): the ABCI handlers. Go visits maps and finishes goroutines in any order;
    these orders are arguments (schedules).
  \<^item> \<open>Concurrency\<close>, \<open>Routing\<close>, \<open>Block\<close>, \<open>BlockSpec\<close>: the calls for different chains are independent (a
    locale, interpreted for every handler), how transactions are sorted and results put back, and a
    specification of a block without loops and schedules.
  \<^item> \<open>MuxDemo\<close>, \<open>BlockProps\<close>, \<open>MuxProps\<close>, \<open>MuxMachine\<close>: the properties of the handlers, the runs of ABCI
    calls, their invariant and the properties that span calls.
  \<^item> \<open>Alone\<close>: without consumer chains the multiplexer answers as the provider application called directly,
    along every sequence of calls; the two calls it answers itself, without asking the application, are a
    condition of the sequence.
  \<^item> \<open>Restart\<close>: what a node reports and knows when it comes up again, and a chain with the provider's id.
  \<^item> \<open>Lifecycle\<close> (abci/genesis.go, abci/multiplexer.go, cmd/): starting and stopping the node, with the
    calls to other packages as a trace whose results are arbitrary.
  \<^item> \<open>ConsumerStaking\<close> (modules/consumer/staking): the wrapped staking module and its hooks.
  \<^item> \<open>TestApp\<close>, \<open>Assembly\<close> (testapp/provider, testapp/consumer: app.go, ante_handler.go): the module accounts,
    the keepers and their stores, modules, orders and handlers of the two applications; what the
    assembly means for the fees of the provider module.
  \<^item> \<open>Export\<close> (testapp: export.go): the export of an application's state and the preparation for height
    zero; the SDK's keepers are arguments, which may fail at every call, the laws of the staking store a locale.
  \<^item> \<open>AppConfig\<close>, \<open>AppServices\<close> (testapp: params, encoding, genesis.go, the rest of app.go): address prefixes,
    home and temporary directory, codecs shared by reference, basic modules, services; what an application
    registers and which modules its command line and its default genesis have.
  \<^item> \<open>AppCommands\<close>, \<open>RootCommand\<close> (testapp/cmd): the start handler of the provider, which joins
    \<open>Config\<close> and \<open>Lifecycle\<close>, the export command, which joins \<open>Assembly\<close> and \<open>Export\<close>, and the root command
    and main around them: what the binaries do to the files, to the configuration and to the client
    context before a command runs.
  \<^item> \<open>Node\<close>: the life of a node from the start command to the shutdown, with the ABCI calls in between.
  \<^item> \<open>ModuleCli\<close> (module/autocli.go, module/simulation.go, types/codec.go): the commands, the registered types
    and the simulation of the provider module.
  \<^item> This theory: the provider module and the multiplexer together.

  \<^bold>\<open>Conventions.\<close> A byte is a character; \<open>int64\<close> and \<open>uint64\<close> are 64-bit words; amounts of the SDK are
  integers with its 256-bit bound. An error is \<open>Inl\<close>; a function that can fail after a change returns
  the state as well. What is not in the repository (SDK, CometBFT, gRPC, viper, the applications) is an
  argument; what the code relies on is the assumption of a locale or a hypothesis, shown to be
  satisfiable by an interpretation or a witness. There is no fuel: the loops are structural or have a
  termination proof.

  \<^bold>\<open>Not modelled.\<close> The three generated methods of a message in \<open>Messages\<close> are functions of one list of
  fields, so that they agree on the number of a field is read off the code and not proved. Logging, telemetry and metrics; the bytes of the file descriptors, the reflection
  methods and the groups and unknown fields of the generated code beyond what \<open>Wire\<close> skips; of the applications under testapp/ the simulation manager, the reflection
  and test services and the getters that return a field. The commands of cobra and of the SDK are constructors. The goroutines
  of a handler are executed one after another in the order in
  which their results arrive; that each only touches its own chain's connection is why that is enough,
  and two chains configured with one address are outside the model.
\<close>

section \<open>The provider module and the multiplexer\<close>

text \<open>How the provider application answers the multiplexer's query: the SDK routes the path to the
  module's query server and encodes its answer. \<open>query_reply\<close> is its
  answer to \<open>active_query\<close>, the request of the multiplexer.\<close>

definition query_reply :: "fault + QueryActiveConsumerChainsResponse \<Rightarrow> string + ResponseQuery" where
  "query_reply r =
     (case r of
        Inl _ \<Rightarrow> Inl ''query failed''
      | Inr resp \<Rightarrow>
          Inr \<lparr>pq_Code = 0, pq_Log = '''', pq_Value = ActiveResponse_MarshalToSizedBuffer resp [], pq_rest = ''''\<rparr>)"

lemma active_map_lookup: "fmlookup (active_map ids) a = (if a \<in> set ids then Some True else None)"
proof -
  have "fmlookup (fold (\<lambda>i m. fmupd i True m) ids m) a = (if a \<in> set ids then Some True else fmlookup m a)" for m
    by (induction ids arbitrary: m) auto
  then show ?thesis
    by (simp add: active_map_def)
qed

lemma active_from_store:
  assumes coll: "collections_laws (collections k) entries params"
    and filed: "list_all (\<lambda>(i, c). i = ChainId c) (entries (kvStore sctx))"
    and routed: "app_Query (provider env) (providerChain m) ctx active_query =
      (p, query_reply (Query_ActiveConsumerChains k sctx (Some \<lparr>QAC_Pagination = None\<rparr>)))"
    and fits: "ActiveResponse_Size \<lparr>QAC_ConsumerChains = filter IsActive (map snd (entries (kvStore sctx))),
      QAC_PageResponse = None\<rparr> < 2 ^ 63"
  shows "snd (updateActiveChains env m ctx) = Inr () \<and>
    (\<forall>a. a |\<in>| fmdom (activeChains (fst (updateActiveChains env m ctx))) \<longleftrightarrow>
       (\<exists>c. map_of (entries (kvStore sctx)) a = Some c \<and> IsActive c)) \<and>
    (\<forall>a. flag (activeChains (fst (updateActiveChains env m ctx))) a \<longleftrightarrow>
       (\<exists>c. map_of (entries (kvStore sctx)) a = Some c \<and> IsActive c))"
proof -
  let ?es = "entries (kvStore sctx)"
  define cs where "cs = filter IsActive (map snd ?es)"
  have answer: "Query_ActiveConsumerChains k sctx (Some \<lparr>QAC_Pagination = None\<rparr>) =
      Inr \<lparr>QAC_ConsumerChains = cs, QAC_PageResponse = None\<rparr>"
    using collections_laws.Query_ActiveConsumerChains_ok [OF coll refl] by (simp add: cs_def)
  have get: "getActiveChainIDsFromProvider env m ctx = (m\<lparr>providerChain := p\<rparr>, Inr (map ChainId cs))"
    using routed fits
    by (simp add: getActiveChainIDsFromProvider_def ActiveRequest_Marshal_ok active_query_def answer
        query_reply_def ActiveResponse_roundtrip cs_def)
  have ids: "a \<in> ChainId ` set cs \<longleftrightarrow> (\<exists>c. map_of ?es a = Some c \<and> IsActive c)" for a
  proof -
    have key: "map_of ?es a = Some c \<Longrightarrow> ChainId c = a" for c
      using filed map_of_SomeD [of ?es a c] by (auto simp: list_all_iff)
    have "a \<in> ChainId ` set cs \<longleftrightarrow> (\<exists>c \<in> snd ` set ?es. IsActive c \<and> ChainId c = a)"
      by (auto simp: cs_def)
    also have "\<dots> \<longleftrightarrow> (\<exists>c. map_of ?es (ChainId c) = Some c \<and> IsActive c \<and> ChainId c = a)"
      using collections_laws.entry_of_chain [OF coll filed] by blast
    also have "\<dots> \<longleftrightarrow> (\<exists>c. map_of ?es a = Some c \<and> IsActive c)"
      using key by metis
    finally show ?thesis .
  qed
  have upd: "updateActiveChains env m ctx =
      (m\<lparr>providerChain := p, activeChains := active_map (map ChainId cs)\<rparr>, Inr ())"
    by (simp add: updateActiveChains_def get)
  have "b |\<in>| fmdom (active_map is) \<longleftrightarrow> b \<in> set is" "flag (active_map is) b \<longleftrightarrow> b \<in> set is" for "is" b
    by (auto simp: fmlookup_dom_iff flag_def active_map_lookup)
  then show ?thesis
    by (simp add: upd ids)
qed

text \<open>C9: when the provider application answers the multiplexer's query with the answer of the
  module's query server, updateActiveChains succeeds and the active chains of the multiplexer are
  exactly the chains the provider module stores with status ACTIVE: the request, its routing, the
  iteration of the store, the wire format in both directions and the map fit together.\<close>

theorem active_chains_are_the_stored_ones:
  assumes coll: "collections_laws (collections k) entries params"
    and filed: "list_all (\<lambda>(i, c). i = ChainId c) (entries (kvStore sctx))"
    and routed: "app_Query (provider env) (providerChain m) ctx active_query =
      (p, query_reply (Query_ActiveConsumerChains k sctx (Some \<lparr>QAC_Pagination = None\<rparr>)))"
    and fits: "ActiveResponse_Size \<lparr>QAC_ConsumerChains = filter IsActive (map snd (entries (kvStore sctx))),
      QAC_PageResponse = None\<rparr> < 2 ^ 63"
  shows "snd (updateActiveChains env m ctx) = Inr () \<and>
    (\<forall>a. a |\<in>| fmdom (activeChains (fst (updateActiveChains env m ctx))) \<longleftrightarrow>
       (\<exists>c. map_of (entries (kvStore sctx)) a = Some c \<and> IsActive c)) \<and>
    (\<forall>a. flag (activeChains (fst (updateActiveChains env m ctx))) a \<longleftrightarrow>
       (\<exists>c. map_of (entries (kvStore sctx)) a = Some c \<and> IsActive c))"
  by (rule active_from_store [OF coll filed routed fits])

text \<open>C10: from the store of the provider module to the consumer's application: a chain that the module
  stores with status ACTIVE, that is configured, not rejected and healthy takes part in the next block
  that the provider executes. It is initialised if it was not, its application executes the block with
  the payloads of its own transactions, and every transaction of the chain in the block gets
  the result its application gave for it.\<close>

theorem stored_chain_executes:
  assumes coll: "collections_laws (collections k) entries params"
    and filed: "list_all (\<lambda>(i, c). i = ChainId c) (entries (kvStore sctx))"
    and routed: "app_Query (provider env) p ctx active_query =
      (p', query_reply (Query_ActiveConsumerChains k sctx (Some \<lparr>QAC_Pagination = None\<rparr>)))"
    and fits: "ActiveResponse_Size \<lparr>QAC_ConsumerChains = filter IsActive (map snd (entries (kvStore sctx))),
      QAC_PageResponse = None\<rparr> < 2 ^ 63"
    and stored: "map_of (entries (kvStore sctx)) a = Some c" "IsActive c"
    and runs: "checkHaltConditions m req = Inr ()" "route_block m no_txs 0 (rf_Txs req) = Inr rt"
      "sint (rf_Height req) > 1" "fmlookup (chainHandlers m) (providerChainID m) = None"
      "app_FinalizeBlock (provider env) (providerChain m)
         (req\<lparr>rf_Txs := bucket (chainTxs rt) (providerChainID m)\<rparr>) = (p, Inr pr)"
    and configured: "fmlookup (chainHandlers m) a = Some h" "\<not> flag (rejectedConsumerChains m) a"
    and healthy: "LoadGenesisAppState (AppGenesisFromFile env) (ch_config h) = Inr appState"
      "\<And>c r. \<exists>c' resp. app_InitChain (remote env) c r = (c', Inr resp)"
  shows "\<exists>m1 resp. block_start env m ctx req = (m1, Inr (rt, pr)) \<and>
    snd (FinalizeBlock env ns ns' m ctx req) = Inr resp \<and> a \<in> set (workers env req m1) \<and>
    flag (initializedConsumerChains (fst (FinalizeBlock env ns ns' m ctx req))) a \<and>
    (\<forall>i tx. i < length (rf_Txs req) \<and> ParseHeader (rf_Txs req ! i) = Inr (a, tx) \<longrightarrow>
       pf_TxResults resp ! i = (case chain_response env req m1 a of
          Inl _ \<Rightarrow> None | Inr r \<Rightarrow> nth_result (positions a (rf_Txs req)) (pf_TxResults r) i))"
proof -
  define m1 where "m1 = fst (updateActiveChains env (m\<lparr>providerChain := p\<rparr>) ctx)"
  have start: "block_start env m ctx req = (m1, Inr (rt, pr))"
    using runs by (simp add: block_start_def m1_def)
  have "a |\<in>| fmdom (activeChains m1)"
    using active_from_store [OF coll filed _ fits, of env "m\<lparr>providerChain := p\<rparr>" ctx p'] routed stored
    by (simp add: m1_def)
  note part = active_chain_starts [OF start this configured(2,1) healthy, of ns ns']
  obtain resp where resp: "snd (FinalizeBlock env ns ns' m ctx req) = Inr resp"
    "\<forall>i < length (rf_Txs req). pf_TxResults resp ! i = tx_result env req pr m1 i"
    using FinalizeBlock_resp [OF start runs(4), of ns ns'] by blast
  have "routable m1 a" "a \<noteq> providerChainID m1"
    using workers_routable part runs(4) configured(1) by (auto simp: block_start_fixed [OF start])
  then have "pf_TxResults resp ! i = (case chain_response env req m1 a of
      Inl _ \<Rightarrow> None | Inr r \<Rightarrow> nth_result (positions a (rf_Txs req)) (pf_TxResults r) i)"
    if "i < length (rf_Txs req)" "ParseHeader (rf_Txs req ! i) = Inr (a, tx)" for i tx
    using resp(2) that part by (simp add: tx_result_def)
  with start resp(1) part show ?thesis
    by blast
qed

text \<open>The demo provider stores one active chain, \<open>b\<close>.\<close>

definition demo_active :: QueryActiveConsumerChainsResponse where
  "demo_active = \<lparr>QAC_ConsumerChains = [demo_chain ''b'' CONSUMER_STATUS_ACTIVE], QAC_PageResponse = None\<rparr>"

definition listing_env :: "(string \<times> nat, string \<times> nat) mux_env" where
  "listing_env = demo_env (ActiveResponse_MarshalToSizedBuffer demo_active [])"

lemma demo_provider:
  shows "collections_laws (collections demo_keeper) ref_entries rs_params"
    and "list_all (\<lambda>(k, c). k = ChainId c) (ref_entries (kvStore demo_ctx))"
    and "filter IsActive (map snd (ref_entries (kvStore demo_ctx))) = [demo_chain ''b'' CONSUMER_STATUS_ACTIVE]"
  by (simp_all add: ref_keeper_def ref_coll.collections_laws_axioms demo_entries demo_chain_def
      status_pred_defs status_defs)

lemma demo_routed_query:
  "app_Query (provider listing_env) s Background active_query =
     (s, query_reply (Query_ActiveConsumerChains demo_keeper demo_ctx (Some \<lparr>QAC_Pagination = None\<rparr>)))"
  using collections_laws.Query_ActiveConsumerChains_ok [OF demo_provider(1) refl, of demo_ctx "\<lparr>QAC_Pagination = None\<rparr>"]
  by (simp add: demo_provider(3) query_reply_def listing_env_def demo_env_def demo_app_def demo_active_def)

lemma demo_fits:
  "ActiveResponse_Size \<lparr>QAC_ConsumerChains = filter IsActive (map snd (ref_entries (kvStore demo_ctx))),
     QAC_PageResponse = None\<rparr> < 2 ^ 63"
proof -
  have "ConsumerChain_Size (demo_chain ''b'' CONSUMER_STATUS_ACTIVE) < 2 ^ 62"
    using sov_le_10 [of 1] sov_le_10 [of 2] sov_le_10 [of 20] sov_le_10 [of 5]
      sov_le_10 [of "scast CONSUMER_STATUS_ACTIVE"]
    by (simp add: ConsumerChain_Size_def demo_chain_def)
  then show ?thesis
    using sov_le_10 [of "word_of_nat (ConsumerChain_Size (demo_chain ''b'' CONSUMER_STATUS_ACTIVE))"]
    by (simp add: demo_provider(3) ActiveResponse_Size_def Let_def)
qed

lemma demo_stored:
  "(\<exists>c. map_of (ref_entries (kvStore demo_ctx)) a = Some c \<and> IsActive c) \<longleftrightarrow> a = ''b''"
  by (auto simp: demo_entries demo_chain_def status_pred_defs status_defs)

theorem active_chains_are_the_stored_ones_witness:
  "\<forall>a. a |\<in>| fmdom (activeChains (fst (updateActiveChains listing_env demo_mux Background))) \<longleftrightarrow> a = ''b''"
  using active_chains_are_the_stored_ones [OF demo_provider(1,2) demo_routed_query demo_fits]
  unfolding demo_stored by blast

theorem stored_chain_executes_witness:
  "\<exists>resp. snd (FinalizeBlock listing_env [] [] demo_mux Background (demo_block 2 demo_txs)) = Inr resp \<and>
     pf_TxResults resp ! 3 = demo_result ''v'' \<and>
     flag (initializedConsumerChains
       (fst (FinalizeBlock listing_env [] [] demo_mux Background (demo_block 2 demo_txs)))) ''b''"
proof -
  let ?req = "demo_block 2 demo_txs"
  obtain c where c: "map_of (ref_entries (kvStore demo_ctx)) ''b'' = Some c" "IsActive c"
    using demo_stored by blast
  have runs: "checkHaltConditions demo_mux ?req = Inr ()"
    "route_block demo_mux no_txs 0 (rf_Txs ?req) = Inr demo_routed" "sint (rf_Height ?req) > 1"
    by code_simp+
  have app: "app_FinalizeBlock (provider listing_env) (providerChain demo_mux)
      (?req\<lparr>rf_Txs := bucket (chainTxs demo_routed) (providerChainID demo_mux)\<rparr>) = ((''p'', 1), Inr demo_answer)"
    by (simp add: listing_env_def demo_mux_simps demo_routed_def demo_answer_def)
  have h: "fmlookup (chainHandlers demo_mux) ''b'' = Some (demo_handler ''b'')"
    "\<not> flag (rejectedConsumerChains demo_mux) ''b''"
    "LoadGenesisAppState (AppGenesisFromFile listing_env) (ch_config (demo_handler ''b'')) = Inr ''{}''"
    "\<And>c r. \<exists>c' resp. app_InitChain (remote listing_env) c r = (c', Inr resp)"
    by (simp_all add: listing_env_def demo_mux_simps LoadGenesisAppState_def GenesisFile_def)
  have tx: "3 < length (rf_Txs ?req)" "ParseHeader (rf_Txs ?req ! 3) = Inr (''b'', ''v'')"
    by code_simp+
  have result: "(case chain_response listing_env ?req (fst (block_start listing_env demo_mux Background ?req)) ''b'' of
      Inl _ \<Rightarrow> None | Inr r \<Rightarrow> nth_result (positions ''b'' (rf_Txs ?req)) (pf_TxResults r) 3) = demo_result ''v''"
    by code_simp
  obtain m1 resp where "block_start listing_env demo_mux Background ?req = (m1, Inr (demo_routed, demo_answer))"
    "snd (FinalizeBlock listing_env [] [] demo_mux Background ?req) = Inr resp"
    "flag (initializedConsumerChains (fst (FinalizeBlock listing_env [] [] demo_mux Background ?req))) ''b''"
    "pf_TxResults resp ! 3 = (case chain_response listing_env ?req m1 ''b'' of
      Inl _ \<Rightarrow> None | Inr r \<Rightarrow> nth_result (positions ''b'' (rf_Txs ?req)) (pf_TxResults r) 3)"
    using stored_chain_executes [OF demo_provider(1,2) demo_routed_query demo_fits c runs
        demo_no_provider_handler app h, of "[]" "[]"] tx by blast
  with result show ?thesis
    by auto
qed

end
